(* ===== verification/WebProof_Prelude.thy ===== *)
theory WebProof_Prelude
  imports Main "HOL-Library.Word"
begin

text \<open>
  Shared vocabulary of the development: the Rust machine types, results with early return,
  slices, little-endian numbers, the UTF-8 invariant of Rust strings, and saturating 64-bit
  arithmetic, together with the rewrite rules the component theories rely on.

  A Rust \<open>String\<close> or \<open>&str\<close> is the list of its UTF-8 bytes, one \<^typ>\<open>char\<close> (a HOL character is
  a byte) per byte, so \<open>length\<close> is Rust's \<open>len()\<close>.  A \<open>usize\<close> is a \<^typ>\<open>nat\<close>; the offsets
  computed from it stay far below \<open>2^64\<close>.  An \<open>i64\<close> is a \<^typ>\<open>64 word\<close> read by \<^const>\<open>sint\<close>.
\<close>

section \<open>Machine types\<close>

type_synonym byte = "8 word"
type_synonym bytes = "byte list"
type_synonym u8 = "8 word"
type_synonym u16 = "16 word"
type_synonym i64 = "64 word"

section \<open>Results and early return\<close>

text \<open>
  \<open>Result<T, E>\<close> is the sum \<open>'e + 'a\<close> with \<open>Inl\<close> the error.  \<open>try_then r k\<close> is \<open>let x = r?; k(x)\<close>,
  \<open>ensure b e k\<close> is \<open>require!(b, e); k\<close> (or \<open>if !b { return Err(e) }\<close> before \<open>k\<close>).
\<close>

definition try_then :: "'e + 'a \<Rightarrow> ('a \<Rightarrow> 'e + 'b) \<Rightarrow> 'e + 'b" where
  "try_then r k = (case r of Inl e \<Rightarrow> Inl e | Inr x \<Rightarrow> k x)"

definition ensure :: "bool \<Rightarrow> 'e \<Rightarrow> 'e + 'a \<Rightarrow> 'e + 'a" where
  "ensure b e k = (if b then k else Inl e)"

definition ok_or :: "'a option \<Rightarrow> 'e \<Rightarrow> 'e + 'a" where
  "ok_or x e = (case x of None \<Rightarrow> Inl e | Some v \<Rightarrow> Inr v)"

definition map_err :: "('e \<Rightarrow> 'f) \<Rightarrow> 'e + 'a \<Rightarrow> 'f + 'a" where
  "map_err f r = (case r of Inl e \<Rightarrow> Inl (f e) | Inr x \<Rightarrow> Inr x)"

definition is_ok :: "'e + 'a \<Rightarrow> bool" where
  "is_ok r = (case r of Inl _ \<Rightarrow> False | Inr _ \<Rightarrow> True)"

named_theorems result_simps "rewrite rules for fallible computations"

lemma try_then_simps [simp]:
  "try_then (Inl e) k = Inl e"
  "try_then (Inr x) k = k x"
  by (simp_all add: try_then_def)

lemma try_then_eq_Inr [result_simps]:
  "try_then r k = Inr y \<longleftrightarrow> (\<exists>x. r = Inr x \<and> k x = Inr y)"
  by (cases r) simp_all

lemma try_then_eq_Inl [result_simps]:
  "try_then r k = Inl e \<longleftrightarrow> r = Inl e \<or> (\<exists>x. r = Inr x \<and> k x = Inl e)"
  by (cases r) simp_all

lemma ensure_simps [simp]:
  "ensure True e k = k"
  "ensure False e k = Inl e"
  by (simp_all add: ensure_def)

lemma ensure_eq_Inr [result_simps]: "ensure b e k = Inr y \<longleftrightarrow> b \<and> k = Inr y"
  by (simp add: ensure_def)

lemma ensure_eq_Inl [result_simps]:
  "ensure b e k = Inl f \<longleftrightarrow> (\<not> b \<and> f = e) \<or> (b \<and> k = Inl f)"
  by (auto simp: ensure_def)

lemma ok_or_simps [simp]:
  "ok_or None e = Inl e"
  "ok_or (Some v) e = Inr v"
  by (simp_all add: ok_or_def)

lemma ok_or_eq_Inr [result_simps]: "ok_or x e = Inr v \<longleftrightarrow> x = Some v"
  by (cases x) simp_all

lemma ok_or_eq_Inl [result_simps]: "ok_or x e = Inl f \<longleftrightarrow> x = None \<and> f = e"
  by (cases x) auto

lemma map_err_simps [simp]:
  "map_err f (Inl e) = Inl (f e)"
  "map_err f (Inr x) = Inr x"
  by (simp_all add: map_err_def)

lemma map_err_eq_Inr [result_simps]: "map_err f r = Inr x \<longleftrightarrow> r = Inr x"
  by (cases r) simp_all

lemma map_err_eq_Inl [result_simps]: "map_err f r = Inl g \<longleftrightarrow> (\<exists>e. r = Inl e \<and> g = f e)"
  by (cases r) auto

lemma is_ok_simps [simp]:
  "\<not> is_ok (Inl e)"
  "is_ok (Inr x)"
  by (simp_all add: is_ok_def)

lemma is_ok_iff: "is_ok r \<longleftrightarrow> (\<exists>x. r = Inr x)"
  by (cases r) simp_all

section \<open>Slices\<close>

text \<open>\<open>d.get(a..b)\<close>: \<open>None\<close> when the range is inverted or reaches past the end.\<close>

definition slice_get :: "'a list \<Rightarrow> nat \<Rightarrow> nat \<Rightarrow> 'a list option" where
  "slice_get d a b = (if a \<le> b \<and> b \<le> length d then Some (take (b - a) (drop a d)) else None)"

lemma slice_get_Some_iff:
  "slice_get d a (a + n) = Some s \<longleftrightarrow> a + n \<le> length d \<and> s = take n (drop a d)"
  by (auto simp: slice_get_def)

lemma slice_get_length: "slice_get d a b = Some s \<Longrightarrow> length s = b - a"
  by (auto simp: slice_get_def split: if_splits)

lemma slice_get_middle: "slice_get (xs @ ys @ zs) (length xs) (length xs + length ys) = Some ys"
  by (simp add: slice_get_def)

section \<open>Little-endian numbers\<close>

primrec le_bytes :: "nat \<Rightarrow> nat \<Rightarrow> bytes" where
  "le_bytes 0 v = []"
| "le_bytes (Suc n) v = word_of_nat v # le_bytes n (v div 256)"

primrec le_val :: "bytes \<Rightarrow> nat" where
  "le_val [] = 0"
| "le_val (b # bs) = unat b + 256 * le_val bs"

named_theorems concrete "rules that evaluate closed terms"

lemma le_bytes_numeral [concrete]:
  "le_bytes (numeral k) v = word_of_nat v # le_bytes (pred_numeral k) (v div 256)"
  by (subst numeral_eq_Suc) (rule le_bytes.simps)

lemma length_le_bytes [simp]: "length (le_bytes n v) = n"
  by (induction n arbitrary: v) simp_all

lemma unat_byte: "unat (word_of_nat v :: byte) = v mod 256"
  by (simp add: unat_of_nat)

lemma byte_less [simp]: "unat (b :: byte) < 256"
proof -
  have "unat b < 2 ^ LENGTH(8)" by (rule unsigned_less)
  then show ?thesis by simp
qed

lemma le_val_less: "le_val bs < 256 ^ length bs"
proof (induction bs)
  case (Cons b bs)
  have "unat b < 256" by simp
  moreover from Cons have "Suc (le_val bs) \<le> 256 ^ length bs" by simp
  then have "256 * Suc (le_val bs) \<le> 256 * 256 ^ length bs" by (rule mult_le_mono2)
  ultimately have "unat b + 256 * le_val bs < 256 * 256 ^ length bs" by (simp only: mult_Suc_right)
  then show ?case by simp
qed simp

lemma le_val_le_bytes: "le_val (le_bytes n v) = v mod 256 ^ n"
proof (induction n arbitrary: v)
  case (Suc n)
  have "v mod (256 * 256 ^ n) = 256 * (v div 256 mod 256 ^ n) + v mod 256"
    by (rule mod_mult2_eq)
  then show ?case by (simp add: Suc unat_byte)
qed simp

lemma le_bytes_le_val: "le_bytes (length bs) (le_val bs) = bs"
proof (induction bs)
  case (Cons b bs)
  have "word_of_nat (unat b + 256 * le_val bs) = b"
  proof (rule word_unat_eq_iff [THEN iffD2])
    have "unat (word_of_nat (unat b + 256 * le_val bs) :: byte) = (unat b + 256 * le_val bs) mod 256"
      by (rule unat_byte)
    then show "unat (word_of_nat (unat b + 256 * le_val bs) :: byte) = unat b" by simp
  qed
  moreover have "(unat b + 256 * le_val bs) div 256 = le_val bs" by simp
  ultimately show ?case by (simp add: Cons)
qed simp

lemma le_bytes_inject:
  "v < 256 ^ n \<Longrightarrow> w < 256 ^ n \<Longrightarrow> le_bytes n v = le_bytes n w \<longleftrightarrow> v = w"
  by (metis le_val_le_bytes mod_less)

section \<open>Strings as UTF-8 bytes\<close>

definition as_bytes :: "string \<Rightarrow> bytes" where
  "as_bytes s = map of_char s"

definition of_bytes :: "bytes \<Rightarrow> string" where
  "of_bytes bs = map (\<lambda>b. char_of (unat b)) bs"

lemma length_as_bytes [simp]: "length (as_bytes s) = length s"
  by (simp add: as_bytes_def)

lemma as_bytes_append [simp]: "as_bytes (s @ t) = as_bytes s @ as_bytes t"
  by (simp add: as_bytes_def)

lemma unat_of_char: "unat (of_char c :: byte) = of_char c"
proof -
  have "(of_char c :: byte) = word_of_nat (of_char c)" by (simp only: of_nat_of_char)
  then have "unat (of_char c :: byte) = of_char c mod 256" by (simp only: unat_byte)
  then show ?thesis by simp
qed

lemma of_bytes_as_bytes [simp]: "of_bytes (as_bytes s) = s"
  by (induction s) (simp_all add: of_bytes_def as_bytes_def unat_of_char)

lemma as_bytes_inject [simp]: "as_bytes s = as_bytes t \<longleftrightarrow> s = t"
  by (metis of_bytes_as_bytes)

lemmas [concrete] = as_bytes_def Let_def

text \<open>
  The invariant of Rust's \<open>String\<close>: the bytes are well-formed UTF-8 (no overlong forms, no
  surrogates, nothing above U+10FFFF).
\<close>

definition in_range :: "nat \<Rightarrow> nat \<Rightarrow> byte \<Rightarrow> bool" where
  "in_range lo hi b \<longleftrightarrow> lo \<le> unat b \<and> unat b \<le> hi"

lemmas [concrete] = in_range_def

abbreviation cont_byte :: "byte \<Rightarrow> bool" where
  "cont_byte \<equiv> in_range 0x80 0xBF"

fun utf8_valid :: "bytes \<Rightarrow> bool" where
  "utf8_valid [] = True"
| "utf8_valid (a # bs) =
    (if in_range 0x00 0x7F a then utf8_valid bs
     else if in_range 0xC2 0xDF a then
       (case bs of b # r \<Rightarrow> cont_byte b \<and> utf8_valid r | _ \<Rightarrow> False)
     else if in_range 0xE0 0xEF a then
       (case bs of b # c # r \<Rightarrow>
          (if unat a = 0xE0 then in_range 0xA0 0xBF b
           else if unat a = 0xED then in_range 0x80 0x9F b else cont_byte b)
          \<and> cont_byte c \<and> utf8_valid r
        | _ \<Rightarrow> False)
     else if in_range 0xF0 0xF4 a then
       (case bs of b # c # d # r \<Rightarrow>
          (if unat a = 0xF0 then in_range 0x90 0xBF b
           else if unat a = 0xF4 then in_range 0x80 0x8F b else cont_byte b)
          \<and> cont_byte c \<and> cont_byte d \<and> utf8_valid r
        | _ \<Rightarrow> False)
     else False)"

lemma utf8_valid_ascii: "list_all (in_range 0 0x7F) bs \<Longrightarrow> utf8_valid bs"
  by (induction bs) auto

section \<open>Signed 64-bit arithmetic\<close>

definition I64_MAX :: int where "I64_MAX = 2 ^ 63 - 1"
definition I64_MIN :: int where "I64_MIN = - (2 ^ 63)"

text \<open>\<open>i64::saturating_add\<close> and \<open>i64::saturating_sub\<close> clamp the exact result to the type's range.\<close>

definition clamp_i64 :: "int \<Rightarrow> int" where
  "clamp_i64 v = max I64_MIN (min I64_MAX v)"

definition saturating_add :: "i64 \<Rightarrow> i64 \<Rightarrow> i64" where
  "saturating_add a b = word_of_int (clamp_i64 (sint a + sint b))"

definition saturating_sub :: "i64 \<Rightarrow> i64 \<Rightarrow> i64" where
  "saturating_sub a b = word_of_int (clamp_i64 (sint a - sint b))"

lemmas i64_bounds = I64_MAX_def I64_MIN_def

lemma sint_i64_range: "I64_MIN \<le> sint (x :: i64)" "sint (x :: i64) \<le> I64_MAX"
  using sint_ge [of x] sint_less [of x] by (simp_all add: i64_bounds)

lemma sint_word_of_int_i64: "I64_MIN \<le> v \<Longrightarrow> v \<le> I64_MAX \<Longrightarrow> sint (word_of_int v :: i64) = v"
  by (simp add: sint_sbintrunc' signed_take_bit_int_eq_self i64_bounds)

lemma clamp_i64_range: "I64_MIN \<le> clamp_i64 v" "clamp_i64 v \<le> I64_MAX"
  by (simp_all add: clamp_i64_def i64_bounds)

lemma sint_saturating_add: "sint (saturating_add a b) = clamp_i64 (sint a + sint b)"
  by (simp add: saturating_add_def sint_word_of_int_i64 clamp_i64_range)

lemma sint_saturating_sub: "sint (saturating_sub a b) = clamp_i64 (sint a - sint b)"
  by (simp add: saturating_sub_def sint_word_of_int_i64 clamp_i64_range)

lemmas saturating_sint = sint_saturating_add sint_saturating_sub

end
