(* ===== verification/WebProof_Core.thy ===== *)
theory WebProof_Core
  imports WebProof_Prelude
begin

text \<open>
  The crate \<open>crates/webproof-core\<close>: the claim, its canonical bytes, identifier and signing
  message, and the stateless validation every party applies.  The Borsh serializer and SHA-256
  are library code and enter as the parameters \<open>to_vec\<close> and \<open>sha256\<close>; \<open>None\<close> from \<open>to_vec\<close> is an
  I/O error of the serializer, on which \<open>canonical_bytes\<close> panics (\<open>None\<close> again).
\<close>

section \<open>Constants and data\<close>

definition VERSION :: u8 where "VERSION = 1"

definition DOMAIN_SEPARATOR :: bytes where
  "DOMAIN_SEPARATOR = as_bytes ''WEBPROOF_SOLANA_CLAIM_V1''"

definition MAX_SOURCE_HOST :: nat where "MAX_SOURCE_HOST = 128"
definition MAX_CLAIM_KEY :: nat where "MAX_CLAIM_KEY = 128"
definition MAX_CLAIM_VALUE :: nat where "MAX_CLAIM_VALUE = 256"
definition MAX_FUTURE_SKEW_SECONDS :: i64 where "MAX_FUTURE_SKEW_SECONDS = 30"

record ClaimV1 =
  version :: u8
  source_host :: string
  request_path_hash :: bytes
  claim_key :: string
  claim_value :: string
  issued_at :: i64
  expires_at :: i64
  nonce :: bytes
  provenance_hash :: bytes

datatype ClaimError = Version | Length string | TimeWindow | Expired | Future | TooOld

section \<open>Operations\<close>

definition canonical_bytes :: "(ClaimV1 \<Rightarrow> bytes option) \<Rightarrow> ClaimV1 \<Rightarrow> bytes option" where
  "canonical_bytes to_vec self = to_vec self"

definition claim_id :: "(bytes \<Rightarrow> bytes) \<Rightarrow> (ClaimV1 \<Rightarrow> bytes option) \<Rightarrow> ClaimV1 \<Rightarrow> bytes option" where
  "claim_id sha256 to_vec self = map_option sha256 (canonical_bytes to_vec self)"

definition signing_message :: "(ClaimV1 \<Rightarrow> bytes option) \<Rightarrow> ClaimV1 \<Rightarrow> bytes option" where
  "signing_message to_vec self =
     map_option (\<lambda>bs. DOMAIN_SEPARATOR @ bs) (canonical_bytes to_vec self)"

definition bounded :: "string \<Rightarrow> nat \<Rightarrow> string \<Rightarrow> ClaimError + unit" where
  "bounded value max_len name =
     (if value = [] \<or> length value > max_len then Inl (Length name) else Inr ())"

definition validate :: "ClaimV1 \<Rightarrow> i64 \<Rightarrow> i64 \<Rightarrow> ClaimError + unit" where
  "validate self now max_age =
     ensure (version self = VERSION) Version (
     try_then (bounded (source_host self) MAX_SOURCE_HOST ''source_host'') (\<lambda>_.
     try_then (bounded (claim_key self) MAX_CLAIM_KEY ''claim_key'') (\<lambda>_.
     try_then (bounded (claim_value self) MAX_CLAIM_VALUE ''claim_value'') (\<lambda>_.
     ensure (\<not> sint (expires_at self) \<le> sint (issued_at self)) TimeWindow (
     ensure (\<not> sint now > sint (expires_at self)) Expired (
     ensure (\<not> sint (issued_at self) > sint (saturating_add now MAX_FUTURE_SKEW_SECONDS)) Future (
     ensure (\<not> sint (saturating_sub now (issued_at self)) > sint max_age) TooOld (
     Inr ()))))))))"

section \<open>What a valid claim is\<close>

text \<open>
  The abstract specification, over unbounded integers: the fields are non-empty and within their
  byte limits, and \<open>now\<close> lies in the acceptance window.  The window is closed on both sides.
  \<open>max_age = i64::MAX\<close> switches the age check off, because the saturated age cannot exceed it.
\<close>

definition bounded_fields :: "ClaimV1 \<Rightarrow> bool" where
  "bounded_fields c \<longleftrightarrow>
     0 < length (source_host c) \<and> length (source_host c) \<le> 128 \<and>
     0 < length (claim_key c) \<and> length (claim_key c) \<le> 128 \<and>
     0 < length (claim_value c) \<and> length (claim_value c) \<le> 256"

definition in_window :: "ClaimV1 \<Rightarrow> int \<Rightarrow> int \<Rightarrow> bool" where
  "in_window c now max_age \<longleftrightarrow>
     sint (issued_at c) < sint (expires_at c) \<and>
     now \<le> sint (expires_at c) \<and>
     sint (issued_at c) \<le> now + 30 \<and>
     (now - sint (issued_at c) \<le> max_age \<or> max_age = I64_MAX)"

definition acceptable :: "ClaimV1 \<Rightarrow> i64 \<Rightarrow> i64 \<Rightarrow> bool" where
  "acceptable c now max_age \<longleftrightarrow>
     version c = 1 \<and> bounded_fields c \<and> in_window c (sint now) (sint max_age)"

text \<open>
  The two invariants of the Rust types that lists do not carry: \<open>[u8; 32]\<close> has 32 bytes and a
  \<open>String\<close> is UTF-8.  \<open>encodable\<close> adds the 32-bit length limit of a Borsh string.
\<close>

definition claim_typed :: "ClaimV1 \<Rightarrow> bool" where
  "claim_typed c \<longleftrightarrow>
     length (request_path_hash c) = 32 \<and> length (nonce c) = 32 \<and> length (provenance_hash c) = 32 \<and>
     utf8_valid (as_bytes (source_host c)) \<and> utf8_valid (as_bytes (claim_key c)) \<and>
     utf8_valid (as_bytes (claim_value c))"

definition encodable :: "ClaimV1 \<Rightarrow> bool" where
  "encodable c \<longleftrightarrow> claim_typed c \<and>
     length (source_host c) < 2 ^ 32 \<and> length (claim_key c) < 2 ^ 32 \<and> length (claim_value c) < 2 ^ 32"

section \<open>The validator contract\<close>

text \<open>
  The verifier crate and the onchain program each carry their own validation routine with their
  own error type.  The contract they share is that they accept exactly the \<^const>\<open>acceptable\<close>
  claims; its consequences are proved once here.
\<close>

locale claim_validator =
  fixes check :: "ClaimV1 \<Rightarrow> i64 \<Rightarrow> i64 \<Rightarrow> 'e + unit"
  assumes check_iff: "is_ok (check c now max_age) \<longleftrightarrow> acceptable c now max_age"
begin

lemma accepts_encodable: "is_ok (check c now m) \<Longrightarrow> claim_typed c \<Longrightarrow> encodable c"
  by (auto simp: check_iff acceptable_def bounded_fields_def encodable_def)

lemma accepts_interval:
  assumes "is_ok (check c t1 m)" and "is_ok (check c t3 m)"
    and "sint t1 \<le> sint t2" and "sint t2 \<le> sint t3"
  shows "is_ok (check c t2 m)"
  using assms by (auto simp: check_iff acceptable_def in_window_def)

lemma rejects_after_expiry: "sint (expires_at c) < sint now \<Longrightarrow> \<not> is_ok (check c now m)"
  by (simp add: check_iff acceptable_def in_window_def)

lemma accepts_mono_age:
  assumes "is_ok (check c now m)" and "sint m \<le> sint m'"
  shows "is_ok (check c now m')"
  using assms sint_i64_range(2) [of m'] by (auto simp: check_iff acceptable_def in_window_def)

lemma accepts_extensional: "is_ok (check c now m) \<Longrightarrow> bounded_fields c \<and> version c = 1"
  by (simp add: check_iff acceptable_def)

end

section \<open>Correctness of validate\<close>

lemma bounded_ok [simp]: "bounded v n name = Inr u \<longleftrightarrow> v \<noteq> [] \<and> length v \<le> n"
  by (auto simp: bounded_def)

lemma bounded_err [simp]: "bounded v n name = Inl e \<longleftrightarrow> (v = [] \<or> n < length v) \<and> e = Length name"
  by (auto simp: bounded_def)

lemma skew_check_exact:
  "sint (i :: i64) \<le> sint (saturating_add now MAX_FUTURE_SKEW_SECONDS) \<longleftrightarrow> sint i \<le> sint now + 30"
  using sint_i64_range [of i] sint_i64_range [of now]
  by (auto simp: sint_saturating_add clamp_i64_def MAX_FUTURE_SKEW_SECONDS_def i64_bounds)

lemma age_check_exact:
  "sint (saturating_sub now i) \<le> sint (m :: i64) \<longleftrightarrow> sint now - sint i \<le> sint m \<or> sint m = I64_MAX"
  using sint_i64_range [of m] sint_i64_range [of now]
  by (auto simp: sint_saturating_sub clamp_i64_def i64_bounds)

lemmas validate_simps = validate_def result_simps skew_check_exact age_check_exact
  not_less not_le VERSION_def MAX_SOURCE_HOST_def MAX_CLAIM_KEY_def MAX_CLAIM_VALUE_def

lemma validate_acceptable: "is_ok (validate c now max_age) \<longleftrightarrow> acceptable c now max_age"
  by (auto simp: is_ok_iff validate_simps acceptable_def bounded_fields_def in_window_def Suc_le_eq)

interpretation core_validator: claim_validator validate
  by unfold_locales (rule validate_acceptable)

text \<open>
  C1.  \<open>ClaimV1::validate\<close> accepts a claim exactly when its version is 1, every string field is
  non-empty and within its byte limit, it expires after it is issued, it has not expired, it is
  issued at most 30 seconds ahead and it is at most \<open>max_age\<close> seconds old.  The saturating i64
  arithmetic of the code agrees with exact integers everywhere but at \<open>max_age = i64::MAX\<close>,
  where no claim is too old.
\<close>

theorem validate_ok_iff:
  "validate c now max_age = Inr () \<longleftrightarrow>
     version c = 1 \<and> bounded_fields c \<and> in_window c (sint now) (sint max_age)"
  using validate_acceptable [of c now max_age] by (auto simp: is_ok_iff acceptable_def)

end
