(* ===== verification/Program_State.thy ===== *)
theory Program_State
  imports WebProof_Core
begin

text \<open>
  The account types and the error codes of the onchain program
  (\<open>programs/webproof/src/state.rs\<close> and \<open>errors.rs\<close>).  A \<open>Pubkey\<close> is its 32 bytes.  The program's
  own \<open>ClaimV1\<close> is field for field the struct of \<open>webproof-core\<close> and is the same record here.
\<close>

type_synonym Pubkey = bytes

datatype WebProofError =
    InvalidMaxAge | InvalidVersion | InvalidLength | InvalidTimeWindow | Expired | Future | TooOld
  | ClaimIdMismatch | MissingSignature | MalformedEd25519 | WrongVerifier | MessageMismatch
  | Serialization

record WebProofConfig =
  authority :: Pubkey
  verifier_pubkey :: bytes
  max_claim_age_seconds :: i64
  bump :: u8

record VerifiedClaim =
  vc_claim_id :: bytes
  vc_source_host :: string
  vc_request_path_hash :: bytes
  vc_claim_key :: string
  vc_claim_value :: string
  vc_issued_at :: i64
  vc_expires_at :: i64
  vc_provenance_hash :: bytes
  vc_submitted_by :: Pubkey
  vc_created_at :: i64
  vc_bump :: u8

text \<open>
  \<open>#[derive(InitSpace)]\<close>: the sum of the field sizes, a \<open>#[max_len(n)]\<close> string counting its 4-byte
  length prefix and \<open>n\<close> bytes.  The accounts are created with 8 more bytes for the discriminator.
\<close>

definition config_INIT_SPACE :: nat where
  "config_INIT_SPACE = 32 + 32 + 8 + 1"

definition verified_claim_INIT_SPACE :: nat where
  "verified_claim_INIT_SPACE =
     32 + (4 + 128) + 32 + (4 + 128) + (4 + 256) + 8 + 8 + 32 + 32 + 8 + 1"

type_synonym ClaimV1_onchain = ClaimV1

text \<open>The invariants of the Rust types of a stored claim, and what fits the allocated space.\<close>

definition verified_claim_typed :: "VerifiedClaim \<Rightarrow> bool" where
  "verified_claim_typed v \<longleftrightarrow>
     length (vc_claim_id v) = 32 \<and> length (vc_request_path_hash v) = 32 \<and>
     length (vc_provenance_hash v) = 32 \<and> length (vc_submitted_by v) = 32 \<and>
     utf8_valid (as_bytes (vc_source_host v)) \<and> utf8_valid (as_bytes (vc_claim_key v)) \<and>
     utf8_valid (as_bytes (vc_claim_value v))"

definition verified_claim_bounded :: "VerifiedClaim \<Rightarrow> bool" where
  "verified_claim_bounded v \<longleftrightarrow>
     length (vc_source_host v) \<le> 128 \<and> length (vc_claim_key v) \<le> 128 \<and>
     length (vc_claim_value v) \<le> 256"

end
