(* ===== verification/Program_Verification.thy ===== *)
theory Program_Verification
  imports Program_State
begin

text \<open>
  Claim validation and Ed25519 instruction introspection of the onchain program
  (\<open>programs/webproof/src/verification.rs\<close>).  The instructions sysvar is read through two calls of
  the Solana SDK; a sysvar account is the record of what these calls return on it.  The address of
  the native Ed25519 program is the parameter \<open>ed25519_id\<close>.
\<close>

section \<open>Definitions\<close>

definition DOMAIN :: bytes where
  "DOMAIN = as_bytes ''WEBPROOF_SOLANA_CLAIM_V1''"

definition FUTURE_SKEW :: i64 where "FUTURE_SKEW = 30"

definition validate_claim :: "ClaimV1_onchain \<Rightarrow> i64 \<Rightarrow> i64 \<Rightarrow> WebProofError + unit" where
  "validate_claim c now max_age =
     ensure (version c = 1) InvalidVersion (
     ensure (source_host c \<noteq> [] \<and> length (source_host c) \<le> 128) InvalidLength (
     ensure (claim_key c \<noteq> [] \<and> length (claim_key c) \<le> 128) InvalidLength (
     ensure (claim_value c \<noteq> [] \<and> length (claim_value c) \<le> 256) InvalidLength (
     ensure (sint (expires_at c) > sint (issued_at c)) InvalidTimeWindow (
     ensure (sint now \<le> sint (expires_at c)) WebProofError.Expired (
     ensure (sint (issued_at c) \<le> sint (saturating_add now FUTURE_SKEW)) WebProofError.Future (
     ensure (sint (saturating_sub now (issued_at c)) \<le> sint max_age) WebProofError.TooOld (
     Inr ()))))))))"

record Instruction =
  ix_program_id :: Pubkey
  ix_data :: bytes

record instructions_sysvar =
  current_index :: "u16 option"
  instruction_at :: "nat \<Rightarrow> Instruction option"

definition u16_at :: "bytes \<Rightarrow> nat \<Rightarrow> WebProofError + nat" where
  "u16_at d i = ok_or (map_option le_val (slice_get d i (i + 2))) MalformedEd25519"

abbreviation u16_MAX :: nat where "u16_MAX \<equiv> 65535"

definition verify_preceding_ed25519 ::
  "Pubkey \<Rightarrow> instructions_sysvar \<Rightarrow> bytes \<Rightarrow> bytes \<Rightarrow> WebProofError + unit" where
  "verify_preceding_ed25519 ed25519_id sysvar key message =
     try_then (ok_or (map_option unat (current_index sysvar)) MissingSignature) (\<lambda>current.
     ensure (current > 0) MissingSignature (
     try_then (ok_or (instruction_at sysvar (current - 1)) MissingSignature) (\<lambda>ix.
     ensure (ix_program_id ix = ed25519_id) MissingSignature (
     let d = ix_data ix in
     ensure (length d \<ge> 16 \<and> d ! 0 = 1) MalformedEd25519 (
     try_then (u16_at d 2) (\<lambda>sig_off.
     try_then (u16_at d 4) (\<lambda>sig_ix.
     try_then (u16_at d 6) (\<lambda>key_off.
     try_then (u16_at d 8) (\<lambda>key_ix.
     try_then (u16_at d 10) (\<lambda>msg_off.
     try_then (u16_at d 12) (\<lambda>msg_len.
     try_then (u16_at d 14) (\<lambda>msg_ix.
     ensure (sig_ix = u16_MAX \<and> key_ix = u16_MAX \<and> msg_ix = u16_MAX) MalformedEd25519 (
     ensure (slice_get d key_off (key_off + 32) = Some key) WrongVerifier (
     ensure (slice_get d msg_off (msg_off + msg_len) = Some message) MessageMismatch (
     ensure (slice_get d sig_off (sig_off + 64) \<noteq> None) MalformedEd25519 (
     Inr ()))))))))))))))))"

section \<open>Validation agrees with webproof-core\<close>

text \<open>How the program's error codes correspond to those of \<open>webproof-core\<close>.\<close>

fun onchain_error :: "ClaimError \<Rightarrow> WebProofError" where
  "onchain_error Version = InvalidVersion"
| "onchain_error (Length _) = InvalidLength"
| "onchain_error TimeWindow = InvalidTimeWindow"
| "onchain_error ClaimError.Expired = WebProofError.Expired"
| "onchain_error ClaimError.Future = WebProofError.Future"
| "onchain_error ClaimError.TooOld = WebProofError.TooOld"

interpretation onchain_validator: claim_validator validate_claim
proof
  show "is_ok (validate_claim c now m) \<longleftrightarrow> acceptable c now m" for c now m
    using skew_check_exact [of "issued_at c" now] age_check_exact [of now "issued_at c" m]
    by (auto simp: is_ok_iff validate_claim_def result_simps acceptable_def bounded_fields_def
        in_window_def FUTURE_SKEW_def MAX_FUTURE_SKEW_SECONDS_def Suc_le_eq)
qed

text \<open>
  C6.  The onchain \<open>validate_claim\<close> and the offchain \<open>ClaimV1::validate\<close> are the same check: on
  every claim, clock and maximum age they accept together, and when they reject they name the same
  reason, in the same order of precedence.
\<close>

theorem validate_claim_agrees_with_core:
  "validate_claim c now max_age = map_err onchain_error (validate c now max_age)"
  by (simp add: validate_claim_def validate_def bounded_def ensure_def VERSION_def FUTURE_SKEW_def
      MAX_SOURCE_HOST_def MAX_CLAIM_KEY_def MAX_CLAIM_VALUE_def MAX_FUTURE_SKEW_SECONDS_def
      not_less not_le)

lemma validate_claim_timing:
  assumes "version c = 1" and "bounded_fields c" and "sint (issued_at c) < sint (expires_at c)"
  shows "validate_claim c now max_age =
    (if sint (expires_at c) < sint now then Inl WebProofError.Expired
     else if sint now + 30 < sint (issued_at c) then Inl WebProofError.Future
     else if sint max_age < sint now - sint (issued_at c) \<and> sint max_age \<noteq> I64_MAX then Inl WebProofError.TooOld
     else Inr ())"
proof -
  have "sint (issued_at c) \<le> sint (saturating_add now FUTURE_SKEW) \<longleftrightarrow> \<not> sint now + 30 < sint (issued_at c)"
    using skew_check_exact [of "issued_at c" now] by (auto simp: FUTURE_SKEW_def MAX_FUTURE_SKEW_SECONDS_def)
  moreover have "sint (saturating_sub now (issued_at c)) \<le> sint max_age \<longleftrightarrow>
      \<not> (sint max_age < sint now - sint (issued_at c) \<and> sint max_age \<noteq> I64_MAX)"
    by (auto simp: age_check_exact)
  ultimately show ?thesis using assms
    by (auto simp: validate_claim_def ensure_def bounded_fields_def not_less)
qed

lemma validate_claim_malformed:
  assumes "\<not> (version c = 1 \<and> bounded_fields c \<and> sint (issued_at c) < sint (expires_at c))"
  shows "validate_claim c now m = validate_claim c now' m' \<and> \<not> is_ok (validate_claim c now m)"
  using assms by (auto simp: validate_claim_def ensure_def bounded_fields_def not_le Suc_le_eq)

text \<open>
  C7.  The onchain verdict as a function of the clock.  A claim whose version, field lengths or
  lifetime are wrong gets one and the same refusal at every time and under every configured age.
  For any other claim the verdict is exactly: Expired after its expiry, else Future if it is issued
  more than 30 seconds ahead, else TooOld if it is older than the configured age (an age of i64::MAX
  switches that check off), else accepted.  And staleness is final: a claim refused as Expired or
  TooOld is refused as Expired or TooOld at every later time.
\<close>

theorem validate_claim_freshness:
  "(\<not> (version c = 1 \<and> bounded_fields c \<and> sint (issued_at c) < sint (expires_at c)) \<longrightarrow>
      \<not> is_ok (validate_claim c now m) \<and> validate_claim c later m' = validate_claim c now m) \<and>
   (version c = 1 \<and> bounded_fields c \<and> sint (issued_at c) < sint (expires_at c) \<longrightarrow>
      validate_claim c now m =
        (if sint (expires_at c) < sint now then Inl WebProofError.Expired
         else if sint now + 30 < sint (issued_at c) then Inl WebProofError.Future
         else if sint m < sint now - sint (issued_at c) \<and> sint m \<noteq> I64_MAX then Inl WebProofError.TooOld
         else Inr ())) \<and>
   (validate_claim c now m \<in> {Inl WebProofError.Expired, Inl WebProofError.TooOld} \<and> sint now \<le> sint later \<longrightarrow>
      validate_claim c later m \<in> {Inl WebProofError.Expired, Inl WebProofError.TooOld})"
  (is "?bad \<and> ?good \<and> ?stale")
proof (cases "version c = 1 \<and> bounded_fields c \<and> sint (issued_at c) < sint (expires_at c)")
  case True
  then have "validate_claim c t m = (if sint (expires_at c) < sint t then Inl WebProofError.Expired
      else if sint t + 30 < sint (issued_at c) then Inl WebProofError.Future
      else if sint m < sint t - sint (issued_at c) \<and> sint m \<noteq> I64_MAX then Inl WebProofError.TooOld
      else Inr ())" for t
    using validate_claim_timing by blast
  with True show ?thesis by auto
next
  case False
  note same = validate_claim_malformed [OF False]
  then have "?bad" by metis
  moreover have "?stale" using same by metis
  ultimately show ?thesis using False by blast
qed

section \<open>Introspection of the Ed25519 instruction\<close>

text \<open>The instruction before the current one, if it is addressed to the native Ed25519 program.\<close>

definition preceding_ed25519 :: "Pubkey \<Rightarrow> instructions_sysvar \<Rightarrow> bytes option" where
  "preceding_ed25519 ed25519_id sysvar =
     (case current_index sysvar of
        None \<Rightarrow> None
      | Some i \<Rightarrow>
          if unat i = 0 then None
          else (case instruction_at sysvar (unat i - 1) of
                  None \<Rightarrow> None
                | Some ix \<Rightarrow> if ix_program_id ix = ed25519_id then Some (ix_data ix) else None))"

definition field_at :: "bytes \<Rightarrow> nat \<Rightarrow> nat" where
  "field_at d i = le_val (take 2 (drop i d))"

definition self_contained :: "bytes \<Rightarrow> bool" where
  "self_contained d \<longleftrightarrow> 16 \<le> length d \<and> d ! 0 = 1 \<and>
     field_at d 4 = u16_MAX \<and> field_at d 8 = u16_MAX \<and> field_at d 14 = u16_MAX"

definition key_of :: "bytes \<Rightarrow> bytes option" where
  "key_of d = slice_get d (field_at d 6) (field_at d 6 + 32)"

definition message_of :: "bytes \<Rightarrow> bytes option" where
  "message_of d = slice_get d (field_at d 10) (field_at d 10 + field_at d 12)"

definition signature_of :: "bytes \<Rightarrow> bytes option" where
  "signature_of d = slice_get d (field_at d 2) (field_at d 2 + 64)"

text \<open>
  The instruction carries exactly one signature and says, within its own data, that \<open>sig\<close> is a
  signature of \<open>msg\<close> under \<open>key\<close>.
\<close>

definition attests :: "bytes \<Rightarrow> bytes \<Rightarrow> bytes \<Rightarrow> bytes \<Rightarrow> bool" where
  "attests d key msg sig \<longleftrightarrow>
     self_contained d \<and> key_of d = Some key \<and> message_of d = Some msg \<and> signature_of d = Some sig"

lemma u16_at_header: "16 \<le> length d \<Longrightarrow> i \<le> 14 \<Longrightarrow> u16_at d i = Inr (field_at d i)"
  by (simp add: u16_at_def slice_get_def field_at_def)

lemma field_at_less: "field_at d i < 65536"
proof -
  have "field_at d i < 256 ^ length (take 2 (drop i d))" unfolding field_at_def by (rule le_val_less)
  also have "\<dots> \<le> 256 ^ 2" by (rule power_increasing) simp_all
  finally show ?thesis by simp
qed

lemma attests_unique:
  "attests d k m s \<Longrightarrow> attests d k' m' s' \<Longrightarrow> k = k' \<and> m = m' \<and> s = s'"
  by (simp add: attests_def)

lemma attests_lengths:
  assumes "attests d k m s"
  shows "length k = 32" and "length s = 64" and "length m < 65536"
proof -
  show "length k = 32" "length s = 64"
    using assms by (auto simp: attests_def key_of_def signature_of_def dest: slice_get_length)
  have "length m = field_at d 12"
    using assms by (auto simp: attests_def message_of_def dest: slice_get_length)
  then show "length m < 65536" using field_at_less by simp
qed

lemma verify_preceding_None:
  "preceding_ed25519 ed25519_id sysvar = None \<Longrightarrow>
     verify_preceding_ed25519 ed25519_id sysvar key message = Inl MissingSignature"
  by (auto simp: verify_preceding_ed25519_def preceding_ed25519_def ensure_def
      split: option.splits if_splits)

lemma verify_preceding_Some:
  assumes "preceding_ed25519 ed25519_id sysvar = Some d"
  shows "verify_preceding_ed25519 ed25519_id sysvar key message =
    ensure (self_contained d) MalformedEd25519 (
    ensure (key_of d = Some key) WrongVerifier (
    ensure (message_of d = Some message) MessageMismatch (
    ensure (signature_of d \<noteq> None) MalformedEd25519 (Inr ()))))"
proof -
  from assms obtain i ix where "current_index sysvar = Some i" "0 < unat i"
      "instruction_at sysvar (unat i - 1) = Some ix" "ix_program_id ix = ed25519_id" "d = ix_data ix"
    by (auto simp: preceding_ed25519_def split: option.splits if_splits)
  then show ?thesis
    by (simp add: verify_preceding_ed25519_def Let_def u16_at_header self_contained_def key_of_def
        message_of_def signature_of_def ensure_def)
qed

lemma verify_preceding_iff:
  "verify_preceding_ed25519 ed25519_id sysvar key message = Inr () \<longleftrightarrow>
     (\<exists>d sig. preceding_ed25519 ed25519_id sysvar = Some d \<and> attests d key message sig)"
  by (cases "preceding_ed25519 ed25519_id sysvar")
     (auto simp: verify_preceding_None verify_preceding_Some attests_def result_simps)

text \<open>
  C8.  Every branch of \<open>verify_preceding_ed25519\<close>: the instruction at index current - 1 must exist
  and belong to the Ed25519 program (MissingSignature), carry one signature with all three
  instruction indices pinned to u16::MAX (MalformedEd25519), point at the configured key
  (WrongVerifier) and at exactly the submitted message (MessageMismatch), and hold a complete
  signature.  No other outcome exists: once the header has 16 bytes, parsing it cannot fail.
\<close>

theorem verify_preceding_ed25519_branches:
  "verify_preceding_ed25519 ed25519_id sysvar key message =
     (case preceding_ed25519 ed25519_id sysvar of
        None \<Rightarrow> Inl MissingSignature
      | Some d \<Rightarrow>
          if \<not> self_contained d then Inl MalformedEd25519
          else if key_of d \<noteq> Some key then Inl WrongVerifier
          else if message_of d \<noteq> Some message then Inl MessageMismatch
          else if signature_of d = None then Inl MalformedEd25519
          else Inr ())"
  by (cases "preceding_ed25519 ed25519_id sysvar")
     (simp_all add: verify_preceding_None verify_preceding_Some ensure_def)

text \<open>
  The native Ed25519 program: when it accepts instruction data that carries one signature with all
  offsets into the data itself, the signature at these offsets verifies.
\<close>

definition native_ed25519_spec ::
  "(bytes \<Rightarrow> bytes \<Rightarrow> bytes \<Rightarrow> bool) \<Rightarrow> (bytes \<Rightarrow> bool) \<Rightarrow> bool" where
  "native_ed25519_spec ed_verify native_ok \<longleftrightarrow>
     (\<forall>d key msg sig. native_ok d \<longrightarrow> attests d key msg sig \<longrightarrow> ed_verify key msg sig)"

text \<open>Every Ed25519 instruction of a transaction that runs has been accepted by the native program.\<close>

definition native_verified :: "(bytes \<Rightarrow> bool) \<Rightarrow> Pubkey \<Rightarrow> instructions_sysvar \<Rightarrow> bool" where
  "native_verified native_ok ed25519_id sysvar \<longleftrightarrow>
     (\<forall>n ix. instruction_at sysvar n = Some ix \<longrightarrow> ix_program_id ix = ed25519_id \<longrightarrow> native_ok (ix_data ix))"

lemma verify_preceding_sound:
  assumes "native_ed25519_spec ed_verify native_ok"
    and "native_verified native_ok ed25519_id sysvar"
    and "verify_preceding_ed25519 ed25519_id sysvar key message = Inr ()"
  shows "\<exists>sig. length sig = 64 \<and> ed_verify key message sig"
proof -
  obtain d sig where d: "preceding_ed25519 ed25519_id sysvar = Some d" and att: "attests d key message sig"
    using assms(3) verify_preceding_iff by blast
  from d assms(2) have "native_ok d"
    by (auto simp: preceding_ed25519_def native_verified_def split: option.splits if_splits)
  with assms(1) att have "ed_verify key message sig" by (auto simp: native_ed25519_spec_def)
  with attests_lengths(2) [OF att] show ?thesis by blast
qed

text \<open>
  C9.  What acceptance means: in a transaction whose Ed25519 instructions the runtime has verified,
  \<open>verify_preceding_ed25519\<close> succeeds only if a 64-byte signature of exactly this message under
  exactly this key was verified; the message is then shorter than 65536 bytes.
\<close>

theorem verify_preceding_ed25519_authentic:
  assumes "native_ed25519_spec ed_verify native_ok"
    and "native_verified native_ok ed25519_id sysvar"
    and "verify_preceding_ed25519 ed25519_id sysvar key message = Inr ()"
  shows "(\<exists>sig. length sig = 64 \<and> ed_verify key message sig) \<and> length key = 32 \<and> length message < 65536"
  using verify_preceding_sound [OF assms] assms(3)
  by (auto simp: verify_preceding_iff dest: attests_lengths)

section \<open>The instruction clients send\<close>

text \<open>
  The layout the Solana client library documents for one signature: header, public key at 16,
  signature at 48, message at 112, all indices u16::MAX.
\<close>

definition ed25519_layout :: "bytes \<Rightarrow> bytes \<Rightarrow> bytes \<Rightarrow> bytes" where
  "ed25519_layout key sig msg =
     [1, 0] @ le_bytes 2 48 @ le_bytes 2 u16_MAX @ le_bytes 2 16 @ le_bytes 2 u16_MAX
     @ le_bytes 2 112 @ le_bytes 2 (length msg) @ le_bytes 2 u16_MAX @ key @ sig @ msg"

lemma ed25519_layout_attests:
  assumes "length key = 32" and "length sig = 64" and "length msg < 65536"
  shows "attests (ed25519_layout key sig msg) key msg sig"
proof -
  let ?d = "ed25519_layout key sig msg"
  obtain h where h: "?d = h @ key @ sig @ msg" and len: "length h = 16"
    by (rule that [of "[1, 0] @ le_bytes 2 48 @ le_bytes 2 u16_MAX @ le_bytes 2 16 @ le_bytes 2 u16_MAX
        @ le_bytes 2 112 @ le_bytes 2 (length msg) @ le_bytes 2 u16_MAX"]) (simp_all add: ed25519_layout_def)
  have f: "field_at ?d 2 = 48" "field_at ?d 4 = u16_MAX" "field_at ?d 6 = 16" "field_at ?d 8 = u16_MAX"
    "field_at ?d 10 = 112" "field_at ?d 12 = length msg" "field_at ?d 14 = u16_MAX" "?d ! 0 = 1"
    using assms(3)
    by (simp_all add: field_at_def ed25519_layout_def le_val_le_bytes del: le_bytes.simps)
  show ?thesis
    using assms len unfolding attests_def self_contained_def key_of_def message_of_def signature_of_def f
    by (simp add: h slice_get_def)
qed

end
