(* ===== verification/Claim_Codec.thy ===== *)
theory Claim_Codec
  imports Program_State
begin

text \<open>
  The hand-written canonical serializer and account decoder of the TypeScript SDK
  (\<open>sdk/typescript/src/index.ts\<close>).  It is the one place of the repository where the byte layout
  is spelled out: the Rust crates obtain the same layout from the Borsh derive.  The agreement of
  the two, which the SDK documents and the golden vectors pin, is the hypothesis \<open>borsh_spec\<close>.
\<close>

section \<open>Serializer\<close>

datatype sdk_error = OutOfRange | Expected32Bytes | AccountDataTruncated | NotAVerifiedClaim

text \<open>\<open>writeUInt32LE\<close> throws when the length does not fit 32 bits.\<close>

definition sdk_string :: "string \<Rightarrow> sdk_error + bytes" where
  "sdk_string value =
     (let b = as_bytes value
      in ensure (length b < 2 ^ 32) OutOfRange (Inr (le_bytes 4 (length b) @ b)))"

definition le_i64 :: "i64 \<Rightarrow> bytes" where
  "le_i64 value = le_bytes 8 (unat value)"

text \<open>A \<open>bigint\<close> is an \<^typ>\<open>int\<close>; \<open>writeBigInt64LE\<close> throws outside the 64-bit range.\<close>

definition sdk_i64 :: "int \<Rightarrow> sdk_error + bytes" where
  "sdk_i64 value = ensure (I64_MIN \<le> value \<and> value \<le> I64_MAX) OutOfRange (Inr (le_i64 (word_of_int value)))"

definition sdk_bytes32 :: "bytes \<Rightarrow> sdk_error + bytes" where
  "sdk_bytes32 value = ensure (length value = 32) Expected32Bytes (Inr value)"

text \<open>The SDK's \<open>ClaimV1\<close>: its version is a number, its times are unbounded integers.\<close>

record JsClaim =
  js_version :: int
  js_sourceHost :: string
  js_requestPathHash :: bytes
  js_claimKey :: string
  js_claimValue :: string
  js_issuedAt :: int
  js_expiresAt :: int
  js_nonce :: bytes
  js_provenanceHash :: bytes

text \<open>\<open>Buffer.from([n])\<close> keeps the low byte of a number.\<close>

definition to_uint8 :: "int \<Rightarrow> byte" where
  "to_uint8 n = word_of_int n"

definition serializeClaim :: "JsClaim \<Rightarrow> sdk_error + bytes" where
  "serializeClaim c =
     try_then (sdk_string (js_sourceHost c)) (\<lambda>host.
     try_then (sdk_bytes32 (js_requestPathHash c)) (\<lambda>path.
     try_then (sdk_string (js_claimKey c)) (\<lambda>key.
     try_then (sdk_string (js_claimValue c)) (\<lambda>val.
     try_then (sdk_i64 (js_issuedAt c)) (\<lambda>issued.
     try_then (sdk_i64 (js_expiresAt c)) (\<lambda>expires.
     try_then (sdk_bytes32 (js_nonce c)) (\<lambda>n.
     try_then (sdk_bytes32 (js_provenanceHash c)) (\<lambda>prov.
     Inr ([to_uint8 (js_version c)] @ host @ path @ key @ val @ issued @ expires @ n @ prov)))))))))"

text \<open>A Rust claim as the SDK holds it, and back.\<close>

definition js_claim :: "ClaimV1 \<Rightarrow> JsClaim" where
  "js_claim c =
     \<lparr>js_version = uint (version c), js_sourceHost = source_host c, js_requestPathHash = request_path_hash c,
      js_claimKey = claim_key c, js_claimValue = claim_value c, js_issuedAt = sint (issued_at c),
      js_expiresAt = sint (expires_at c), js_nonce = nonce c, js_provenanceHash = provenance_hash c\<rparr>"

definition word_claim :: "JsClaim \<Rightarrow> ClaimV1" where
  "word_claim c =
     \<lparr>version = to_uint8 (js_version c), source_host = js_sourceHost c, request_path_hash = js_requestPathHash c,
      claim_key = js_claimKey c, claim_value = js_claimValue c, issued_at = word_of_int (js_issuedAt c),
      expires_at = word_of_int (js_expiresAt c), nonce = js_nonce c, provenance_hash = js_provenanceHash c\<rparr>"

text \<open>The serializer on a Rust claim: no time is out of range.\<close>

definition borsh_claim :: "ClaimV1 \<Rightarrow> sdk_error + bytes" where
  "borsh_claim c = serializeClaim (js_claim c)"

lemma to_uint8_byte [simp]: "to_uint8 (uint b) = b"
  by (simp add: to_uint8_def)

lemma word_js_claim [simp]: "word_claim (js_claim c) = c"
  by (simp add: word_claim_def js_claim_def)

lemmas serializer_simps = serializeClaim_def sdk_string_def sdk_bytes32_def sdk_i64_def result_simps Let_def
  i64_bounds

lemma borsh_claim_alt:
  "borsh_claim c =
     try_then (sdk_string (source_host c)) (\<lambda>host.
     try_then (sdk_bytes32 (request_path_hash c)) (\<lambda>path.
     try_then (sdk_string (claim_key c)) (\<lambda>key.
     try_then (sdk_string (claim_value c)) (\<lambda>val.
     try_then (sdk_bytes32 (nonce c)) (\<lambda>n.
     try_then (sdk_bytes32 (provenance_hash c)) (\<lambda>prov.
     Inr ([version c] @ host @ path @ key @ val @ le_i64 (issued_at c) @ le_i64 (expires_at c)
          @ n @ prov)))))))"
  using sint_i64_range [of "issued_at c"] sint_i64_range [of "expires_at c"]
  by (simp add: borsh_claim_def serializeClaim_def js_claim_def sdk_i64_def)

text \<open>
  Within the 64-bit range of the times, the serializer writes the bytes of the Rust claim; it
  succeeds on nothing else.
\<close>

lemma serializeClaim_iff:
  "serializeClaim c = Inr b \<longleftrightarrow>
     {js_issuedAt c, js_expiresAt c} \<subseteq> {I64_MIN..I64_MAX} \<and> borsh_claim (word_claim c) = Inr b"
  by (auto simp: serializeClaim_def borsh_claim_alt word_claim_def sdk_i64_def result_simps)

section \<open>Reader\<close>

record Reader =
  rd_buf :: bytes
  rd_offset :: nat

definition reader_bytes :: "nat \<Rightarrow> Reader \<Rightarrow> sdk_error + (bytes \<times> Reader)" where
  "reader_bytes n r =
     (let out = take n (drop (rd_offset r) (rd_buf r))
      in ensure (length out = n) AccountDataTruncated
           (Inr (out, r\<lparr>rd_offset := rd_offset r + n\<rparr>)))"

text \<open>
  \<open>Buffer.toString("utf8")\<close>: well-formed input is kept, every ill-formed maximal subpart becomes
  U+FFFD (bytes EF BF BD).
\<close>

definition replacement :: bytes where "replacement = [0xEF, 0xBF, 0xBD]"

definition second_ok :: "byte \<Rightarrow> byte \<Rightarrow> bool" where
  "second_ok a b =
     (if unat a = 0xE0 then in_range 0xA0 0xBF b
      else if unat a = 0xED then in_range 0x80 0x9F b
      else if unat a = 0xF0 then in_range 0x90 0xBF b
      else if unat a = 0xF4 then in_range 0x80 0x8F b
      else cont_byte b)"

fun toString_utf8 :: "bytes \<Rightarrow> bytes" where
  "toString_utf8 [] = []"
| "toString_utf8 (a # bs) =
    (if in_range 0x00 0x7F a then a # toString_utf8 bs
     else if in_range 0xC2 0xDF a then
       (case bs of
          b # r \<Rightarrow> if cont_byte b then a # b # toString_utf8 r else replacement @ toString_utf8 bs
        | [] \<Rightarrow> replacement)
     else if in_range 0xE0 0xEF a then
       (case bs of
          b # r \<Rightarrow>
            if second_ok a b then
              (case r of
                 c # s \<Rightarrow> if cont_byte c then a # b # c # toString_utf8 s
                          else replacement @ toString_utf8 r
               | [] \<Rightarrow> replacement)
            else replacement @ toString_utf8 bs
        | [] \<Rightarrow> replacement)
     else if in_range 0xF0 0xF4 a then
       (case bs of
          b # r \<Rightarrow>
            if second_ok a b then
              (case r of
                 c # s \<Rightarrow>
                   if cont_byte c then
                     (case s of
                        d # t \<Rightarrow> if cont_byte d then a # b # c # d # toString_utf8 t
                                 else replacement @ toString_utf8 s
                      | [] \<Rightarrow> replacement)
                   else replacement @ toString_utf8 r
               | [] \<Rightarrow> replacement)
            else replacement @ toString_utf8 bs
        | [] \<Rightarrow> replacement)
     else replacement @ toString_utf8 bs)"

definition reader_string :: "Reader \<Rightarrow> sdk_error + (string \<times> Reader)" where
  "reader_string r =
     try_then (reader_bytes 4 r) (\<lambda>(len, r).
     try_then (reader_bytes (le_val len) r) (\<lambda>(b, r).
     Inr (of_bytes (toString_utf8 b), r)))"

definition reader_i64 :: "Reader \<Rightarrow> sdk_error + (i64 \<times> Reader)" where
  "reader_i64 r = try_then (reader_bytes 8 r) (\<lambda>(b, r). Inr (word_of_nat (le_val b), r))"

definition reader_u8 :: "Reader \<Rightarrow> sdk_error + (u8 \<times> Reader)" where
  "reader_u8 r = try_then (reader_bytes 1 r) (\<lambda>(b, r). Inr (b ! 0, r))"

text \<open>\<open>sha256("account:VerifiedClaim")[0..8]\<close>, compared before anything else is read.\<close>

definition verified_claim_discriminator :: "(bytes \<Rightarrow> bytes) \<Rightarrow> bytes" where
  "verified_claim_discriminator sha256 = take 8 (sha256 (as_bytes ''account:VerifiedClaim''))"

definition decodeVerifiedClaim :: "(bytes \<Rightarrow> bytes) \<Rightarrow> bytes \<Rightarrow> sdk_error + VerifiedClaim" where
  "decodeVerifiedClaim sha256 data =
     try_then (reader_bytes 8 \<lparr>rd_buf = data, rd_offset = 0\<rparr>) (\<lambda>(discriminator, r).
     ensure (discriminator = verified_claim_discriminator sha256) NotAVerifiedClaim (
     try_then (reader_bytes 32 r) (\<lambda>(claimId, r).
     try_then (reader_string r) (\<lambda>(sourceHost, r).
     try_then (reader_bytes 32 r) (\<lambda>(requestPathHash, r).
     try_then (reader_string r) (\<lambda>(claimKey, r).
     try_then (reader_string r) (\<lambda>(claimValue, r).
     try_then (reader_i64 r) (\<lambda>(issuedAt, r).
     try_then (reader_i64 r) (\<lambda>(expiresAt, r).
     try_then (reader_bytes 32 r) (\<lambda>(provenanceHash, r).
     try_then (reader_bytes 32 r) (\<lambda>(submittedBy, r).
     try_then (reader_i64 r) (\<lambda>(createdAt, r).
     try_then (reader_u8 r) (\<lambda>(bump, r).
     Inr \<lparr>vc_claim_id = claimId, vc_source_host = sourceHost,
          vc_request_path_hash = requestPathHash, vc_claim_key = claimKey,
          vc_claim_value = claimValue, vc_issued_at = issuedAt, vc_expires_at = expiresAt,
          vc_provenance_hash = provenanceHash, vc_submitted_by = submittedBy,
          vc_created_at = createdAt, vc_bump = bump\<rparr>)))))))))))))"

section \<open>The reader contract\<close>

text \<open>
  A field of the layout is a set of encodable values, their encoding, and a read operation of the
  SDK that consumes exactly that encoding.  Everything about unambiguity follows from this law.
\<close>

definition remaining :: "Reader \<Rightarrow> bytes" where
  "remaining r = drop (rd_offset r) (rd_buf r)"

definition skip :: "nat \<Rightarrow> Reader \<Rightarrow> Reader" where
  "skip n r = r\<lparr>rd_offset := rd_offset r + n\<rparr>"

lemma remaining_skip [simp]: "remaining (skip n r) = drop n (remaining r)"
  by (simp add: remaining_def skip_def add.commute)

lemma skip_skip [simp]: "skip m (skip n r) = skip (n + m) r"
  by (simp add: skip_def add.assoc)

lemma remaining_start [simp]: "remaining \<lparr>rd_buf = b, rd_offset = 0\<rparr> = b"
  by (simp add: remaining_def)

lemma reader_bytes_alt:
  "reader_bytes n r = (if n \<le> length (remaining r)
     then Inr (take n (remaining r), skip n r) else Inl AccountDataTruncated)"
  by (simp add: reader_bytes_def remaining_def skip_def Let_def ensure_def)

locale reader_codec =
  fixes fits :: "'a \<Rightarrow> bool"
    and enc :: "'a \<Rightarrow> bytes"
    and read :: "Reader \<Rightarrow> sdk_error + ('a \<times> Reader)"
  assumes read_enc:
    "fits x \<Longrightarrow> remaining r = enc x @ rest \<Longrightarrow> read r = Inr (x, skip (length (enc x)) r)"
begin

lemma prefix_free:
  assumes "fits x" and "fits y" and eq: "enc x @ u = enc y @ v"
  shows "x = y \<and> u = v"
proof -
  let ?r = "\<lparr>rd_buf = enc x @ u, rd_offset = 0\<rparr>"
  have "read ?r = Inr (x, skip (length (enc x)) ?r)"
    by (rule read_enc [OF assms(1)]) simp
  moreover have "read ?r = Inr (y, skip (length (enc y)) ?r)"
    by (rule read_enc [OF assms(2), where rest = v]) (simp add: eq)
  ultimately have "x = y" by simp
  with eq show ?thesis by simp
qed

lemma enc_inject: "fits x \<Longrightarrow> fits y \<Longrightarrow> enc x = enc y \<longleftrightarrow> x = y"
  using prefix_free [of x y "[]" "[]"] by auto

lemma read_whole: "fits x \<Longrightarrow> is_ok (read \<lparr>rd_buf = enc x @ rest, rd_offset = 0\<rparr>)"
  by (simp add: read_enc)

end

text \<open>
  A strict field moreover reports a buffer that ends inside its encoding.
\<close>

locale strict_codec = reader_codec +
  assumes read_short:
    "fits x \<Longrightarrow> enc x = remaining r @ rest \<Longrightarrow> rest \<noteq> [] \<Longrightarrow> read r = Inl AccountDataTruncated"
begin

lemma read_proper_prefix:
  assumes "fits x" and "n < length (enc x)"
  shows "read \<lparr>rd_buf = take n (enc x), rd_offset = 0\<rparr> = Inl AccountDataTruncated"
  by (rule read_short [OF assms(1), where rest = "drop n (enc x)"]) (use assms(2) in simp_all)

end

text \<open>Two fields in sequence are again a field: this is how the struct layouts are assembled.\<close>

definition enc_pair :: "('a \<Rightarrow> bytes) \<Rightarrow> ('b \<Rightarrow> bytes) \<Rightarrow> 'a \<times> 'b \<Rightarrow> bytes" where
  "enc_pair e f p = e (fst p) @ f (snd p)"

definition read_pair :: "(Reader \<Rightarrow> 'e + ('a \<times> Reader)) \<Rightarrow> (Reader \<Rightarrow> 'e + ('b \<times> Reader))
    \<Rightarrow> Reader \<Rightarrow> 'e + (('a \<times> 'b) \<times> Reader)" where
  "read_pair f g r = try_then (f r) (\<lambda>(x, r). try_then (g r) (\<lambda>(y, r). Inr ((x, y), r)))"

definition fits_pair :: "('a \<Rightarrow> bool) \<Rightarrow> ('b \<Rightarrow> bool) \<Rightarrow> 'a \<times> 'b \<Rightarrow> bool" where
  "fits_pair f g p \<longleftrightarrow> f (fst p) \<and> g (snd p)"

lemma reader_codec_pair:
  assumes a: "reader_codec fa ea ra" and b: "reader_codec fb eb rb"
  shows "reader_codec (fits_pair fa fb) (enc_pair ea eb) (read_pair ra rb)"
proof
  fix p r rest
  assume fit: "fits_pair fa fb p" and rem: "remaining r = enc_pair ea eb p @ rest"
  obtain x y where p: "p = (x, y)" by (cases p)
  let ?r = "skip (length (ea x)) r"
  have "ra r = Inr (x, ?r)"
    by (rule reader_codec.read_enc [OF a, where rest = "eb y @ rest"])
       (use fit rem p in \<open>simp_all add: fits_pair_def enc_pair_def\<close>)
  moreover have "rb ?r = Inr (y, skip (length (eb y)) ?r)"
    by (rule reader_codec.read_enc [OF b, where rest = rest])
       (use fit rem p in \<open>simp_all add: fits_pair_def enc_pair_def\<close>)
  ultimately show "read_pair ra rb r = Inr (p, skip (length (enc_pair ea eb p)) r)"
    by (simp add: read_pair_def p enc_pair_def)
qed

lemma read_pair_short:
  assumes a: "strict_codec fa ea ra" and b: "strict_codec fb eb rb"
    and fit: "fits_pair fa fb p" and rem: "enc_pair ea eb p = remaining r @ rest" and "rest \<noteq> []"
  shows "read_pair ra rb r = Inl AccountDataTruncated"
proof -
  obtain x y where p: "p = (x, y)" by (cases p)
  with fit have fits: "fa x" "fb y" by (simp_all add: fits_pair_def)
  from rem p have "ea x @ eb y = remaining r @ rest" by (simp add: enc_pair_def)
  then consider us where "ea x = remaining r @ us" "us \<noteq> []"
    | us where "ea x @ us = remaining r" "eb y = us @ rest"
    by (auto simp: append_eq_append_conv2) (metis append_Nil append_Nil2)
  then show ?thesis
  proof cases
    case 1
    then have "ra r = Inl AccountDataTruncated" by (rule strict_codec.read_short [OF a fits(1)])
    then show ?thesis by (simp add: read_pair_def)
  next
    case 2
    from a have "reader_codec fa ea ra" by (rule strict_codec.axioms(1))
    from reader_codec.read_enc [OF this fits(1) 2(1) [symmetric]]
    have "ra r = Inr (x, skip (length (ea x)) r)" .
    moreover have "rb (skip (length (ea x)) r) = Inl AccountDataTruncated"
      by (rule strict_codec.read_short [OF b fits(2) _ \<open>rest \<noteq> []\<close>])
         (simp add: 2(2), simp flip: 2(1))
    ultimately show ?thesis by (simp add: read_pair_def)
  qed
qed

lemma strict_codec_pair:
  assumes a: "strict_codec fa ea ra" and b: "strict_codec fb eb rb"
  shows "strict_codec (fits_pair fa fb) (enc_pair ea eb) (read_pair ra rb)"
proof (intro strict_codec.intro strict_codec_axioms.intro)
  show "reader_codec (fits_pair fa fb) (enc_pair ea eb) (read_pair ra rb)"
    using strict_codec.axioms(1) [OF a] strict_codec.axioms(1) [OF b] by (rule reader_codec_pair)
qed (rule read_pair_short [OF a b])

lemma read_pair_then:
  "try_then (read_pair f g r) k = try_then (f r) (\<lambda>(x, r). try_then (g r) (\<lambda>(y, r). k ((x, y), r)))"
  by (auto simp: read_pair_def try_then_def split: sum.splits)

section \<open>The SDK's fields meet the contract\<close>

text \<open>The four shapes of a well-formed sequence, by its leading byte.\<close>

lemma utf8_valid_cases:
  assumes "utf8_valid (a # bs)"
  obtains (one) "in_range 0x00 0x7F a" "utf8_valid bs"
  | (two) b r where "in_range 0xC2 0xDF a" "bs = b # r" "cont_byte b" "utf8_valid r"
  | (three) b c r where "in_range 0xE0 0xEF a" "bs = b # c # r" "second_ok a b" "cont_byte c"
      "utf8_valid r"
  | (four) b c d r where "in_range 0xF0 0xF4 a" "bs = b # c # d # r" "second_ok a b" "cont_byte c"
      "cont_byte d" "utf8_valid r"
proof -
  consider "in_range 0x00 0x7F a" | "in_range 0xC2 0xDF a" | "in_range 0xE0 0xEF a"
    | "in_range 0xF0 0xF4 a"
    using assms by (simp split: if_splits)
  then show thesis
  proof cases
    case 1
    with assms show ?thesis by (intro one) simp_all
  next
    case 2
    then have no: "\<not> in_range 0x00 0x7F a" by (simp add: in_range_def)
    with 2 assms obtain b r where "bs = b # r" "cont_byte b" "utf8_valid r"
      by (cases bs) simp_all
    with 2 show ?thesis by (intro two)
  next
    case 3
    then have no: "\<not> in_range 0x00 0x7F a" "\<not> in_range 0xC2 0xDF a" "unat a \<noteq> 0xF0" "unat a \<noteq> 0xF4"
      by (simp_all add: in_range_def)
    with 3 assms obtain b c r where bs: "bs = b # c # r" and "cont_byte c" "utf8_valid r"
      by (simp split: list.splits)
    moreover from 3 no assms bs have "second_ok a b" by (simp add: second_ok_def split: if_splits)
    ultimately show ?thesis using 3 by (intro three)
  next
    case 4
    then have no: "\<not> in_range 0x00 0x7F a" "\<not> in_range 0xC2 0xDF a" "\<not> in_range 0xE0 0xEF a"
        "unat a \<noteq> 0xE0" "unat a \<noteq> 0xED"
      by (simp_all add: in_range_def)
    with 4 assms obtain b c d r where bs: "bs = b # c # d # r"
        and "cont_byte c" "cont_byte d" "utf8_valid r"
      by (simp split: list.splits)
    moreover from 4 no assms bs have "second_ok a b" by (simp add: second_ok_def split: if_splits)
    ultimately show ?thesis using 4 by (intro four)
  qed
qed

lemma toString_utf8_valid: "utf8_valid b \<Longrightarrow> toString_utf8 b = b"
proof (induction b rule: length_induct)
  case (1 b)
  then have IH: "\<And>c. length c < length b \<Longrightarrow> utf8_valid c \<Longrightarrow> toString_utf8 c = c" by blast
  show ?case
  proof (cases b)
    case (Cons a bs)
    from "1.prems" Cons have "utf8_valid (a # bs)" by simp
    then show ?thesis
      by (cases rule: utf8_valid_cases) (use IH Cons in \<open>simp_all add: in_range_def\<close>)
  qed simp
qed

definition enc_string :: "string \<Rightarrow> bytes" where
  "enc_string s = le_bytes 4 (length s) @ as_bytes s"

definition fits_string :: "string \<Rightarrow> bool" where
  "fits_string s \<longleftrightarrow> length s < 2 ^ 32 \<and> utf8_valid (as_bytes s)"

definition fits_array :: "nat \<Rightarrow> bytes \<Rightarrow> bool" where
  "fits_array n b \<longleftrightarrow> length b = n"

definition enc_array :: "bytes \<Rightarrow> bytes" where
  "enc_array b = b"

definition enc_u8 :: "u8 \<Rightarrow> bytes" where
  "enc_u8 b = [b]"

definition fits_any :: "'a \<Rightarrow> bool" where
  "fits_any x \<longleftrightarrow> True"

interpretation array_field: strict_codec "fits_array n" enc_array "reader_bytes n" for n
  by unfold_locales (auto simp: reader_bytes_alt fits_array_def enc_array_def)

interpretation u8_field: strict_codec fits_any enc_u8 reader_u8
proof
  show "reader_u8 r = Inr (x, skip (length (enc_u8 x)) r)" if "remaining r = enc_u8 x @ rest" for x r rest
    using that by (simp add: reader_u8_def reader_bytes_alt enc_u8_def)
  show "reader_u8 r = Inl AccountDataTruncated" if "enc_u8 x = remaining r @ rest" "rest \<noteq> []" for x r rest
    using that by (cases "remaining r") (auto simp: reader_u8_def reader_bytes_alt enc_u8_def)
qed

lemma word_of_nat_le_val_i64: "word_of_nat (le_val (le_bytes 8 (unat v))) = (v :: i64)"
proof -
  have "unat v < 2 ^ LENGTH(64)" by (rule unsigned_less)
  then show ?thesis by (simp add: le_val_le_bytes)
qed

interpretation i64_field: strict_codec fits_any le_i64 reader_i64
proof
  show "reader_i64 r = Inr (x, skip (length (le_i64 x)) r)" if "remaining r = le_i64 x @ rest" for x r rest
    using that by (simp add: reader_i64_def reader_bytes_alt le_i64_def word_of_nat_le_val_i64)
  show "reader_i64 r = Inl AccountDataTruncated" if "le_i64 x = remaining r @ rest" "rest \<noteq> []" for x r rest
    using arg_cong [OF that(1), of length] that(2)
    by (cases rest) (simp_all add: reader_i64_def reader_bytes_alt le_i64_def)
qed

interpretation string_field: strict_codec fits_string enc_string reader_string
proof
  fix s r
  assume fit: "fits_string s"
  then have len: "le_val (le_bytes 4 (length s)) = length s"
    by (simp add: le_val_le_bytes fits_string_def)
  from fit have utf8: "toString_utf8 (as_bytes s) = as_bytes s"
    by (simp add: toString_utf8_valid fits_string_def)
  show "reader_string r = Inr (s, skip (length (enc_string s)) r)" if "remaining r = enc_string s @ rest" for rest
    using that len utf8 by (simp add: reader_string_def reader_bytes_alt enc_string_def add.commute)
  show "reader_string r = Inl AccountDataTruncated" if "enc_string s = remaining r @ rest" "rest \<noteq> []" for rest
  proof (cases "4 \<le> length (remaining r)")
    case True
    from that(1) have "take 4 (remaining r @ rest) = le_bytes 4 (length s)"
      by (simp add: enc_string_def flip: that(1))
    with True have "take 4 (remaining r) = le_bytes 4 (length s)" by simp
    moreover have "length (remaining r) < 4 + length s"
      using arg_cong [OF that(1), of length] that(2) by (simp add: enc_string_def)
    ultimately show ?thesis using True len by (simp add: reader_string_def reader_bytes_alt)
  qed (simp add: reader_string_def reader_bytes_alt)
qed

section \<open>The claim layout\<close>

type_synonym claim_tuple =
  "u8 \<times> string \<times> bytes \<times> string \<times> string \<times> i64 \<times> i64 \<times> bytes \<times> bytes"

definition claim_fields :: "ClaimV1 \<Rightarrow> claim_tuple" where
  "claim_fields c =
     (version c, source_host c, request_path_hash c, claim_key c, claim_value c,
      issued_at c, expires_at c, nonce c, provenance_hash c)"

definition fits_claim :: "claim_tuple \<Rightarrow> bool" where
  "fits_claim = fits_pair fits_any (fits_pair fits_string (fits_pair (fits_array 32)
     (fits_pair fits_string (fits_pair fits_string (fits_pair fits_any (fits_pair fits_any
     (fits_pair (fits_array 32) (fits_array 32))))))))"

definition enc_claim :: "claim_tuple \<Rightarrow> bytes" where
  "enc_claim = enc_pair enc_u8 (enc_pair enc_string (enc_pair enc_array
     (enc_pair enc_string (enc_pair enc_string (enc_pair le_i64 (enc_pair le_i64
     (enc_pair enc_array enc_array)))))))"

definition read_claim :: "Reader \<Rightarrow> sdk_error + (claim_tuple \<times> Reader)" where
  "read_claim = read_pair reader_u8 (read_pair reader_string (read_pair (reader_bytes 32)
     (read_pair reader_string (read_pair reader_string (read_pair reader_i64 (read_pair reader_i64
     (read_pair (reader_bytes 32) (reader_bytes 32))))))))"

lemmas field_codecs = array_field.strict_codec_axioms u8_field.strict_codec_axioms
  i64_field.strict_codec_axioms string_field.strict_codec_axioms

interpretation claim_layout: strict_codec fits_claim enc_claim read_claim
  unfolding fits_claim_def enc_claim_def read_claim_def
  by (intro strict_codec_pair field_codecs)

lemma claim_fields_inject [simp]: "claim_fields c = claim_fields d \<longleftrightarrow> c = d"
  by (cases c; cases d) (simp add: claim_fields_def)

lemma fits_claim_fields: "encodable c \<Longrightarrow> fits_claim (claim_fields c)"
  by (simp add: fits_claim_def claim_fields_def fits_pair_def fits_any_def fits_string_def
      fits_array_def encodable_def claim_typed_def)

lemmas sdk_encoders = sdk_string_def sdk_bytes32_def enc_pair_def enc_string_def enc_array_def
  enc_u8_def

text \<open>Whatever the serializer returns is the layout; on encodable claims it returns.\<close>

lemma borsh_claim_layout:
  "borsh_claim c = Inr b \<Longrightarrow> b = enc_claim (claim_fields c)"
  by (auto simp: borsh_claim_alt enc_claim_def claim_fields_def sdk_encoders result_simps Let_def)

lemma borsh_claim_encodable:
  "encodable c \<Longrightarrow> borsh_claim c = Inr (enc_claim (claim_fields c))"
  by (simp add: borsh_claim_alt enc_claim_def claim_fields_def sdk_encoders Let_def
      encodable_def claim_typed_def)

lemma serializeClaim_js_claim:
  "encodable c \<Longrightarrow> serializeClaim (js_claim c) = Inr (enc_claim (claim_fields c))"
  using borsh_claim_encodable [of c] by (simp add: borsh_claim_def)

lemma length_enc_claim:
  "encodable c \<Longrightarrow> length (enc_claim (claim_fields c)) =
     125 + length (source_host c) + length (claim_key c) + length (claim_value c)"
  by (simp add: enc_claim_def claim_fields_def sdk_encoders le_i64_def encodable_def claim_typed_def)

section \<open>The account layout\<close>

type_synonym verified_tuple =
  "bytes \<times> string \<times> bytes \<times> string \<times> string \<times> i64 \<times> i64 \<times> bytes \<times> bytes \<times> i64 \<times> u8"

definition verified_fields :: "VerifiedClaim \<Rightarrow> verified_tuple" where
  "verified_fields v =
     (vc_claim_id v, vc_source_host v, vc_request_path_hash v, vc_claim_key v, vc_claim_value v,
      vc_issued_at v, vc_expires_at v, vc_provenance_hash v, vc_submitted_by v, vc_created_at v,
      vc_bump v)"

definition fits_verified :: "verified_tuple \<Rightarrow> bool" where
  "fits_verified = fits_pair (fits_array 32) (fits_pair fits_string (fits_pair (fits_array 32)
     (fits_pair fits_string (fits_pair fits_string (fits_pair fits_any (fits_pair fits_any
     (fits_pair (fits_array 32) (fits_pair (fits_array 32) (fits_pair fits_any fits_any)))))))))"

definition enc_verified :: "verified_tuple \<Rightarrow> bytes" where
  "enc_verified = enc_pair enc_array (enc_pair enc_string (enc_pair enc_array
     (enc_pair enc_string (enc_pair enc_string (enc_pair le_i64 (enc_pair le_i64
     (enc_pair enc_array (enc_pair enc_array (enc_pair le_i64 enc_u8)))))))))"

definition read_verified :: "Reader \<Rightarrow> sdk_error + (verified_tuple \<times> Reader)" where
  "read_verified = read_pair (reader_bytes 32) (read_pair reader_string (read_pair (reader_bytes 32)
     (read_pair reader_string (read_pair reader_string (read_pair reader_i64 (read_pair reader_i64
     (read_pair (reader_bytes 32) (read_pair (reader_bytes 32) (read_pair reader_i64 reader_u8)))))))))"

interpretation verified_layout: strict_codec fits_verified enc_verified read_verified
  unfolding fits_verified_def enc_verified_def read_verified_def
  by (intro strict_codec_pair field_codecs)

definition verified_of :: "verified_tuple \<Rightarrow> VerifiedClaim" where
  "verified_of t = (case t of (i, h, p, k, v, a, e, q, s, c, b) \<Rightarrow>
     \<lparr>vc_claim_id = i, vc_source_host = h, vc_request_path_hash = p, vc_claim_key = k,
      vc_claim_value = v, vc_issued_at = a, vc_expires_at = e, vc_provenance_hash = q,
      vc_submitted_by = s, vc_created_at = c, vc_bump = b\<rparr>)"

lemma verified_of_fields [simp]: "verified_of (verified_fields v) = v"
  by (cases v) (simp add: verified_of_def verified_fields_def)

lemma decodeVerifiedClaim_alt:
  "decodeVerifiedClaim sha256 data =
     try_then (reader_bytes 8 \<lparr>rd_buf = data, rd_offset = 0\<rparr>) (\<lambda>(discriminator, r).
     ensure (discriminator = verified_claim_discriminator sha256) NotAVerifiedClaim (
     try_then (read_verified r) (\<lambda>(t, r). Inr (verified_of t))))"
  unfolding decodeVerifiedClaim_def read_verified_def read_pair_then
  by (simp add: verified_of_def)

lemma length_enc_verified:
  "fits_verified (verified_fields v) \<Longrightarrow> length (enc_verified (verified_fields v)) =
     165 + length (vc_source_host v) + length (vc_claim_key v) + length (vc_claim_value v)"
  by (simp add: enc_verified_def fits_verified_def verified_fields_def sdk_encoders le_i64_def
      fits_pair_def fits_array_def)

lemma fits_verified_fields:
  "verified_claim_typed v \<Longrightarrow> verified_claim_bounded v \<Longrightarrow> fits_verified (verified_fields v)"
  by (simp add: fits_verified_def verified_fields_def fits_pair_def fits_any_def fits_string_def
      fits_array_def verified_claim_typed_def verified_claim_bounded_def)

section \<open>Library contracts\<close>

text \<open>
  \<open>borsh_spec\<close>: on encodable claims the Borsh derive of the Rust structs returns, and returns the
  bytes of the SDK's serializer (\<open>index.ts\<close>, "to match the Rust borsh::to_vec(ClaimV1)
  byte-for-byte").  \<open>sha256_spec\<close>: a SHA-256 digest has 32 bytes.  \<open>anchor_account_spec\<close>: Anchor
  writes the 8-byte discriminator and then the Borsh layout of the struct.
\<close>

definition borsh_spec :: "(ClaimV1 \<Rightarrow> bytes option) \<Rightarrow> bool" where
  "borsh_spec to_vec \<longleftrightarrow> (\<forall>c. encodable c \<longrightarrow> (\<exists>b. borsh_claim c = Inr b \<and> to_vec c = Some b))"

definition sha256_spec :: "(bytes \<Rightarrow> bytes) \<Rightarrow> bool" where
  "sha256_spec sha256 \<longleftrightarrow> (\<forall>m. length (sha256 m) = 32)"

definition anchor_account_spec :: "(bytes \<Rightarrow> bytes) \<Rightarrow> (VerifiedClaim \<Rightarrow> bytes) \<Rightarrow> bool" where
  "anchor_account_spec sha256 acct_bytes \<longleftrightarrow>
     (\<forall>v. fits_verified (verified_fields v) \<longrightarrow>
        acct_bytes v = verified_claim_discriminator sha256 @ enc_verified (verified_fields v))"

lemma borsh_specD: "borsh_spec to_vec \<Longrightarrow> encodable c \<Longrightarrow> to_vec c = Some (enc_claim (claim_fields c))"
  by (auto simp: borsh_spec_def dest: borsh_claim_layout)

lemma borsh_canonical:
  "borsh_spec to_vec \<Longrightarrow> encodable c \<Longrightarrow> canonical_bytes to_vec c = Some (enc_claim (claim_fields c))"
  by (simp add: canonical_bytes_def borsh_specD)

lemma length_discriminator: "sha256_spec sha256 \<Longrightarrow> length (verified_claim_discriminator sha256) = 8"
  by (simp add: sha256_spec_def verified_claim_discriminator_def)

section \<open>Properties of the encodings\<close>

text \<open>The claim of the repository's golden vector (\<open>test-vectors/claim-v1.json\<close>).\<close>

definition golden_claim :: ClaimV1 where
  "golden_claim =
     \<lparr>version = 1, source_host = ''api.example.com'', request_path_hash = replicate 32 1,
      claim_key = ''price'', claim_value = ''12345.67'', issued_at = 1700000000,
      expires_at = 1700000300, nonce = replicate 32 2, provenance_hash = replicate 32 3\<rparr>"

lemma golden_encodable: "encodable golden_claim"
  by (simp add: golden_claim_def encodable_def claim_typed_def concrete)

text \<open>The serializer reproduces \<open>test-vectors/claim-v1.hex\<close>.\<close>

lemma golden_vector:
  "borsh_claim golden_claim = Inr
    ([0x01, 0x0f, 0x00, 0x00, 0x00, 0x61, 0x70, 0x69, 0x2e, 0x65, 0x78, 0x61, 0x6d, 0x70, 0x6c, 0x65,
      0x2e, 0x63, 0x6f, 0x6d] @ replicate 32 0x01 @
     [0x05, 0x00, 0x00, 0x00, 0x70, 0x72, 0x69, 0x63, 0x65,
      0x08, 0x00, 0x00, 0x00, 0x31, 0x32, 0x33, 0x34, 0x35, 0x2e, 0x36, 0x37,
      0x00, 0xf1, 0x53, 0x65, 0x00, 0x00, 0x00, 0x00, 0x2c, 0xf2, 0x53, 0x65, 0x00, 0x00, 0x00, 0x00]
     @ replicate 32 0x02 @ replicate 32 0x03)"
  by (simp add: golden_claim_def borsh_claim_alt sdk_string_def sdk_bytes32_def le_i64_def concrete)

text \<open>A claim of the SDK whose version is a byte and whose strings have a UTF-8 form.\<close>

definition js_typed :: "JsClaim \<Rightarrow> bool" where
  "js_typed c \<longleftrightarrow> js_version c \<in> {0..<256} \<and> utf8_valid (as_bytes (js_sourceHost c)) \<and>
     utf8_valid (as_bytes (js_claimKey c)) \<and> utf8_valid (as_bytes (js_claimValue c))"

lemma js_typed_js_claim: "claim_typed c \<Longrightarrow> js_typed (js_claim c)"
  using uint_bounded [of "version c"] by (simp add: js_typed_def js_claim_def claim_typed_def)

lemma serialized_encodable:
  assumes "js_typed c" and "serializeClaim c = Inr b"
  shows "encodable (word_claim c)" and "b = enc_claim (claim_fields (word_claim c))"
    and "js_claim (word_claim c) = c"
proof -
  from assms(2) have b: "borsh_claim (word_claim c) = Inr b"
      and range: "js_issuedAt c \<in> {I64_MIN..I64_MAX}" "js_expiresAt c \<in> {I64_MIN..I64_MAX}"
    by (simp_all add: serializeClaim_iff)
  show "encodable (word_claim c)"
    using assms(1) b by (auto simp: encodable_def claim_typed_def js_typed_def borsh_claim_alt word_claim_def
        sdk_string_def sdk_bytes32_def result_simps Let_def)
  show "b = enc_claim (claim_fields (word_claim c))" using b by (rule borsh_claim_layout)
  have "uint (to_uint8 (js_version c)) = js_version c"
    using assms(1) by (simp add: js_typed_def to_uint8_def uint_word_of_int take_bit_int_eq_self)
  then show "js_claim (word_claim c) = c"
    using range by (cases c) (simp add: js_claim_def word_claim_def sint_word_of_int_i64)
qed

text \<open>
  C2.  The canonical bytes of a claim are unambiguous: if the serializations of two claims of the
  SDK are equal, or even begin two equal byte strings, then the claims are the same.  No field
  boundary can be moved and no field dropped without changing the bytes.  (The claims have a byte for
  a version and UTF-8 strings, as every Rust claim has.)
\<close>

theorem serializeClaim_prefix_free:
  assumes "js_typed c" and "js_typed d"
    and "serializeClaim c = Inr x" and "serializeClaim d = Inr y" and "x @ u = y @ v"
  shows "c = d \<and> u = v"
proof -
  note c = serialized_encodable [OF assms(1,3)] and d = serialized_encodable [OF assms(2,4)]
  have "claim_fields (word_claim c) = claim_fields (word_claim d) \<and> u = v"
    using claim_layout.prefix_free [OF fits_claim_fields fits_claim_fields, OF c(1) d(1)] c(2) d(2) assms(5) by simp
  with c(3) d(3) show ?thesis by (metis claim_fields_inject)
qed

theorem serializeClaim_prefix_free_witness:
  "\<exists>x. serializeClaim (js_claim golden_claim) = Inr x \<and> js_typed (js_claim golden_claim) \<and>
     (\<forall>u v. x @ u = x @ v \<longrightarrow> u = v)"
proof -
  obtain x where x: "serializeClaim (js_claim golden_claim) = Inr x" using golden_vector by (auto simp: borsh_claim_def)
  have t: "js_typed (js_claim golden_claim)"
    using golden_encodable by (intro js_typed_js_claim) (simp add: encodable_def)
  show ?thesis using x t serializeClaim_prefix_free [OF t t x x] by blast
qed

text \<open>
  C3.  \<open>serializeClaim\<close> throws exactly when a fixed-size field does not have 32 bytes, a string is
  longer than 32 bits can say, or a time is outside the 64-bit range; the error says whether it was a
  size or a range.  Otherwise the result has 125 bytes plus the three strings, so with the 24-byte
  domain separator a bounded claim signs at most 661 bytes, which the 16-bit message length of the
  Ed25519 instruction can express.
\<close>

theorem serializeClaim_length:
  "(is_ok (serializeClaim c) \<longleftrightarrow>
      length (js_requestPathHash c) = 32 \<and> length (js_nonce c) = 32 \<and> length (js_provenanceHash c) = 32 \<and>
      length (js_sourceHost c) < 2 ^ 32 \<and> length (js_claimKey c) < 2 ^ 32 \<and> length (js_claimValue c) < 2 ^ 32 \<and>
      js_issuedAt c \<in> {- (2 ^ 63)..<2 ^ 63} \<and> js_expiresAt c \<in> {- (2 ^ 63)..<2 ^ 63}) \<and>
   (\<forall>e. serializeClaim c = Inl e \<longrightarrow>
      e = Expected32Bytes \<and> (length (js_requestPathHash c) \<noteq> 32 \<or> length (js_nonce c) \<noteq> 32 \<or> length (js_provenanceHash c) \<noteq> 32) \<or>
      e = OutOfRange \<and> (2 ^ 32 \<le> length (js_sourceHost c) \<or> 2 ^ 32 \<le> length (js_claimKey c) \<or> 2 ^ 32 \<le> length (js_claimValue c) \<or>
        js_issuedAt c \<notin> {- (2 ^ 63)..<2 ^ 63} \<or> js_expiresAt c \<notin> {- (2 ^ 63)..<2 ^ 63})) \<and>
   (\<forall>b. serializeClaim c = Inr b \<longrightarrow>
      length b = 125 + length (js_sourceHost c) + length (js_claimKey c) + length (js_claimValue c) \<and>
      (bounded_fields (word_claim c) \<longrightarrow> length (DOMAIN_SEPARATOR @ b) \<le> 661))"
proof (intro conjI allI impI)
  show "is_ok (serializeClaim c) \<longleftrightarrow>
      length (js_requestPathHash c) = 32 \<and> length (js_nonce c) = 32 \<and> length (js_provenanceHash c) = 32 \<and>
      length (js_sourceHost c) < 2 ^ 32 \<and> length (js_claimKey c) < 2 ^ 32 \<and> length (js_claimValue c) < 2 ^ 32 \<and>
      js_issuedAt c \<in> {- (2 ^ 63)..<2 ^ 63} \<and> js_expiresAt c \<in> {- (2 ^ 63)..<2 ^ 63}"
    by (auto simp: is_ok_iff serializer_simps)
  fix b assume b: "serializeClaim c = Inr b"
  then show len: "length b = 125 + length (js_sourceHost c) + length (js_claimKey c) + length (js_claimValue c)"
    by (auto simp: serializer_simps le_i64_def)
  show "length (DOMAIN_SEPARATOR @ b) \<le> 661" if "bounded_fields (word_claim c)"
    using that len by (simp add: bounded_fields_def word_claim_def DOMAIN_SEPARATOR_def)
qed (auto simp: serializer_simps)

theorem serializeClaim_length_witness:
  "serializeClaim ((js_claim golden_claim)\<lparr>js_expiresAt := 2 ^ 63\<rparr>) = Inl OutOfRange \<and>
   (\<exists>b. serializeClaim (js_claim golden_claim) = Inr b \<and> length (DOMAIN_SEPARATOR @ b) \<le> 661)"
proof -
  let ?late = "(js_claim golden_claim)\<lparr>js_expiresAt := 2 ^ 63\<rparr>"
  obtain x where x: "serializeClaim (js_claim golden_claim) = Inr x" using golden_vector by (auto simp: borsh_claim_def)
  have b: "bounded_fields (word_claim (js_claim golden_claim))" by (simp add: bounded_fields_def golden_claim_def)
  have "\<not> is_ok (serializeClaim ?late)" using serializeClaim_length [of ?late, THEN conjunct1] by simp
  then obtain e where e: "serializeClaim ?late = Inl e" by (cases "serializeClaim ?late") auto
  with serializeClaim_length [of ?late, THEN conjunct2, THEN conjunct1] have "e = OutOfRange"
    by (auto simp: js_claim_def golden_claim_def)
  with x b e serializeClaim_length [of "js_claim golden_claim"] show ?thesis by simp
qed

text \<open>
  C4.  A signature binds the whole claim: when the Borsh serializer agrees with the documented
  layout, every encodable claim has canonical bytes (the \<open>expect\<close> never panics) and two claims with
  the same signing message are equal.
\<close>

theorem signing_message_binds_claim:
  assumes "borsh_spec to_vec" and "encodable c" and "encodable d"
  shows "(\<exists>m. signing_message to_vec c = Some m) \<and>
    (signing_message to_vec c = signing_message to_vec d \<longrightarrow> c = d)"
  using assms claim_layout.enc_inject [OF fits_claim_fields fits_claim_fields, of c d]
  by (auto simp: signing_message_def borsh_canonical)

definition sdk_to_vec :: "ClaimV1 \<Rightarrow> bytes option" where
  "sdk_to_vec c = (case borsh_claim c of Inl _ \<Rightarrow> None | Inr b \<Rightarrow> Some b)"

lemma borsh_spec_sdk: "borsh_spec sdk_to_vec"
  by (simp add: borsh_spec_def sdk_to_vec_def borsh_claim_encodable)

theorem signing_message_binds_claim_witness:
  "signing_message sdk_to_vec golden_claim \<noteq>
   signing_message sdk_to_vec (golden_claim\<lparr>claim_value := ''12345.68''\<rparr>)"
proof -
  let ?d = "golden_claim\<lparr>claim_value := ''12345.68''\<rparr>"
  have "encodable ?d" by (simp add: golden_claim_def encodable_def claim_typed_def concrete)
  moreover have "golden_claim \<noteq> ?d" by (simp add: golden_claim_def)
  ultimately show ?thesis
    using signing_message_binds_claim [OF borsh_spec_sdk golden_encodable, of ?d] by simp
qed

text \<open>After a matching discriminator the decoder is the reader of the account layout.\<close>

lemma decode_after_discriminator:
  assumes "sha256_spec sha256"
  shows "decodeVerifiedClaim sha256 (verified_claim_discriminator sha256 @ w) =
    try_then (read_verified (skip 8 \<lparr>rd_buf = verified_claim_discriminator sha256 @ w, rd_offset = 0\<rparr>))
      (\<lambda>(t, r). Inr (verified_of t))"
  by (simp add: decodeVerifiedClaim_alt reader_bytes_alt length_discriminator [OF assms])

lemma decode_account:
  assumes "sha256_spec sha256" and "anchor_account_spec sha256 acct_bytes"
    and "verified_claim_typed v" and "verified_claim_bounded v"
  shows "decodeVerifiedClaim sha256 (acct_bytes v @ pad) = Inr v"
proof -
  from assms(3,4) have fit: "fits_verified (verified_fields v)" by (rule fits_verified_fields)
  with assms(2) show ?thesis
    by (simp add: anchor_account_spec_def decode_after_discriminator [OF assms(1)]
        verified_layout.read_enc [OF fit, where rest = pad] length_discriminator [OF assms(1)])
qed

text \<open>
  C5.  Reading back a stored claim: from the bytes Anchor writes for a bounded \<open>VerifiedClaim\<close>,
  followed by any padding up to the allocated space, \<open>decodeVerifiedClaim\<close> recovers the claim,
  and the written bytes fit the space the program allocates (8 + INIT_SPACE).  Cut anywhere short
  of their end, they are refused as truncated instead of being misread.
\<close>

theorem decodeVerifiedClaim_roundtrip:
  assumes "sha256_spec sha256" and "anchor_account_spec sha256 acct_bytes"
    and "verified_claim_typed v" and "verified_claim_bounded v"
  shows "decodeVerifiedClaim sha256 (acct_bytes v @ pad) = Inr v \<and>
    length (acct_bytes v) \<le> 8 + verified_claim_INIT_SPACE \<and>
    (n < length (acct_bytes v) \<longrightarrow>
       decodeVerifiedClaim sha256 (take n (acct_bytes v)) = Inl AccountDataTruncated)"
proof -
  let ?d = "verified_claim_discriminator sha256" and ?e = "enc_verified (verified_fields v)"
  from assms(3,4) have fit: "fits_verified (verified_fields v)" by (rule fits_verified_fields)
  with assms(2) have bytes: "acct_bytes v = ?d @ ?e" by (simp add: anchor_account_spec_def)
  have d: "length ?d = 8" using assms(1) by (rule length_discriminator)
  have "decodeVerifiedClaim sha256 (acct_bytes v @ pad) = Inr v"
    using assms by (rule decode_account)
  moreover have "length (acct_bytes v) \<le> 8 + verified_claim_INIT_SPACE"
    using assms(4) by (simp add: bytes d length_enc_verified [OF fit] verified_claim_bounded_def
        verified_claim_INIT_SPACE_def)
  moreover have "decodeVerifiedClaim sha256 (take n (acct_bytes v)) = Inl AccountDataTruncated"
    if "n < length (acct_bytes v)"
  proof (cases "n < 8")
    case True
    then show ?thesis by (simp add: decodeVerifiedClaim_alt reader_bytes_alt)
  next
    case False
    have "read_verified (skip 8 \<lparr>rd_buf = ?d @ take (n - 8) ?e, rd_offset = 0\<rparr>) = Inl AccountDataTruncated"
      by (rule verified_layout.read_short [OF fit, where rest = "drop (n - 8) ?e"])
         (use that False in \<open>simp_all add: bytes d\<close>)
    with False show ?thesis by (simp add: bytes d decode_after_discriminator [OF assms(1)])
  qed
  ultimately show ?thesis by blast
qed

end
