(* ===== verification/WebProof_Program.thy ===== *)
theory WebProof_Program
  imports Program_Verification Claim_Codec
begin

text \<open>
  The instructions of the onchain program (\<open>programs/webproof/src/lib.rs\<close>) over a ledger of
  accounts, and the transition system they generate.  The Solana runtime and Anchor are library
  code: what the program uses of them is the parameter record \<open>runtime\<close>.  An account is absent, or
  one of the program's two account types (the owner and discriminator checks of
  \<open>Account<'info, T>\<close> tell them apart), or something owned by another program or holding data of
  the system program; an address that was only sent lamports is absent.
\<close>

section \<open>Runtime and ledger\<close>

record runtime =
  rt_hash :: "bytes \<Rightarrow> bytes"
  rt_try_to_vec :: "ClaimV1_onchain \<Rightarrow> bytes option"
  rt_find_program_address :: "bytes list \<Rightarrow> Pubkey \<times> u8"
  rt_create_program_address :: "bytes list \<Rightarrow> u8 \<Rightarrow> Pubkey option"
  rt_account_bytes :: "VerifiedClaim \<Rightarrow> bytes"
  rt_ed25519_id :: Pubkey
  rt_instructions_id :: Pubkey
  rt_system_id :: Pubkey

datatype account = ConfigAccount WebProofConfig | ClaimAccount VerifiedClaim | ForeignAccount

type_synonym ledger = "Pubkey \<Rightarrow> account option"

datatype ProgramError =
    WebProof WebProofError
  | AccountsRejected \<comment> \<open>an account constraint of Anchor failed\<close>
  | ClockUnavailable \<comment> \<open>\<open>Clock::get()\<close> failed\<close>
  | AccountDidNotSerialize \<comment> \<open>the stored value exceeds the account's space\<close>

record AccountMeta =
  am_key :: Pubkey
  am_is_signer :: bool
  am_is_writable :: bool

record InitializeConfig =
  ic_config :: AccountMeta
  ic_authority :: AccountMeta
  ic_system_program :: AccountMeta
  ic_rent_paid :: bool \<comment> \<open>the payer can fund the new account\<close>

record SubmitClaim =
  sc_config :: AccountMeta
  sc_verified_claim :: AccountMeta
  sc_submitter :: AccountMeta
  sc_instructions :: AccountMeta
  sc_sysvar :: instructions_sysvar \<comment> \<open>the contents of the instructions account\<close>
  sc_system_program :: AccountMeta
  sc_rent_paid :: bool

section \<open>Account constraints\<close>

text \<open>
  \<open>init, seeds, bump\<close>: the address is the canonical program-derived one and no account exists
  there; the canonical bump is returned.  An address that holds lamports but no data and is still
  owned by the system program counts as absent (\<open>None\<close>): \<open>init\<close> also accepts such a prefunded
  address, tops up its rent, allocates and assigns it.
\<close>

definition init_pda :: "runtime \<Rightarrow> ledger \<Rightarrow> AccountMeta \<Rightarrow> bytes list \<Rightarrow> bool \<Rightarrow> u8 option" where
  "init_pda rt L m seeds rent_paid =
     (case rt_find_program_address rt seeds of (a, b) \<Rightarrow>
        if am_key m = a \<and> am_is_writable m \<and> L a = None \<and> rent_paid then Some b else None)"

definition accounts_InitializeConfig :: "runtime \<Rightarrow> ledger \<Rightarrow> InitializeConfig \<Rightarrow> u8 option" where
  "accounts_InitializeConfig rt L ctx =
     (if am_is_signer (ic_authority ctx) \<and> am_is_writable (ic_authority ctx) \<and>
         am_key (ic_system_program ctx) = rt_system_id rt
      then init_pda rt L (ic_config ctx) [as_bytes ''config''] (ic_rent_paid ctx)
      else None)"

definition accounts_SubmitClaim ::
  "runtime \<Rightarrow> ledger \<Rightarrow> SubmitClaim \<Rightarrow> bytes \<Rightarrow> (WebProofConfig \<times> u8) option" where
  "accounts_SubmitClaim rt L ctx cid =
     (case L (am_key (sc_config ctx)) of
        Some (ConfigAccount config) \<Rightarrow>
          (if rt_create_program_address rt [as_bytes ''config''] (bump config) = Some (am_key (sc_config ctx)) \<and>
              am_is_signer (sc_submitter ctx) \<and> am_is_writable (sc_submitter ctx) \<and>
              am_key (sc_instructions ctx) = rt_instructions_id rt \<and>
              am_key (sc_system_program ctx) = rt_system_id rt
           then map_option (Pair config)
                  (init_pda rt L (sc_verified_claim ctx) [as_bytes ''claim'', cid] (sc_rent_paid ctx))
           else None)
      | _ \<Rightarrow> None)"

section \<open>Instructions\<close>

definition initialize_config ::
  "runtime \<Rightarrow> ledger \<Rightarrow> InitializeConfig \<Rightarrow> bytes \<Rightarrow> i64 \<Rightarrow> ProgramError + ledger" where
  "initialize_config rt L ctx verifier_key max_age =
     try_then (ok_or (accounts_InitializeConfig rt L ctx) AccountsRejected) (\<lambda>config_bump.
     ensure (sint max_age > 0) (WebProof InvalidMaxAge) (
     let c = \<lparr>authority = am_key (ic_authority ctx), verifier_pubkey = verifier_key,
              max_claim_age_seconds = max_age, bump = config_bump\<rparr>
     in Inr (L(am_key (ic_config ctx) \<mapsto> ConfigAccount c))))"

definition submit_claim ::
  "runtime \<Rightarrow> ledger \<Rightarrow> SubmitClaim \<Rightarrow> i64 option \<Rightarrow> ClaimV1_onchain \<Rightarrow> bytes \<Rightarrow> ProgramError + ledger" where
  "submit_claim rt L ctx clock claim cid =
     try_then (ok_or (accounts_SubmitClaim rt L ctx cid) AccountsRejected) (\<lambda>(config, claim_bump).
     try_then (ok_or clock ClockUnavailable) (\<lambda>now.
     try_then (map_err WebProof (validate_claim claim now (max_claim_age_seconds config))) (\<lambda>_.
     try_then (ok_or (rt_try_to_vec rt claim) (WebProof Serialization)) (\<lambda>bytes.
     ensure (cid = rt_hash rt bytes) (WebProof ClaimIdMismatch) (
     try_then (map_err WebProof (verify_preceding_ed25519 (rt_ed25519_id rt) (sc_sysvar ctx)
                 (verifier_pubkey config) (DOMAIN @ bytes))) (\<lambda>_.
     let out = \<lparr>vc_claim_id = cid,
                vc_source_host = source_host claim,
                vc_request_path_hash = request_path_hash claim,
                vc_claim_key = claim_key claim,
                vc_claim_value = claim_value claim,
                vc_issued_at = issued_at claim,
                vc_expires_at = expires_at claim,
                vc_provenance_hash = provenance_hash claim,
                vc_submitted_by = am_key (sc_submitter ctx),
                vc_created_at = now,
                vc_bump = claim_bump\<rparr>
     in ensure (length (rt_account_bytes rt out) \<le> 8 + verified_claim_INIT_SPACE) AccountDidNotSerialize
          (Inr (L(am_key (sc_verified_claim ctx) \<mapsto> ClaimAccount out)))))))))"

section \<open>The transition system\<close>

text \<open>
  A committed transaction either runs one of the two instructions successfully (a failed
  instruction aborts its transaction and leaves the ledger as it was) or belongs to other programs,
  which can neither modify nor create accounts owned by this one.  A transaction runs only when
  the native program has accepted its Ed25519 instructions.  The arguments of \<open>submit_claim\<close> are
  values of their Rust types.
\<close>

inductive ledger_step :: "runtime \<Rightarrow> (bytes \<Rightarrow> bool) \<Rightarrow> ledger \<Rightarrow> ledger \<Rightarrow> bool"
  for rt :: runtime and native_ok :: "bytes \<Rightarrow> bool" where
  init_step: "initialize_config rt L ctx k m = Inr L' \<Longrightarrow> ledger_step rt native_ok L L'"
| submit_step: "submit_claim rt L ctx clock c i = Inr L' \<Longrightarrow>
     native_verified native_ok (rt_ed25519_id rt) (sc_sysvar ctx) \<Longrightarrow>
     claim_typed c \<Longrightarrow> length (am_key (sc_submitter ctx)) = 32 \<Longrightarrow> ledger_step rt native_ok L L'"
| foreign_step: "(\<And>a. L' a \<noteq> L a \<Longrightarrow> L a \<in> {None, Some ForeignAccount} \<and> L' a \<in> {None, Some ForeignAccount}) \<Longrightarrow>
     ledger_step rt native_ok L L'"

inductive reachable :: "runtime \<Rightarrow> (bytes \<Rightarrow> bool) \<Rightarrow> ledger \<Rightarrow> bool"
  for rt :: runtime and native_ok :: "bytes \<Rightarrow> bool" where
  genesis: "(\<And>a. L a \<in> {None, Some ForeignAccount}) \<Longrightarrow> reachable rt native_ok L"
| step: "reachable rt native_ok L \<Longrightarrow> ledger_step rt native_ok L L' \<Longrightarrow> reachable rt native_ok L'"

section \<open>What a successful instruction did\<close>

lemma init_pda_Some:
  "init_pda rt L m seeds r = Some b \<longleftrightarrow>
     rt_find_program_address rt seeds = (am_key m, b) \<and> am_is_writable m \<and> L (am_key m) = None \<and> r"
  by (auto simp: init_pda_def split: prod.splits)

lemma initialize_config_iff:
  "initialize_config rt L ctx k m = Inr L' \<longleftrightarrow>
     (\<exists>b. accounts_InitializeConfig rt L ctx = Some b \<and> 0 < sint m \<and>
        L' = L(am_key (ic_config ctx) \<mapsto> ConfigAccount
               \<lparr>authority = am_key (ic_authority ctx), verifier_pubkey = k, max_claim_age_seconds = m,
                bump = b\<rparr>))"
  by (auto simp: initialize_config_def result_simps Let_def)

lemma accounts_InitializeConfig_Some:
  "accounts_InitializeConfig rt L ctx = Some b \<Longrightarrow>
     rt_find_program_address rt [as_bytes ''config''] = (am_key (ic_config ctx), b) \<and>
     L (am_key (ic_config ctx)) = None"
  by (auto simp: accounts_InitializeConfig_def init_pda_Some split: if_splits)

text \<open>The record a submission stores.\<close>

definition stored_claim :: "SubmitClaim \<Rightarrow> i64 \<Rightarrow> ClaimV1_onchain \<Rightarrow> bytes \<Rightarrow> u8 \<Rightarrow> VerifiedClaim" where
  "stored_claim ctx now claim cid b =
     \<lparr>vc_claim_id = cid, vc_source_host = source_host claim,
      vc_request_path_hash = request_path_hash claim, vc_claim_key = claim_key claim,
      vc_claim_value = claim_value claim, vc_issued_at = issued_at claim,
      vc_expires_at = expires_at claim, vc_provenance_hash = provenance_hash claim,
      vc_submitted_by = am_key (sc_submitter ctx), vc_created_at = now, vc_bump = b\<rparr>"

lemma submit_claim_iff:
  "submit_claim rt L ctx clock c i = Inr L' \<longleftrightarrow>
     (\<exists>config b now bs. accounts_SubmitClaim rt L ctx i = Some (config, b) \<and> clock = Some now \<and>
        validate_claim c now (max_claim_age_seconds config) = Inr () \<and>
        rt_try_to_vec rt c = Some bs \<and> i = rt_hash rt bs \<and>
        verify_preceding_ed25519 (rt_ed25519_id rt) (sc_sysvar ctx) (verifier_pubkey config) (DOMAIN @ bs) = Inr () \<and>
        length (rt_account_bytes rt (stored_claim ctx now c i b)) \<le> 8 + verified_claim_INIT_SPACE \<and>
        L' = L(am_key (sc_verified_claim ctx) \<mapsto> ClaimAccount (stored_claim ctx now c i b)))"
  by (auto simp: submit_claim_def result_simps Let_def stored_claim_def)

lemma accounts_SubmitClaim_Some:
  "accounts_SubmitClaim rt L ctx i = Some (config, b) \<Longrightarrow>
     L (am_key (sc_config ctx)) = Some (ConfigAccount config) \<and>
     rt_find_program_address rt [as_bytes ''claim'', i] = (am_key (sc_verified_claim ctx), b) \<and>
     L (am_key (sc_verified_claim ctx)) = None"
  by (auto simp: accounts_SubmitClaim_def init_pda_Some split: option.splits account.splits if_splits)

section \<open>Accounts are written once\<close>

text \<open>
  The contract of an append-only store: a step keeps every entry that is there.  Immutability
  along whole executions follows.
\<close>

locale write_once =
  fixes step :: "'s \<Rightarrow> 's \<Rightarrow> bool"
    and get :: "'s \<Rightarrow> 'k \<Rightarrow> 'v option"
  assumes step_keeps: "step s t \<Longrightarrow> get s k = Some v \<Longrightarrow> get t k = Some v"
begin

lemma run_keeps: "step\<^sup>*\<^sup>* s t \<Longrightarrow> get s k = Some v \<Longrightarrow> get t k = Some v"
  by (induction rule: rtranclp_induct) (auto dest: step_keeps)

lemma dom_grows: "step\<^sup>*\<^sup>* s t \<Longrightarrow> dom (get s) \<subseteq> dom (get t)"
  by (auto dest: run_keeps)

end

definition program_account :: "ledger \<Rightarrow> Pubkey \<Rightarrow> account option" where
  "program_account L a = (case L a of Some ForeignAccount \<Rightarrow> None | x \<Rightarrow> x)"

lemma program_account_Some:
  "program_account L a = Some x \<longleftrightarrow> L a = Some x \<and> x \<noteq> ForeignAccount"
  by (auto simp: program_account_def split: option.splits account.splits)

lemma foreign_step_same:
  assumes "\<And>a. L' a \<noteq> L a \<Longrightarrow> L a \<in> {None, Some ForeignAccount} \<and> L' a \<in> {None, Some ForeignAccount}"
    and "x \<noteq> ForeignAccount"
  shows "L' a = Some x \<longleftrightarrow> L a = Some x"
  using assms(1) [of a] assms(2) by (cases "L' a = L a") auto

lemma step_keeps_program_account:
  assumes "ledger_step rt native_ok L L'" and "program_account L a = Some x"
  shows "program_account L' a = Some x"
  using assms
proof (cases rule: ledger_step.cases)
  case (init_step ctx k m)
  with assms(2) show ?thesis
    by (auto simp: initialize_config_iff program_account_Some dest!: accounts_InitializeConfig_Some)
next
  case (submit_step ctx clock c i)
  with assms(2) show ?thesis
    by (auto simp: submit_claim_iff program_account_Some dest!: accounts_SubmitClaim_Some)
next
  case foreign_step
  with assms(2) foreign_step_same [of L' L x a] show ?thesis by (simp add: program_account_Some)
qed

interpretation accounts: write_once "ledger_step rt native_ok" program_account for rt native_ok
  by unfold_locales (rule step_keeps_program_account)

section \<open>The ledger invariant\<close>

text \<open>
  Where the accounts of the program came from.  A config account sits at the canonical config
  address and has a positive maximum age.  A claim account sits at the canonical address of its
  identifier, the identifier is the hash of the canonical bytes of a claim with the stored fields,
  that claim passed validation at its creation time under a config on the ledger, and a signature
  of its domain-separated bytes under that config's verifier key was verified.
\<close>

definition config_origin :: "runtime \<Rightarrow> Pubkey \<Rightarrow> WebProofConfig \<Rightarrow> bool" where
  "config_origin rt a cfg \<longleftrightarrow>
     rt_find_program_address rt [as_bytes ''config''] = (a, bump cfg) \<and> 0 < sint (max_claim_age_seconds cfg)"

definition stored_fields :: "ClaimV1 \<Rightarrow> VerifiedClaim \<Rightarrow> bool" where
  "stored_fields c v \<longleftrightarrow>
     vc_source_host v = source_host c \<and> vc_request_path_hash v = request_path_hash c \<and>
     vc_claim_key v = claim_key c \<and> vc_claim_value v = claim_value c \<and>
     vc_issued_at v = issued_at c \<and> vc_expires_at v = expires_at c \<and>
     vc_provenance_hash v = provenance_hash c"

definition claim_origin ::
  "runtime \<Rightarrow> (bytes \<Rightarrow> bytes \<Rightarrow> bytes \<Rightarrow> bool) \<Rightarrow> WebProofConfig \<Rightarrow> Pubkey \<Rightarrow> VerifiedClaim \<Rightarrow> ClaimV1 \<Rightarrow> bool" where
  "claim_origin rt ed_verify cfg a v c \<longleftrightarrow>
     claim_typed c \<and> stored_fields c v \<and> length (vc_submitted_by v) = 32 \<and>
     rt_find_program_address rt [as_bytes ''claim'', vc_claim_id v] = (a, vc_bump v) \<and>
     acceptable c (vc_created_at v) (max_claim_age_seconds cfg) \<and>
     (\<exists>bs sig. rt_try_to_vec rt c = Some bs \<and> vc_claim_id v = rt_hash rt bs \<and>
        ed_verify (verifier_pubkey cfg) (DOMAIN @ bs) sig)"

definition ledger_inv :: "runtime \<Rightarrow> (bytes \<Rightarrow> bytes \<Rightarrow> bytes \<Rightarrow> bool) \<Rightarrow> ledger \<Rightarrow> bool" where
  "ledger_inv rt ed_verify L \<longleftrightarrow>
     (\<forall>a cfg. L a = Some (ConfigAccount cfg) \<longrightarrow> config_origin rt a cfg) \<and>
     (\<forall>a v. L a = Some (ClaimAccount v) \<longrightarrow>
        (\<exists>ca cfg c. L ca = Some (ConfigAccount cfg) \<and> claim_origin rt ed_verify cfg a v c))"

lemma submit_claim_origin:
  assumes "native_ed25519_spec ed_verify native_ok"
    and "native_verified native_ok (rt_ed25519_id rt) (sc_sysvar ctx)"
    and "claim_typed c" and "length (am_key (sc_submitter ctx)) = 32"
    and "submit_claim rt L ctx clock c i = Inr L'"
  obtains cfg v where "L (am_key (sc_config ctx)) = Some (ConfigAccount cfg)"
    and "L (am_key (sc_verified_claim ctx)) = None"
    and "L' = L(am_key (sc_verified_claim ctx) \<mapsto> ClaimAccount v)"
    and "claim_origin rt ed_verify cfg (am_key (sc_verified_claim ctx)) v c"
proof -
  obtain cfg b now bs where acc: "accounts_SubmitClaim rt L ctx i = Some (cfg, b)"
      and val: "validate_claim c now (max_claim_age_seconds cfg) = Inr ()"
      and bs: "rt_try_to_vec rt c = Some bs" "i = rt_hash rt bs"
      and ver: "verify_preceding_ed25519 (rt_ed25519_id rt) (sc_sysvar ctx) (verifier_pubkey cfg) (DOMAIN @ bs) = Inr ()"
      and L': "L' = L(am_key (sc_verified_claim ctx) \<mapsto> ClaimAccount (stored_claim ctx now c i b))"
    using assms(5) unfolding submit_claim_iff by blast
  obtain sig where sig: "ed_verify (verifier_pubkey cfg) (DOMAIN @ bs) sig"
    using verify_preceding_sound [OF assms(1,2) ver] by blast
  have "acceptable c now (max_claim_age_seconds cfg)"
    using val onchain_validator.check_iff [of c now "max_claim_age_seconds cfg"] by simp
  then have "claim_origin rt ed_verify cfg (am_key (sc_verified_claim ctx)) (stored_claim ctx now c i b) c"
    using assms(3,4) bs sig accounts_SubmitClaim_Some [OF acc]
    by (auto simp: claim_origin_def stored_claim_def stored_fields_def)
  with that L' accounts_SubmitClaim_Some [OF acc] show thesis by blast
qed

lemma ledger_inv_update:
  assumes "ledger_inv rt ed_verify L" and "L a = None"
    and "\<And>cfg. x = ConfigAccount cfg \<Longrightarrow> config_origin rt a cfg"
    and "\<And>v. x = ClaimAccount v \<Longrightarrow>
      \<exists>ca cfg c. L ca = Some (ConfigAccount cfg) \<and> claim_origin rt ed_verify cfg a v c"
  shows "ledger_inv rt ed_verify (L(a \<mapsto> x))"
proof -
  have keep: "(L(a \<mapsto> x)) ca = Some (ConfigAccount cfg)" if "L ca = Some (ConfigAccount cfg)" for ca cfg
    using that assms(2) by auto
  show ?thesis
    unfolding ledger_inv_def
  proof (intro conjI allI impI)
    show "config_origin rt d cfg" if "(L(a \<mapsto> x)) d = Some (ConfigAccount cfg)" for d cfg
      using that assms(1,3) by (auto simp: ledger_inv_def split: if_splits)
    show "\<exists>ca cfg c. (L(a \<mapsto> x)) ca = Some (ConfigAccount cfg) \<and> claim_origin rt ed_verify cfg d v c"
      if "(L(a \<mapsto> x)) d = Some (ClaimAccount v)" for d v
    proof -
      have "\<exists>ca cfg c. L ca = Some (ConfigAccount cfg) \<and> claim_origin rt ed_verify cfg d v c"
        using that assms(1,4) by (cases "d = a") (simp_all add: ledger_inv_def)
      then show ?thesis using keep by blast
    qed
  qed
qed

lemma ledger_step_inv:
  assumes spec: "native_ed25519_spec ed_verify native_ok"
    and step: "ledger_step rt native_ok L L'" and inv: "ledger_inv rt ed_verify L"
  shows "ledger_inv rt ed_verify L'"
  using step
proof (cases rule: ledger_step.cases)
  case (init_step ctx k m)
  then show ?thesis
    by (auto simp: initialize_config_iff config_origin_def intro!: ledger_inv_update [OF inv]
        dest: accounts_InitializeConfig_Some)
next
  case (submit_step ctx clock c i)
  obtain cfg v where "L (am_key (sc_config ctx)) = Some (ConfigAccount cfg)"
      "L (am_key (sc_verified_claim ctx)) = None"
      "L' = L(am_key (sc_verified_claim ctx) \<mapsto> ClaimAccount v)"
      "claim_origin rt ed_verify cfg (am_key (sc_verified_claim ctx)) v c"
    by (rule submit_claim_origin [OF spec submit_step(2,3,4,1)])
  then show ?thesis by (auto intro!: ledger_inv_update [OF inv])
next
  case foreign_step
  with inv foreign_step_same [of L' L] show ?thesis by (simp add: ledger_inv_def)
qed

lemma reachable_inv:
  "reachable rt native_ok L \<Longrightarrow> native_ed25519_spec ed_verify native_ok \<Longrightarrow> ledger_inv rt ed_verify L"
proof (induction rule: reachable.induct)
  case (genesis L)
  then have "L a \<noteq> Some (ConfigAccount cfg)" "L a \<noteq> Some (ClaimAccount v)" for a cfg v
    by (metis account.distinct insertE option.distinct(1) option.inject singletonD)+
  then show ?case by (simp add: ledger_inv_def)
next
  case (step L L')
  then show ?case using ledger_step_inv by blast
qed

lemma config_unique:
  assumes "ledger_inv rt ed_verify L" and "L a = Some (ConfigAccount x)" and "L b = Some (ConfigAccount y)"
  shows "a = b" and "x = y"
proof -
  from assms have "config_origin rt a x" "config_origin rt b y" unfolding ledger_inv_def by blast+
  then show "a = b" by (simp add: config_origin_def)
  with assms(2,3) show "x = y" by simp
qed

end
