(* ===== verification/Program_Properties.thy ===== *)
theory Program_Properties
  imports WebProof_Program
begin

text \<open>
  The guarantees of the onchain program, and a small concrete runtime on which their hypotheses
  are checked.
\<close>

section \<open>Submissions whose checks pass\<close>

text \<open>A stored record of an acceptable claim is typed and fits the space of its account.\<close>

lemma stored_claim_typed:
  assumes "claim_typed c" and "acceptable c now m" and "length i = 32" and "length (am_key (sc_submitter ctx)) = 32"
  shows "verified_claim_typed (stored_claim ctx now c i b)" "verified_claim_bounded (stored_claim ctx now c i b)"
  using assms
  by (auto simp: verified_claim_typed_def verified_claim_bounded_def stored_claim_def claim_typed_def
      acceptable_def bounded_fields_def)

lemma stored_claim_fits:
  assumes "sha256_spec h" and "anchor_account_spec h acct_bytes"
    and "verified_claim_typed v" and "verified_claim_bounded v"
  shows "length (acct_bytes v) \<le> 8 + verified_claim_INIT_SPACE"
  using assms fits_verified_fields [OF assms(3,4)]
  by (simp add: anchor_account_spec_def length_discriminator length_enc_verified verified_claim_bounded_def
      verified_claim_INIT_SPACE_def)

text \<open>
  A submission whose every check passes: typed claim, acceptable now, accounts in order, and the
  client library's Ed25519 instruction in front.
\<close>

lemma submit_genuine:
  assumes "sha256_spec (rt_hash rt)" and "borsh_spec (rt_try_to_vec rt)"
    and "anchor_account_spec (rt_hash rt) (rt_account_bytes rt)"
    and "claim_typed c" and "length (am_key (sc_submitter ctx)) = 32"
    and bytes: "rt_try_to_vec rt c = Some bs"
    and acc: "accounts_SubmitClaim rt L ctx (rt_hash rt bs) = Some (cfg, b)"
    and ok: "acceptable c now (max_claim_age_seconds cfg)"
    and "length (verifier_pubkey cfg) = 32" and "length sig = 64"
    and pre: "preceding_ed25519 (rt_ed25519_id rt) (sc_sysvar ctx) =
      Some (ed25519_layout (verifier_pubkey cfg) sig (DOMAIN @ bs))"
  shows "submit_claim rt L ctx (Some now) c (rt_hash rt bs) =
    Inr (L(am_key (sc_verified_claim ctx) \<mapsto> ClaimAccount (stored_claim ctx now c (rt_hash rt bs) b)))"
proof -
  have val: "validate_claim c now (max_claim_age_seconds cfg) = Inr ()"
    using ok onchain_validator.check_iff [of c now "max_claim_age_seconds cfg"] by (auto simp: is_ok_iff)
  then have "encodable c"
    using onchain_validator.accepts_encodable [of c now "max_claim_age_seconds cfg"] assms(4) by simp
  then have "length (DOMAIN @ bs) < 65536"
    using ok bytes borsh_specD [OF assms(2)]
    by (auto simp: length_enc_claim DOMAIN_def acceptable_def bounded_fields_def)
  then have "attests (ed25519_layout (verifier_pubkey cfg) sig (DOMAIN @ bs)) (verifier_pubkey cfg) (DOMAIN @ bs) sig"
    using assms(9,10) by (intro ed25519_layout_attests)
  then have ver: "verify_preceding_ed25519 (rt_ed25519_id rt) (sc_sysvar ctx) (verifier_pubkey cfg) (DOMAIN @ bs) = Inr ()"
    using pre verify_preceding_iff by blast
  have len: "length (rt_hash rt bs) = 32" using assms(1) by (simp add: sha256_spec_def)
  note v = stored_claim_typed [OF assms(4) ok len assms(5), of b]
  show ?thesis
    unfolding submit_claim_iff using acc val bytes ver stored_claim_fits [OF assms(1,3) v] by blast
qed

lemma stored_claim_decodes:
  assumes "sha256_spec h" and "anchor_account_spec h acct_bytes" and "claim_typed c" and "acceptable c now m"
    and "length (am_key (sc_submitter ctx)) = 32"
  shows "decodeVerifiedClaim h (acct_bytes (stored_claim ctx now c (h bs) b) @ pad) = Inr (stored_claim ctx now c (h bs) b)"
proof -
  have "length (h bs) = 32" using assms(1) by (simp add: sha256_spec_def)
  note v = stored_claim_typed [OF assms(3,4) this assms(5), of b]
  show ?thesis using assms(1,2) v by (rule decode_account)
qed

section \<open>A concrete runtime\<close>

text \<open>
  A stand-in for each library function: the digest keeps the first 32 bytes of its input, an
  address is built from its seeds, a signature is a 64-byte tag of key and message.  They satisfy
  the contracts and make every definition of the program computable.
\<close>

definition sample_digest :: "bytes \<Rightarrow> bytes" where
  "sample_digest m = take 32 (m @ replicate 32 0)"

definition sample_address :: "bytes list \<Rightarrow> Pubkey" where
  "sample_address seeds = take 32 (concat seeds @ replicate 32 0)"

definition sample_account_bytes :: "VerifiedClaim \<Rightarrow> bytes" where
  "sample_account_bytes v = verified_claim_discriminator sample_digest @ enc_verified (verified_fields v)"

definition sample_sign :: "bytes \<Rightarrow> bytes \<Rightarrow> bytes" where
  "sample_sign key msg = take 64 (take 32 key @ msg @ replicate 64 0)"

definition sample_verify :: "bytes \<Rightarrow> bytes \<Rightarrow> bytes \<Rightarrow> bool" where
  "sample_verify key msg sig \<longleftrightarrow> sig = sample_sign key msg"

definition sample_native :: "bytes \<Rightarrow> bool" where
  "sample_native d =
     (case (key_of d, message_of d, signature_of d) of
        (Some k, Some m, Some s) \<Rightarrow> sample_verify k m s
      | _ \<Rightarrow> False)"

definition sample_runtime :: runtime where
  "sample_runtime =
     \<lparr>rt_hash = sample_digest, rt_try_to_vec = sdk_to_vec,
      rt_find_program_address = (\<lambda>seeds. (sample_address seeds, 255)),
      rt_create_program_address = (\<lambda>seeds b. Some (sample_address seeds)),
      rt_account_bytes = sample_account_bytes,
      rt_ed25519_id = replicate 32 7, rt_instructions_id = replicate 32 8, rt_system_id = replicate 32 9\<rparr>"

definition sample_key :: bytes where "sample_key = replicate 32 42"

definition sample_meta :: "Pubkey \<Rightarrow> AccountMeta" where
  "sample_meta k = \<lparr>am_key = k, am_is_signer = True, am_is_writable = True\<rparr>"

definition sample_init :: InitializeConfig where
  "sample_init =
     \<lparr>ic_config = sample_meta (sample_address [as_bytes ''config'']), ic_authority = sample_meta (replicate 32 5),
      ic_system_program = sample_meta (replicate 32 9), ic_rent_paid = True\<rparr>"

definition sample_bytes :: bytes where
  "sample_bytes = enc_claim (claim_fields golden_claim)"

definition sample_id :: bytes where
  "sample_id = sample_digest sample_bytes"

text \<open>The transaction that submits the claim with canonical bytes \<open>bs\<close>.\<close>

definition sample_sysvar :: "bytes \<Rightarrow> instructions_sysvar" where
  "sample_sysvar bs =
     \<lparr>current_index = Some 1,
      instruction_at = (\<lambda>n. if n = 0
        then Some \<lparr>ix_program_id = replicate 32 7,
                   ix_data = ed25519_layout sample_key (sample_sign sample_key (DOMAIN @ bs)) (DOMAIN @ bs)\<rparr>
        else None)\<rparr>"

definition sample_submit :: "bytes \<Rightarrow> SubmitClaim" where
  "sample_submit bs =
     \<lparr>sc_config = sample_meta (sample_address [as_bytes ''config'']),
      sc_verified_claim = sample_meta (sample_address [as_bytes ''claim'', sample_digest bs]),
      sc_submitter = sample_meta (replicate 32 6), sc_instructions = sample_meta (replicate 32 8),
      sc_sysvar = sample_sysvar bs, sc_system_program = sample_meta (replicate 32 9), sc_rent_paid = True\<rparr>"

definition sample_config :: WebProofConfig where
  "sample_config =
     \<lparr>authority = replicate 32 5, verifier_pubkey = sample_key, max_claim_age_seconds = 300, bump = 255\<rparr>"

definition empty_ledger :: ledger where "empty_ledger = (\<lambda>_. None)"

definition config_ledger :: ledger where
  "config_ledger = empty_ledger(sample_address [as_bytes ''config''] \<mapsto> ConfigAccount sample_config)"

definition sample_stored :: VerifiedClaim where
  "sample_stored = stored_claim (sample_submit sample_bytes) 1700000010 golden_claim sample_id 255"

definition claim_ledger :: ledger where
  "claim_ledger = config_ledger(sample_address [as_bytes ''claim'', sample_id] \<mapsto> ClaimAccount sample_stored)"

lemmas sample_defs = sample_runtime_def sample_meta_def sample_init_def sample_submit_def

lemma sha256_spec_sample: "sha256_spec sample_digest"
  by (simp add: sha256_spec_def sample_digest_def min_def)

lemma anchor_account_spec_sample: "anchor_account_spec sample_digest sample_account_bytes"
  by (simp add: anchor_account_spec_def sample_account_bytes_def)

lemma native_spec_sample: "native_ed25519_spec sample_verify sample_native"
  by (auto simp: native_ed25519_spec_def sample_native_def attests_def)

lemma golden_acceptable: "acceptable golden_claim 1700000010 300"
  by (simp add: acceptable_def golden_claim_def bounded_fields_def in_window_def)

lemma sample_to_vec: "sdk_to_vec golden_claim = Some sample_bytes"
  using borsh_specD [OF borsh_spec_sdk golden_encodable] by (simp add: sample_bytes_def)

lemma sample_preceding:
  "preceding_ed25519 (replicate 32 7) (sample_sysvar bs) =
     Some (ed25519_layout sample_key (sample_sign sample_key (DOMAIN @ bs)) (DOMAIN @ bs))"
  by (simp add: preceding_ed25519_def sample_sysvar_def)

lemma sample_attests:
  assumes "length bs < 65000"
  shows "attests (ed25519_layout sample_key (sample_sign sample_key (DOMAIN @ bs)) (DOMAIN @ bs))
    sample_key (DOMAIN @ bs) (sample_sign sample_key (DOMAIN @ bs))"
  by (rule ed25519_layout_attests) (use assms in \<open>simp_all add: sample_key_def sample_sign_def DOMAIN_def\<close>)

lemma sample_bytes_short: "length sample_bytes < 65000"
  unfolding sample_bytes_def length_enc_claim [OF golden_encodable] by (simp add: golden_claim_def)

lemma sample_native_verified: "native_verified sample_native (replicate 32 7) (sample_sysvar sample_bytes)"
  using sample_attests [OF sample_bytes_short]
  by (auto simp: native_verified_def sample_sysvar_def sample_native_def sample_verify_def attests_def
      split: if_splits)

lemma config_address_distinct:
  "sample_address [as_bytes ''claim'', x] \<noteq> sample_address [as_bytes ''config'']"
  by (simp add: sample_address_def as_bytes_def)

lemma sample_initialized: "initialize_config sample_runtime empty_ledger sample_init sample_key 300 = Inr config_ledger"
  by (simp add: initialize_config_def accounts_InitializeConfig_def init_pda_def sample_defs
      empty_ledger_def config_ledger_def sample_config_def)

lemma sample_accounts:
  "accounts_SubmitClaim sample_runtime config_ledger (sample_submit bs) (sample_digest bs) = Some (sample_config, 255)"
  using config_address_distinct
  by (simp add: accounts_SubmitClaim_def init_pda_def sample_defs config_ledger_def empty_ledger_def)

text \<open>Any acceptable claim can be submitted on top of the initial config.\<close>

lemma sample_submit_any:
  assumes "encodable c" and "acceptable c now 300" and bs: "bs = enc_claim (claim_fields c)"
  shows "submit_claim sample_runtime config_ledger (sample_submit bs) (Some now) c (sample_digest bs) =
    Inr (config_ledger(sample_address [as_bytes ''claim'', sample_digest bs] \<mapsto>
      ClaimAccount (stored_claim (sample_submit bs) now c (sample_digest bs) 255)))"
proof -
  have vec: "sdk_to_vec c = Some bs" using borsh_specD [OF borsh_spec_sdk assms(1)] bs by simp
  have "submit_claim sample_runtime config_ledger (sample_submit bs) (Some now) c (rt_hash sample_runtime bs) =
    Inr (config_ledger(am_key (sc_verified_claim (sample_submit bs)) \<mapsto>
      ClaimAccount (stored_claim (sample_submit bs) now c (rt_hash sample_runtime bs) 255)))"
    by (rule submit_genuine [where cfg = sample_config and sig = "sample_sign sample_key (DOMAIN @ bs)"])
       (use assms(1,2) vec sha256_spec_sample borsh_spec_sdk anchor_account_spec_sample sample_accounts [of bs]
          sample_preceding [of bs]
        in \<open>simp_all add: sample_defs sample_config_def sample_key_def sample_sign_def encodable_def\<close>)
  then show ?thesis by (simp add: sample_defs)
qed

lemma sample_submitted:
  "submit_claim sample_runtime config_ledger (sample_submit sample_bytes) (Some 1700000010) golden_claim sample_id = Inr claim_ledger"
  using sample_submit_any [OF golden_encodable golden_acceptable sample_bytes_def]
  by (simp add: claim_ledger_def sample_stored_def sample_id_def)

lemma sample_steps:
  "ledger_step sample_runtime sample_native empty_ledger config_ledger"
  "ledger_step sample_runtime sample_native config_ledger claim_ledger"
proof -
  show "ledger_step sample_runtime sample_native empty_ledger config_ledger"
    using sample_initialized by (rule ledger_step.init_step)
  show "ledger_step sample_runtime sample_native config_ledger claim_ledger"
    by (rule ledger_step.submit_step [OF sample_submitted])
       (use sample_native_verified golden_encodable in \<open>simp_all add: sample_defs encodable_def\<close>)
qed

lemma sample_reachable: "reachable sample_runtime sample_native claim_ledger"
proof -
  have "reachable sample_runtime sample_native empty_ledger"
    by (rule reachable.genesis) (simp add: empty_ledger_def)
  then show ?thesis using sample_steps reachable.step by blast
qed

lemma claim_ledger_lookup:
  "claim_ledger (sample_address [as_bytes ''claim'', sample_id]) = Some (ClaimAccount sample_stored)"
  "claim_ledger (sample_address [as_bytes ''config'']) = Some (ConfigAccount sample_config)"
  using config_address_distinct [of sample_id] by (auto simp: claim_ledger_def config_ledger_def)

section \<open>Guarantees\<close>

text \<open>
  C10.  Authenticity of the ledger: in every reachable state, behind every stored claim there is a
  claim with exactly the stored fields that was signed under the verifier key of a config on the
  ledger, whose hash is the stored identifier, which sits at the canonical address of that
  identifier, and which was well-formed and fresh when it was stored.
\<close>

theorem stored_claims_are_authentic:
  assumes "reachable rt native_ok L" and "native_ed25519_spec ed_verify native_ok"
    and "L a = Some (ClaimAccount v)"
  shows "\<exists>ca cfg c bs sig. L ca = Some (ConfigAccount cfg) \<and> claim_typed c \<and> stored_fields c v \<and>
    rt_try_to_vec rt c = Some bs \<and> vc_claim_id v = rt_hash rt bs \<and>
    ed_verify (verifier_pubkey cfg) (DOMAIN @ bs) sig \<and>
    rt_find_program_address rt [as_bytes ''claim'', vc_claim_id v] = (a, vc_bump v) \<and>
    version c = 1 \<and> bounded_fields c \<and>
    in_window c (sint (vc_created_at v)) (sint (max_claim_age_seconds cfg))"
proof -
  from reachable_inv [OF assms(1,2)] assms(3)
  obtain ca cfg c where "L ca = Some (ConfigAccount cfg)" and "claim_origin rt ed_verify cfg a v c"
    unfolding ledger_inv_def by blast
  then show ?thesis unfolding claim_origin_def acceptable_def by blast
qed

theorem stored_claims_are_authentic_witness:
  "\<exists>(cfg :: WebProofConfig) c bs sig. stored_fields c sample_stored \<and> sample_verify (verifier_pubkey cfg) (DOMAIN @ bs) sig \<and>
     vc_claim_id sample_stored = sample_digest bs"
proof -
  obtain cfg :: WebProofConfig and c bs sig where "stored_fields c sample_stored"
      "vc_claim_id sample_stored = rt_hash sample_runtime bs"
      "sample_verify (verifier_pubkey cfg) (DOMAIN @ bs) sig"
    using stored_claims_are_authentic [OF sample_reachable native_spec_sample claim_ledger_lookup(1)]
    by blast
  moreover have "rt_hash sample_runtime = sample_digest" by (simp add: sample_runtime_def)
  ultimately show ?thesis by auto
qed

text \<open>
  C11.  There is a single trust anchor: a reachable ledger holds at most one config account, and
  its maximum claim age is positive.
\<close>

theorem config_is_singleton:
  assumes "reachable rt native_ok L" and "native_ed25519_spec ed_verify native_ok"
    and "L a = Some (ConfigAccount x)" and "L b = Some (ConfigAccount y)"
  shows "a = b \<and> x = y \<and> 0 < sint (max_claim_age_seconds x)"
proof -
  note inv = reachable_inv [OF assms(1,2)]
  from inv assms(3) have "0 < sint (max_claim_age_seconds x)" by (simp add: ledger_inv_def config_origin_def)
  with config_unique [OF inv assms(3,4)] show ?thesis by simp
qed

theorem config_is_singleton_witness:
  "claim_ledger (sample_address [as_bytes ''config'']) = Some (ConfigAccount sample_config) \<and>
   0 < sint (max_claim_age_seconds sample_config)"
  using claim_ledger_lookup(2)
    config_is_singleton [OF sample_reachable native_spec_sample claim_ledger_lookup(2) claim_ledger_lookup(2)]
  by blast

text \<open>
  C12.  Immutability: along every execution a stored claim and the config keep their address and
  their contents.
\<close>

theorem program_accounts_are_immutable:
  assumes "(ledger_step rt native_ok)\<^sup>*\<^sup>* L L'"
  shows "(L a = Some (ClaimAccount v) \<longrightarrow> L' a = Some (ClaimAccount v)) \<and>
    (L a = Some (ConfigAccount cfg) \<longrightarrow> L' a = Some (ConfigAccount cfg))"
  using accounts.run_keeps [OF assms] by (simp add: program_account_Some)

theorem program_accounts_are_immutable_witness:
  "claim_ledger (sample_address [as_bytes ''config'']) = Some (ConfigAccount sample_config)"
proof -
  have "(ledger_step sample_runtime sample_native)\<^sup>*\<^sup>* config_ledger claim_ledger"
    using sample_steps(2) by blast
  moreover have "config_ledger (sample_address [as_bytes ''config'']) = Some (ConfigAccount sample_config)"
    by (simp add: config_ledger_def)
  ultimately show ?thesis using program_accounts_are_immutable by blast
qed

text \<open>
  C13.  Replay protection: once a claim has been stored, every later submission with the same
  identifier is refused, whoever submits it, with whatever accounts, claim, signature and clock.
\<close>

theorem replay_is_rejected:
  assumes "submit_claim rt L ctx clock c i = Inr L'" and "(ledger_step rt native_ok)\<^sup>*\<^sup>* L' L''"
  shows "submit_claim rt L'' ctx' clock' c' i = Inl AccountsRejected"
proof -
  obtain cfg b now where acc: "accounts_SubmitClaim rt L ctx i = Some (cfg, b)"
      and L': "L' = L(am_key (sc_verified_claim ctx) \<mapsto> ClaimAccount (stored_claim ctx now c i b))"
    using assms(1) unfolding submit_claim_iff by blast
  let ?a = "am_key (sc_verified_claim ctx)"
  have "program_account L'' ?a = Some (ClaimAccount (stored_claim ctx now c i b))"
    by (rule accounts.run_keeps [OF assms(2)]) (simp add: L' program_account_Some)
  then have "L'' ?a \<noteq> None" by (simp add: program_account_Some)
  moreover have "fst (rt_find_program_address rt [as_bytes ''claim'', i]) = ?a"
    using accounts_SubmitClaim_Some [OF acc] by simp
  ultimately have "accounts_SubmitClaim rt L'' ctx' i = None"
    by (auto simp: accounts_SubmitClaim_def init_pda_def split: option.splits account.splits prod.splits)
  then show ?thesis by (simp add: submit_claim_def)
qed

theorem replay_is_rejected_witness:
  "submit_claim sample_runtime claim_ledger (sample_submit sample_bytes) (Some 1700000011) golden_claim sample_id = Inl AccountsRejected"
  using replay_is_rejected [OF sample_submitted, of sample_native claim_ledger] by blast

text \<open>
  The config cannot be replaced: \<open>initialize_config\<close> refuses a non-positive age, and after it
  succeeded once every further call is refused.
\<close>

lemma config_initialized_once:
  assumes "initialize_config rt L ctx k m = Inr L'" and "(ledger_step rt native_ok)\<^sup>*\<^sup>* L' L''"
  shows "0 < sint m \<and> initialize_config rt L'' ctx' k' m' = Inl AccountsRejected"
proof -
  obtain b where acc: "accounts_InitializeConfig rt L ctx = Some b" and pos: "0 < sint m"
      and L': "L' = L(am_key (ic_config ctx) \<mapsto> ConfigAccount
            \<lparr>authority = am_key (ic_authority ctx), verifier_pubkey = k, max_claim_age_seconds = m, bump = b\<rparr>)"
    using assms(1) unfolding initialize_config_iff by blast
  let ?a = "am_key (ic_config ctx)"
  have "program_account L' ?a \<noteq> None" by (simp add: L' program_account_def)
  then have "L'' ?a \<noteq> None"
    using accounts.dom_grows [OF assms(2)] by (fastforce simp: program_account_Some)
  moreover have "fst (rt_find_program_address rt [as_bytes ''config'']) = ?a"
    using accounts_InitializeConfig_Some [OF acc] by simp
  ultimately have "accounts_InitializeConfig rt L'' ctx' = None"
    by (auto simp: accounts_InitializeConfig_def init_pda_def split: prod.splits)
  with pos show ?thesis by (simp add: initialize_config_def)
qed

lemma config_initialized_once_instance:
  "initialize_config sample_runtime claim_ledger sample_init (replicate 32 66) 300 = Inl AccountsRejected"
proof -
  have "(ledger_step sample_runtime sample_native)\<^sup>*\<^sup>* config_ledger claim_ledger"
    using sample_steps(2) by blast
  with config_initialized_once [OF sample_initialized] show ?thesis by blast
qed

text \<open>
  C15.  Effect and frame of a successful submission: it creates one account, the canonical claim
  address, which was empty, fills it with the submitted fields, the identifier, the submitter and
  the clock, and touches nothing else.
\<close>

theorem submit_claim_effect:
  assumes "submit_claim rt L ctx clock c i = Inr L'"
  shows "\<exists>a b now. rt_find_program_address rt [as_bytes ''claim'', i] = (a, b) \<and> clock = Some now \<and>
    L a = None \<and> (\<forall>x. x \<noteq> a \<longrightarrow> L' x = L x) \<and>
    (\<exists>v. L' a = Some (ClaimAccount v) \<and> stored_fields c v \<and> vc_claim_id v = i \<and>
       vc_submitted_by v = am_key (sc_submitter ctx) \<and> vc_created_at v = now \<and> vc_bump v = b)"
proof -
  obtain cfg b now where acc: "accounts_SubmitClaim rt L ctx i = Some (cfg, b)" and "clock = Some now"
      and "L' = L(am_key (sc_verified_claim ctx) \<mapsto> ClaimAccount (stored_claim ctx now c i b))"
    using assms unfolding submit_claim_iff by blast
  with accounts_SubmitClaim_Some [OF acc] show ?thesis
    by (auto simp: stored_claim_def stored_fields_def)
qed

theorem submit_claim_effect_witness:
  "\<exists>v. claim_ledger (sample_address [as_bytes ''claim'', sample_id]) = Some (ClaimAccount v) \<and>
     stored_fields golden_claim v \<and> vc_created_at v = 1700000010"
  using submit_claim_effect [OF sample_submitted] by (auto simp: sample_runtime_def)

text \<open>
  C16.  The identifier commits to the whole signed claim, the nonce included: behind every stored
  account there is one claim \<open>c\<close> with the stored fields whose domain-separated canonical bytes carry
  a verified signature under the verifier key of the config on the ledger, whose hash is the stored
  identifier, and such that every claim with that identifier is \<open>c\<close> itself unless its canonical
  bytes and those of \<open>c\<close> are an explicit collision of the hash function.
\<close>

theorem stored_id_commits_to_claim:
  assumes "reachable rt native_ok L" and "native_ed25519_spec ed_verify native_ok"
    and "borsh_spec (rt_try_to_vec rt)" and "L a = Some (ClaimAccount v)"
  shows "\<exists>ca cfg c bs sig. L ca = Some (ConfigAccount cfg) \<and> stored_fields c v \<and> encodable c \<and>
    rt_try_to_vec rt c = Some bs \<and> vc_claim_id v = rt_hash rt bs \<and>
    ed_verify (verifier_pubkey cfg) (DOMAIN @ bs) sig \<and>
    (\<forall>d bd. encodable d \<and> rt_try_to_vec rt d = Some bd \<and> rt_hash rt bd = vc_claim_id v \<longrightarrow>
       d = c \<or> bd \<noteq> bs \<and> rt_hash rt bd = rt_hash rt bs)"
proof -
  from reachable_inv [OF assms(1,2)] assms(4) obtain ca cfg c where cfg: "L ca = Some (ConfigAccount cfg)"
      and "claim_origin rt ed_verify cfg a v c"
    unfolding ledger_inv_def by blast
  then obtain bs sig where c: "claim_typed c" "stored_fields c v" "acceptable c (vc_created_at v) (max_claim_age_seconds cfg)"
      and bs: "rt_try_to_vec rt c = Some bs" "vc_claim_id v = rt_hash rt bs"
      and sig: "ed_verify (verifier_pubkey cfg) (DOMAIN @ bs) sig"
    unfolding claim_origin_def by blast
  have enc: "encodable c"
    using c(1,3) onchain_validator.accepts_encodable onchain_validator.check_iff by blast
  have unique: "d = c \<or> bd \<noteq> bs" if "encodable d" and "rt_try_to_vec rt d = Some bd" for d bd
    using that enc bs(1) borsh_specD [OF assms(3)]
      claim_layout.enc_inject [OF fits_claim_fields fits_claim_fields, of d c] by auto
  from unique bs(2) have "\<forall>d bd. encodable d \<and> rt_try_to_vec rt d = Some bd \<and> rt_hash rt bd = vc_claim_id v \<longrightarrow>
      d = c \<or> bd \<noteq> bs \<and> rt_hash rt bd = rt_hash rt bs" by metis
  with cfg c(2) enc bs sig show ?thesis by blast
qed

theorem stored_id_commits_to_claim_witness:
  "\<exists>c bs sig. stored_fields c sample_stored \<and> sdk_to_vec c = Some bs \<and>
     sample_verify sample_key (DOMAIN @ bs) sig \<and>
     (golden_claim = c \<or> sample_bytes \<noteq> bs \<and> sample_digest sample_bytes = sample_digest bs)"
proof -
  have id: "rt_hash sample_runtime sample_bytes = vc_claim_id sample_stored"
    by (simp add: sample_runtime_def sample_stored_def stored_claim_def sample_id_def)
  have spec: "borsh_spec (rt_try_to_vec sample_runtime)"
    and enc: "rt_try_to_vec sample_runtime golden_claim = Some sample_bytes"
    using borsh_spec_sdk sample_to_vec by (simp_all add: sample_runtime_def)
  obtain ca cfg c bs sig where cfg: "claim_ledger ca = Some (ConfigAccount cfg)"
      and c: "stored_fields c sample_stored" "rt_try_to_vec sample_runtime c = Some bs"
      and sig: "sample_verify (verifier_pubkey cfg) (DOMAIN @ bs) sig"
      and d: "golden_claim = c \<or> sample_bytes \<noteq> bs \<and> rt_hash sample_runtime sample_bytes = rt_hash sample_runtime bs"
    using stored_id_commits_to_claim [OF sample_reachable native_spec_sample spec claim_ledger_lookup(1)]
      golden_encodable enc id by blast
  from cfg have "cfg = sample_config"
    by (auto simp: claim_ledger_def config_ledger_def empty_ledger_def split: if_splits)
  with c sig d show ?thesis by (auto simp: sample_runtime_def sample_config_def)
qed

text \<open>
  C17.  The program's internal failures are unreachable: for a claim of its Rust type, once the
  accounts are accepted the serializer does not fail and the stored record never exceeds the
  account space computed from the \<open>max_len\<close> attributes; a submission is refused only for the
  accounts, the clock, the claim's own validity, its identifier or its signature.
\<close>

theorem submit_claim_no_internal_failure:
  assumes "sha256_spec (rt_hash rt)" and "borsh_spec (rt_try_to_vec rt)"
    and "anchor_account_spec (rt_hash rt) (rt_account_bytes rt)"
    and "claim_typed c" and "length (am_key (sc_submitter ctx)) = 32"
  shows "submit_claim rt L ctx clock c i \<notin> {Inl (WebProof Serialization), Inl AccountDidNotSerialize}"
proof -
  have fits: "\<not> 8 + verified_claim_INIT_SPACE < length (rt_account_bytes rt (stored_claim ctx now c (rt_hash rt bs) b))"
    if "validate_claim c now m = Inr ()" for now m b bs
  proof -
    from that have "acceptable c now m" using onchain_validator.check_iff [of c now m] by simp
    moreover have "length (rt_hash rt bs) = 32" using assms(1) by (simp add: sha256_spec_def)
    ultimately show ?thesis
      using stored_claim_fits [OF assms(1,3)] stored_claim_typed [OF assms(4)] assms(5) not_less by blast
  qed
  have ser: "rt_try_to_vec rt c \<noteq> None" if "validate_claim c now m = Inr ()" for now m
    using that assms(2,4) onchain_validator.accepts_encodable [of c now m] by (auto simp: borsh_specD)
  have no_ser: "validate_claim c now m \<noteq> Inl Serialization" for now m
    by (simp add: validate_claim_def ensure_def)
  have no_ser': "verify_preceding_ed25519 e s k m \<noteq> Inl Serialization" for e s k m
    by (cases "preceding_ed25519 e s") (simp_all add: verify_preceding_None verify_preceding_Some ensure_def)
  show ?thesis
    using fits ser no_ser no_ser'
    by (auto simp: submit_claim_def result_simps Let_def not_le simp flip: stored_claim_def)
qed

theorem submit_claim_no_internal_failure_witness:
  "submit_claim sample_runtime config_ledger (sample_submit sample_bytes) None golden_claim sample_id
     \<notin> {Inl (WebProof Serialization), Inl AccountDidNotSerialize}"
  by (rule submit_claim_no_internal_failure)
     (use sha256_spec_sample borsh_spec_sdk anchor_account_spec_sample golden_encodable
       in \<open>simp_all add: sample_defs encodable_def\<close>)

text \<open>
  A genuine claim gets through: if the accounts are in order, the claim is acceptable at the
  current time and the preceding instruction is the client library's Ed25519 instruction over the
  domain-separated canonical bytes under the configured key, then the submission succeeds, and
  decoding the new account with the SDK returns exactly the stored claim.
\<close>

lemma genuine_claim_is_stored:
  assumes "sha256_spec (rt_hash rt)" and "borsh_spec (rt_try_to_vec rt)"
    and "anchor_account_spec (rt_hash rt) (rt_account_bytes rt)"
    and "claim_typed c" and "length (am_key (sc_submitter ctx)) = 32"
    and bytes: "rt_try_to_vec rt c = Some bs"
    and acc: "accounts_SubmitClaim rt L ctx (rt_hash rt bs) = Some (cfg, b)"
    and ok: "acceptable c now (max_claim_age_seconds cfg)"
    and "length (verifier_pubkey cfg) = 32" and "length sig = 64"
    and pre: "preceding_ed25519 (rt_ed25519_id rt) (sc_sysvar ctx) =
      Some (ed25519_layout (verifier_pubkey cfg) sig (DOMAIN @ bs))"
  shows "\<exists>L' v. submit_claim rt L ctx (Some now) c (rt_hash rt bs) = Inr L' \<and>
    L' (am_key (sc_verified_claim ctx)) = Some (ClaimAccount v) \<and> stored_fields c v \<and>
    decodeVerifiedClaim (rt_hash rt) (rt_account_bytes rt v @ pad) = Inr v"
proof -
  have "stored_fields c (stored_claim ctx now c (rt_hash rt bs) b)"
    by (simp add: stored_fields_def stored_claim_def)
  with submit_genuine [OF assms] stored_claim_decodes [OF assms(1,3,4) ok assms(5)] show ?thesis
    by (intro exI conjI) (assumption, simp_all)
qed

lemma genuine_claim_is_stored_instance:
  "\<exists>L' v. submit_claim sample_runtime config_ledger (sample_submit sample_bytes) (Some 1700000010) golden_claim
       (sample_digest sample_bytes) = Inr L' \<and> stored_fields golden_claim v \<and>
     decodeVerifiedClaim sample_digest (sample_account_bytes v @ [0, 0, 0]) = Inr v"
proof -
  have acc: "accounts_SubmitClaim sample_runtime config_ledger (sample_submit sample_bytes) (rt_hash sample_runtime sample_bytes)
      = Some (sample_config, 255)"
    using sample_accounts [of sample_bytes] by (simp add: sample_runtime_def)
  have "\<exists>L' v. submit_claim sample_runtime config_ledger (sample_submit sample_bytes) (Some 1700000010) golden_claim
        (rt_hash sample_runtime sample_bytes) = Inr L' \<and>
      L' (am_key (sc_verified_claim (sample_submit sample_bytes))) = Some (ClaimAccount v) \<and> stored_fields golden_claim v \<and>
      decodeVerifiedClaim (rt_hash sample_runtime) (rt_account_bytes sample_runtime v @ [0, 0, 0]) = Inr v"
    by (rule genuine_claim_is_stored [OF _ _ _ _ _ _ acc,
          where sig = "sample_sign sample_key (DOMAIN @ sample_bytes)"])
       (use sha256_spec_sample borsh_spec_sdk anchor_account_spec_sample golden_encodable golden_acceptable
          sample_to_vec sample_preceding [of sample_bytes]
         in \<open>simp_all add: sample_defs encodable_def sample_config_def sample_key_def sample_sign_def\<close>)
  then show ?thesis by (auto simp: sample_runtime_def)
qed

section \<open>Stored values are values of their types\<close>

lemma claim_origin_typed:
  assumes "claim_origin rt ed_verify cfg a v c" and "sha256_spec (rt_hash rt)"
  shows "verified_claim_typed v" and "verified_claim_bounded v"
  using assms
  by (auto simp: claim_origin_def stored_fields_def verified_claim_typed_def verified_claim_bounded_def
      claim_typed_def acceptable_def bounded_fields_def sha256_spec_def)

lemma reachable_claim_typed:
  assumes "reachable rt native_ok L" and "native_ed25519_spec ed_verify native_ok"
    and "sha256_spec (rt_hash rt)" and "L a = Some (ClaimAccount v)"
  shows "verified_claim_typed v" and "verified_claim_bounded v"
proof -
  from reachable_inv [OF assms(1,2)] assms(4) obtain cfg c where "claim_origin rt ed_verify cfg a v c"
    unfolding ledger_inv_def by blast
  from claim_origin_typed [OF this assms(3)] show "verified_claim_typed v" "verified_claim_bounded v" by simp_all
qed

text \<open>
  C37.  Type safety of the account data: on every reachable ledger each claim account holds a value of
  the Rust type (32-byte arrays, UTF-8 strings) with non-empty fields within their limits and an
  expiry after the issue time; its bytes fit the allocated space, and whatever padding follows them
  they decode, with the SDK, to exactly that value.
\<close>

theorem stored_claims_are_typed:
  assumes "reachable rt native_ok L" and "native_ed25519_spec ed_verify native_ok"
    and "sha256_spec (rt_hash rt)" and "anchor_account_spec (rt_hash rt) (rt_account_bytes rt)"
    and "L a = Some (ClaimAccount v)"
  shows "verified_claim_typed v \<and>
    vc_source_host v \<noteq> [] \<and> vc_claim_key v \<noteq> [] \<and> vc_claim_value v \<noteq> [] \<and>
    length (vc_source_host v) \<le> 128 \<and> length (vc_claim_key v) \<le> 128 \<and> length (vc_claim_value v) \<le> 256 \<and>
    sint (vc_issued_at v) < sint (vc_expires_at v) \<and>
    length (rt_account_bytes rt v) \<le> 8 + verified_claim_INIT_SPACE \<and>
    decodeVerifiedClaim (rt_hash rt) (rt_account_bytes rt v @ pad) = Inr v"
proof -
  from reachable_inv [OF assms(1,2)] assms(5) obtain cfg c where orig: "claim_origin rt ed_verify cfg a v c"
    unfolding ledger_inv_def by blast
  note t = claim_origin_typed [OF orig assms(3)]
  have "vc_source_host v \<noteq> [] \<and> vc_claim_key v \<noteq> [] \<and> vc_claim_value v \<noteq> [] \<and>
      sint (vc_issued_at v) < sint (vc_expires_at v)"
    using orig by (auto simp: claim_origin_def stored_fields_def acceptable_def bounded_fields_def in_window_def)
  with t stored_claim_fits [OF assms(3,4) t] decode_account [OF assms(3,4) t] show ?thesis
    by (simp add: verified_claim_bounded_def)
qed

theorem stored_claims_are_typed_witness:
  "verified_claim_typed sample_stored \<and>
   decodeVerifiedClaim sample_digest (sample_account_bytes sample_stored @ [0]) = Inr sample_stored"
  using stored_claims_are_typed [OF sample_reachable native_spec_sample _ _ claim_ledger_lookup(1), of "[0]"]
    sha256_spec_sample anchor_account_spec_sample
  by (simp add: sample_runtime_def)

section \<open>Concrete instances for the encodings and the checks\<close>

lemma sample_stored_ok: "verified_claim_typed sample_stored" "verified_claim_bounded sample_stored"
  unfolding sample_stored_def
  by (rule stored_claim_typed [OF _ golden_acceptable];
      use golden_encodable in \<open>simp add: encodable_def sample_id_def sample_digest_def sample_defs\<close>)+

theorem decodeVerifiedClaim_roundtrip_witness:
  "decodeVerifiedClaim sample_digest (sample_account_bytes sample_stored @ [0, 0]) = Inr sample_stored"
  using decodeVerifiedClaim_roundtrip [OF sha256_spec_sample anchor_account_spec_sample sample_stored_ok]
  by blast

theorem validate_claim_freshness_witness:
  "validate_claim golden_claim 1700000300 300 = Inr () \<and>
   validate_claim golden_claim 1700000301 300 = Inl WebProofError.Expired \<and>
   validate_claim golden_claim 1699999969 300 = Inl WebProofError.Future \<and>
   validate_claim golden_claim 1700000101 100 = Inl WebProofError.TooOld \<and>
   validate_claim golden_claim 1800000000 100 \<in> {Inl WebProofError.Expired, Inl WebProofError.TooOld} \<and>
   \<not> is_ok (validate_claim (golden_claim\<lparr>version := 2\<rparr>) 1700000300 300)"
proof -
  have "version golden_claim = 1 \<and> bounded_fields golden_claim \<and>
      sint (issued_at golden_claim) < sint (expires_at golden_claim)"
    by (simp add: golden_claim_def bounded_fields_def)
  with validate_claim_freshness [of golden_claim]
  have v: "validate_claim golden_claim t m =
      (if 1700000300 < sint t then Inl WebProofError.Expired
       else if sint t + 30 < 1700000000 then Inl WebProofError.Future
       else if sint m < sint t - 1700000000 \<and> sint m \<noteq> I64_MAX then Inl WebProofError.TooOld
       else Inr ())" for t m
    by (auto simp: golden_claim_def)
  moreover have "validate_claim golden_claim 1800000000 100 \<in> {Inl WebProofError.Expired, Inl WebProofError.TooOld}"
    using validate_claim_freshness [of golden_claim 1700000101 100 1800000000] by (simp add: v i64_bounds)
  moreover have "\<not> is_ok (validate_claim (golden_claim\<lparr>version := 2\<rparr>) 1700000300 300)"
    using validate_claim_freshness [of "golden_claim\<lparr>version := 2\<rparr>"] by simp
  ultimately show ?thesis by (simp add: i64_bounds)
qed

theorem verify_preceding_ed25519_authentic_witness:
  "\<exists>sig. length sig = 64 \<and> sample_verify sample_key (DOMAIN @ sample_bytes) sig"
proof -
  have "verify_preceding_ed25519 (replicate 32 7) (sample_sysvar sample_bytes) sample_key (DOMAIN @ sample_bytes) = Inr ()"
    using sample_preceding sample_attests [OF sample_bytes_short] verify_preceding_iff by blast
  with verify_preceding_ed25519_authentic [OF native_spec_sample sample_native_verified] show ?thesis by blast
qed

end
