(* ===== verification/Claim_Registry.thy ===== *)
theory Claim_Registry
  imports Program_Properties
begin

text \<open>
  What the onchain program promises, without accounts, derived addresses or instruction
  introspection: a registry with one configuration and a map from identifiers to entries, which only
  grows.  The ledger of the program refines it: every committed transaction is a step of the registry
  or invisible in it.
\<close>

section \<open>Refinement maps\<close>

text \<open>
  A concrete system refines an abstract one under \<open>abs\<close> if, on states with the invariant, each of its
  steps is an abstract step or leaves the abstract state as it is.
\<close>

locale refinement_map =
  fixes cstep :: "'c \<Rightarrow> 'c \<Rightarrow> bool"
    and astep :: "'a \<Rightarrow> 'a \<Rightarrow> bool"
    and abs :: "'c \<Rightarrow> 'a"
    and inv :: "'c \<Rightarrow> bool"
  assumes inv_step: "inv s \<Longrightarrow> cstep s t \<Longrightarrow> inv t"
    and sim_step: "inv s \<Longrightarrow> cstep s t \<Longrightarrow> abs t = abs s \<or> astep (abs s) (abs t)"
begin

lemma sim_run: "cstep\<^sup>*\<^sup>* s t \<Longrightarrow> inv s \<Longrightarrow> astep\<^sup>*\<^sup>* (abs s) (abs t) \<and> inv t"
proof (induction rule: rtranclp_induct)
  case (step t u)
  then have "astep\<^sup>*\<^sup>* (abs s) (abs t)" "inv t" by simp_all
  with step.hyps(2) show ?case
    using inv_step sim_step [of t u] by (auto intro: rtranclp.rtrancl_into_rtrancl)
qed simp

text \<open>What every abstract step keeps holds along concrete runs.\<close>

lemma transfer_stable:
  assumes "\<And>x y. astep x y \<Longrightarrow> P x \<Longrightarrow> P y" and "cstep\<^sup>*\<^sup>* s t" and "inv s" and "P (abs s)"
  shows "P (abs t)"
proof -
  have "astep\<^sup>*\<^sup>* (abs s) (abs t)" using sim_run [OF assms(2,3)] by simp
  then show ?thesis using assms(4) by (induction rule: rtranclp_induct) (auto dest: assms(1))
qed

end

section \<open>The registry\<close>

record entry =
  en_source_host :: string
  en_request_path_hash :: bytes
  en_claim_key :: string
  en_claim_value :: string
  en_issued_at :: i64
  en_expires_at :: i64
  en_provenance_hash :: bytes
  en_submitted_by :: Pubkey
  en_created_at :: i64

definition entry_for :: "ClaimV1 \<Rightarrow> Pubkey \<Rightarrow> i64 \<Rightarrow> entry" where
  "entry_for c submitter now =
     \<lparr>en_source_host = source_host c, en_request_path_hash = request_path_hash c, en_claim_key = claim_key c,
      en_claim_value = claim_value c, en_issued_at = issued_at c, en_expires_at = expires_at c,
      en_provenance_hash = provenance_hash c, en_submitted_by = submitter, en_created_at = now\<rparr>"

record registry =
  rg_config :: "(bytes \<times> i64) option" \<comment> \<open>the trusted key and the maximum age\<close>
  rg_claims :: "bytes \<rightharpoonup> entry"

text \<open>
  The parameters are the identifier of a claim (if it can be encoded), its message and the signature
  check.  A claim is recorded once, if it is acceptable at that moment and signed by the trusted key.
\<close>

inductive registry_step ::
  "(ClaimV1 \<Rightarrow> bytes option) \<Rightarrow> (ClaimV1 \<Rightarrow> bytes option) \<Rightarrow> (bytes \<Rightarrow> bytes \<Rightarrow> bytes \<Rightarrow> bool) \<Rightarrow> registry \<Rightarrow> registry \<Rightarrow> bool"
  for identify message :: "ClaimV1 \<Rightarrow> bytes option" and sig_ok :: "bytes \<Rightarrow> bytes \<Rightarrow> bytes \<Rightarrow> bool" where
  open_registry: "rg_config R = None \<Longrightarrow> 0 < sint age \<Longrightarrow>
     registry_step identify message sig_ok R (R\<lparr>rg_config := Some (key, age)\<rparr>)"
| record_claim: "rg_config R = Some (key, age) \<Longrightarrow> claim_typed c \<Longrightarrow> acceptable c now age \<Longrightarrow>
     identify c = Some i \<Longrightarrow> rg_claims R i = None \<Longrightarrow> message c = Some m \<Longrightarrow> sig_ok key m sig \<Longrightarrow>
     registry_step identify message sig_ok R (R\<lparr>rg_claims := (rg_claims R)(i \<mapsto> entry_for c submitter now)\<rparr>)"

inductive_cases registry_stepE: "registry_step identify message sig_ok R R'"

definition empty_registry :: registry where
  "empty_registry = \<lparr>rg_config = None, rg_claims = Map.empty\<rparr>"

section \<open>The ledger as a registry\<close>

definition entry_of :: "VerifiedClaim \<Rightarrow> entry" where
  "entry_of v =
     \<lparr>en_source_host = vc_source_host v, en_request_path_hash = vc_request_path_hash v, en_claim_key = vc_claim_key v,
      en_claim_value = vc_claim_value v, en_issued_at = vc_issued_at v, en_expires_at = vc_expires_at v,
      en_provenance_hash = vc_provenance_hash v, en_submitted_by = vc_submitted_by v, en_created_at = vc_created_at v\<rparr>"

definition config_address :: "runtime \<Rightarrow> Pubkey" where
  "config_address rt = fst (rt_find_program_address rt [as_bytes ''config''])"

definition claim_address :: "runtime \<Rightarrow> bytes \<Rightarrow> Pubkey" where
  "claim_address rt i = fst (rt_find_program_address rt [as_bytes ''claim'', i])"

definition claim_at :: "runtime \<Rightarrow> ledger \<Rightarrow> bytes \<Rightarrow> VerifiedClaim option" where
  "claim_at rt L i =
     (case L (claim_address rt i) of Some (ClaimAccount v) \<Rightarrow> if vc_claim_id v = i then Some v else None | _ \<Rightarrow> None)"

definition registry_of :: "runtime \<Rightarrow> ledger \<Rightarrow> registry" where
  "registry_of rt L =
     \<lparr>rg_config = (case L (config_address rt) of
        Some (ConfigAccount cfg) \<Rightarrow> Some (verifier_pubkey cfg, max_claim_age_seconds cfg) | _ \<Rightarrow> None),
      rg_claims = map_option entry_of \<circ> claim_at rt L\<rparr>"

definition program_identify :: "runtime \<Rightarrow> ClaimV1 \<Rightarrow> bytes option" where
  "program_identify rt c = map_option (rt_hash rt) (rt_try_to_vec rt c)"

definition program_message :: "runtime \<Rightarrow> ClaimV1 \<Rightarrow> bytes option" where
  "program_message rt c = map_option ((@) DOMAIN) (rt_try_to_vec rt c)"

abbreviation (input) spec_step :: "runtime \<Rightarrow> (bytes \<Rightarrow> bytes \<Rightarrow> bytes \<Rightarrow> bool) \<Rightarrow> registry \<Rightarrow> registry \<Rightarrow> bool" where
  "spec_step rt ed_verify \<equiv> registry_step (program_identify rt) (program_message rt) ed_verify"

section \<open>Each instruction is a step of the registry\<close>

lemma init_refines:
  assumes "initialize_config rt L ctx k m = Inr L'"
  shows "spec_step rt ed_verify (registry_of rt L) (registry_of rt L')"
proof -
  obtain b where acc: "accounts_InitializeConfig rt L ctx = Some b" and m: "0 < sint m"
      and L': "L' = L(am_key (ic_config ctx) \<mapsto> ConfigAccount
        \<lparr>authority = am_key (ic_authority ctx), verifier_pubkey = k, max_claim_age_seconds = m, bump = b\<rparr>)"
    using assms unfolding initialize_config_iff by blast
  have a: "am_key (ic_config ctx) = config_address rt" "L (config_address rt) = None"
    using accounts_InitializeConfig_Some [OF acc] by (simp_all add: config_address_def)
  have "claim_at rt L' i = claim_at rt L i" for i
    using a by (simp add: claim_at_def L')
  then have "registry_of rt L' = (registry_of rt L)\<lparr>rg_config := Some (k, m)\<rparr>"
    using a(1) by (simp add: registry_of_def fun_eq_iff) (simp add: L')
  moreover have "rg_config (registry_of rt L) = None" using a(2) by (simp add: registry_of_def)
  ultimately show ?thesis using m by (simp add: registry_step.open_registry)
qed

lemma submit_refines:
  assumes inv: "ledger_inv rt ed_verify L" and "native_ed25519_spec ed_verify native_ok"
    and run: "submit_claim rt L ctx clock c i = Inr L'"
    and "native_verified native_ok (rt_ed25519_id rt) (sc_sysvar ctx)" and "claim_typed c"
  shows "spec_step rt ed_verify (registry_of rt L) (registry_of rt L')"
proof -
  obtain cfg b now bs where acc: "accounts_SubmitClaim rt L ctx i = Some (cfg, b)"
      and ok: "validate_claim c now (max_claim_age_seconds cfg) = Inr ()"
      and bs: "rt_try_to_vec rt c = Some bs" "i = rt_hash rt bs"
      and ver: "verify_preceding_ed25519 (rt_ed25519_id rt) (sc_sysvar ctx) (verifier_pubkey cfg) (DOMAIN @ bs) = Inr ()"
      and L': "L' = L(am_key (sc_verified_claim ctx) \<mapsto> ClaimAccount (stored_claim ctx now c i b))"
    using run unfolding submit_claim_iff by blast
  note a = accounts_SubmitClaim_Some [OF acc]
  have cfg: "L (config_address rt) = Some (ConfigAccount cfg)"
    using a inv by (auto simp: ledger_inv_def config_origin_def config_address_def)
  have addr: "am_key (sc_verified_claim ctx) = claim_address rt i" using a by (simp add: claim_address_def)
  have "claim_at rt L' = (claim_at rt L)(i \<mapsto> stored_claim ctx now c i b)"
    using a addr by (auto simp: claim_at_def L' fun_eq_iff stored_claim_def)
  moreover have "entry_of (stored_claim ctx now c i b) = entry_for c (am_key (sc_submitter ctx)) now"
    by (simp add: entry_of_def entry_for_def stored_claim_def)
  moreover have "L' (config_address rt) = L (config_address rt)" using a cfg by (auto simp: L')
  ultimately have R: "registry_of rt L' = (registry_of rt L)
      \<lparr>rg_claims := (rg_claims (registry_of rt L))(i \<mapsto> entry_for c (am_key (sc_submitter ctx)) now)\<rparr>"
    by (simp add: registry_of_def fun_eq_iff)
  obtain sig where sig: "ed_verify (verifier_pubkey cfg) (DOMAIN @ bs) sig"
    using verify_preceding_sound [OF assms(2,4) ver] by blast
  show ?thesis
    unfolding R
  proof (rule registry_step.record_claim)
    show "rg_config (registry_of rt L) = Some (verifier_pubkey cfg, max_claim_age_seconds cfg)"
      using cfg by (simp add: registry_of_def)
    show "acceptable c now (max_claim_age_seconds cfg)"
      using ok onchain_validator.check_iff [of c now "max_claim_age_seconds cfg"] by simp
    show "rg_claims (registry_of rt L) i = None"
      using a addr by (simp add: registry_of_def claim_at_def)
    show "ed_verify (verifier_pubkey cfg) (DOMAIN @ bs) sig" by (rule sig)
  qed (use bs assms(5) in \<open>simp_all add: program_identify_def program_message_def\<close>)
qed

lemma foreign_refines:
  assumes "\<And>a. L' a \<noteq> L a \<Longrightarrow> L a \<in> {None, Some ForeignAccount} \<and> L' a \<in> {None, Some ForeignAccount}"
  shows "registry_of rt L' = registry_of rt L"
proof -
  have "claim_at rt L' i = claim_at rt L i" for i
    using assms [of "claim_address rt i"]
    by (cases "L' (claim_address rt i) = L (claim_address rt i)") (auto simp: claim_at_def)
  moreover have "(case L' a of Some (ConfigAccount cfg) \<Rightarrow> Some (f cfg) | _ \<Rightarrow> None) =
      (case L a of Some (ConfigAccount cfg) \<Rightarrow> Some (f cfg) | _ \<Rightarrow> None)" for a and f :: "WebProofConfig \<Rightarrow> 'z"
    using assms [of a] by (cases "L' a = L a") auto
  ultimately show ?thesis by (simp add: registry_of_def fun_eq_iff)
qed

lemma ledger_step_refines:
  assumes "ledger_inv rt ed_verify L" and "native_ed25519_spec ed_verify native_ok" and "ledger_step rt native_ok L L'"
  shows "registry_of rt L' = registry_of rt L \<or> spec_step rt ed_verify (registry_of rt L) (registry_of rt L')"
  using assms(3)
proof cases
  case init_step
  then show ?thesis using init_refines by blast
next
  case (submit_step ctx clock c i)
  then show ?thesis using submit_refines [OF assms(1,2)] by blast
next
  case foreign_step
  then show ?thesis using foreign_refines [of L' L rt] by blast
qed

text \<open>The invariant of the ledger, together with the contract of the native program, makes the refinement.\<close>

interpretation registry: refinement_map "ledger_step rt native_ok" "spec_step rt ed_verify" "registry_of rt"
  "\<lambda>L. ledger_inv rt ed_verify L \<and> native_ed25519_spec ed_verify native_ok" for rt native_ok ed_verify
  by unfold_locales (use ledger_step_inv ledger_step_refines in \<open>blast+\<close>)

section \<open>What the registry guarantees\<close>

text \<open>Entries and the configuration stay; every entry was acceptable and signed when it was recorded.\<close>

lemma registry_step_keeps:
  "registry_step identify message sig_ok R R' \<Longrightarrow> rg_config R = Some x \<Longrightarrow> rg_config R' = Some x"
  "registry_step identify message sig_ok R R' \<Longrightarrow> rg_claims R i = Some e \<Longrightarrow> rg_claims R' i = Some e"
  by (auto elim!: registry_stepE)

definition registry_inv ::
  "(ClaimV1 \<Rightarrow> bytes option) \<Rightarrow> (ClaimV1 \<Rightarrow> bytes option) \<Rightarrow> (bytes \<Rightarrow> bytes \<Rightarrow> bytes \<Rightarrow> bool) \<Rightarrow> registry \<Rightarrow> bool" where
  "registry_inv identify message sig_ok R \<longleftrightarrow>
     (\<forall>i e. rg_claims R i = Some e \<longrightarrow>
        (\<exists>key age c m sig. rg_config R = Some (key, age) \<and> acceptable c (en_created_at e) age \<and>
           e = entry_for c (en_submitted_by e) (en_created_at e) \<and> identify c = Some i \<and> message c = Some m \<and>
           sig_ok key m sig))"

lemma registry_step_inv:
  "registry_step identify message sig_ok R R' \<Longrightarrow> registry_inv identify message sig_ok R \<Longrightarrow>
     registry_inv identify message sig_ok R'"
  by (erule registry_stepE) (fastforce simp: registry_inv_def entry_for_def)+

lemma genesis_registry:
  assumes "\<forall>a. L a \<in> {None, Some ForeignAccount}"
  shows "registry_of rt L = empty_registry"
proof -
  have none: "L a \<noteq> Some (ClaimAccount v)" "L a \<noteq> Some (ConfigAccount cfg)" for a v cfg
    using assms by (metis account.distinct(3) account.distinct(5) insertE option.discI option.inject singletonD)+
  then show ?thesis
    by (auto simp: registry_of_def empty_registry_def claim_at_def fun_eq_iff split: option.splits account.splits)
qed

lemma reachable_run:
  "reachable rt native_ok L \<Longrightarrow> \<exists>L0. (\<forall>a. L0 a \<in> {None, Some ForeignAccount}) \<and> (ledger_step rt native_ok)\<^sup>*\<^sup>* L0 L"
proof (induction rule: reachable.induct)
  case (step L L')
  then show ?case by (meson rtranclp.rtrancl_into_rtrancl)
qed blast

text \<open>
  C14.  The onchain program refines the registry.  Every reachable ledger shows, through \<open>registry_of\<close>, a
  registry that evolved from the empty one by opening and recording only; each committed transaction
  is one such step or invisible; no account of the program is hidden from the registry; and hence an
  entry was acceptable when it was recorded, has the identifier of its claim and was signed by the
  configured key.
\<close>

theorem program_refines_registry:
  assumes "reachable rt native_ok L" and "native_ed25519_spec ed_verify native_ok"
  shows "(registry_step (program_identify rt) (program_message rt) ed_verify)\<^sup>*\<^sup>* empty_registry (registry_of rt L) \<and>
    (\<forall>L'. ledger_step rt native_ok L L' \<longrightarrow> registry_of rt L' = registry_of rt L \<or>
       registry_step (program_identify rt) (program_message rt) ed_verify (registry_of rt L) (registry_of rt L')) \<and>
    (\<forall>a v. L a = Some (ClaimAccount v) \<longrightarrow> rg_claims (registry_of rt L) (vc_claim_id v) = Some (entry_of v)) \<and>
    (\<forall>a cfg. L a = Some (ConfigAccount cfg) \<longrightarrow>
       rg_config (registry_of rt L) = Some (verifier_pubkey cfg, max_claim_age_seconds cfg)) \<and>
    registry_inv (program_identify rt) (program_message rt) ed_verify (registry_of rt L)"
proof -
  have inv: "ledger_inv rt ed_verify L" using reachable_inv [OF assms] .
  obtain L0 where L0: "\<forall>a. L0 a \<in> {None, Some ForeignAccount}" and run: "(ledger_step rt native_ok)\<^sup>*\<^sup>* L0 L"
    using reachable_run [OF assms(1)] by blast
  have "reachable rt native_ok L0" using L0 by (intro reachable.genesis) blast
  then have inv0: "ledger_inv rt ed_verify L0 \<and> native_ed25519_spec ed_verify native_ok"
    using reachable_inv assms(2) by blast
  have "(spec_step rt ed_verify)\<^sup>*\<^sup>* empty_registry (registry_of rt L)"
    using registry.sim_run [OF run inv0] genesis_registry [OF L0] by simp
  moreover have "registry_inv (program_identify rt) (program_message rt) ed_verify (registry_of rt L)"
    by (rule registry.transfer_stable [OF registry_step_inv run inv0])
       (simp_all add: genesis_registry [OF L0] registry_inv_def empty_registry_def)
  moreover have "rg_claims (registry_of rt L) (vc_claim_id v) = Some (entry_of v)" if "L a = Some (ClaimAccount v)" for a v
  proof -
    have "claim_address rt (vc_claim_id v) = a"
      using inv that unfolding ledger_inv_def claim_origin_def claim_address_def by fastforce
    with that show ?thesis by (simp add: registry_of_def claim_at_def)
  qed
  moreover have "rg_config (registry_of rt L) = Some (verifier_pubkey cfg, max_claim_age_seconds cfg)"
    if "L a = Some (ConfigAccount cfg)" for a cfg
    using that inv by (auto simp: ledger_inv_def config_origin_def registry_of_def config_address_def)
  ultimately show ?thesis using ledger_step_refines [OF inv assms(2)] by blast
qed

theorem program_refines_registry_witness:
  "(registry_step (program_identify sample_runtime) (program_message sample_runtime) sample_verify)\<^sup>*\<^sup>*
     empty_registry (registry_of sample_runtime claim_ledger) \<and>
   rg_claims (registry_of sample_runtime claim_ledger) sample_id = Some (entry_for golden_claim (replicate 32 6) 1700000010)"
proof -
  have "vc_claim_id sample_stored = sample_id"
      "entry_of sample_stored = entry_for golden_claim (replicate 32 6) 1700000010"
    by (simp_all add: sample_stored_def stored_claim_def entry_of_def entry_for_def sample_defs)
  then show ?thesis
    using program_refines_registry [OF sample_reachable native_spec_sample] claim_ledger_lookup(1) by metis
qed

end
