(* ===== verification/Claim_Signer.thy ===== *)
theory Claim_Signer
  imports Claim_Codec
begin

text \<open>
  The crate \<open>crates/webproof-verifier\<close>: the only place where claims are built and signed.  The
  proof verifier is the trait \<open>TlsnProofVerifier\<close>, here a function argument with the contract
  \<open>proof_verifier\<close>.  SHA-256, Borsh, Ed25519, the \<open>url\<close> accessors and the JSON pointer lookup of
  \<open>serde_json\<close> are library code and are parameters; a panic of \<open>canonical_bytes\<close> is the outcome
  \<open>Panic\<close>.
\<close>

section \<open>Data\<close>

text \<open>\<open>serde_json::Value\<close>; a number is represented by the text \<open>Number::to_string\<close> prints for it.\<close>

datatype Value =
    Null
  | Bool bool
  | Number string
  | String string
  | Array "Value list"
  | Object "(string \<times> Value) list"

record VerifiedTlsData =
  vt_host :: string
  vt_path :: string
  vt_response :: Value
  vt_artifact :: bytes

definition from_verified_presentation :: "string \<Rightarrow> string \<Rightarrow> Value \<Rightarrow> bytes \<Rightarrow> VerifiedTlsData" where
  "from_verified_presentation h p r a =
     \<lparr>vt_host = h, vt_path = p, vt_response = r, vt_artifact = a\<rparr>"

text \<open>A parsed URL is what its accessors return.\<close>

record Url =
  url_scheme :: string
  url_host_str :: "string option"
  url_username :: string
  url_password :: "string option"
  url_port :: "u16 option"
  url_path :: string
  url_query :: "string option"

datatype Error = Tlsn | Host | Field | Claim ClaimError | Panic

record SignedClaim =
  sg_claim :: ClaimV1
  sg_claim_id :: bytes
  sg_signature :: bytes
  sg_verifier_public_key :: bytes
  sg_tlsn_artifact_hash :: bytes

record ClaimSigner =
  cs_key :: bytes \<comment> \<open>the Ed25519 seed\<close>

record library =
  lib_sha256 :: "bytes \<Rightarrow> bytes"
  lib_to_vec :: "ClaimV1 \<Rightarrow> bytes option"
  lib_sign :: "bytes \<Rightarrow> bytes \<Rightarrow> bytes"
  lib_verifying_key :: "bytes \<Rightarrow> bytes"
  lib_pointer :: "Value \<Rightarrow> string \<Rightarrow> Value option"

section \<open>Operations\<close>

definition ClaimSigner_new :: "bytes \<Rightarrow> ClaimSigner" where
  "ClaimSigner_new k = \<lparr>cs_key = k\<rparr>"

definition public_key :: "library \<Rightarrow> ClaimSigner \<Rightarrow> bytes" where
  "public_key lib self = lib_verifying_key lib (cs_key self)"

text \<open>The \<open>match\<close> on the addressed value: scalars only.\<close>

fun scalar_text :: "Value \<Rightarrow> string option" where
  "scalar_text (String s) = Some s"
| "scalar_text (Number n) = Some n"
| "scalar_text (Bool b) = Some (if b then ''true'' else ''false'')"
| "scalar_text Null = Some ''null''"
| "scalar_text _ = None"

definition sign_verified ::
  "library \<Rightarrow> ClaimSigner \<Rightarrow> VerifiedTlsData \<Rightarrow> Url \<Rightarrow> string \<Rightarrow> i64 \<Rightarrow> i64 \<Rightarrow> bytes \<Rightarrow> Error + SignedClaim" where
  "sign_verified lib self data expected_url field now ttl n =
     ensure (\<not> (url_scheme expected_url \<noteq> ''https'' \<or> url_host_str expected_url \<noteq> Some (vt_host data))) Host (
     try_then (ok_or (lib_pointer lib (vt_response data) field) Field) (\<lambda>value.
     try_then (ok_or (scalar_text value) Field) (\<lambda>value.
     let provenance = lib_sha256 lib (vt_artifact data);
         claim = \<lparr>version = VERSION,
                  source_host = vt_host data,
                  request_path_hash = lib_sha256 lib (as_bytes (vt_path data)),
                  claim_key = field,
                  claim_value = value,
                  issued_at = now,
                  expires_at = saturating_add now ttl,
                  nonce = n,
                  provenance_hash = provenance\<rparr> in
     try_then (map_err Claim (validate claim now ttl)) (\<lambda>_.
     try_then (ok_or (signing_message (lib_to_vec lib) claim) Panic) (\<lambda>message.
     try_then (ok_or (claim_id (lib_sha256 lib) (lib_to_vec lib) claim) Panic) (\<lambda>cid.
     Inr \<lparr>sg_claim = claim,
          sg_claim_id = cid,
          sg_signature = lib_sign lib (cs_key self) message,
          sg_verifier_public_key = public_key lib self,
          sg_tlsn_artifact_hash = provenance\<rparr>))))))"

definition verify_and_sign ::
  "library \<Rightarrow> ClaimSigner \<Rightarrow> (bytes \<Rightarrow> 'e + VerifiedTlsData) \<Rightarrow> bytes \<Rightarrow> Url \<Rightarrow> string \<Rightarrow> i64 \<Rightarrow> i64 \<Rightarrow> bytes
     \<Rightarrow> Error + SignedClaim" where
  "verify_and_sign lib self verifier artifact expected_url field now ttl n =
     try_then (map_err (\<lambda>_. Tlsn) (verifier artifact)) (\<lambda>verified.
     sign_verified lib self verified expected_url field now ttl n)"

section \<open>The claim that is built\<close>

definition built_claim :: "library \<Rightarrow> VerifiedTlsData \<Rightarrow> string \<Rightarrow> string \<Rightarrow> i64 \<Rightarrow> i64 \<Rightarrow> bytes \<Rightarrow> ClaimV1" where
  "built_claim lib data field value now ttl n =
     \<lparr>version = VERSION, source_host = vt_host data,
      request_path_hash = lib_sha256 lib (as_bytes (vt_path data)), claim_key = field,
      claim_value = value, issued_at = now, expires_at = saturating_add now ttl, nonce = n,
      provenance_hash = lib_sha256 lib (vt_artifact data)\<rparr>"

lemma built_claim_sel [simp]:
  "version (built_claim lib d f v now ttl n) = 1"
  "source_host (built_claim lib d f v now ttl n) = vt_host d"
  "request_path_hash (built_claim lib d f v now ttl n) = lib_sha256 lib (as_bytes (vt_path d))"
  "claim_key (built_claim lib d f v now ttl n) = f"
  "claim_value (built_claim lib d f v now ttl n) = v"
  "issued_at (built_claim lib d f v now ttl n) = now"
  "expires_at (built_claim lib d f v now ttl n) = saturating_add now ttl"
  "nonce (built_claim lib d f v now ttl n) = n"
  "provenance_hash (built_claim lib d f v now ttl n) = lib_sha256 lib (vt_artifact d)"
  by (simp_all add: built_claim_def VERSION_def)

text \<open>The expected URL names the verified host over https.\<close>

definition expects_host :: "Url \<Rightarrow> string \<Rightarrow> bool" where
  "expects_host url h \<longleftrightarrow> url_scheme url = ''https'' \<and> url_host_str url = Some h"

definition addressed_scalar :: "library \<Rightarrow> Value \<Rightarrow> string \<Rightarrow> string option" where
  "addressed_scalar lib r field = Option.bind (lib_pointer lib r field) scalar_text"

lemma sign_verified_alt:
  "sign_verified lib self data url field now ttl n =
     ensure (expects_host url (vt_host data)) Host (
     try_then (ok_or (addressed_scalar lib (vt_response data) field) Field) (\<lambda>value.
     let claim = built_claim lib data field value now ttl n in
     try_then (map_err Claim (validate claim now ttl)) (\<lambda>_.
     try_then (ok_or (canonical_bytes (lib_to_vec lib) claim) Panic) (\<lambda>bs.
     Inr \<lparr>sg_claim = claim, sg_claim_id = lib_sha256 lib bs,
          sg_signature = lib_sign lib (cs_key self) (DOMAIN_SEPARATOR @ bs),
          sg_verifier_public_key = public_key lib self,
          sg_tlsn_artifact_hash = lib_sha256 lib (vt_artifact data)\<rparr>))))"
  by (auto simp: sign_verified_def expects_host_def addressed_scalar_def built_claim_def Let_def
      signing_message_def claim_id_def ensure_def try_then_def ok_or_def map_err_def
      split: option.splits sum.splits)

lemma saturating_add_after: "sint now < sint (saturating_add now ttl) \<longleftrightarrow> 0 < sint ttl \<and> sint now < I64_MAX"
  using sint_i64_range [of now] sint_i64_range [of ttl]
  by (auto simp: sint_saturating_add clamp_i64_def i64_bounds)

lemma built_claim_window:
  "in_window (built_claim lib d f v now ttl n) (sint now) (sint ttl) \<longleftrightarrow> 0 < sint ttl \<and> sint now < I64_MAX"
  using saturating_add_after [of now ttl] by (auto simp: in_window_def)

lemma built_claim_valid:
  "validate (built_claim lib d f v now ttl n) now ttl = Inr () \<longleftrightarrow>
     bounded_fields (built_claim lib d f v now ttl n) \<and> 0 < sint ttl \<and> sint now < I64_MAX"
  using core_validator.check_iff [of "built_claim lib d f v now ttl n" now ttl]
  by (auto simp: is_ok_iff acceptable_def built_claim_window)

text \<open>
  The invariants of the Rust types of the inputs: \<open>String\<close>s are UTF-8 (also the ones inside the JSON
  value) and the nonce is a \<open>[u8; 32]\<close>.
\<close>

definition inputs_typed :: "library \<Rightarrow> VerifiedTlsData \<Rightarrow> string \<Rightarrow> bytes \<Rightarrow> bool" where
  "inputs_typed lib d field n \<longleftrightarrow>
     utf8_valid (as_bytes (vt_host d)) \<and> utf8_valid (as_bytes field) \<and> length n = 32 \<and>
     (case addressed_scalar lib (vt_response d) field of None \<Rightarrow> True | Some t \<Rightarrow> utf8_valid (as_bytes t))"

lemma built_claim_typed:
  assumes "sha256_spec (lib_sha256 lib)" and "inputs_typed lib d field n"
    and "addressed_scalar lib (vt_response d) field = Some v"
  shows "claim_typed (built_claim lib d field v now ttl n)"
  using assms by (simp add: claim_typed_def inputs_typed_def sha256_spec_def)

lemma built_claim_encodable:
  assumes "sha256_spec (lib_sha256 lib)" and "inputs_typed lib d field n"
    and "addressed_scalar lib (vt_response d) field = Some v"
    and "validate (built_claim lib d field v now ttl n) now ttl = Inr ()"
  shows "encodable (built_claim lib d field v now ttl n)"
  using built_claim_typed [OF assms(1-3), of now ttl] assms(4)
    core_validator.accepts_encodable [of "built_claim lib d field v now ttl n" now ttl] by simp

lemma sign_verified_iff:
  "sign_verified lib self d url field now ttl n = Inr s \<longleftrightarrow>
     (\<exists>v bs. expects_host url (vt_host d) \<and> addressed_scalar lib (vt_response d) field = Some v \<and>
        sg_claim s = built_claim lib d field v now ttl n \<and>
        bounded_fields (sg_claim s) \<and> 0 < sint ttl \<and> sint now < I64_MAX \<and>
        canonical_bytes (lib_to_vec lib) (sg_claim s) = Some bs \<and>
        sg_claim_id s = lib_sha256 lib bs \<and>
        sg_signature s = lib_sign lib (cs_key self) (DOMAIN_SEPARATOR @ bs) \<and>
        sg_verifier_public_key s = public_key lib self \<and>
        sg_tlsn_artifact_hash s = lib_sha256 lib (vt_artifact d))"
  by (cases s) (auto simp: sign_verified_alt result_simps Let_def built_claim_valid)

lemma verify_and_sign_iff:
  "verify_and_sign lib self verifier a url field now ttl n = Inr s \<longleftrightarrow>
     (\<exists>d. verifier a = Inr d \<and> sign_verified lib self d url field now ttl n = Inr s)"
  by (auto simp: verify_and_sign_def result_simps)

lemma signed_claim_encodable:
  assumes "sha256_spec (lib_sha256 lib)" and "verifier a = Inr d" and "inputs_typed lib d field n"
    and "verify_and_sign lib self verifier a url field now ttl n = Inr s"
  shows "encodable (sg_claim s)"
proof -
  obtain v where v: "addressed_scalar lib (vt_response d) field = Some v"
      and s: "sg_claim s = built_claim lib d field v now ttl n" "bounded_fields (sg_claim s)" "0 < sint ttl"
        "sint now < I64_MAX"
    using assms(2,4) unfolding verify_and_sign_iff sign_verified_iff by auto
  then have "validate (built_claim lib d field v now ttl n) now ttl = Inr ()"
    using built_claim_valid by simp
  with s(1) built_claim_encodable [OF assms(1,3) v] show ?thesis by simp
qed

section \<open>The proof-verifier seam\<close>

text \<open>
  The contract of the trait \<open>TlsnProofVerifier\<close>: what it returns for an artifact is backed by that
  artifact, and the artifact itself is kept for the provenance hash.  The signer adds that nothing
  else can end up in a signed claim.
\<close>

locale proof_verifier =
  fixes verify :: "bytes \<Rightarrow> 'e + VerifiedTlsData"
    and backed :: "bytes \<Rightarrow> VerifiedTlsData \<Rightarrow> bool"
  assumes verify_backed: "verify a = Inr d \<Longrightarrow> backed a d"
    and verify_keeps_artifact: "verify a = Inr d \<Longrightarrow> vt_artifact d = a"
begin

lemma signed_claim_backed:
  assumes "verify_and_sign lib self verify a url field now ttl n = Inr s"
  shows "\<exists>d. backed a d \<and> source_host (sg_claim s) = vt_host d \<and>
    request_path_hash (sg_claim s) = lib_sha256 lib (as_bytes (vt_path d)) \<and>
    addressed_scalar lib (vt_response d) (claim_key (sg_claim s)) = Some (claim_value (sg_claim s)) \<and>
    provenance_hash (sg_claim s) = lib_sha256 lib a"
proof -
  obtain d v where d: "verify a = Inr d"
      and v: "addressed_scalar lib (vt_response d) field = Some v" "sg_claim s = built_claim lib d field v now ttl n"
    using assms unfolding verify_and_sign_iff sign_verified_iff by blast
  from d v verify_backed [OF d] verify_keeps_artifact [OF d] show ?thesis by auto
qed

lemma unverified_never_signed: "verify a = Inl e \<Longrightarrow> verify_and_sign lib self verify a url field now ttl n = Inl Tlsn"
  by (simp add: verify_and_sign_def)

end

section \<open>Guarantees of the signer\<close>

text \<open>
  C19.  Exactly when and exactly what the signer signs: \<open>verify_and_sign\<close> returns a signed claim if
  and only if the proof verifier accepted the artifact, the expected URL is https and names exactly
  the verified host, the field addresses a scalar of the verified response, the resulting claim is
  within its byte limits, the lifetime is positive and the clock is below i64::MAX (so that the
  expiry lies after the issue time even where the addition saturates), and the claim has canonical
  bytes.  The claim is then the one built from the verified data, and the identifier, the signature
  and the artifact hash are those of its bytes.
\<close>

theorem verify_and_sign_exact:
  "verify_and_sign lib self verifier a url field now ttl n = Inr s \<longleftrightarrow>
     (\<exists>d v bs. verifier a = Inr d \<and> url_scheme url = ''https'' \<and> url_host_str url = Some (vt_host d) \<and>
        addressed_scalar lib (vt_response d) field = Some v \<and>
        sg_claim s = \<lparr>version = 1, source_host = vt_host d,
          request_path_hash = lib_sha256 lib (as_bytes (vt_path d)), claim_key = field, claim_value = v,
          issued_at = now, expires_at = saturating_add now ttl, nonce = n,
          provenance_hash = lib_sha256 lib (vt_artifact d)\<rparr> \<and>
        bounded_fields (sg_claim s) \<and> 0 < sint ttl \<and> sint now < I64_MAX \<and>
        canonical_bytes (lib_to_vec lib) (sg_claim s) = Some bs \<and>
        sg_claim_id s = lib_sha256 lib bs \<and>
        sg_signature s = lib_sign lib (cs_key self) (DOMAIN_SEPARATOR @ bs) \<and>
        sg_verifier_public_key s = lib_verifying_key lib (cs_key self) \<and>
        sg_tlsn_artifact_hash s = lib_sha256 lib (vt_artifact d))"
  unfolding verify_and_sign_iff sign_verified_iff
  by (auto simp: expects_host_def built_claim_def VERSION_def public_key_def)

text \<open>The first field, in the order of the checks, that is empty or longer than its byte limit.\<close>

definition first_bad_length :: "ClaimV1 \<Rightarrow> string option" where
  "first_bad_length c =
     (if source_host c = [] \<or> 128 < length (source_host c) then Some ''source_host''
      else if claim_key c = [] \<or> 128 < length (claim_key c) then Some ''claim_key''
      else if claim_value c = [] \<or> 256 < length (claim_value c) then Some ''claim_value''
      else None)"

lemma validate_lengths_first:
  "version c = 1 \<Longrightarrow> validate c now m =
     (case first_bad_length c of
        Some name \<Rightarrow> Inl (Length name)
      | None \<Rightarrow>
          if sint (expires_at c) \<le> sint (issued_at c) then Inl TimeWindow
          else if sint (expires_at c) < sint now then Inl ClaimError.Expired
          else if sint now + 30 < sint (issued_at c) then Inl ClaimError.Future
          else if \<not> (sint now - sint (issued_at c) \<le> sint m \<or> sint m = I64_MAX) then Inl ClaimError.TooOld
          else Inr ())"
  by (simp add: validate_def bounded_def ensure_def first_bad_length_def VERSION_def MAX_SOURCE_HOST_def
      MAX_CLAIM_KEY_def MAX_CLAIM_VALUE_def not_less skew_check_exact age_check_exact flip: not_le)

lemma built_claim_error:
  assumes "validate (built_claim lib d f v now ttl n) now ttl = Inl e"
  shows "case e of
      Length name \<Rightarrow> first_bad_length (built_claim lib d f v now ttl n) = Some name
    | TimeWindow \<Rightarrow> first_bad_length (built_claim lib d f v now ttl n) = None \<and> (sint ttl \<le> 0 \<or> sint now = I64_MAX)
    | _ \<Rightarrow> False"
proof (cases "first_bad_length (built_claim lib d f v now ttl n)")
  case (Some name)
  with assms have "e = Length name" by (simp add: validate_lengths_first)
  with Some show ?thesis by simp
next
  case None
  have e: "sint (saturating_add now ttl) \<le> sint now \<and> e = TimeWindow \<or>
      sint now < sint (saturating_add now ttl) \<and> \<not> 0 \<le> sint ttl"
    using assms None by (simp add: validate_lengths_first split: if_splits)
  then have "sint ttl \<le> 0 \<or> sint now = I64_MAX" "e = TimeWindow"
    using saturating_add_after [of now ttl] sint_i64_range(2) [of now] by auto
  with None show ?thesis by simp
qed

text \<open>
  C20.  Every refusal has its cause, and the causes are checked in this order: a failed verification
  (Tlsn), a wrong scheme or host (Host), a missing or structured field (Field), then the claim built
  from the verified data: the named string of it is the first one, among host, key and value, that
  is empty or longer than 128, 128 and 256 bytes (Claim (Length name)), or all three are in bounds
  and the lifetime is not positive or the clock is at i64::MAX (Claim TimeWindow).  The other
  validation errors cannot occur on a freshly built claim, and for well-typed inputs the signer does
  not panic.
\<close>

theorem verify_and_sign_refusals:
  assumes "sha256_spec (lib_sha256 lib)" and "borsh_spec (lib_to_vec lib)"
    and "case verifier a of Inl _ \<Rightarrow> True | Inr d \<Rightarrow> inputs_typed lib d field n"
  shows "case verify_and_sign lib self verifier a url field now ttl n of
      Inl Tlsn \<Rightarrow> \<not> is_ok (verifier a)
    | Inl Host \<Rightarrow> (\<exists>d. verifier a = Inr d \<and> \<not> expects_host url (vt_host d))
    | Inl Field \<Rightarrow> (\<exists>d. verifier a = Inr d \<and> expects_host url (vt_host d) \<and>
        addressed_scalar lib (vt_response d) field = None)
    | Inl (Claim e) \<Rightarrow> (\<exists>d v. verifier a = Inr d \<and> expects_host url (vt_host d) \<and>
        addressed_scalar lib (vt_response d) field = Some v \<and>
        (case e of
           Length name \<Rightarrow> first_bad_length (built_claim lib d field v now ttl n) = Some name
         | TimeWindow \<Rightarrow> first_bad_length (built_claim lib d field v now ttl n) = None \<and>
             (sint ttl \<le> 0 \<or> sint now = I64_MAX)
         | _ \<Rightarrow> False))
    | Inl Panic \<Rightarrow> False
    | Inr s \<Rightarrow> claim_typed (sg_claim s)"
proof (cases "verifier a")
  case (Inr d)
  show ?thesis
  proof (cases "expects_host url (vt_host d)")
    case True
    show ?thesis
    proof (cases "addressed_scalar lib (vt_response d) field")
      case (Some v)
      let ?c = "built_claim lib d field v now ttl n"
      have typed: "inputs_typed lib d field n" using assms(3) Inr by simp
      show ?thesis
      proof (cases "validate ?c now ttl")
        case (Inl e)
        with Some True \<open>verifier a = Inr d\<close> built_claim_error [OF Inl] show ?thesis
          by (simp add: verify_and_sign_def sign_verified_alt Let_def)
      next
        case (Inr u)
        then have "encodable ?c" using built_claim_encodable [OF assms(1) typed Some] by simp
        with Inr Some True \<open>verifier a = Inr d\<close> show ?thesis
          using borsh_canonical [OF assms(2)]
          by (auto simp: verify_and_sign_def sign_verified_alt Let_def encodable_def)
      qed
    next
      case None
      with True Inr show ?thesis by (simp add: verify_and_sign_def sign_verified_alt)
    qed
  next
    case False
    with Inr show ?thesis by (simp add: verify_and_sign_def sign_verified_alt)
  qed
qed (simp add: verify_and_sign_def)

end
