(* ===== verification/Signed_Claim_File.thy ===== *)
theory Signed_Claim_File
  imports Claim_Signer "HOL-Library.Log_Nat"
begin

text \<open>
  The hand-over of a signed claim from Rust to JavaScript: the file \<open>signed-claim.json\<close> that
  \<open>webproof_verify_sign.rs\<close> writes and \<open>parseSignedClaim\<close> of \<open>sdk/typescript/src/index.ts\<close> reads.  The file
  is its tree of strings and numbers; \<open>JSON.parse\<close> turns every number into a double, so integers
  beyond 53 bits are rounded.  A JavaScript \<open>bigint\<close> is an \<^typ>\<open>int\<close>, a \<open>Uint8Array\<close> a byte list.
\<close>

section \<open>Numbers\<close>

text \<open>The double nearest to an integer (ties to even), for magnitudes far below the largest double.\<close>

definition round_bits :: "nat \<Rightarrow> nat \<Rightarrow> nat" where
  "round_bits e m =
     (let q = m div 2 ^ e; r = m mod 2 ^ e
      in (if 2 * r > 2 ^ e \<or> 2 * r = 2 ^ e \<and> odd q then q + 1 else q) * 2 ^ e)"

definition double_of_int :: "int \<Rightarrow> int" where
  "double_of_int n = (let m = nat \<bar>n\<bar> in sgn n * int (round_bits (floorlog 2 m - 53) m))"

lemma round_bits_dvd: "2 ^ e dvd m \<Longrightarrow> round_bits e m = m"
  by (simp add: round_bits_def Let_def dvd_eq_mod_eq_0 [symmetric] dvd_imp_mod_0)

lemma double_of_int_exact:
  assumes "\<bar>n\<bar> \<le> 2 ^ 53"
  shows "double_of_int n = n"
proof -
  let ?m = "nat \<bar>n\<bar>"
  have "2 ^ (floorlog 2 ?m - 53) dvd ?m"
  proof (cases "?m < 2 ^ 53")
    case True
    then have "floorlog 2 ?m - 53 = 0" by (simp add: floorlog_le_iff)
    then show ?thesis by simp
  next
    case False
    with assms have m: "?m = 2 ^ 53" by simp
    then have "floorlog 2 ?m \<le> 54" by (simp add: floorlog_le_iff)
    then have "2 ^ (floorlog 2 ?m - 53) dvd (2 :: nat) ^ 53" by (intro le_imp_power_dvd) simp
    with m show ?thesis by simp
  qed
  then show ?thesis by (simp add: double_of_int_def Let_def round_bits_dvd sgn_if)
qed

lemma double_of_I64_MAX: "double_of_int I64_MAX = 2 ^ 63"
proof -
  have "floorlog 2 (9223372036854775807 :: nat) = 63"
    by (rule antisym) (simp_all add: floorlog_le_iff floorlog_geI)
  then show ?thesis by (simp add: double_of_int_def I64_MAX_def round_bits_def Let_def)
qed

lemma double_of_byte [simp]: "double_of_int (uint (b :: byte)) = uint b"
  using uint_bounded [of b] by (intro double_of_int_exact) simp

section \<open>The file\<close>

text \<open>\<open>SignedClaimFile\<close>, with numbers as they are written or, after \<open>JSON.parse\<close>, as they are read.\<close>

record ClaimFile =
  cf_version :: int
  cf_source_host :: string
  cf_request_path_hash :: "int list"
  cf_claim_key :: string
  cf_claim_value :: string
  cf_issued_at :: int
  cf_expires_at :: int
  cf_nonce :: "int list"
  cf_provenance_hash :: "int list"

record SignedClaimFile =
  sf_claim :: ClaimFile
  sf_claimId :: "int list"
  sf_signature :: "int list"
  sf_verifierPublicKey :: "int list"
  sf_tlsnArtifactHash :: "int list"

text \<open>What the \<open>Serialize\<close> derives of \<open>ClaimV1\<close> and \<open>SignedClaim\<close> write.\<close>

definition claim_file :: "ClaimV1 \<Rightarrow> ClaimFile" where
  "claim_file c =
     \<lparr>cf_version = uint (version c), cf_source_host = source_host c,
      cf_request_path_hash = map uint (request_path_hash c), cf_claim_key = claim_key c,
      cf_claim_value = claim_value c, cf_issued_at = sint (issued_at c), cf_expires_at = sint (expires_at c),
      cf_nonce = map uint (nonce c), cf_provenance_hash = map uint (provenance_hash c)\<rparr>"

definition signed_file :: "SignedClaim \<Rightarrow> SignedClaimFile" where
  "signed_file s =
     \<lparr>sf_claim = claim_file (sg_claim s), sf_claimId = map uint (sg_claim_id s),
      sf_signature = map uint (sg_signature s), sf_verifierPublicKey = map uint (sg_verifier_public_key s),
      sf_tlsnArtifactHash = map uint (sg_tlsn_artifact_hash s)\<rparr>"

definition JSON_parse :: "SignedClaimFile \<Rightarrow> SignedClaimFile" where
  "JSON_parse f =
     (let d = double_of_int; c = sf_claim f in
      \<lparr>sf_claim = \<lparr>cf_version = d (cf_version c), cf_source_host = cf_source_host c,
         cf_request_path_hash = map d (cf_request_path_hash c), cf_claim_key = cf_claim_key c,
         cf_claim_value = cf_claim_value c, cf_issued_at = d (cf_issued_at c), cf_expires_at = d (cf_expires_at c),
         cf_nonce = map d (cf_nonce c), cf_provenance_hash = map d (cf_provenance_hash c)\<rparr>,
       sf_claimId = map d (sf_claimId f), sf_signature = map d (sf_signature f),
       sf_verifierPublicKey = map d (sf_verifierPublicKey f), sf_tlsnArtifactHash = map d (sf_tlsnArtifactHash f)\<rparr>)"

section \<open>Reading a signed claim\<close>

definition claimId :: "(bytes \<Rightarrow> bytes) \<Rightarrow> JsClaim \<Rightarrow> sdk_error + bytes" where
  "claimId sha256 c = try_then (serializeClaim c) (\<lambda>b. Inr (sha256 b))"

definition signingMessage :: "JsClaim \<Rightarrow> sdk_error + bytes" where
  "signingMessage c = try_then (serializeClaim c) (\<lambda>b. Inr (DOMAIN_SEPARATOR @ b))"

record ParsedClaim =
  pc_claim :: JsClaim
  pc_signature :: bytes
  pc_verifierPublicKey :: bytes
  pc_claimId :: bytes

datatype parse_error = Serialization_failed sdk_error | ClaimIdDiffers

definition parseSignedClaim :: "(bytes \<Rightarrow> bytes) \<Rightarrow> SignedClaimFile \<Rightarrow> parse_error + ParsedClaim" where
  "parseSignedClaim sha256 file =
     (let c = sf_claim file;
          claim = \<lparr>js_version = cf_version c, js_sourceHost = cf_source_host c,
                   js_requestPathHash = map to_uint8 (cf_request_path_hash c), js_claimKey = cf_claim_key c,
                   js_claimValue = cf_claim_value c, js_issuedAt = cf_issued_at c, js_expiresAt = cf_expires_at c,
                   js_nonce = map to_uint8 (cf_nonce c), js_provenanceHash = map to_uint8 (cf_provenance_hash c)\<rparr> in
      try_then (map_err Serialization_failed (claimId sha256 claim)) (\<lambda>i.
      let expected = map to_uint8 (sf_claimId file) in
      ensure (i = expected) ClaimIdDiffers (
      Inr \<lparr>pc_claim = claim, pc_signature = map to_uint8 (sf_signature file),
           pc_verifierPublicKey = map to_uint8 (sf_verifierPublicKey file), pc_claimId = i\<rparr>)))"

section \<open>Reading the file back\<close>

lemma JSON_parse_signed_file:
  "JSON_parse (signed_file s) = (signed_file s)\<lparr>sf_claim := (claim_file (sg_claim s))
     \<lparr>cf_issued_at := double_of_int (sint (issued_at (sg_claim s))),
      cf_expires_at := double_of_int (sint (expires_at (sg_claim s)))\<rparr>\<rparr>"
  by (simp add: JSON_parse_def signed_file_def claim_file_def Let_def o_def)

lemma uint8_bytes [simp]: "map (\<lambda>b. to_uint8 (uint b)) bs = bs" "map to_uint8 (map uint bs) = bs"
  by (simp_all add: o_def)

text \<open>The claim the SDK reads: only the times can differ.\<close>

definition read_claim_of :: "ClaimV1 \<Rightarrow> JsClaim" where
  "read_claim_of c = (js_claim c)\<lparr>js_issuedAt := double_of_int (sint (issued_at c)),
     js_expiresAt := double_of_int (sint (expires_at c))\<rparr>"

lemma parseSignedClaim_signed_file:
  "parseSignedClaim sha256 (JSON_parse (signed_file s)) = Inr p \<longleftrightarrow>
     claimId sha256 (read_claim_of (sg_claim s)) = Inr (sg_claim_id s) \<and>
     p = \<lparr>pc_claim = read_claim_of (sg_claim s), pc_signature = sg_signature s,
          pc_verifierPublicKey = sg_verifier_public_key s, pc_claimId = sg_claim_id s\<rparr>"
  unfolding JSON_parse_signed_file
  by (auto simp: parseSignedClaim_def signed_file_def claim_file_def read_claim_of_def js_claim_def Let_def
      result_simps o_def)

lemma read_claim_of_exact:
  "\<bar>sint (issued_at c)\<bar> \<le> 2 ^ 53 \<Longrightarrow> \<bar>sint (expires_at c)\<bar> \<le> 2 ^ 53 \<Longrightarrow> read_claim_of c = js_claim c"
  by (simp add: read_claim_of_def double_of_int_exact) (simp add: js_claim_def)

lemma read_claim_of_words:
  assumes "word_claim (read_claim_of c) = c"
    and "{js_issuedAt (read_claim_of c), js_expiresAt (read_claim_of c)} \<subseteq> {I64_MIN..I64_MAX}"
  shows "read_claim_of c = js_claim c"
proof -
  from assms(1) have "word_of_int (js_issuedAt (read_claim_of c)) = issued_at c"
      "word_of_int (js_expiresAt (read_claim_of c)) = expires_at c"
    by (metis ClaimV1.select_convs word_claim_def)+
  with assms(2) have "js_issuedAt (read_claim_of c) = sint (issued_at c)" "js_expiresAt (read_claim_of c) = sint (expires_at c)"
    by (metis atLeastAtMost_iff insert_subset sint_word_of_int_i64)+
  then show ?thesis by (simp add: read_claim_of_def) (simp add: js_claim_def)
qed

lemma parseSignedClaim_exact:
  assumes "encodable (sg_claim s)" and "sg_claim_id s = sha256 (enc_claim (claim_fields (sg_claim s)))"
    and "\<bar>sint (issued_at (sg_claim s))\<bar> \<le> 2 ^ 53" and "\<bar>sint (expires_at (sg_claim s))\<bar> \<le> 2 ^ 53"
  shows "parseSignedClaim sha256 (JSON_parse (signed_file s)) =
    Inr \<lparr>pc_claim = js_claim (sg_claim s), pc_signature = sg_signature s,
         pc_verifierPublicKey = sg_verifier_public_key s, pc_claimId = sg_claim_id s\<rparr>"
  using assms serializeClaim_js_claim
  by (simp add: parseSignedClaim_signed_file read_claim_of_exact claimId_def)

text \<open>
  C39.  Reading a signed claim in JavaScript.  If the times of an encodable claim are exact as doubles,
  \<open>parseSignedClaim\<close> recovers the claim, the signature, the key and the identifier that the Rust side
  wrote.  For other times the rounding of \<open>JSON.parse\<close> is never silent: whatever is returned is the
  written claim, or its bytes and those of the written claim are an explicit hash collision.  A claim
  that expires at i64::MAX, where a very long lifetime saturates, is refused.
\<close>

theorem parseSignedClaim_roundtrip:
  assumes "encodable (sg_claim s)" and "sg_claim_id s = sha256 (enc_claim (claim_fields (sg_claim s)))"
  shows "(\<bar>sint (issued_at (sg_claim s))\<bar> \<le> 2 ^ 53 \<and> \<bar>sint (expires_at (sg_claim s))\<bar> \<le> 2 ^ 53 \<longrightarrow>
      parseSignedClaim sha256 (JSON_parse (signed_file s)) =
        Inr \<lparr>pc_claim = js_claim (sg_claim s), pc_signature = sg_signature s,
             pc_verifierPublicKey = sg_verifier_public_key s, pc_claimId = sg_claim_id s\<rparr>) \<and>
    (\<forall>p. parseSignedClaim sha256 (JSON_parse (signed_file s)) = Inr p \<longrightarrow>
       pc_claim p = js_claim (sg_claim s) \<or>
       (\<exists>b. serializeClaim (pc_claim p) = Inr b \<and> b \<noteq> enc_claim (claim_fields (sg_claim s)) \<and>
          sha256 b = sha256 (enc_claim (claim_fields (sg_claim s))))) \<and>
    (expires_at (sg_claim s) = word_of_int I64_MAX \<longrightarrow>
       \<not> is_ok (parseSignedClaim sha256 (JSON_parse (signed_file s))))"
proof -
  let ?c = "sg_claim s" and ?r = "read_claim_of (sg_claim s)" and ?file = "JSON_parse (signed_file s)"
  note exact = parseSignedClaim_exact [of s sha256, OF assms]
  have safe: "pc_claim p = js_claim ?c \<or> (\<exists>b. serializeClaim (pc_claim p) = Inr b \<and>
        b \<noteq> enc_claim (claim_fields ?c) \<and> sha256 b = sha256 (enc_claim (claim_fields ?c)))"
    if ret: "parseSignedClaim sha256 ?file = Inr p" for p
  proof -
    obtain b where b: "serializeClaim ?r = Inr b" "sha256 b = sg_claim_id s" and p: "pc_claim p = ?r"
      using ret by (auto simp: parseSignedClaim_signed_file claimId_def result_simps)
    then have range: "{js_issuedAt ?r, js_expiresAt ?r} \<subseteq> {I64_MIN..I64_MAX}" and ser: "borsh_claim (word_claim ?r) = Inr b"
      unfolding serializeClaim_iff by simp_all
    have enc: "encodable (word_claim ?r)"
      using assms(1) by (simp add: encodable_def claim_typed_def word_claim_def read_claim_of_def js_claim_def)
    show ?thesis
    proof (cases "b = enc_claim (claim_fields ?c)")
      case True
      then have "enc_claim (claim_fields (word_claim ?r)) = enc_claim (claim_fields ?c)"
        using borsh_claim_layout [OF ser] by (metis (no_types))
      then have "word_claim ?r = ?c"
        unfolding claim_layout.enc_inject [OF fits_claim_fields fits_claim_fields, OF enc assms(1)] by (rule claim_fields_inject [THEN iffD1])
      with range p show ?thesis using read_claim_of_words by simp
    next
      case False
      moreover have "serializeClaim (pc_claim p) = Inr b" using b(1) p by simp
      moreover have "sha256 b = sha256 (enc_claim (claim_fields ?c))" using b(2) assms(2) by simp
      ultimately show ?thesis by blast
    qed
  qed
  have "\<not> is_ok (parseSignedClaim sha256 ?file)" if "expires_at ?c = word_of_int I64_MAX"
  proof -
    have "js_expiresAt ?r = 2 ^ 63"
      using that double_of_I64_MAX by (simp add: read_claim_of_def sint_word_of_int_i64 i64_bounds)
    then show ?thesis
      by (auto simp: is_ok_iff parseSignedClaim_signed_file claimId_def result_simps serializeClaim_iff i64_bounds)
  qed
  with exact safe show ?thesis by blast
qed

end
