(* ===== verification/SDK_Client.thy ===== *)
theory SDK_Client
  imports Signed_Claim_File Program_Properties
begin

text \<open>
  The client half of \<open>sdk/typescript/src/index.ts\<close> and the onchain part of the \<open>demo\<close> command of
  \<open>cli/src/index.ts\<close>: building the transactions, sending them, confirming them, and reading a stored
  claim back.  \<open>@solana/web3.js\<close> is the record \<open>web3_lib\<close>.  The chain behind \<open>Connection\<close> is the record
  \<open>network\<close> and the data of an account.  Sending a transaction yields its signature and executes
  nothing; the ledger moves on, by whatever anyone does, until a later call confirms the signature.
  Two contracts say what the chain has to do with the program: \<open>network_spec\<close>, where confirming says
  no more than that the ledger moved by legal steps, and \<open>cluster_spec\<close> for a cluster on which nothing
  else happens meanwhile.
\<close>

section \<open>Data\<close>

record TransactionInstruction =
  ti_programId :: Pubkey
  ti_keys :: "AccountMeta list"
  ti_data :: bytes

datatype client_error =
    SdkError sdk_error
  | Web3Error \<comment> \<open>web3.js rejected an argument\<close>
  | TransactionTooLarge \<comment> \<open>the transaction does not fit a packet\<close>
  | SignatureRejected \<comment> \<open>the native program refused the Ed25519 instruction\<close>
  | TransactionFailed ProgramError
  | NotConfirmed \<comment> \<open>the transaction expired or the connection failed\<close>
  | NotFound \<comment> \<open>"stored claim not found after submission"\<close>
  | Mismatch string \<comment> \<open>"stored claim does not match signed claim"\<close>

record web3_lib =
  w3_sha256 :: "bytes \<Rightarrow> bytes"
  w3_find_program_address :: "bytes list \<Rightarrow> Pubkey \<Rightarrow> Pubkey \<times> u8"
  w3_ed25519_instruction :: "bytes \<Rightarrow> bytes \<Rightarrow> bytes \<Rightarrow> TransactionInstruction option" \<comment> \<open>key, message, signature\<close>
  w3_system_program :: Pubkey
  w3_instructions_sysvar :: Pubkey

record WebProofClient =
  wp_programId :: Pubkey

text \<open>
  A connection, with transaction signatures of the opaque type \<open>'s\<close>: \<open>sendTransaction\<close> returns a
  signature; \<open>confirmTransaction\<close> returns the ledger at the time of the confirmation and whether the
  transaction failed, its \<open>value.err\<close>.
\<close>

record 's network =
  nw_sendTransaction :: "ledger \<Rightarrow> TransactionInstruction list \<Rightarrow> Pubkey \<Rightarrow> client_error + 's"
  nw_getLatestBlockhash :: "ledger \<Rightarrow> client_error + bytes"
  nw_confirmTransaction :: "ledger \<Rightarrow> 's \<Rightarrow> bytes \<Rightarrow> client_error + (ledger \<times> bool)"

type_synonym account_data = "ledger \<Rightarrow> Pubkey \<Rightarrow> bytes option"

section \<open>Operations\<close>

definition instructionDiscriminator :: "web3_lib \<Rightarrow> string \<Rightarrow> bytes" where
  "instructionDiscriminator W name = take 8 (w3_sha256 W (as_bytes (''global:'' @ name)))"

definition configAddress :: "web3_lib \<Rightarrow> WebProofClient \<Rightarrow> Pubkey" where
  "configAddress W self = fst (w3_find_program_address W [as_bytes ''config''] (wp_programId self))"

definition claimAddress :: "web3_lib \<Rightarrow> WebProofClient \<Rightarrow> bytes \<Rightarrow> Pubkey" where
  "claimAddress W self i = fst (w3_find_program_address W [as_bytes ''claim'', i] (wp_programId self))"

definition initializeConfigInstruction ::
  "web3_lib \<Rightarrow> WebProofClient \<Rightarrow> bytes \<Rightarrow> int \<Rightarrow> Pubkey \<Rightarrow> sdk_error + TransactionInstruction" where
  "initializeConfigInstruction W self verifierPublicKey maxClaimAgeSeconds auth =
     try_then (sdk_bytes32 verifierPublicKey) (\<lambda>key.
     try_then (sdk_i64 maxClaimAgeSeconds) (\<lambda>age.
     Inr \<lparr>ti_programId = wp_programId self,
          ti_keys =
            [\<lparr>am_key = configAddress W self, am_is_signer = False, am_is_writable = True\<rparr>,
             \<lparr>am_key = auth, am_is_signer = True, am_is_writable = True\<rparr>,
             \<lparr>am_key = w3_system_program W, am_is_signer = False, am_is_writable = False\<rparr>],
          ti_data = instructionDiscriminator W ''initialize_config'' @ key @ age\<rparr>))"

definition initializeConfig ::
  "web3_lib \<Rightarrow> WebProofClient \<Rightarrow> 's network \<Rightarrow> ledger \<Rightarrow> bytes \<Rightarrow> int \<Rightarrow> Pubkey \<Rightarrow> client_error + 's" where
  "initializeConfig W self nw L verifierPublicKey maxClaimAgeSeconds auth =
     try_then (map_err SdkError (initializeConfigInstruction W self verifierPublicKey maxClaimAgeSeconds auth)) (\<lambda>ix.
     nw_sendTransaction nw L [ix] auth)"

definition submitClaimInstructions ::
  "web3_lib \<Rightarrow> WebProofClient \<Rightarrow> JsClaim \<Rightarrow> bytes \<Rightarrow> bytes \<Rightarrow> Pubkey \<Rightarrow>
     client_error + (TransactionInstruction list \<times> Pubkey)" where
  "submitClaimInstructions W self claim signature verifierPublicKey submitter =
     try_then (map_err SdkError (claimId (w3_sha256 W) claim)) (\<lambda>i.
     let address = claimAddress W self i in
     try_then (map_err SdkError (signingMessage claim)) (\<lambda>message.
     try_then (ok_or (w3_ed25519_instruction W verifierPublicKey message signature) Web3Error) (\<lambda>verify.
     try_then (map_err SdkError (serializeClaim claim)) (\<lambda>bytes.
     let data = instructionDiscriminator W ''submit_claim'' @ bytes @ i;
         submit = \<lparr>ti_programId = wp_programId self,
                   ti_keys =
                     [\<lparr>am_key = configAddress W self, am_is_signer = False, am_is_writable = False\<rparr>,
                      \<lparr>am_key = address, am_is_signer = False, am_is_writable = True\<rparr>,
                      \<lparr>am_key = submitter, am_is_signer = True, am_is_writable = True\<rparr>,
                      \<lparr>am_key = w3_instructions_sysvar W, am_is_signer = False, am_is_writable = False\<rparr>,
                      \<lparr>am_key = w3_system_program W, am_is_signer = False, am_is_writable = False\<rparr>],
                   ti_data = data\<rparr> in
     Inr ([verify, submit], address)))))"

definition submitClaim ::
  "web3_lib \<Rightarrow> WebProofClient \<Rightarrow> 's network \<Rightarrow> ledger \<Rightarrow> JsClaim \<Rightarrow> bytes \<Rightarrow> bytes \<Rightarrow> Pubkey \<Rightarrow> client_error + ('s \<times> Pubkey)" where
  "submitClaim W self nw L claim signature verifierPublicKey submitter =
     try_then (submitClaimInstructions W self claim signature verifierPublicKey submitter) (\<lambda>(instructions, address).
     try_then (nw_sendTransaction nw L instructions submitter) (\<lambda>signature. Inr (signature, address)))"

definition getClaimRaw :: "web3_lib \<Rightarrow> WebProofClient \<Rightarrow> account_data \<Rightarrow> ledger \<Rightarrow> bytes \<Rightarrow> bytes option" where
  "getClaimRaw W self fetch L i = fetch L (claimAddress W self i)"

definition getClaim ::
  "web3_lib \<Rightarrow> WebProofClient \<Rightarrow> account_data \<Rightarrow> ledger \<Rightarrow> bytes \<Rightarrow> client_error + VerifiedClaim option" where
  "getClaim W self fetch L i =
     (case fetch L (claimAddress W self i) of
        None \<Rightarrow> Inr None
      | Some d \<Rightarrow> try_then (map_err SdkError (decodeVerifiedClaim (w3_sha256 W) d)) (\<lambda>v. Inr (Some v)))"

text \<open>\<open>confirm\<close> of the command line: it waits for the confirmation and drops the transaction's error.\<close>

definition confirm :: "'s network \<Rightarrow> ledger \<Rightarrow> 's \<Rightarrow> client_error + ledger" where
  "confirm nw L signature =
     try_then (nw_getLatestBlockhash nw L) (\<lambda>latest.
     try_then (nw_confirmTransaction nw L signature latest) (\<lambda>(L', err). Inr L'))"

text \<open>
  The \<open>demo\<close> command from the parsed claim on: initialize the config if there is none, submit, read
  back and compare.
\<close>

definition demo_onchain ::
  "web3_lib \<Rightarrow> WebProofClient \<Rightarrow> 's network \<Rightarrow> account_data \<Rightarrow> ledger \<Rightarrow> ParsedClaim \<Rightarrow> Pubkey \<Rightarrow> client_error + (ledger \<times> Pubkey)" where
  "demo_onchain W client nw fetch L parsed payer =
     try_then (if fetch L (configAddress W client) = None
               then try_then (initializeConfig W client nw L (pc_verifierPublicKey parsed) 300 payer) (\<lambda>sig. confirm nw L sig)
               else Inr L) (\<lambda>L.
     try_then (submitClaim W client nw L (pc_claim parsed) (pc_signature parsed) (pc_verifierPublicKey parsed) payer)
       (\<lambda>(signature, address).
     try_then (confirm nw L signature) (\<lambda>L.
     try_then (map_err SdkError (claimId (w3_sha256 W) (pc_claim parsed))) (\<lambda>i.
     try_then (getClaim W client fetch L i) (\<lambda>found.
     try_then (ok_or found NotFound) (\<lambda>stored.
     ensure (\<not> vc_source_host stored \<noteq> js_sourceHost (pc_claim parsed)) (Mismatch ''source_host'') (
     ensure (\<not> vc_claim_key stored \<noteq> js_claimKey (pc_claim parsed)) (Mismatch ''claim_key'') (
     ensure (\<not> vc_claim_value stored \<noteq> js_claimValue (pc_claim parsed)) (Mismatch ''claim_value'') (
     ensure (\<not> vc_provenance_hash stored \<noteq> js_provenanceHash (pc_claim parsed)) (Mismatch ''provenance_hash'') (
     Inr (L, address)))))))))))"

section \<open>The cluster\<close>

text \<open>The accounts and the instructions account that a two-instruction transaction presents to the program.\<close>

definition transaction_sysvar :: "TransactionInstruction list \<Rightarrow> nat \<Rightarrow> instructions_sysvar" where
  "transaction_sysvar ixs i =
     \<lparr>current_index = Some (word_of_nat i),
      instruction_at = (\<lambda>n. if n < length ixs
        then Some \<lparr>ix_program_id = ti_programId (ixs ! n), ix_data = ti_data (ixs ! n)\<rparr> else None)\<rparr>"

definition submit_context :: "bool \<Rightarrow> TransactionInstruction list \<Rightarrow> AccountMeta list \<Rightarrow> SubmitClaim" where
  "submit_context funded ixs ms =
     \<lparr>sc_config = ms ! 0, sc_verified_claim = ms ! 1, sc_submitter = ms ! 2, sc_instructions = ms ! 3,
      sc_sysvar = transaction_sysvar ixs 1, sc_system_program = ms ! 4, sc_rent_paid = funded\<rparr>"

definition init_context :: "bool \<Rightarrow> AccountMeta list \<Rightarrow> InitializeConfig" where
  "init_context funded ms =
     \<lparr>ic_config = ms ! 0, ic_authority = ms ! 1, ic_system_program = ms ! 2, ic_rent_paid = funded\<rparr>"

text \<open>
  The weak contract.  A confirmation tells only that the ledger moved on by steps of the transition
  system, with or without the transaction in question; no other program can create an account at one
  of the program's addresses.
\<close>

definition network_spec :: "runtime \<Rightarrow> (bytes \<Rightarrow> bool) \<Rightarrow> web3_lib \<Rightarrow> WebProofClient \<Rightarrow> 's network \<Rightarrow> bool" where
  "network_spec rt native_ok W client nw \<longleftrightarrow>
     (\<forall>L sig latest L' err. nw_confirmTransaction nw L sig latest = Inr (L', err) \<longrightarrow>
        (ledger_step rt native_ok)\<^sup>*\<^sup>* L L' \<and>
        (\<forall>i. L' (claimAddress W client i) = Some ForeignAccount \<longrightarrow> L (claimAddress W client i) = Some ForeignAccount))"

text \<open>
  What Solana and Anchor do with the SDK's transactions when nothing else happens between sending and
  confirming.  An instruction addressed to the program whose data starts with the discriminator of a
  handler runs that handler on the Borsh-decoded arguments and the listed accounts; the native program
  checks an Ed25519 instruction first.  A transaction is simulated before it is sent, and refused with
  the handler's error; one that was sent has been executed when it is confirmed.  A submission carries
  the claim twice, in the signed message and as an argument: it must leave at most \<open>room\<close> bytes of
  instruction data, what a packet of 1232 bytes has besides signatures, accounts and headers.
\<close>

definition sent :: "'s network \<Rightarrow> ledger \<Rightarrow> TransactionInstruction list \<Rightarrow> Pubkey \<Rightarrow> client_error + ledger" where
  "sent nw L ixs payer = try_then (nw_sendTransaction nw L ixs payer) (confirm nw L)"

definition runs_initialize :: "runtime \<Rightarrow> web3_lib \<Rightarrow> WebProofClient \<Rightarrow> bool \<Rightarrow> 's network \<Rightarrow> bool" where
  "runs_initialize rt W client funded nw \<longleftrightarrow>
     (\<forall>L ix k age payer. ti_programId ix = wp_programId client \<longrightarrow> length (ti_keys ix) = 3 \<longrightarrow>
        ti_data ix = instructionDiscriminator W ''initialize_config'' @ k @ le_i64 age \<longrightarrow> length k = 32 \<longrightarrow>
        sent nw L [ix] payer = map_err TransactionFailed (initialize_config rt L (init_context funded (ti_keys ix)) k age))"

definition runs_submit ::
  "runtime \<Rightarrow> (bytes \<Rightarrow> bool) \<Rightarrow> web3_lib \<Rightarrow> WebProofClient \<Rightarrow> nat \<Rightarrow> bool \<Rightarrow> i64 option \<Rightarrow> 's network \<Rightarrow> bool" where
  "runs_submit rt native_ok W client room funded clock nw \<longleftrightarrow>
     (\<forall>L ed ix c i payer. ti_programId ed = rt_ed25519_id rt \<longrightarrow> ti_programId ix = wp_programId client \<longrightarrow>
        length (ti_keys ix) = 5 \<longrightarrow> encodable c \<longrightarrow> length i = 32 \<longrightarrow>
        ti_data ix = instructionDiscriminator W ''submit_claim'' @ enc_claim (claim_fields c) @ i \<longrightarrow>
        sent nw L [ed, ix] payer =
          (if room < length (ti_data ed) + length (ti_data ix) then Inl TransactionTooLarge
           else if native_ok (ti_data ed)
           then map_err TransactionFailed (submit_claim rt L (submit_context funded [ed, ix] (ti_keys ix)) clock c i)
           else Inl SignatureRejected))"

text \<open>
  Account data is what Anchor wrote, with the rest of the allocated space behind it, and an address
  without an account has none.
\<close>

definition account_spec :: "runtime \<Rightarrow> account_data \<Rightarrow> bool" where
  "account_spec rt fetch \<longleftrightarrow>
     (\<forall>L a. (L a = None \<longrightarrow> fetch L a = None) \<and> (L a \<noteq> None \<longrightarrow> fetch L a \<noteq> None) \<and>
        (\<forall>v. L a = Some (ClaimAccount v) \<longrightarrow> (\<exists>pad. fetch L a = Some (rt_account_bytes rt v @ pad))))"

definition web3_spec :: "runtime \<Rightarrow> web3_lib \<Rightarrow> WebProofClient \<Rightarrow> bool" where
  "web3_spec rt W client \<longleftrightarrow>
     w3_sha256 W = rt_hash rt \<and>
     (\<forall>seeds. w3_find_program_address W seeds (wp_programId client) = rt_find_program_address rt seeds) \<and>
     w3_system_program W = rt_system_id rt \<and> w3_instructions_sysvar W = rt_instructions_id rt \<and>
     (\<forall>k m s ed. w3_ed25519_instruction W k m s = Some ed \<longrightarrow>
        length k = 32 \<and> length s = 64 \<and> ti_programId ed = rt_ed25519_id rt \<and> ti_data ed = ed25519_layout k s m) \<and>
     wp_programId client \<noteq> rt_ed25519_id rt \<and>
     (\<forall>k m s. length k = 32 \<longrightarrow> length s = 64 \<longrightarrow> w3_ed25519_instruction W k m s \<noteq> None)"

definition cluster_spec ::
  "runtime \<Rightarrow> (bytes \<Rightarrow> bool) \<Rightarrow> web3_lib \<Rightarrow> WebProofClient \<Rightarrow> nat \<Rightarrow> bool \<Rightarrow> i64 option \<Rightarrow> 's network \<Rightarrow> account_data \<Rightarrow> bool" where
  "cluster_spec rt native_ok W client room funded clock nw fetch \<longleftrightarrow>
     web3_spec rt W client \<and> runs_initialize rt W client funded nw \<and>
     runs_submit rt native_ok W client room funded clock nw \<and> account_spec rt fetch"

text \<open>The two transactions of the command, sent and confirmed.\<close>

definition initialized ::
  "web3_lib \<Rightarrow> WebProofClient \<Rightarrow> 's network \<Rightarrow> ledger \<Rightarrow> bytes \<Rightarrow> int \<Rightarrow> Pubkey \<Rightarrow> client_error + ledger" where
  "initialized W client nw L key age payer = try_then (initializeConfig W client nw L key age payer) (confirm nw L)"

definition submitted ::
  "web3_lib \<Rightarrow> WebProofClient \<Rightarrow> 's network \<Rightarrow> ledger \<Rightarrow> JsClaim \<Rightarrow> bytes \<Rightarrow> bytes \<Rightarrow> Pubkey \<Rightarrow> client_error + (ledger \<times> Pubkey)" where
  "submitted W client nw L j sig key payer =
     try_then (submitClaim W client nw L j sig key payer) (\<lambda>(s, a). try_then (confirm nw L s) (\<lambda>L'. Inr (L', a)))"

lemma initialized_sent:
  "initialized W client nw L key age payer =
     try_then (map_err SdkError (initializeConfigInstruction W client key age payer)) (\<lambda>ix. sent nw L [ix] payer)"
  by (cases "initializeConfigInstruction W client key age payer") (simp_all add: initialized_def initializeConfig_def sent_def)

lemma submitted_sent:
  "submitted W client nw L j sig key payer =
     try_then (submitClaimInstructions W client j sig key payer) (\<lambda>(ixs, a). try_then (sent nw L ixs payer) (\<lambda>L'. Inr (L', a)))"
proof (cases "submitClaimInstructions W client j sig key payer")
  case (Inr r)
  then show ?thesis
    by (cases r; cases "nw_sendTransaction nw L (fst r) payer") (simp_all add: submitted_def submitClaim_def sent_def)
qed (simp add: submitted_def submitClaim_def)

lemma demo_onchain_alt:
  "demo_onchain W client nw fetch L p payer =
     try_then (if fetch L (configAddress W client) = None
               then initialized W client nw L (pc_verifierPublicKey p) 300 payer else Inr L) (\<lambda>L.
     try_then (submitted W client nw L (pc_claim p) (pc_signature p) (pc_verifierPublicKey p) payer) (\<lambda>(L, a).
     try_then (map_err SdkError (claimId (w3_sha256 W) (pc_claim p))) (\<lambda>i.
     try_then (getClaim W client fetch L i) (\<lambda>found.
     try_then (ok_or found NotFound) (\<lambda>stored.
     ensure (\<not> vc_source_host stored \<noteq> js_sourceHost (pc_claim p)) (Mismatch ''source_host'') (
     ensure (\<not> vc_claim_key stored \<noteq> js_claimKey (pc_claim p)) (Mismatch ''claim_key'') (
     ensure (\<not> vc_claim_value stored \<noteq> js_claimValue (pc_claim p)) (Mismatch ''claim_value'') (
     ensure (\<not> vc_provenance_hash stored \<noteq> js_provenanceHash (pc_claim p)) (Mismatch ''provenance_hash'') (
     Inr (L, a))))))))))"
proof -
  have assoc: "try_then (try_then r (\<lambda>(s, a). try_then (f s) (\<lambda>L. Inr (L, a)))) g =
      try_then r (\<lambda>(s, a). try_then (f s) (\<lambda>L. g (L, a)))" for r f and g :: "ledger \<times> Pubkey \<Rightarrow> client_error + 'z"
  proof (cases r)
    case (Inr x)
    then show ?thesis by (cases x; cases "f (fst x)") simp_all
  qed simp
  show ?thesis unfolding demo_onchain_def initialized_def submitted_def assoc by simp
qed

section \<open>What a submission runs\<close>

lemma domains_agree: "DOMAIN = DOMAIN_SEPARATOR"
  by (simp add: DOMAIN_def DOMAIN_SEPARATOR_def)

lemma borsh_claim_typed_encodable: "borsh_claim c = Inr b \<Longrightarrow> claim_typed c \<Longrightarrow> encodable c"
  by (auto simp: borsh_claim_alt sdk_string_def encodable_def result_simps Let_def)

text \<open>The context the program gets from the SDK's transaction for canonical bytes \<open>bs\<close>.\<close>

definition client_context ::
  "runtime \<Rightarrow> web3_lib \<Rightarrow> WebProofClient \<Rightarrow> bool \<Rightarrow> bytes \<Rightarrow> bytes \<Rightarrow> bytes \<Rightarrow> Pubkey \<Rightarrow> SubmitClaim" where
  "client_context rt W client funded key sig bs payer =
     \<lparr>sc_config = \<lparr>am_key = configAddress W client, am_is_signer = False, am_is_writable = False\<rparr>,
      sc_verified_claim = \<lparr>am_key = claimAddress W client (rt_hash rt bs), am_is_signer = False, am_is_writable = True\<rparr>,
      sc_submitter = \<lparr>am_key = payer, am_is_signer = True, am_is_writable = True\<rparr>,
      sc_instructions = \<lparr>am_key = rt_instructions_id rt, am_is_signer = False, am_is_writable = False\<rparr>,
      sc_sysvar = transaction_sysvar
        [\<lparr>ti_programId = rt_ed25519_id rt, ti_keys = [], ti_data = ed25519_layout key sig (DOMAIN @ bs)\<rparr>,
         \<lparr>ti_programId = wp_programId client, ti_keys = [],
          ti_data = instructionDiscriminator W ''submit_claim'' @ bs @ rt_hash rt bs\<rparr>] 1,
      sc_system_program = \<lparr>am_key = rt_system_id rt, am_is_signer = False, am_is_writable = False\<rparr>,
      sc_rent_paid = funded\<rparr>"

lemma transaction_sysvar_pair:
  "ti_programId a = ti_programId a' \<Longrightarrow> ti_data a = ti_data a' \<Longrightarrow> ti_programId b = ti_programId b' \<Longrightarrow> ti_data b = ti_data b' \<Longrightarrow>
     transaction_sysvar [a, b] i = transaction_sysvar [a', b'] i"
  by (auto simp: transaction_sysvar_def fun_eq_iff less_Suc_eq nth_Cons')

lemma client_preceding:
  "preceding_ed25519 (rt_ed25519_id rt) (sc_sysvar (client_context rt W client funded key sig bs payer)) =
     Some (ed25519_layout key sig (DOMAIN @ bs))"
  by (simp add: preceding_ed25519_def client_context_def transaction_sysvar_def)

lemma runs_submitD:
  assumes "runs_submit rt native_ok W client room funded clock nw" and "ti_programId ed = rt_ed25519_id rt"
    and "ti_programId ix = wp_programId client" and "length (ti_keys ix) = 5" and "encodable c" and "length i = 32"
    and "ti_data ix = instructionDiscriminator W ''submit_claim'' @ enc_claim (claim_fields c) @ i"
  shows "sent nw L [ed, ix] payer =
    (if room < length (ti_data ed) + length (ti_data ix) then Inl TransactionTooLarge
     else if native_ok (ti_data ed)
     then map_err TransactionFailed (submit_claim rt L (submit_context funded [ed, ix] (ti_keys ix)) clock c i)
     else Inl SignatureRejected)"
  using assms unfolding runs_submit_def by blast

lemma submitted_runs:
  assumes "cluster_spec rt native_ok W client room funded clock nw fetch" and "sha256_spec (rt_hash rt)"
    and "claim_typed (word_claim j)" and ser: "serializeClaim j = Inr bs"
    and ed: "w3_ed25519_instruction W key (DOMAIN_SEPARATOR @ bs) sig = Some ed"
  shows "submitted W client nw L j sig key payer =
    (if room < 176 + 2 * length bs then Inl TransactionTooLarge
     else if native_ok (ed25519_layout key sig (DOMAIN @ bs))
     then try_then (map_err TransactionFailed
            (submit_claim rt L (client_context rt W client funded key sig bs payer) clock (word_claim j) (rt_hash rt bs)))
            (\<lambda>L'. Inr (L', claimAddress W client (rt_hash rt bs)))
     else Inl SignatureRejected)"
proof -
  have w: "web3_spec rt W client" and run: "runs_submit rt native_ok W client room funded clock nw"
    using assms(1) by (simp_all add: cluster_spec_def)
  let ?ix = "\<lparr>ti_programId = wp_programId client,
      ti_keys = [\<lparr>am_key = configAddress W client, am_is_signer = False, am_is_writable = False\<rparr>,
         \<lparr>am_key = claimAddress W client (rt_hash rt bs), am_is_signer = False, am_is_writable = True\<rparr>,
         \<lparr>am_key = payer, am_is_signer = True, am_is_writable = True\<rparr>,
         \<lparr>am_key = rt_instructions_id rt, am_is_signer = False, am_is_writable = False\<rparr>,
         \<lparr>am_key = rt_system_id rt, am_is_signer = False, am_is_writable = False\<rparr>],
      ti_data = instructionDiscriminator W ''submit_claim'' @ bs @ rt_hash rt bs\<rparr>"
  have word: "borsh_claim (word_claim j) = Inr bs" using ser by (simp add: serializeClaim_iff)
  have enc: "encodable (word_claim j)" using word assms(3) by (rule borsh_claim_typed_encodable)
  have e: "ti_programId ed = rt_ed25519_id rt" "ti_data ed = ed25519_layout key sig (DOMAIN @ bs)"
    using w ed by (auto simp: web3_spec_def DOMAIN_def DOMAIN_SEPARATOR_def)
  have "submitted W client nw L j sig key payer =
      try_then (sent nw L [ed, ?ix] payer) (\<lambda>L'. Inr (L', claimAddress W client (rt_hash rt bs)))"
    using w ser ed
    by (simp add: submitted_sent submitClaimInstructions_def claimId_def signingMessage_def web3_spec_def Let_def)
  also have "sent nw L [ed, ?ix] payer =
      (if room < length (ti_data ed) + length (ti_data ?ix) then Inl TransactionTooLarge
       else if native_ok (ti_data ed)
       then map_err TransactionFailed (submit_claim rt L (submit_context funded [ed, ?ix] (ti_keys ?ix)) clock (word_claim j) (rt_hash rt bs))
       else Inl SignatureRejected)"
  proof (rule runs_submitD [OF run e(1) _ _ enc])
    show "ti_data ?ix = instructionDiscriminator W ''submit_claim'' @ enc_claim (claim_fields (word_claim j)) @ rt_hash rt bs"
      using borsh_claim_layout [OF word] by simp
  qed (use assms(2) in \<open>simp_all add: sha256_spec_def\<close>)
  also have "submit_context funded [ed, ?ix] (ti_keys ?ix) = client_context rt W client funded key sig bs payer"
    using e by (simp add: submit_context_def client_context_def numeral_eq_Suc)
       (rule transaction_sysvar_pair, simp_all)
  moreover have "length (ti_data ed) + length (ti_data ?ix) = 176 + 2 * length bs"
  proof -
    have "length key = 32" "length sig = 64" "w3_sha256 W = rt_hash rt" using w ed by (auto simp: web3_spec_def)
    moreover have "length DOMAIN = 24" by (simp add: DOMAIN_def)
    ultimately show ?thesis
      using assms(2) by (simp add: e(2) sha256_spec_def ed25519_layout_def instructionDiscriminator_def)
  qed
  ultimately show ?thesis using e(2) by simp
qed

text \<open>
  A submission that went through is a step of the transition system; it stored the claim under the
  key of the config, and the SDK reads it back.
\<close>

lemma client_native_verified:
  "native_ok (ed25519_layout key sig (DOMAIN @ bs)) \<Longrightarrow> wp_programId client \<noteq> rt_ed25519_id rt \<Longrightarrow>
     native_verified native_ok (rt_ed25519_id rt) (sc_sysvar (client_context rt W client funded key sig bs payer))"
  by (auto simp: native_verified_def client_context_def transaction_sysvar_def less_Suc_eq nth_Cons' split: if_splits)

lemma layout_key:
  assumes "attests (ed25519_layout key sig m) key' m sig'" and "length key = 32" and "length sig = 64"
  shows "key' = key"
  using attests_unique [OF assms(1) ed25519_layout_attests [OF assms(2,3) attests_lengths(3) [OF assms(1)]]] by simp

lemma submitted_stored:
  assumes "cluster_spec rt native_ok W client room funded clock nw fetch" and "sha256_spec (rt_hash rt)"
    and "anchor_account_spec (rt_hash rt) (rt_account_bytes rt)" and "borsh_spec (rt_try_to_vec rt)"
    and typed: "claim_typed (word_claim j)" and "length payer = 32"
    and sub: "submitted W client nw L j sig key payer = Inr (L', a)"
  obtains i v cfg where "claimId (w3_sha256 W) j = Inr i" and "a = claimAddress W client i"
    and "ledger_step rt native_ok L L'"
    and "L' a = Some (ClaimAccount v)" and "stored_fields (word_claim j) v" and "vc_submitted_by v = payer"
    and "getClaim W client fetch L' i = Inr (Some v)"
    and "L' (configAddress W client) = Some (ConfigAccount cfg)" and "verifier_pubkey cfg = key"
proof -
  have w: "web3_spec rt W client" and acc: "account_spec rt fetch" using assms(1) by (simp_all add: cluster_spec_def)
  from sub obtain bs ed where bs: "serializeClaim j = Inr bs" "claimId (w3_sha256 W) j = Inr (rt_hash rt bs)"
      and ed: "w3_ed25519_instruction W key (DOMAIN_SEPARATOR @ bs) sig = Some ed"
    using w by (auto simp: submitted_sent submitClaimInstructions_def claimId_def signingMessage_def web3_spec_def
        result_simps Let_def)
  let ?ctx = "client_context rt W client funded key sig bs payer"
  have run: "submit_claim rt L ?ctx clock (word_claim j) (rt_hash rt bs) = Inr L'"
      and native: "native_ok (ed25519_layout key sig (DOMAIN @ bs))"
      and a: "a = claimAddress W client (rt_hash rt bs)"
    using sub unfolding submitted_runs [OF assms(1,2) typed bs(1) ed] by (auto simp: result_simps split: if_splits)
  have "ledger_step rt native_ok L L'"
    by (rule ledger_step.submit_step [OF run client_native_verified])
       (use native w typed assms(6) in \<open>auto simp: web3_spec_def client_context_def\<close>)
  moreover from run obtain cfg b now bs' where accs: "accounts_SubmitClaim rt L ?ctx (rt_hash rt bs) = Some (cfg, b)"
      and ok: "validate_claim (word_claim j) now (max_claim_age_seconds (cfg :: WebProofConfig)) = Inr ()"
      and vec: "rt_try_to_vec rt (word_claim j) = Some bs'"
      and ver: "verify_preceding_ed25519 (rt_ed25519_id rt) (sc_sysvar ?ctx) (verifier_pubkey cfg) (DOMAIN @ bs') = Inr ()"
      and L': "L' = L(am_key (sc_verified_claim ?ctx) \<mapsto> ClaimAccount (stored_claim ?ctx now (word_claim j) (rt_hash rt bs) b))"
    unfolding submit_claim_iff by blast
  let ?v = "stored_claim ?ctx now (word_claim j) (rt_hash rt bs) b"
  have at: "L' a = Some (ClaimAccount ?v)" by (simp add: L' a client_context_def)
  then obtain pad where "fetch L' a = Some (rt_account_bytes rt ?v @ pad)" using acc unfolding account_spec_def by blast
  moreover have "acceptable (word_claim j) now (max_claim_age_seconds cfg)"
    using ok onchain_validator.check_iff [of "word_claim j" now "max_claim_age_seconds cfg"] by simp
  then have "decodeVerifiedClaim (rt_hash rt) (rt_account_bytes rt ?v @ pad) = Inr ?v"
    by (rule stored_claim_decodes [OF assms(2,3) typed]) (simp add: client_context_def assms(6))
  moreover have "w3_sha256 W = rt_hash rt" using w by (simp add: web3_spec_def)
  ultimately have get: "getClaim W client fetch L' (rt_hash rt bs) = Inr (Some ?v)" using a by (simp add: getClaim_def)
  have word: "borsh_claim (word_claim j) = Inr bs" using bs(1) by (simp add: serializeClaim_iff)
  have "bs' = bs"
    using vec borsh_specD [OF assms(4) borsh_claim_typed_encodable [OF word typed]] borsh_claim_layout [OF word] by simp
  then obtain sig' where "attests (ed25519_layout key sig (DOMAIN @ bs)) (verifier_pubkey cfg) (DOMAIN @ bs) sig'"
    using ver unfolding verify_preceding_iff client_preceding by auto
  then have "verifier_pubkey cfg = key" by (rule layout_key) (use w ed in \<open>auto simp: web3_spec_def\<close>)
  moreover have "L' (configAddress W client) = Some (ConfigAccount cfg)"
    using accounts_SubmitClaim_Some [OF accs] by (auto simp: L' client_context_def)
  ultimately show thesis
    using that [OF bs(2) a _ at _ _ get] \<open>ledger_step rt native_ok L L'\<close>
    by (simp add: stored_fields_def stored_claim_def client_context_def)
qed

section \<open>The demo command on a quiet cluster\<close>

lemma initialized_runs:
  assumes "cluster_spec rt native_ok W client room funded clock nw fetch" and "length key = 32"
  shows "initialized W client nw L key 300 auth =
    map_err TransactionFailed (initialize_config rt L
      \<lparr>ic_config = \<lparr>am_key = configAddress W client, am_is_signer = False, am_is_writable = True\<rparr>,
       ic_authority = \<lparr>am_key = auth, am_is_signer = True, am_is_writable = True\<rparr>,
       ic_system_program = \<lparr>am_key = rt_system_id rt, am_is_signer = False, am_is_writable = False\<rparr>,
       ic_rent_paid = funded\<rparr> key 300)"
  using assms
  by (simp add: initialized_sent initializeConfigInstruction_def sdk_bytes32_def sdk_i64_def i64_bounds
      cluster_spec_def runs_initialize_def web3_spec_def init_context_def numeral_eq_Suc)

lemma initialized_step:
  assumes "cluster_spec rt native_ok W client room funded clock nw fetch"
    and "initialized W client nw L key 300 auth = Inr L'"
  shows "ledger_step rt native_ok L L'"
proof -
  have "length key = 32"
    using assms(2) by (auto simp: initialized_sent initializeConfigInstruction_def sdk_bytes32_def result_simps)
  with assms show ?thesis by (auto simp: initialized_runs result_simps intro: ledger_step.init_step)
qed

text \<open>The read-back and the comparisons pass, so the command does what its two transactions do.\<close>

lemma demo_onchain_transactions:
  assumes "cluster_spec rt native_ok W client room funded clock nw fetch" and "sha256_spec (rt_hash rt)"
    and "anchor_account_spec (rt_hash rt) (rt_account_bytes rt)" and "borsh_spec (rt_try_to_vec rt)"
    and "claim_typed (word_claim (pc_claim p))" and "length payer = 32"
  shows "demo_onchain W client nw fetch L p payer =
    try_then (if fetch L (configAddress W client) = None
              then initialized W client nw L (pc_verifierPublicKey p) 300 payer else Inr L) (\<lambda>L.
    submitted W client nw L (pc_claim p) (pc_signature p) (pc_verifierPublicKey p) payer)"
proof -
  have tail: "try_then (submitted W client nw L (pc_claim p) (pc_signature p) (pc_verifierPublicKey p) payer)
      (\<lambda>(L, address).
       try_then (map_err SdkError (claimId (w3_sha256 W) (pc_claim p))) (\<lambda>i.
       try_then (getClaim W client fetch L i) (\<lambda>found.
       try_then (ok_or found NotFound) (\<lambda>stored.
       ensure (\<not> vc_source_host stored \<noteq> js_sourceHost (pc_claim p)) (Mismatch ''source_host'') (
       ensure (\<not> vc_claim_key stored \<noteq> js_claimKey (pc_claim p)) (Mismatch ''claim_key'') (
       ensure (\<not> vc_claim_value stored \<noteq> js_claimValue (pc_claim p)) (Mismatch ''claim_value'') (
       ensure (\<not> vc_provenance_hash stored \<noteq> js_provenanceHash (pc_claim p)) (Mismatch ''provenance_hash'') (
       Inr (L, address))))))))) =
      submitted W client nw L (pc_claim p) (pc_signature p) (pc_verifierPublicKey p) payer" for L
  proof (cases "submitted W client nw L (pc_claim p) (pc_signature p) (pc_verifierPublicKey p) payer")
    case (Inr r)
    then obtain L' a where r: "r = (L', a)"
        and sub: "submitted W client nw L (pc_claim p) (pc_signature p) (pc_verifierPublicKey p) payer = Inr (L', a)"
      by (cases r) simp
    from sub obtain i v where "claimId (w3_sha256 W) (pc_claim p) = Inr i" "stored_fields (word_claim (pc_claim p)) v"
        "getClaim W client fetch L' i = Inr (Some v)"
      using submitted_stored [OF assms] by metis
    then show ?thesis by (simp add: Inr r stored_fields_def word_claim_def ensure_def)
  qed simp
  show ?thesis unfolding demo_onchain_alt tail ..
qed

lemma demo_onchain_stored:
  assumes "cluster_spec rt native_ok W client room funded clock nw fetch" and "sha256_spec (rt_hash rt)"
    and "anchor_account_spec (rt_hash rt) (rt_account_bytes rt)" and "borsh_spec (rt_try_to_vec rt)"
    and "claim_typed (word_claim (pc_claim p))" and "length payer = 32"
    and run: "demo_onchain W client nw fetch L p payer = Inr (L', a)"
  shows "(ledger_step rt native_ok)\<^sup>*\<^sup>* L L' \<and>
    (\<exists>v cfg. L' a = Some (ClaimAccount v) \<and> stored_fields (word_claim (pc_claim p)) v \<and> vc_submitted_by v = payer \<and>
       L' (configAddress W client) = Some (ConfigAccount cfg) \<and> verifier_pubkey cfg = pc_verifierPublicKey p)"
proof -
  from run obtain L1 where init: "(if fetch L (configAddress W client) = None
        then initialized W client nw L (pc_verifierPublicKey p) 300 payer else Inr L) = Inr L1"
      and sub: "submitted W client nw L1 (pc_claim p) (pc_signature p) (pc_verifierPublicKey p) payer = Inr (L', a)"
    unfolding demo_onchain_transactions [OF assms(1-6)] try_then_eq_Inr by blast
  have "(ledger_step rt native_ok)\<^sup>*\<^sup>* L L1"
    using init initialized_step [OF assms(1)] by (auto split: if_splits)
  moreover obtain v cfg where "ledger_step rt native_ok L1 L'" "L' a = Some (ClaimAccount v)"
      "stored_fields (word_claim (pc_claim p)) v" "vc_submitted_by v = payer"
      "L' (configAddress W client) = Some (ConfigAccount cfg)" "verifier_pubkey cfg = pc_verifierPublicKey p"
    using submitted_stored [OF assms(1-6) sub] by metis
  ultimately show ?thesis
    by (intro conjI exI [of _ v] exI [of _ cfg]) (auto intro: rtranclp.rtrancl_into_rtrancl)
qed

text \<open>
  The limits of the three strings add up to 512 bytes, and a transaction carries them twice: a claim
  that is within its limits, and that the program would accept, need not fit one.
\<close>

lemma long_claim_does_not_fit:
  assumes "cluster_spec rt native_ok W client room funded clock nw fetch" and "sha256_spec (rt_hash rt)" and "encodable c"
    and "length key = 32" and "length sig = 64"
    and "room < 426 + 2 * (length (source_host c) + length (claim_key c) + length (claim_value c))"
  shows "submitted W client nw L (js_claim c) sig key payer = Inl TransactionTooLarge"
proof -
  have ser: "serializeClaim (js_claim c) = Inr (enc_claim (claim_fields c))" using assms(3) by (rule serializeClaim_js_claim)
  have typed: "claim_typed (word_claim (js_claim c))" using assms(3) by (simp add: encodable_def)
  obtain ed where ed: "w3_ed25519_instruction W key (DOMAIN_SEPARATOR @ enc_claim (claim_fields c)) sig = Some ed"
    using assms(1,4,5) unfolding cluster_spec_def web3_spec_def by blast
  show ?thesis
    unfolding submitted_runs [OF assms(1,2) typed ser ed] using assms(3,6) by (simp add: length_enc_claim)
qed

section \<open>The demo command on any chain\<close>

text \<open>What the read-back of a run that reports success has seen.\<close>

lemma demo_onchain_Inr:
  assumes "demo_onchain W client nw fetch L p payer = Inr (L', a)"
  obtains L1 sig i stored where
    "L1 = L \<or> (\<exists>s. confirm nw L s = Inr L1)" and "confirm nw L1 sig = Inr L'"
    and "claimId (w3_sha256 W) (pc_claim p) = Inr i" and "a = claimAddress W client i"
    and "getClaim W client fetch L' i = Inr (Some stored)"
    and "vc_source_host stored = js_sourceHost (pc_claim p)" and "vc_claim_key stored = js_claimKey (pc_claim p)"
    and "vc_claim_value stored = js_claimValue (pc_claim p)" and "vc_provenance_hash stored = js_provenanceHash (pc_claim p)"
proof -
  from assms obtain L1 sig i stored where init: "(if fetch L (configAddress W client) = None
        then try_then (initializeConfig W client nw L (pc_verifierPublicKey p) 300 payer) (\<lambda>sig. confirm nw L sig)
        else Inr L) = Inr L1"
      and sub: "submitClaim W client nw L1 (pc_claim p) (pc_signature p) (pc_verifierPublicKey p) payer = Inr (sig, a)"
      and rest: "confirm nw L1 sig = Inr L'" "claimId (w3_sha256 W) (pc_claim p) = Inr i"
        "getClaim W client fetch L' i = Inr (Some stored)"
        "vc_source_host stored = js_sourceHost (pc_claim p)" "vc_claim_key stored = js_claimKey (pc_claim p)"
        "vc_claim_value stored = js_claimValue (pc_claim p)" "vc_provenance_hash stored = js_provenanceHash (pc_claim p)"
    unfolding demo_onchain_def by (force simp: result_simps)
  have "L1 = L \<or> (\<exists>s. confirm nw L s = Inr L1)" using init by (auto simp: result_simps split: if_splits)
  moreover have "a = claimAddress W client i"
    using sub rest(2) by (auto simp: submitClaim_def submitClaimInstructions_def result_simps Let_def)
  ultimately show thesis using that rest by blast
qed

lemma confirm_steps:
  assumes "network_spec rt native_ok W client nw" and "confirm nw L sig = Inr L'"
  shows "(ledger_step rt native_ok)\<^sup>*\<^sup>* L L'"
    and "L' (claimAddress W client i) = Some ForeignAccount \<Longrightarrow> L (claimAddress W client i) = Some ForeignAccount"
proof -
  obtain latest err where "nw_confirmTransaction nw L sig latest = Inr (L', err)"
    using assms(2) unfolding confirm_def by (auto simp: result_simps)
  with assms(1) show "(ledger_step rt native_ok)\<^sup>*\<^sup>* L L'"
      "L' (claimAddress W client i) = Some ForeignAccount \<Longrightarrow> L (claimAddress W client i) = Some ForeignAccount"
    unfolding network_spec_def by blast+
qed

lemma run_reachable_from: "(ledger_step rt native_ok)\<^sup>*\<^sup>* L L' \<Longrightarrow> reachable rt native_ok L \<Longrightarrow> reachable rt native_ok L'"
  by (induction rule: rtranclp_induct) (auto intro: reachable.step)

text \<open>What the SDK decodes at an address of the program is the claim account there.\<close>

lemma getClaim_account:
  assumes "reachable rt native_ok L" and "native_ed25519_spec ed_verify native_ok" and "sha256_spec (rt_hash rt)"
    and "anchor_account_spec (rt_hash rt) (rt_account_bytes rt)" and "web3_spec rt W client" and "account_spec rt fetch"
    and "claimAddress W client i \<noteq> configAddress W client" and "L (claimAddress W client i) \<noteq> Some ForeignAccount"
    and "getClaim W client fetch L i = Inr (Some v)"
  shows "L (claimAddress W client i) = Some (ClaimAccount v)"
proof (cases "L (claimAddress W client i)")
  case None
  then have "fetch L (claimAddress W client i) = None" using assms(6) by (simp add: account_spec_def)
  with assms(9) show ?thesis by (simp add: getClaim_def)
next
  case (Some x)
  show ?thesis
  proof (cases x)
    case (ConfigAccount cfg)
    with Some reachable_inv [OF assms(1,2)] have "config_origin rt (claimAddress W client i) cfg" by (simp add: ledger_inv_def)
    with assms(5,7) show ?thesis by (simp add: config_origin_def web3_spec_def configAddress_def)
  next
    case (ClaimAccount u)
    with Some assms(6) obtain pad where "fetch L (claimAddress W client i) = Some (rt_account_bytes rt u @ pad)"
      unfolding account_spec_def by blast
    moreover have "verified_claim_typed u" "verified_claim_bounded u"
      using reachable_claim_typed [OF assms(1-3)] Some ClaimAccount by simp_all
    then have "decodeVerifiedClaim (rt_hash rt) (rt_account_bytes rt u @ pad) = Inr u" by (rule decode_account [OF assms(3,4)])
    moreover have "w3_sha256 W = rt_hash rt" using assms(5) by (simp add: web3_spec_def)
    ultimately show ?thesis using assms(9) Some ClaimAccount by (simp add: getClaim_def)
  qed (use assms(8) Some in simp)
qed

text \<open>
  C40.  Success of the \<open>demo\<close> command is real.  The command ignores whether its transactions failed,
  and others may use the chain between its calls; all that is assumed of a confirmation is that the
  ledger moved by legal steps, and of the addresses of claims that only the program creates
  accounts there and that none is the config's.  Still, a run that reports success leaves, at the returned address,
  which is that of the parsed claim's identifier, a claim account with the parsed host, key, value and
  provenance hash; it is backed by a verified signature under the key of the config on the ledger; and
  the signed claim is the parsed one in all its fields, times and nonce included, unless its canonical
  bytes and those of the parsed claim are a collision of the hash function, or two identifiers a
  collision of the address function.
\<close>

theorem demo_success_is_real:
  assumes "reachable rt native_ok L" and "native_ed25519_spec ed_verify native_ok" and "sha256_spec (rt_hash rt)"
    and "anchor_account_spec (rt_hash rt) (rt_account_bytes rt)" and "borsh_spec (rt_try_to_vec rt)"
    and "web3_spec rt W client" and "account_spec rt fetch" and "network_spec rt native_ok W client nw"
    and "claim_typed (word_claim (pc_claim p))"
    and own: "\<forall>i. claimAddress W client i \<noteq> configAddress W client \<and> L (claimAddress W client i) \<noteq> Some ForeignAccount"
    and run: "demo_onchain W client nw fetch L p payer = Inr (L', a)"
  shows "(ledger_step rt native_ok)\<^sup>*\<^sup>* L L' \<and>
    (\<exists>i v ca cfg c bs sig jb. claimId (w3_sha256 W) (pc_claim p) = Inr i \<and> a = claimAddress W client i \<and>
       L' a = Some (ClaimAccount v) \<and>
       vc_source_host v = js_sourceHost (pc_claim p) \<and> vc_claim_key v = js_claimKey (pc_claim p) \<and>
       vc_claim_value v = js_claimValue (pc_claim p) \<and> vc_provenance_hash v = js_provenanceHash (pc_claim p) \<and>
       L' ca = Some (ConfigAccount cfg) \<and> stored_fields c v \<and> rt_try_to_vec rt c = Some bs \<and> vc_claim_id v = rt_hash rt bs \<and>
       ed_verify (verifier_pubkey cfg) (DOMAIN @ bs) sig \<and> serializeClaim (pc_claim p) = Inr jb \<and>
       (c = word_claim (pc_claim p) \<or> jb \<noteq> bs \<and> rt_hash rt jb = rt_hash rt bs \<or>
        vc_claim_id v \<noteq> i \<and> claimAddress W client (vc_claim_id v) = claimAddress W client i))"
proof -
  obtain L1 sg i v where L1: "L1 = L \<or> (\<exists>s. confirm nw L s = Inr L1)" and L': "confirm nw L1 sg = Inr L'"
      and i: "claimId (w3_sha256 W) (pc_claim p) = Inr i" "a = claimAddress W client i"
      and get: "getClaim W client fetch L' i = Inr (Some v)"
      and cmp: "vc_source_host v = js_sourceHost (pc_claim p)" "vc_claim_key v = js_claimKey (pc_claim p)"
        "vc_claim_value v = js_claimValue (pc_claim p)" "vc_provenance_hash v = js_provenanceHash (pc_claim p)"
    by (rule demo_onchain_Inr [OF run])
  have "(ledger_step rt native_ok)\<^sup>*\<^sup>* L L1" using L1 confirm_steps(1) [OF assms(8)] by auto
  then have steps: "(ledger_step rt native_ok)\<^sup>*\<^sup>* L L'" using confirm_steps(1) [OF assms(8) L'] by (rule rtranclp_trans)
  then have reach: "reachable rt native_ok L'" using assms(1) by (rule run_reachable_from)
  have "L' (claimAddress W client i) \<noteq> Some ForeignAccount"
    using confirm_steps(2) [OF assms(8)] L1 L' own by metis
  then have at: "L' a = Some (ClaimAccount v)"
    unfolding i(2) using own by (intro getClaim_account [OF reach assms(2,3,4,6,7) _ _ get]) simp_all
  with reachable_inv [OF reach assms(2)] obtain ca cfg c where cfg: "L' ca = Some (ConfigAccount cfg)"
      and orig: "claim_origin rt ed_verify cfg a v c"
    unfolding ledger_inv_def by blast
  then obtain bs sig where c: "claim_typed c" "stored_fields c v" "acceptable c (vc_created_at v) (max_claim_age_seconds cfg)"
      and bs: "rt_try_to_vec rt c = Some bs" "vc_claim_id v = rt_hash rt bs"
      and sig: "ed_verify (verifier_pubkey cfg) (DOMAIN @ bs) sig"
      and addr: "rt_find_program_address rt [as_bytes ''claim'', vc_claim_id v] = (a, vc_bump v)"
    unfolding claim_origin_def by blast
  from i(1) assms(6) obtain jb where jb: "serializeClaim (pc_claim p) = Inr jb" "i = rt_hash rt jb"
    by (auto simp: claimId_def web3_spec_def result_simps)
  have word: "borsh_claim (word_claim (pc_claim p)) = Inr jb" using jb(1) by (simp add: serializeClaim_iff)
  have enc: "encodable (word_claim (pc_claim p))" "encodable c"
    using borsh_claim_typed_encodable [OF word assms(9)] c(1,3) onchain_validator.accepts_encodable onchain_validator.check_iff
    by blast+
  have "c = word_claim (pc_claim p) \<or> jb \<noteq> bs"
    using bs(1) borsh_specD [OF assms(5) enc(2)] borsh_claim_layout [OF word]
      claim_layout.enc_inject [OF fits_claim_fields [OF enc(2)] fits_claim_fields [OF enc(1)]] by auto
  moreover have "claimAddress W client (vc_claim_id v) = claimAddress W client i"
    using addr i(2) assms(6) by (simp add: claimAddress_def web3_spec_def)
  ultimately have "c = word_claim (pc_claim p) \<or> jb \<noteq> bs \<and> rt_hash rt jb = rt_hash rt bs \<or>
      vc_claim_id v \<noteq> i \<and> claimAddress W client (vc_claim_id v) = claimAddress W client i"
    using bs(2) jb(2) by metis
  with steps i at cmp cfg c(2) bs sig jb(1) show ?thesis by blast
qed

section \<open>From the signing service to the ledger\<close>

text \<open>An address found with its bump is the address created from that bump.\<close>

definition pda_spec :: "runtime \<Rightarrow> bool" where
  "pda_spec rt \<longleftrightarrow>
     (\<forall>seeds a b. rt_find_program_address rt seeds = (a, b) \<longrightarrow> rt_create_program_address rt seeds b = Some a)"

text \<open>The config that a run of the command finds or creates for a service's key.\<close>

definition config_ready :: "runtime \<Rightarrow> web3_lib \<Rightarrow> WebProofClient \<Rightarrow> bytes \<Rightarrow> ledger \<Rightarrow> bool" where
  "config_ready rt W client key L \<longleftrightarrow>
     (\<exists>cfg. L (configAddress W client) = Some (ConfigAccount cfg) \<and> config_origin rt (configAddress W client) cfg \<and>
        verifier_pubkey cfg = key \<and> 300 \<le> sint (max_claim_age_seconds cfg))"

lemma initialized_ready:
  assumes "cluster_spec rt native_ok W client room True clock nw fetch" and "length key = 32"
    and "L (configAddress W client) = None"
  obtains L' where "initialized W client nw L key 300 auth = Inr L'" and "config_ready rt W client key L'"
    and "\<And>a. a \<noteq> configAddress W client \<Longrightarrow> L' a = L a"
proof -
  obtain b where pda: "rt_find_program_address rt [as_bytes ''config''] = (configAddress W client, b)"
    using assms(1) by (cases "rt_find_program_address rt [as_bytes ''config'']")
      (simp add: cluster_spec_def web3_spec_def configAddress_def)
  show thesis
    using assms(3) pda
    by (intro that [of "L(configAddress W client \<mapsto> ConfigAccount
          \<lparr>authority = auth, verifier_pubkey = key, max_claim_age_seconds = 300, bump = b\<rparr>)"])
       (simp_all add: initialized_runs [OF assms(1,2)] initialize_config_def accounts_InitializeConfig_def
        init_pda_def config_ready_def config_origin_def)
qed

lemma client_accounts:
  assumes "web3_spec rt W client" and "pda_spec rt" and "L (configAddress W client) = Some (ConfigAccount cfg)"
    and "config_origin rt (configAddress W client) cfg" and "L (claimAddress W client (rt_hash rt bs)) = None"
  obtains b where
    "accounts_SubmitClaim rt L (client_context rt W client True key sig bs payer) (rt_hash rt bs) = Some (cfg, b)"
proof -
  obtain b where "rt_find_program_address rt [as_bytes ''claim'', rt_hash rt bs] = (claimAddress W client (rt_hash rt bs), b)"
    using assms(1) by (cases "rt_find_program_address rt [as_bytes ''claim'', rt_hash rt bs]")
      (simp add: web3_spec_def claimAddress_def)
  moreover have "rt_create_program_address rt [as_bytes ''config''] (bump cfg) = Some (configAddress W client)"
    using assms(2,4) by (simp add: pda_spec_def config_origin_def)
  ultimately show thesis
    using assms(3,5) by (intro that) (simp add: accounts_SubmitClaim_def init_pda_def client_context_def)
qed

lemma submitted_genuine:
  assumes cl: "cluster_spec rt native_ok W client room True (Some t) nw fetch" and "sha256_spec (rt_hash rt)"
    and "anchor_account_spec (rt_hash rt) (rt_account_bytes rt)" and "borsh_spec (rt_try_to_vec rt)" and "pda_spec rt"
    and "encodable c" and "length payer = 32" and "length key = 32" and "length sig = 64"
    and bs: "bs = enc_claim (claim_fields c)" and "native_ok (ed25519_layout key sig (DOMAIN @ bs))"
    and ready: "config_ready rt W client key L" and "L (claimAddress W client (rt_hash rt bs)) = None"
    and ok: "acceptable c t 300" and room: "176 + 2 * length bs \<le> room"
  shows "\<exists>L'. submitted W client nw L (js_claim c) sig key payer = Inr (L', claimAddress W client (rt_hash rt bs))"
proof -
  have w: "web3_spec rt W client" using cl by (simp add: cluster_spec_def)
  obtain cfg where cfg: "L (configAddress W client) = Some (ConfigAccount cfg)"
      "config_origin rt (configAddress W client) cfg" "verifier_pubkey cfg = key" "300 \<le> sint (max_claim_age_seconds cfg)"
    using ready unfolding config_ready_def by blast
  obtain b where acc: "accounts_SubmitClaim rt L (client_context rt W client True key sig bs payer) (rt_hash rt bs) = Some (cfg, b)"
    using client_accounts [OF w assms(5) cfg(1,2) assms(13)] .
  have ser: "serializeClaim (js_claim c) = Inr bs" using serializeClaim_js_claim [OF assms(6)] bs by simp
  obtain ed where ed: "w3_ed25519_instruction W key (DOMAIN_SEPARATOR @ bs) sig = Some ed"
    using w assms(8,9) unfolding web3_spec_def by blast
  have typed: "claim_typed c" using assms(6) by (simp add: encodable_def)
  have "acceptable c t (max_claim_age_seconds cfg)"
    using ok cfg(4) by (auto simp: acceptable_def in_window_def i64_bounds)
  then have "is_ok (submit_claim rt L (client_context rt W client True key sig bs payer) (Some t) c (rt_hash rt bs))"
    using submit_genuine [OF assms(2,4,3) typed _ _ acc, where now = t and sig = sig] borsh_specD [OF assms(4,6)] bs
      client_preceding cfg(3) assms(7-9)
    by (simp add: client_context_def)
  moreover have typed': "claim_typed (word_claim (js_claim c))" using typed by simp
  ultimately show ?thesis
    unfolding submitted_runs [OF cl assms(2) typed' ser ed] using assms(11) room by (auto simp: is_ok_iff)
qed

lemma demo_onchain_genuine:
  assumes cl: "cluster_spec rt native_ok W client room True (Some t) nw fetch" and "sha256_spec (rt_hash rt)"
    and "anchor_account_spec (rt_hash rt) (rt_account_bytes rt)" and "borsh_spec (rt_try_to_vec rt)" and "pda_spec rt"
    and "encodable c" and "length payer = 32" and "length key = 32" and "length sig = 64"
    and bs: "bs = enc_claim (claim_fields c)" and "native_ok (ed25519_layout key sig (DOMAIN @ bs))"
    and "L (configAddress W client) = None \<or> config_ready rt W client key L"
    and "L (claimAddress W client (rt_hash rt bs)) = None"
    and "claimAddress W client (rt_hash rt bs) \<noteq> configAddress W client"
    and ok: "acceptable c t 300" and room: "176 + 2 * length bs \<le> room"
    and p: "pc_claim p = js_claim c" "pc_signature p = sig" "pc_verifierPublicKey p = key"
  shows "\<exists>L'. demo_onchain W client nw fetch L p payer = Inr (L', claimAddress W client (rt_hash rt bs))"
proof -
  have acct: "account_spec rt fetch" using cl by (simp add: cluster_spec_def)
  have typed: "claim_typed (word_claim (pc_claim p))" using assms(6) p(1) by (simp add: encodable_def)
  obtain L1 where init: "(if fetch L (configAddress W client) = None
        then initialized W client nw L key 300 payer else Inr L) = Inr L1"
      and ready: "config_ready rt W client key L1" and same: "L1 (claimAddress W client (rt_hash rt bs)) = None"
  proof (cases "L (configAddress W client)")
    case None
    then show thesis
      using initialized_ready [OF cl assms(8), of L payer] acct assms(13,14) that by (metis account_spec_def)
  next
    case (Some x)
    with acct have "fetch L (configAddress W client) \<noteq> None" unfolding account_spec_def by blast
    with Some that [of L] assms(12,13) show thesis by simp
  qed
  obtain L' where "submitted W client nw L1 (js_claim c) sig key payer = Inr (L', claimAddress W client (rt_hash rt bs))"
    using submitted_genuine [OF cl assms(2-11) ready same ok room] by blast
  with init show ?thesis
    unfolding demo_onchain_transactions [OF cl assms(2-4) typed assms(7)] p by (auto split: if_splits)
qed


end
