(* ===== verification/Rust_Strings.thy ===== *)
theory Rust_Strings
  imports WebProof_Prelude
begin

text \<open>
  The functions of Rust's \<open>str\<close> and integer types that the demo binaries use on configuration
  values: \<open>trim\<close>, \<open>split\<close>, \<open>eq_ignore_ascii_case\<close>, \<open>to_ascii_lowercase\<close>, \<open>replace\<close> of a character, and
  decimal \<open>parse\<close>, on strings as lists of UTF-8 bytes.
\<close>

section \<open>Whitespace\<close>

text \<open>The UTF-8 encodings of the code points with the property \<open>White_Space\<close>.\<close>

definition white_space_codes :: "nat list list" where
  "white_space_codes =
     [[9], [10], [11], [12], [13], [32], [0xC2, 0x85], [0xC2, 0xA0], [0xE1, 0x9A, 0x80],
      [0xE2, 0x80, 0x80], [0xE2, 0x80, 0x81], [0xE2, 0x80, 0x82], [0xE2, 0x80, 0x83], [0xE2, 0x80, 0x84],
      [0xE2, 0x80, 0x85], [0xE2, 0x80, 0x86], [0xE2, 0x80, 0x87], [0xE2, 0x80, 0x88], [0xE2, 0x80, 0x89],
      [0xE2, 0x80, 0x8A], [0xE2, 0x80, 0xA8], [0xE2, 0x80, 0xA9], [0xE2, 0x80, 0xAF], [0xE2, 0x81, 0x9F],
      [0xE3, 0x80, 0x80]]"

definition white_space :: "string list" where
  "white_space = map (map char_of) white_space_codes"

text \<open>The first of the given non-empty pieces that is at the front.\<close>

definition front_piece :: "'a list list \<Rightarrow> 'a list \<Rightarrow> 'a list option" where
  "front_piece ws s = List.find (\<lambda>w. w \<noteq> [] \<and> take (length w) s = w) ws"

lemma front_piece_Some:
  assumes "front_piece ws s = Some w"
  shows "w \<in> set ws" and "w \<noteq> []" and "s = w @ drop (length w) s"
proof -
  have "w \<in> set ws" "w \<noteq> []" "take (length w) s = w"
    using assms by (auto simp: front_piece_def find_Some_iff)
  then show "w \<in> set ws" "w \<noteq> []" "s = w @ drop (length w) s" by (auto) (metis append_take_drop_id)
qed

lemma front_piece_None: "front_piece ws s = None \<longleftrightarrow> (\<forall>w \<in> set ws. w \<noteq> [] \<longrightarrow> take (length w) s \<noteq> w)"
  by (auto simp: front_piece_def find_None_iff)

text \<open>Removes from the front as many of the pieces as possible.\<close>

function strip_front :: "'a list list \<Rightarrow> 'a list \<Rightarrow> 'a list" where
  "strip_front ws s =
     (case front_piece ws s of
        None \<Rightarrow> s
      | Some w \<Rightarrow> strip_front ws (drop (length w) s))"
  by auto
termination
proof (relation "measure (\<lambda>(ws, s). length s)")
  show "((ws, drop (length w) s), ws, s) \<in> measure (\<lambda>(ws, s). length s)" if "front_piece ws s = Some w"
    for ws :: "'a list list" and s w :: "'a list"
    using front_piece_Some(2,3) [OF that] by (cases s) auto
qed simp

declare strip_front.simps [simp del]

definition trim_start :: "string \<Rightarrow> string" where
  "trim_start s = strip_front white_space s"

definition trim_end :: "string \<Rightarrow> string" where
  "trim_end s = rev (strip_front (map rev white_space) (rev s))"

definition trim :: "string \<Rightarrow> string" where
  "trim s = trim_end (trim_start s)"

section \<open>Splitting, case and numbers\<close>

fun split_on :: "'a \<Rightarrow> 'a list \<Rightarrow> 'a list list" where
  "split_on c [] = [[]]"
| "split_on c (x # xs) =
     (if x = c then [] # split_on c xs
      else (case split_on c xs of p # ps \<Rightarrow> (x # p) # ps | [] \<Rightarrow> [[x]]))"

fun join :: "'a \<Rightarrow> 'a list list \<Rightarrow> 'a list" where
  "join c [] = []"
| "join c [p] = p"
| "join c (p # ps) = p @ c # join c ps"

definition lower_char :: "char \<Rightarrow> char" where
  "lower_char c = (if 65 \<le> (of_char c :: nat) \<and> of_char c \<le> (90 :: nat) then char_of ((of_char c :: nat) + 32) else c)"

definition to_ascii_lowercase :: "string \<Rightarrow> string" where
  "to_ascii_lowercase s = map lower_char s"

definition eq_ignore_ascii_case :: "string \<Rightarrow> string \<Rightarrow> bool" where
  "eq_ignore_ascii_case a b \<longleftrightarrow> to_ascii_lowercase a = to_ascii_lowercase b"

definition is_digit :: "char \<Rightarrow> bool" where
  "is_digit c \<longleftrightarrow> 48 \<le> (of_char c :: nat) \<and> of_char c \<le> (57 :: nat)"

definition is_ascii_hexdigit :: "char \<Rightarrow> bool" where
  "is_ascii_hexdigit c \<longleftrightarrow> is_digit c \<or>
     (let n = of_char (lower_char c) :: nat in 97 \<le> n \<and> n \<le> 102)"

definition decimal :: "string \<Rightarrow> int" where
  "decimal s = foldl (\<lambda>v c. v * 10 + (of_char c - 48)) 0 s"

text \<open>
  \<open>from_str\<close> of an integer type with bounds \<open>lo\<close> and \<open>hi\<close>: an optional sign (a minus only for the
  signed types), then digits only and at least one, and the value must be representable.
\<close>

definition parse_int :: "bool \<Rightarrow> int \<Rightarrow> int \<Rightarrow> string \<Rightarrow> int option" where
  "parse_int signed_ty lo hi s =
     (let (sgn, ds) =
        (case s of
           [] \<Rightarrow> (1, [])
         | c # cs \<Rightarrow> if c = CHR ''+'' then (1, cs) else if c = CHR ''-'' \<and> signed_ty then (- 1, cs) else (1, s))
      in if ds \<noteq> [] \<and> list_all is_digit ds \<and> lo \<le> sgn * decimal ds \<and> sgn * decimal ds \<le> hi
         then Some (sgn * decimal ds) else None)"

definition parse_i64 :: "string \<Rightarrow> i64 option" where
  "parse_i64 s = map_option word_of_int (parse_int True I64_MIN I64_MAX s)"

definition parse_usize :: "string \<Rightarrow> nat option" where
  "parse_usize s = map_option nat (parse_int False 0 (2 ^ 64 - 1) s)"

section \<open>Facts\<close>

lemma strip_front_done: "front_piece ws s = None \<Longrightarrow> strip_front ws s = s"
  by (simp add: strip_front.simps [of ws s])

lemma strip_front_more: "front_piece ws s = Some w \<Longrightarrow> strip_front ws s = strip_front ws (drop (length w) s)"
  by (simp add: strip_front.simps [of ws s])

text \<open>
  What is removed is a sequence of the pieces, and afterwards none of them is at the front.
\<close>

lemma strip_front_spec:
  "\<exists>ps. set ps \<subseteq> set ws \<and> s = concat ps @ strip_front ws s \<and> front_piece ws (strip_front ws s) = None"
proof (induction ws s rule: strip_front.induct)
  case (1 ws s)
  show ?case
  proof (cases "front_piece ws s")
    case None
    then show ?thesis by (intro exI [of _ "[]"]) (simp add: strip_front_done)
  next
    case (Some w)
    from 1 [OF Some] obtain ps where "set ps \<subseteq> set ws"
        "drop (length w) s = concat ps @ strip_front ws (drop (length w) s)"
        "front_piece ws (strip_front ws (drop (length w) s)) = None" by blast
    with front_piece_Some [OF Some] show ?thesis
      by (intro exI [of _ "w # ps"]) (simp add: strip_front_more [OF Some])
  qed
qed

lemma strip_front_idem [simp]: "strip_front ws (strip_front ws s) = strip_front ws s"
  using strip_front_spec [of ws s] by (blast intro: strip_front_done)

text \<open>
  Pieces none of which begins with another: a sequence of them is removed whole.
\<close>

locale piece_code =
  fixes ws :: "'a list list"
  assumes nonempty: "[] \<notin> set ws"
    and prefix_free: "v \<in> set ws \<Longrightarrow> w \<in> set ws \<Longrightarrow> v = take (length v) w \<Longrightarrow> v = w"
begin

lemma front_piece_append: "w \<in> set ws \<Longrightarrow> front_piece ws (w @ s) = Some w"
proof -
  assume w: "w \<in> set ws"
  then have "w \<noteq> []" using nonempty by blast
  with w obtain v where v: "front_piece ws (w @ s) = Some v"
    by (cases "front_piece ws (w @ s)") (auto simp: front_piece_None)
  note v' = front_piece_Some [OF v]
  have "v = w"
  proof (cases "length v \<le> length w")
    case True
    with v'(3) have "v = take (length v) w" by (metis append_eq_append_conv_if append_eq_conv_conj)
    with prefix_free [OF v'(1) w] show ?thesis by simp
  next
    case False
    with v'(3) have "w = take (length w) v" by (metis append_eq_append_conv_if append_eq_conv_conj)
    with prefix_free [OF w v'(1)] show ?thesis by simp
  qed
  with v show ?thesis by simp
qed

lemma strip_front_concat:
  "set ps \<subseteq> set ws \<Longrightarrow> strip_front ws (concat ps @ s) = strip_front ws s"
proof (induction ps)
  case (Cons p ps)
  have "front_piece ws (p @ concat ps @ s) = Some p" using Cons.prems by (intro front_piece_append) simp
  from strip_front_more [OF this] Cons show ?case by simp
qed simp

end

definition graphic :: "char \<Rightarrow> bool" where
  "graphic c \<longleftrightarrow> 33 \<le> (of_char c :: nat) \<and> of_char c \<le> (126 :: nat)"

lemma white_space_ends: "w \<in> set white_space \<Longrightarrow> w \<noteq> [] \<and> \<not> graphic (hd w) \<and> \<not> graphic (last w)"
  by (auto simp: white_space_def white_space_codes_def graphic_def)

lemma white_space_no_graphic: "w \<in> set white_space \<Longrightarrow> c \<in> set w \<Longrightarrow> \<not> graphic c"
  by (auto simp: white_space_def white_space_codes_def graphic_def)

lemma space_is_white: "[CHR '' ''] \<in> set white_space"
proof -
  have "char_of (32 :: nat) = CHR '' ''" by code_simp
  then show ?thesis by (simp add: white_space_def white_space_codes_def)
qed

definition prefix_code :: "'a list list \<Rightarrow> bool" where
  "prefix_code ws \<longleftrightarrow> list_all (\<lambda>v. v \<noteq> [] \<and> list_all (\<lambda>w. v = take (length v) w \<longrightarrow> v = w) ws) ws"

lemma piece_code_if: "prefix_code ws \<Longrightarrow> piece_code ws"
  by unfold_locales (auto simp: prefix_code_def list_all_iff)

lemma prefix_code_map:
  assumes "inj_on f (\<Union> (set ` set ws))" and "prefix_code ws"
  shows "prefix_code (map (map f) ws)"
proof -
  have "v = w" if "v \<in> set ws" "w \<in> set ws" "map f v = take (length v) (map f w)" for v w
  proof -
    have "inj_on f (set v \<union> set (take (length v) w))"
      by (rule inj_on_subset [OF assms(1)]) (use that set_take_subset in fastforce)
    with that have "v = take (length v) w" by (simp add: take_map map_inj_on)
    with that assms(2) show ?thesis by (auto simp: prefix_code_def list_all_iff)
  qed
  with assms(2) show ?thesis by (auto simp: prefix_code_def list_all_iff)
qed

lemma white_space_codes_prefix: "prefix_code white_space_codes" "prefix_code (map rev white_space_codes)"
  by (simp_all add: white_space_codes_def prefix_code_def)

lemma white_space_prefix_code: "prefix_code white_space" "prefix_code (map rev white_space)"
proof -
  have *: "n < 256" if "n \<in> \<Union> (set ` set white_space_codes)" for n
    using that by (auto simp: white_space_codes_def)
  have "inj_on (char_of :: nat \<Rightarrow> char) {..<256}"
    by (rule inj_onI) (metis lessThan_iff mod_less of_char_of)
  then have "inj_on (char_of :: nat \<Rightarrow> char) (\<Union> (set ` set white_space_codes))"
    by (rule inj_on_subset) (use * in blast)
  moreover from this have "inj_on (char_of :: nat \<Rightarrow> char) (\<Union> (set ` set (map rev white_space_codes)))" by simp
  ultimately have "prefix_code (map (map char_of) white_space_codes)"
      "prefix_code (map (map char_of) (map rev white_space_codes))"
    using white_space_codes_prefix prefix_code_map by blast+
  then show "prefix_code white_space" "prefix_code (map rev white_space)"
    by (simp_all add: white_space_def rev_map o_def)
qed

interpretation leading: piece_code white_space
  by (rule piece_code_if [OF white_space_prefix_code(1)])

interpretation trailing: piece_code "map rev white_space"
  by (rule piece_code_if [OF white_space_prefix_code(2)])

lemma front_piece_prefix: "front_piece ws (s @ t) = None \<Longrightarrow> front_piece ws s = None"
  by (auto simp: front_piece_None)

lemma trim_end_prefix: "\<exists>t. s = trim_end s @ t"
proof -
  obtain ps where "rev s = concat ps @ strip_front (map rev white_space) (rev s)"
    using strip_front_spec [of "map rev white_space" "rev s"] by blast
  then have "s = trim_end s @ rev (concat ps)" by (metis rev_append rev_rev_ident trim_end_def)
  then show ?thesis by blast
qed

lemma trim_normal:
  "front_piece white_space (trim s) = None" "front_piece (map rev white_space) (rev (trim s)) = None"
proof -
  have "front_piece white_space (trim_start s) = None"
    using strip_front_spec [of white_space s] by (auto simp: trim_start_def)
  with trim_end_prefix [of "trim_start s"] show "front_piece white_space (trim s) = None"
    unfolding trim_def by (metis front_piece_prefix)
  show "front_piece (map rev white_space) (rev (trim s)) = None"
    using strip_front_spec [of "map rev white_space" "rev (trim_start s)"] by (auto simp: trim_def trim_end_def)
qed

lemma trim_idem [simp]: "trim (trim s) = trim s"
proof -
  have "trim_start (trim s) = trim s" using trim_normal(1) [of s] by (simp add: trim_start_def strip_front_done)
  moreover have "trim_end (trim s) = trim s" using trim_normal(2) [of s] by (simp add: trim_end_def strip_front_done)
  ultimately show ?thesis by (simp add: trim_def [of "trim s"])
qed

text \<open>White space around a word of graphic characters is removed, and nothing else.\<close>

lemma front_piece_graphic:
  assumes "s \<noteq> []" and "graphic (hd s)"
  shows "front_piece white_space (s @ t) = None"
proof -
  have "take (length w) (s @ t) \<noteq> w" if "w \<in> set white_space" for w
    using white_space_ends [OF that] assms by (cases s; cases w) auto
  then show ?thesis by (simp add: front_piece_None)
qed

lemma back_piece_graphic:
  assumes "s \<noteq> []" and "graphic (last s)"
  shows "front_piece (map rev white_space) (rev s) = None"
proof -
  have "take (length w) (rev s) \<noteq> rev w" if "w \<in> set white_space" for w
    using white_space_ends [OF that] assms by (cases s rule: rev_cases; cases w rule: rev_cases) auto
  then show ?thesis by (simp add: front_piece_None)
qed

lemma trim_padded:
  assumes "set ps \<subseteq> set white_space" and "set qs \<subseteq> set white_space" and "list_all graphic s"
  shows "trim (concat ps @ s @ concat qs) = s"
proof -
  have "\<exists>rs. set rs \<subseteq> set (map rev white_space) \<and> rev (trim_start (concat ps @ s @ concat qs)) = concat rs @ rev s"
  proof (cases "s = []")
    case True
    have "strip_front white_space (concat (ps @ qs) @ []) = strip_front white_space []"
      using assms(1,2) by (intro leading.strip_front_concat) simp
    moreover have "strip_front white_space [] = []" using strip_front_spec [of white_space "[]"] by auto
    ultimately show ?thesis using True by (intro exI [of _ "[]"]) (simp add: trim_start_def)
  next
    case False
    then have "front_piece white_space (s @ concat qs) = None"
      using assms(3) by (intro front_piece_graphic) (auto simp: list_all_iff)
    then have "trim_start (concat ps @ s @ concat qs) = s @ concat qs"
      using leading.strip_front_concat [OF assms(1), of "s @ concat qs"] by (simp add: trim_start_def strip_front_done)
    then show ?thesis using assms(2)
      by (intro exI [of _ "rev (map rev qs)"]) (auto simp: rev_concat rev_map)
  qed
  then obtain rs where "set rs \<subseteq> set (map rev white_space)"
      "rev (trim_start (concat ps @ s @ concat qs)) = concat rs @ rev s" by blast
  then have "trim (concat ps @ s @ concat qs) = rev (strip_front (map rev white_space) (rev s))"
    using trailing.strip_front_concat by (simp add: trim_def trim_end_def)
  also have "\<dots> = s"
  proof (cases "s = []")
    case True
    then show ?thesis using strip_front_spec [of "map rev white_space" "[]"] by auto
  next
    case False
    with assms(3) back_piece_graphic [of s] show ?thesis by (simp add: strip_front_done list_all_iff)
  qed
  finally show ?thesis .
qed

lemma trim_graphic: "list_all graphic s \<Longrightarrow> trim s = s"
  using trim_padded [of "[]" "[]" s] by simp

lemma split_on_not_Nil [simp]: "split_on c s \<noteq> []"
  by (induction c s rule: split_on.induct) (auto split: list.splits)

lemma join_Cons: "ps \<noteq> [] \<Longrightarrow> join c (p # ps) = p @ c # join c ps"
  by (cases ps) simp_all

lemma join_split_on: "join c (split_on c s) = s"
proof (induction s)
  case (Cons x xs)
  then show ?case
    by (cases "split_on c xs") (simp_all add: join_Cons, cases "tl (split_on c xs)", simp_all)
qed simp

lemma split_on_pieces: "p \<in> set (split_on c s) \<Longrightarrow> c \<notin> set p"
  by (induction c s arbitrary: p rule: split_on.induct) (auto split: if_splits list.splits)

lemma split_on_none: "c \<notin> set s \<Longrightarrow> split_on c s = [s]"
  by (induction s) auto

lemma split_on_append: "c \<notin> set p \<Longrightarrow> split_on c (p @ c # s) = p # split_on c s"
  by (induction p) auto

lemma split_on_join: "ps \<noteq> [] \<Longrightarrow> (\<And>p. p \<in> set ps \<Longrightarrow> c \<notin> set p) \<Longrightarrow> split_on c (join c ps) = ps"
  by (induction c ps rule: join.induct) (simp_all add: split_on_none split_on_append)

lemma parse_int_range: "parse_int b lo hi s = Some v \<Longrightarrow> lo \<le> v \<and> v \<le> hi"
  by (auto simp: parse_int_def Let_def split: if_splits prod.splits)

lemma parse_usize_bound: "parse_usize s = Some v \<Longrightarrow> v < 2 ^ 64"
  by (auto simp: parse_usize_def dest: parse_int_range)

section \<open>Hexadecimal digits\<close>

definition nibble :: "char \<Rightarrow> nat" where
  "nibble c = (let n = of_char (lower_char c) in if 97 \<le> n then n - 87 else n - 48)"

definition hex_digit :: "nat \<Rightarrow> char" where
  "hex_digit n = char_of (if n < 10 then 48 + n else 87 + n)"

text \<open>Lower-case hexadecimal text, two digits per byte.\<close>

definition to_hex :: "bytes \<Rightarrow> string" where
  "to_hex b = concat (map (\<lambda>x. [hex_digit (unat x div 16), hex_digit (unat x mod 16)]) b)"

lemma hex_digit_nibble: "n < 16 \<Longrightarrow> is_ascii_hexdigit (hex_digit n) \<and> nibble (hex_digit n) = n"
  by (auto simp: hex_digit_def is_ascii_hexdigit_def is_digit_def nibble_def lower_char_def Let_def split: if_splits)

lemma hex_digits:
  fixes x :: byte
  shows "is_ascii_hexdigit (hex_digit (unat x div 16))" "is_ascii_hexdigit (hex_digit (unat x mod 16))"
    "nibble (hex_digit (unat x div 16)) = unat x div 16" "nibble (hex_digit (unat x mod 16)) = unat x mod 16"
  using byte_less [of x] hex_digit_nibble by (simp_all add: div_less_iff_less_mult)

lemma to_hex_shape: "length (to_hex b) = 2 * length b" "list_all is_ascii_hexdigit (to_hex b)"
proof -
  show "length (to_hex b) = 2 * length b" by (induction b) (simp_all add: to_hex_def)
  show "list_all is_ascii_hexdigit (to_hex b)" using hex_digits by (auto simp: to_hex_def list_all_iff)
qed

end
