(* ===== verification/Notarization.thy ===== *)
theory Notarization
  imports Claim_Signer Rust_Strings
begin

text \<open>
  \<open>crates/tlsn-demo/webproof-tlsn/src/notarize.rs\<close>: the notarization of one HTTPS request by a prover
  and an in-process notary.  TLSNotary, hyper, bincode, k256 and the sockets are library code: every
  call of them is a field of the record \<open>notarize_lib\<close>, whose objects are values of the opaque type
  \<open>'o\<close>, attestations of \<open>'a\<close> and secrets of \<open>'s\<close>; \<open>None\<close> is a failed call.  The two tasks meet in two
  messages, the prover's request and the notary's attestation, which are explicit here.
\<close>

section \<open>Configuration\<close>

definition DEFAULT_MAX_SENT_DATA :: nat where "DEFAULT_MAX_SENT_DATA = push_bit 12 1"
definition DEFAULT_MAX_RECV_DATA :: nat where "DEFAULT_MAX_RECV_DATA = push_bit 14 1"

definition USER_AGENT :: string where "USER_AGENT = ''webproof-tlsn/0.1''"

datatype ServerTrust = Mozilla | Custom "bytes list"

text \<open>A \<open>RootCertStore\<close> is its list of DER certificates; Mozilla's is part of the library.\<close>

definition root_store :: "bytes list \<Rightarrow> ServerTrust \<Rightarrow> bytes list" where
  "root_store mozilla self = (case self of Mozilla \<Rightarrow> mozilla | Custom roots \<Rightarrow> roots)"

record NotarizeConfig =
  server_addr :: "string \<times> u16"
  server_name :: string
  uri :: string
  extra_headers :: "(string \<times> string) list"
  server_trust :: ServerTrust
  max_sent_data :: nat
  max_recv_data :: nat
  notary_key_seed :: bytes \<comment> \<open>the field \<open>notary_key\<close>\<close>

section \<open>Library interface\<close>

datatype ContentType = ApplicationData | OtherContent

record TlsRecord =
  rec_typ :: ContentType
  rec_ciphertext :: bytes

datatype CertBinding = V1_2 bytes | OtherBinding

record 'o TlsTranscript =
  tt_time :: "64 word"
  tt_version :: nat
  tt_sent :: "TlsRecord list"
  tt_recv :: "TlsRecord list"
  tt_cert_chain :: "'o option"
  tt_signature :: "'o option"
  tt_binding :: CertBinding

record ConnectionInfo =
  ci_time :: "64 word"
  ci_version :: nat
  ci_sent :: "32 word"
  ci_received :: "32 word"

datatype 'o VerifierCommitStart = Mpc 'o | Proxy 'o

record ('o, 'a, 's) notarize_lib =
  nl_mozilla :: "bytes list"
  \<comment> \<open>prover\<close>
  nl_new_prover :: "'o option"
  nl_mpc_config :: "nat \<Rightarrow> nat \<Rightarrow> 'o option"
  nl_commit :: "'o \<Rightarrow> 'o \<Rightarrow> 'o option"
  nl_tcp_connect :: "string \<times> u16 \<Rightarrow> 'o option"
  nl_dns_name :: "string \<Rightarrow> 'o option"
  nl_tls_config :: "'o \<Rightarrow> bytes list \<Rightarrow> 'o option"
  nl_connect :: "'o \<Rightarrow> 'o \<Rightarrow> 'o \<Rightarrow> ('o \<times> 'o) option"
  nl_http_handshake :: "'o \<Rightarrow> 'o option"
  nl_build_request :: "string \<Rightarrow> (string \<times> string) list \<Rightarrow> 'o option"
  nl_send_request :: "'o \<Rightarrow> 'o \<Rightarrow> u16 option" \<comment> \<open>the response's status\<close>
  nl_prover_join :: "'o \<Rightarrow> 'o option"
  nl_parse_transcript :: "'o \<Rightarrow> 'o option"
  nl_transcript_commit :: "'o \<Rightarrow> 'o \<Rightarrow> 'o option"
  nl_request_config :: "'o \<Rightarrow> 'o option"
  nl_config_commit :: "'o \<Rightarrow> 'o option" \<comment> \<open>\<open>request_config.transcript_commit()\<close>\<close>
  nl_prove_config :: "'o \<Rightarrow> 'o option \<Rightarrow> 'o option"
  nl_prove :: "'o \<Rightarrow> 'o \<Rightarrow> ('o \<times> 'o) option" \<comment> \<open>commitments and their secrets\<close>
  nl_prover_transcript :: "'o \<Rightarrow> 'o TlsTranscript"
  nl_prover_close :: "'o \<Rightarrow> bool"
  nl_attestation_request :: "'o \<Rightarrow> 'o \<Rightarrow> 'o \<Rightarrow> 'o \<Rightarrow> CertBinding \<Rightarrow> 'o \<Rightarrow> 'o \<Rightarrow> 'o \<Rightarrow> ('o \<times> 's) option"
  nl_prover_socket :: bool \<comment> \<open>the session driver returned the socket\<close>
  nl_ser_request :: "'o \<Rightarrow> bytes option"
  nl_prover_write :: bool
  nl_de_attestation :: "bytes \<Rightarrow> 'a option"
  nl_validate :: "'o \<Rightarrow> 'a \<Rightarrow> bool"
  nl_attestation_key :: "'a \<Rightarrow> bytes"
  \<comment> \<open>notary\<close>
  nl_verifier_config :: "bytes list \<Rightarrow> 'o option"
  nl_new_verifier :: "'o \<Rightarrow> 'o option"
  nl_verifier_commit :: "'o \<Rightarrow> 'o VerifierCommitStart option"
  nl_accept_run :: "'o \<Rightarrow> 'o option"
  nl_reject :: "'o \<Rightarrow> bool"
  nl_verify_accept :: "'o \<Rightarrow> ('o \<times> 'o) option" \<comment> \<open>commitments and verifier\<close>
  nl_verifier_transcript :: "'o \<Rightarrow> 'o TlsTranscript"
  nl_verifier_close :: "'o \<Rightarrow> bool"
  nl_notary_socket :: bool
  nl_de_request :: "bytes \<Rightarrow> 'o option"
  nl_k256_key :: "bytes \<Rightarrow> 'o option"
  nl_secp256k1_signer :: "'o \<Rightarrow> 'o option"
  nl_att_config :: "'o \<Rightarrow> 'o option"
  nl_accept_request :: "'o \<Rightarrow> 'o \<Rightarrow> 'o option"
  nl_build_attestation :: "'o \<Rightarrow> ConnectionInfo \<Rightarrow> bytes \<Rightarrow> 'o \<Rightarrow> 'o \<Rightarrow> 'a option"
  nl_ser_attestation :: "'a \<Rightarrow> bytes option"
  nl_notary_write :: bool

datatype NotarizeError =
    Library \<comment> \<open>a library call failed\<close>
  | Unreachable | ServerStatus u16 | CertChainMissing | ServerSignatureMissing
  | ProxyRejected | UnsupportedBinding | NotaryPanicked | NotaryFailed NotarizeError | TimedOut

record ('a, 's) NotarizedSession =
  ns_attestation :: 'a
  ns_secrets :: 's
  ns_notary_verifying_key :: bytes

section \<open>The prover\<close>

definition request_headers :: "NotarizeConfig \<Rightarrow> (string \<times> string) list" where
  "request_headers config =
     [(''Host'', server_name config), (''Accept'', ''*/*''), (''Accept-Encoding'', ''identity''),
      (''Connection'', ''close''), (''User-Agent'', USER_AGENT)] @ extra_headers config"

text \<open>Up to the request that is sent to the notary: the request object, its bytes and the secrets.\<close>

definition prover_request ::
  "('o, 'a, 's) notarize_lib \<Rightarrow> NotarizeConfig \<Rightarrow> NotarizeError + ('o \<times> bytes \<times> 's)" where
  "prover_request N config =
     try_then (ok_or (nl_new_prover N) Library) (\<lambda>prover.
     try_then (ok_or (nl_mpc_config N (max_sent_data config) (max_recv_data config)) Library) (\<lambda>mpc.
     try_then (ok_or (nl_commit N prover mpc) Library) (\<lambda>prover.
     try_then (ok_or (nl_tcp_connect N (server_addr config)) Unreachable) (\<lambda>client_socket.
     try_then (ok_or (nl_dns_name N (server_name config)) Library) (\<lambda>name.
     try_then (ok_or (nl_tls_config N name (root_store (nl_mozilla N) (server_trust config))) Library) (\<lambda>tls.
     try_then (ok_or (nl_connect N prover tls client_socket) Library) (\<lambda>(tls_connection, prover_task).
     try_then (ok_or (nl_http_handshake N tls_connection) Library) (\<lambda>request_sender.
     try_then (ok_or (nl_build_request N (uri config) (request_headers config)) Library) (\<lambda>request.
     try_then (ok_or (nl_send_request N request_sender request) Library) (\<lambda>status.
     ensure (status = 200) (ServerStatus status) (
     try_then (ok_or (nl_prover_join N prover_task) Library) (\<lambda>prover.
     try_then (ok_or (nl_parse_transcript N prover) Library) (\<lambda>transcript.
     try_then (ok_or (nl_transcript_commit N prover transcript) Library) (\<lambda>transcript_commit.
     try_then (ok_or (nl_request_config N transcript_commit) Library) (\<lambda>request_config.
     try_then (ok_or (nl_prove_config N prover (nl_config_commit N request_config)) Library) (\<lambda>disclosure_config.
     try_then (ok_or (nl_prove N prover disclosure_config) Library) (\<lambda>(commitments, transcript_secrets).
     let tls_transcript = nl_prover_transcript N prover in
     ensure (nl_prover_close N prover) Library (
     try_then (ok_or (nl_dns_name N (server_name config)) Library) (\<lambda>name.
     try_then (ok_or (tt_cert_chain tls_transcript) CertChainMissing) (\<lambda>certs.
     try_then (ok_or (tt_signature tls_transcript) ServerSignatureMissing) (\<lambda>sig.
     try_then (ok_or (nl_attestation_request N request_config name certs sig (tt_binding tls_transcript) prover
                        transcript_secrets commitments) Library) (\<lambda>(request, secrets).
     ensure (nl_prover_socket N) Library (
     try_then (ok_or (nl_ser_request N request) Library) (\<lambda>request_bytes.
     ensure (nl_prover_write N) Library (
     Inr (request, request_bytes, secrets))))))))))))))))))))))))))"

text \<open>From the bytes read back until the end of the stream.\<close>

definition prover_finish ::
  "('o, 'a, 's) notarize_lib \<Rightarrow> 'o \<Rightarrow> 's \<Rightarrow> bytes \<Rightarrow> NotarizeError + ('a, 's) NotarizedSession" where
  "prover_finish N request secrets attestation_bytes =
     try_then (ok_or (nl_de_attestation N attestation_bytes) Library) (\<lambda>attestation.
     ensure (nl_validate N request attestation) Library (
     let key = nl_attestation_key N attestation in
     Inr \<lparr>ns_attestation = attestation, ns_secrets = secrets, ns_notary_verifying_key = key\<rparr>))"

section \<open>The notary\<close>

text \<open>\<open>.filter_map(..).sum::<usize>()\<close> over the application-data records, then \<open>as u32\<close>.\<close>

definition application_len :: "TlsRecord list \<Rightarrow> nat" where
  "application_len records =
     sum_list (List.map_filter (\<lambda>r. case rec_typ r of ApplicationData \<Rightarrow> Some (length (rec_ciphertext r)) | OtherContent \<Rightarrow> None) records)"

definition notary :: "('o, 'a, 's) notarize_lib \<Rightarrow> NotarizeConfig \<Rightarrow> bytes \<Rightarrow> NotarizeError + bytes" where
  "notary N config request_bytes =
     try_then (ok_or (nl_verifier_config N (root_store (nl_mozilla N) (server_trust config))) Library) (\<lambda>verifier_config.
     try_then (ok_or (nl_new_verifier N verifier_config) Library) (\<lambda>verifier.
     try_then (ok_or (nl_verifier_commit N verifier) Library) (\<lambda>start.
     try_then (case start of
         Mpc verifier \<Rightarrow> ok_or (nl_accept_run N verifier) Library
       | Proxy verifier \<Rightarrow> ensure (nl_reject N verifier) Library (Inl ProxyRejected)) (\<lambda>verifier.
     try_then (ok_or (nl_verify_accept N verifier) Library) (\<lambda>(transcript_commitments, verifier).
     let tls_transcript = nl_verifier_transcript N verifier in
     ensure (nl_verifier_close N verifier) Library (
     let sent_len = application_len (tt_sent tls_transcript);
         recv_len = application_len (tt_recv tls_transcript) in
     ensure (nl_notary_socket N) Library (
     try_then (ok_or (nl_de_request N request_bytes) Library) (\<lambda>request.
     try_then (ok_or (nl_k256_key N (notary_key_seed config)) Library) (\<lambda>signing_key.
     try_then (ok_or (nl_secp256k1_signer N signing_key) Library) (\<lambda>signer.
     try_then (ok_or (nl_att_config N signer) Library) (\<lambda>att_config.
     case tt_binding tls_transcript of
       OtherBinding \<Rightarrow> Inl UnsupportedBinding
     | V1_2 server_ephemeral_key \<Rightarrow>
         try_then (ok_or (nl_accept_request N att_config request) Library) (\<lambda>builder.
         let info = \<lparr>ci_time = tt_time tls_transcript, ci_version = tt_version tls_transcript,
                     ci_sent = word_of_nat sent_len, ci_received = word_of_nat recv_len\<rparr> in
         try_then (ok_or (nl_build_attestation N builder info server_ephemeral_key transcript_commitments signer) Library) (\<lambda>attestation.
         try_then (ok_or (nl_ser_attestation N attestation) Library) (\<lambda>attestation_bytes.
         ensure (nl_notary_write N) Library (
         Inr attestation_bytes)))))))))))))))"

section \<open>Both together\<close>

text \<open>
  What becomes of the two tasks once the library calls of both have answered: a notary that fails
  closes its end of the stream, so the prover reads nothing from it; the prover's error comes first,
  then a panic of the notary task, then its error.  The tasks themselves, their interleavings and
  their failures at any moment are the step relation of \<open>Notarization_Tasks\<close>, where this outcome is
  shown to be that of every schedule that returns a session.  Whether the notary task panics and
  whether the time limit expires is up to the environment.
\<close>

definition NOTARIZE_TIMEOUT_SECS :: nat where "NOTARIZE_TIMEOUT_SECS = 120"

definition notarize_outcome ::
  "('o, 'a, 's) notarize_lib \<Rightarrow> bool \<Rightarrow> NotarizeConfig \<Rightarrow> NotarizeError + ('a, 's) NotarizedSession" where
  "notarize_outcome N panicked config =
     try_then (prover_request N config) (\<lambda>(request, request_bytes, secrets).
     let answer = notary N config request_bytes in
     try_then (prover_finish N request secrets (case answer of Inr b \<Rightarrow> b | Inl _ \<Rightarrow> [])) (\<lambda>output.
     ensure (\<not> panicked) NotaryPanicked (
     try_then (map_err NotaryFailed answer) (\<lambda>_. Inr output))))"

definition notarize ::
  "('o, 'a, 's) notarize_lib \<Rightarrow> bool \<Rightarrow> nat \<Rightarrow> NotarizeConfig \<Rightarrow> NotarizeError + ('a, 's) NotarizedSession" where
  "notarize N panicked elapsed config =
     ensure (elapsed \<le> NOTARIZE_TIMEOUT_SECS) TimedOut (notarize_outcome N panicked config)"

section \<open>What a notarized session guarantees\<close>

definition roots_of :: "('o, 'a, 's) notarize_lib \<Rightarrow> NotarizeConfig \<Rightarrow> bytes list" where
  "roots_of N config = root_store (nl_mozilla N) (server_trust config)"

lemma case_start_eq_Inr [result_simps]:
  "(case st of Mpc v \<Rightarrow> f v | Proxy v \<Rightarrow> ensure (g v) e (Inl e')) = Inr x \<longleftrightarrow> (\<exists>v. st = Mpc v \<and> f v = Inr x)"
  by (cases st) (simp_all add: ensure_def)

lemma case_binding_eq_Inr [result_simps]:
  "(case bd of OtherBinding \<Rightarrow> Inl e | V1_2 k \<Rightarrow> f k) = Inr x \<longleftrightarrow> (\<exists>k. bd = V1_2 k \<and> f k = Inr x)"
  by (cases bd) simp_all

lemma unat_as_u32: "unat (word_of_nat n :: 32 word) = n mod 2 ^ 32"
  by (simp add: unsigned_of_nat take_bit_eq_mod)

lemma application_len_sum:
  "application_len rs = (\<Sum>r\<leftarrow>filter (\<lambda>r. rec_typ r = ApplicationData) rs. length (rec_ciphertext r))"
  by (induction rs) (auto simp: application_len_def List.map_filter_simps split: ContentType.splits)

lemma prover_request_Inr:
  assumes "prover_request N config = Inr (request, rb, secrets)"
  shows "\<exists>p mpc p' sock name tls conn task sender req.
    nl_new_prover N = Some p \<and> nl_mpc_config N (max_sent_data config) (max_recv_data config) = Some mpc \<and>
    nl_commit N p mpc = Some p' \<and> nl_tcp_connect N (server_addr config) = Some sock \<and>
    nl_dns_name N (server_name config) = Some name \<and> nl_tls_config N name (roots_of N config) = Some tls \<and>
    nl_connect N p' tls sock = Some (conn, task) \<and> nl_http_handshake N conn = Some sender \<and>
    nl_build_request N (uri config) (request_headers config) = Some req \<and>
    nl_send_request N sender req = Some 200"
    and "nl_ser_request N request = Some rb"
  using assms unfolding prover_request_def result_simps case_prod_unfold Let_def roots_of_def
  by (elim exE conjE; force)+

text \<open>The bincode codec of attestations.\<close>

definition attestation_codec :: "('o, 'a, 's) notarize_lib \<Rightarrow> bool" where
  "attestation_codec N \<longleftrightarrow> (\<forall>a b. nl_ser_attestation N a = Some b \<longrightarrow> nl_de_attestation N b = Some a)"

lemma notarize_iff:
  "notarize N panicked elapsed config = Inr ses \<longleftrightarrow>
     elapsed \<le> 120 \<and> \<not> panicked \<and>
     (\<exists>request rb secrets ab. prover_request N config = Inr (request, rb, secrets) \<and> notary N config rb = Inr ab \<and>
        prover_finish N request secrets ab = Inr ses)"
  by (auto simp: notarize_def NOTARIZE_TIMEOUT_SECS_def notarize_outcome_def result_simps Let_def)

end
