(* ===== verification/Test_Server.thy ===== *)
theory Test_Server
  imports WebProof_Prelude
begin

text \<open>
  \<open>crates/tlsn-demo/webproof-tlsn/src/fixture.rs\<close>: starting the local HTTPS test server.  Binding and
  the port of the listener are the operating system's answers; the spawned task accepts connections
  and spawns one handler for each.  The answers of successive \<open>accept\<close> calls are a function of the
  call's number, \<open>None\<close> being an error.  The loop need not end, so it is a partial function: its
  result is the list of connections for which a handler was spawned, in order.
\<close>

definition FIXTURE_JSON_PATH :: string where "FIXTURE_JSON_PATH = ''/formats/json''"

definition start :: "'l option \<Rightarrow> ('l \<Rightarrow> u16 option) \<Rightarrow> u16 option" where
  "start bind local_port = (case bind of None \<Rightarrow> None | Some listener \<Rightarrow> local_port listener)"

partial_function (option) accept_loop :: "(nat \<Rightarrow> 'c option) \<Rightarrow> nat \<Rightarrow> 'c list \<Rightarrow> 'c list option" where
  "accept_loop accept i spawned =
     (case accept i of
        None \<Rightarrow> Some spawned
      | Some socket \<Rightarrow> accept_loop accept (Suc i) (spawned @ [socket]))"

lemma accept_loop_step:
  "accept i = Some socket \<Longrightarrow> accept_loop accept i spawned = accept_loop accept (Suc i) (spawned @ [socket])"
  "accept i = None \<Longrightarrow> accept_loop accept i spawned = Some spawned"
  by (simp_all add: accept_loop.simps [of accept i])

text \<open>If the first failing call is number \<open>n\<close>, the loop ends with one handler per earlier call.\<close>

lemma accept_loop_returns:
  assumes "i \<le> n" and "accept n = None" and "\<And>k. i \<le> k \<Longrightarrow> k < n \<Longrightarrow> accept k \<noteq> None"
  shows "accept_loop accept i spawned = Some (spawned @ map (\<lambda>k. the (accept k)) [i..<n])"
  using assms
proof (induction "n - i" arbitrary: i spawned)
  case 0
  then show ?case by (simp add: accept_loop_step)
next
  case (Suc d)
  then obtain socket where "accept i = Some socket" by (metis Suc_neq_Zero diff_is_0_eq leI le_refl option.exhaust)
  moreover have "[i..<n] = i # [Suc i..<n]" using Suc.hyps(2) by (simp add: upt_conv_Cons)
  moreover have "accept_loop accept (Suc i) (spawned @ [socket]) =
      Some ((spawned @ [socket]) @ map (\<lambda>k. the (accept k)) [Suc i..<n])"
    using Suc by (intro Suc.hyps(1)) auto
  ultimately show ?case by (simp add: accept_loop_step)
qed

lemma accept_loop_stops:
  assumes "accept_loop accept i spawned = Some out"
  shows "\<exists>n \<ge> i. accept n = None"
proof (rule accept_loop.raw_induct [where P = "\<lambda>accept i spawned out. \<exists>n \<ge> i. accept n = None", OF _ assms])
  fix f accept i spawned out
  assume IH: "\<And>accept i spawned out. f accept i spawned = Some out \<Longrightarrow> \<exists>n \<ge> i. accept n = None"
    and eq: "(case accept i of None \<Rightarrow> Some spawned | Some socket \<Rightarrow> f accept (Suc i) (spawned @ [socket])) = Some out"
  show "\<exists>n \<ge> i. accept n = None"
  proof (cases "accept i")
    case (Some socket)
    with eq have "f accept (Suc i) (spawned @ [socket]) = Some out" by simp
    from IH [OF this] show ?thesis using Suc_leD by blast
  qed auto
qed

text \<open>
  C27.  The accept loop of the test server ends exactly when a call of \<open>accept\<close> fails.  It has then
  spawned one handler for every connection accepted before the first failure, in their order, and
  none after it; a handler's own outcome has no influence.  As long as every call succeeds, the
  server keeps serving.
\<close>

theorem accept_loop_terminates_iff:
  "((\<exists>out. accept_loop accept 0 [] = Some out) \<longleftrightarrow> (\<exists>n. accept n = None)) \<and>
   (accept_loop accept 0 [] = Some out \<longleftrightarrow>
     (\<exists>n. accept n = None \<and> (\<forall>k<n. accept k \<noteq> None) \<and> out = map (\<lambda>k. the (accept k)) [0..<n]))"
proof -
  have least: "\<exists>n. accept n = None \<and> (\<forall>k<n. accept k \<noteq> None)" if "accept m = None" for m
    using that exists_least_iff [of "\<lambda>n. accept n = None"] by blast
  have ret: "accept_loop accept 0 [] = Some (map (\<lambda>k. the (accept k)) [0..<n])"
    if "accept n = None" "\<forall>k<n. accept k \<noteq> None" for n
    using accept_loop_returns [of 0 n accept "[]"] that by simp
  have "(\<exists>out. accept_loop accept 0 [] = Some out) \<longleftrightarrow> (\<exists>n. accept n = None)"
    using least ret accept_loop_stops by blast
  moreover have "accept_loop accept 0 [] = Some out \<longleftrightarrow>
     (\<exists>n. accept n = None \<and> (\<forall>k<n. accept k \<noteq> None) \<and> out = map (\<lambda>k. the (accept k)) [0..<n])"
    using least ret accept_loop_stops by (metis option.inject)
  ultimately show ?thesis by blast
qed

theorem accept_loop_terminates_iff_witness:
  "accept_loop (\<lambda>i. if i < 2 then Some (i + 7) else None) 0 [] = Some [7, 8 :: nat]"
proof -
  have "accept_loop (\<lambda>i. if i < 2 then Some (i + 7) else None) 0 [] = Some [7, 8 :: nat] \<longleftrightarrow>
      (\<exists>n. (if n < 2 then Some (n + 7) else None) = None \<and> (\<forall>k<n. (if k < 2 then Some (k + 7) else None) \<noteq> None) \<and>
         [7, 8] = map (\<lambda>k. the (if k < 2 then Some (k + 7) else None)) [0..<n])"
    by (rule accept_loop_terminates_iff [THEN conjunct2])
  moreover have "[7, 8] = map (\<lambda>k. the (if k < 2 then Some (k + 7) else None)) [0..<2 :: nat]"
    by (simp add: upt_rec)
  ultimately show ?thesis by (auto intro: exI [of _ 2])
qed

end
