(* ===== verification/Demo_Config.thy ===== *)
theory Demo_Config
  imports Notarization Test_Server
begin

text \<open>
  \<open>crates/tlsn-demo/demo/src/lib.rs\<close>: how the demo binaries turn environment variables into a
  notarization target and a signing key.  The environment is a map from names to values (an unset
  or non-Unicode variable has none); URL parsing, the hex and base58 decoders, the JSON parser and
  the certificates of the test server are library code and come as the record \<open>demo_lib\<close>.
\<close>

section \<open>Environment, libraries and errors\<close>

type_synonym environment = "string \<Rightarrow> string option"

record demo_lib =
  dl_parse_url :: "string \<Rightarrow> Url option"
  dl_url_str :: "Url \<Rightarrow> string" \<comment> \<open>\<open>Url::as_str\<close>\<close>
  dl_hex_decode :: "string \<Rightarrow> bytes option"
  dl_hex_encode :: "bytes \<Rightarrow> string"
  dl_bs58_decode :: "string \<Rightarrow> bytes option"
  dl_json_bytes :: "string \<Rightarrow> bytes option" \<comment> \<open>\<open>from_str::<Vec<u8>>\<close>\<close>
  dl_ca_cert_der :: bytes
  dl_server_domain :: string

datatype DemoError =
    NotaryKeyNotHex | NotaryKeyLength | NotAnInteger string
  | DemoUrlInvalid | DemoUrlScheme | DemoUrlHost | DemoUrlCredentials | DemoFieldMissing
  | FixtureFailed | FixtureUrlInvalid
  | JsonKeyInvalid | HexKeyInvalid | Base58KeyInvalid | SigningKeyLength nat

section \<open>Operations\<close>

definition DEV_NOTARY_KEY :: bytes where "DEV_NOTARY_KEY = replicate 32 1"

record DemoTarget =
  dt_url :: Url
  dt_field :: string
  dt_notarize :: NotarizeConfig
  dt_fixture :: bool

definition starts_with :: "string \<Rightarrow> char \<Rightarrow> bool" where
  "starts_with s c \<longleftrightarrow> s \<noteq> [] \<and> hd s = c"

definition normalize_field :: "string \<Rightarrow> string" where
  "normalize_field field =
     (if starts_with field (CHR ''/'') then field
      else CHR ''/'' # map (\<lambda>c. if c = CHR ''.'' then CHR ''/'' else c) field)"

definition notary_key :: "demo_lib \<Rightarrow> environment \<Rightarrow> DemoError + bytes" where
  "notary_key D env =
     (case env ''WEBPROOF_NOTARY_KEY'' of
        Some raw \<Rightarrow>
          try_then (ok_or (dl_hex_decode D (trim raw)) NotaryKeyNotHex) (\<lambda>bytes.
          ensure (length bytes = 32) NotaryKeyLength (Inr bytes))
      | None \<Rightarrow> Inr DEV_NOTARY_KEY)"

definition env_usize :: "environment \<Rightarrow> string \<Rightarrow> nat \<Rightarrow> DemoError + nat" where
  "env_usize env name dflt =
     (case env name of
        Some raw \<Rightarrow> ok_or (parse_usize (trim raw)) (NotAnInteger name)
      | None \<Rightarrow> Inr dflt)"

definition parse_signing_key :: "demo_lib \<Rightarrow> string \<Rightarrow> DemoError + bytes" where
  "parse_signing_key D raw =
     (let raw = trim raw in
      try_then (if starts_with raw (CHR ''['') then ok_or (dl_json_bytes D raw) JsonKeyInvalid
                else if length raw = 64 \<and> list_all is_ascii_hexdigit raw then ok_or (dl_hex_decode D raw) HexKeyInvalid
                else ok_or (dl_bs58_decode D raw) Base58KeyInvalid) (\<lambda>bytes.
      if length bytes = 32 then Inr bytes
      else if length bytes = 64 then Inr (take 32 bytes)
      else Inl (SigningKeyLength (length bytes))))"

text \<open>
  The environment names a public endpoint when \<open>DEMO_URL\<close> is set and not blank; otherwise the local
  test server is started, which yields its port or fails.
\<close>

definition resolve_target :: "demo_lib \<Rightarrow> environment \<Rightarrow> u16 option \<Rightarrow> DemoError + DemoTarget" where
  "resolve_target D env fixture_start =
     try_then (notary_key D env) (\<lambda>key.
     try_then (env_usize env ''DEMO_MAX_SENT'' DEFAULT_MAX_SENT_DATA) (\<lambda>max_sent.
     try_then (env_usize env ''DEMO_MAX_RECV'' DEFAULT_MAX_RECV_DATA) (\<lambda>max_recv.
     case (case env ''DEMO_URL'' of Some raw \<Rightarrow> if trim raw \<noteq> [] then Some (trim raw) else None | None \<Rightarrow> None) of
       Some raw \<Rightarrow>
         try_then (ok_or (dl_parse_url D raw) DemoUrlInvalid) (\<lambda>url.
         ensure (\<not> url_scheme url \<noteq> ''https'') DemoUrlScheme (
         try_then (ok_or (url_host_str url) DemoUrlHost) (\<lambda>host.
         ensure (\<not> (url_username url \<noteq> [] \<or> url_password url \<noteq> None)) DemoUrlCredentials (
         let port = (case url_port url of Some p \<Rightarrow> p | None \<Rightarrow> 443);
             target = url_path url @ (case url_query url of Some query \<Rightarrow> CHR ''?'' # query | None \<Rightarrow> []) in
         try_then (ok_or (env ''DEMO_FIELD'') DemoFieldMissing) (\<lambda>field.
         Inr \<lparr>dt_url = url, dt_field = normalize_field field,
              dt_notarize = \<lparr>server_addr = (host, port), server_name = host, uri = target, extra_headers = [],
                             server_trust = Mozilla, max_sent_data = max_sent, max_recv_data = max_recv,
                             notary_key_seed = key\<rparr>,
              dt_fixture = False\<rparr>)))))
     | None \<Rightarrow>
         try_then (ok_or fixture_start FixtureFailed) (\<lambda>port.
         let field = (case env ''DEMO_FIELD'' of Some f \<Rightarrow> f | None \<Rightarrow> ''/meta/version'') in
         try_then (ok_or (dl_parse_url D (''https://'' @ dl_server_domain D @ FIXTURE_JSON_PATH)) FixtureUrlInvalid) (\<lambda>url.
         Inr \<lparr>dt_url = url, dt_field = normalize_field field,
              dt_notarize = \<lparr>server_addr = (''127.0.0.1'', port), server_name = dl_server_domain D,
                             uri = FIXTURE_JSON_PATH, extra_headers = [],
                             server_trust = Custom [dl_ca_cert_der D], max_sent_data = max_sent,
                             max_recv_data = max_recv, notary_key_seed = key\<rparr>,
              dt_fixture = True\<rparr>)))))"

section \<open>Contracts of the libraries\<close>

text \<open>Lower-case hexadecimal encoding: two digits per byte, and decoding inverts it.\<close>

definition hex_spec :: "demo_lib \<Rightarrow> bool" where
  "hex_spec D \<longleftrightarrow> (\<forall>b. dl_hex_decode D (dl_hex_encode D b) = Some b \<and>
     length (dl_hex_encode D b) = 2 * length b \<and> list_all is_ascii_hexdigit (dl_hex_encode D b))"

text \<open>The URL of the test server parses to an https URL for its domain, without credentials.\<close>

definition fixture_url_spec :: "demo_lib \<Rightarrow> bool" where
  "fixture_url_spec D \<longleftrightarrow>
     (\<forall>u. dl_parse_url D (''https://'' @ dl_server_domain D @ FIXTURE_JSON_PATH) = Some u \<longrightarrow>
        url_scheme u = ''https'' \<and> url_host_str u = Some (dl_server_domain D))"

section \<open>Facts\<close>

lemma starts_with_Cons [simp]: "starts_with (x # xs) c \<longleftrightarrow> x = c"
  by (simp add: starts_with_def)

lemma hexdigit_graphic: "is_ascii_hexdigit c \<Longrightarrow> graphic c"
  by (auto simp: is_ascii_hexdigit_def is_digit_def graphic_def lower_char_def Let_def split: if_splits)

lemma dots_to_slashes:
  "(\<And>p. p \<in> set ps \<Longrightarrow> CHR ''.'' \<notin> set p) \<Longrightarrow>
     map (\<lambda>c. if c = CHR ''.'' then CHR ''/'' else c) (join (CHR ''.'') ps) = join (CHR ''/'') ps"
proof (induction "CHR ''.''" ps rule: join.induct)
  case (2 p)
  then show ?case by (auto intro!: map_idI)
next
  case (3 p q ps)
  moreover have "map (\<lambda>c. if c = CHR ''.'' then CHR ''/'' else c) p = p"
    using 3(2) [of p] by (auto intro!: map_idI)
  ultimately show ?case by simp
qed simp

lemma notary_key_length: "notary_key D env = Inr k \<Longrightarrow> length k = 32"
  by (auto simp: notary_key_def DEV_NOTARY_KEY_def result_simps split: option.splits)

lemma env_usize_bound: "env_usize env name dflt = Inr v \<Longrightarrow> dflt < 2 ^ 64 \<Longrightarrow> v < 2 ^ 64"
  by (auto simp: env_usize_def result_simps dest: parse_usize_bound split: option.splits)

lemma parse_signing_key_trim: "parse_signing_key D (trim raw) = parse_signing_key D raw"
  by (simp add: parse_signing_key_def)

lemma parse_signing_key_length: "parse_signing_key D raw = Inr k \<Longrightarrow> length k = 32"
  by (auto simp: parse_signing_key_def Let_def result_simps split: if_splits)

lemma parse_signing_key_bad_length: "parse_signing_key D raw = Inl (SigningKeyLength n) \<Longrightarrow> n \<noteq> 32 \<and> n \<noteq> 64"
  by (auto simp: parse_signing_key_def Let_def result_simps split: if_splits)

lemma parse_signing_key_pair:
  "starts_with (trim raw) (CHR ''['') \<Longrightarrow> dl_json_bytes D (trim raw) = Some pair \<Longrightarrow> length pair = 64 \<Longrightarrow>
     parse_signing_key D raw = Inr (take 32 pair)"
  by (simp add: parse_signing_key_def)

lemma parse_signing_key_hex:
  assumes "hex_spec D" and "length seed = 32"
    and "set ps \<subseteq> set white_space" and "set qs \<subseteq> set white_space"
  shows "parse_signing_key D (concat ps @ dl_hex_encode D seed @ concat qs) = Inr seed"
proof -
  let ?h = "dl_hex_encode D seed"
  have h: "length ?h = 64" "list_all is_ascii_hexdigit ?h" "dl_hex_decode D ?h = Some seed"
    using assms(1,2) by (simp_all add: hex_spec_def)
  have "list_all graphic ?h" using h(2) hexdigit_graphic by (auto simp: list_all_iff)
  from trim_padded [OF assms(3,4) this] have "trim (concat ps @ ?h @ concat qs) = ?h" .
  moreover have "\<not> starts_with ?h (CHR ''['')"
    using h(1,2) by (cases ?h) (auto simp: is_ascii_hexdigit_def is_digit_def lower_char_def)
  ultimately show ?thesis
    using h assms(2) by (simp add: parse_signing_key_def)
qed

lemma normalize_field_starts: "starts_with (normalize_field f) (CHR ''/'')"
  by (simp add: normalize_field_def)

text \<open>
  \<open>normalize_field\<close> always yields a JSON pointer: the result starts with a slash, a pointer is
  left alone (so the function is idempotent), and a dotted path of keys becomes the pointer whose
  reference tokens are exactly those keys, in order.
\<close>

lemma normalize_field_pointer:
  assumes "ps \<noteq> []" and "\<And>p. p \<in> set ps \<Longrightarrow> CHR ''.'' \<notin> set p \<and> CHR ''/'' \<notin> set p"
  shows "starts_with (normalize_field f) (CHR ''/'') \<and>
    normalize_field (normalize_field f) = normalize_field f \<and>
    split_on (CHR ''/'') (normalize_field (join (CHR ''.'') ps)) = [] # ps"
proof -
  from assms(1) obtain p qs where ps: "ps = p # qs" by (cases ps) auto
  have "\<not> starts_with (join (CHR ''.'') ps) (CHR ''/'')"
    using assms(2) [of p] ps by (cases qs; cases p) (auto simp: join_Cons starts_with_def)
  then have "normalize_field (join (CHR ''.'') ps) = CHR ''/'' # join (CHR ''/'') ps"
    using dots_to_slashes [of ps] assms(2) by (simp add: normalize_field_def)
  moreover have "split_on (CHR ''/'') (join (CHR ''/'') ps) = ps"
    using assms by (intro split_on_join) auto
  moreover have "normalize_field (normalize_field f) = normalize_field f"
    using normalize_field_starts [of f] by (simp add: normalize_field_def [of "normalize_field f"])
  ultimately show ?thesis using normalize_field_starts by simp
qed

lemma normalize_field_pointer_instance:
  "normalize_field ''meta.version'' = ''/meta/version'' \<and>
   split_on (CHR ''/'') (normalize_field ''meta.version'') = [[], ''meta'', ''version'']"
  using normalize_field_pointer [of "[''meta'', ''version'']" "''meta.version''"]
  by (simp add: normalize_field_def)

text \<open>
  C28.  \<open>parse_signing_key\<close>: whatever the format, an accepted key is a 32-byte seed; white space around
  the value is ignored; the hexadecimal form of a seed gives back that seed; and when the decoded
  value is a 64-byte key pair, its first 32 bytes are taken, every other length being refused.
\<close>

theorem parse_signing_key_seed:
  assumes "hex_spec D" and "length seed = 32"
    and "set ps \<subseteq> set white_space" and "set qs \<subseteq> set white_space"
  shows "parse_signing_key D (concat ps @ dl_hex_encode D seed @ concat qs) = Inr seed \<and>
    (case parse_signing_key D raw of
       Inr k \<Rightarrow> length k = 32 \<and> parse_signing_key D (trim raw) = Inr k
     | Inl (SigningKeyLength n) \<Rightarrow> n \<noteq> 32 \<and> n \<noteq> 64
     | Inl _ \<Rightarrow> True) \<and>
    (starts_with (trim raw) (CHR ''['') \<and> dl_json_bytes D (trim raw) = Some pair \<and> length pair = 64 \<longrightarrow>
       parse_signing_key D raw = Inr (take 32 pair))"
proof -
  have "case parse_signing_key D raw of
       Inr k \<Rightarrow> length k = 32 \<and> parse_signing_key D (trim raw) = Inr k
     | Inl (SigningKeyLength n) \<Rightarrow> n \<noteq> 32 \<and> n \<noteq> 64
     | Inl _ \<Rightarrow> True"
    using parse_signing_key_length parse_signing_key_bad_length
    by (simp add: parse_signing_key_trim split: sum.splits DemoError.splits)
  with parse_signing_key_hex [OF assms] parse_signing_key_pair show ?thesis by blast
qed

text \<open>The public endpoint the environment names, if any.\<close>

definition demo_url :: "environment \<Rightarrow> string option" where
  "demo_url env = (case env ''DEMO_URL'' of Some raw \<Rightarrow> if trim raw \<noteq> [] then Some (trim raw) else None | None \<Rightarrow> None)"

lemma resolve_target_public:
  assumes "demo_url env = Some raw" and "resolve_target D env port = Inr t"
  obtains url host field where "dl_parse_url D raw = Some url" and "url_scheme url = ''https''"
    and "url_host_str url = Some host" and "url_username url = []" and "url_password url = None"
    and "env ''DEMO_FIELD'' = Some field"
    and "dt_url t = url" and "dt_field t = normalize_field field" and "\<not> dt_fixture t"
    and "server_addr (dt_notarize t) = (host, case url_port url of Some p \<Rightarrow> p | None \<Rightarrow> 443)"
    and "server_name (dt_notarize t) = host" and "server_trust (dt_notarize t) = Mozilla"
    and "uri (dt_notarize t) = url_path url @ (case url_query url of Some q \<Rightarrow> CHR ''?'' # q | None \<Rightarrow> [])"
  using assms that
  by (auto simp: resolve_target_def demo_url_def [symmetric] Let_def result_simps)

lemma resolve_target_local:
  assumes "demo_url env = None" and "resolve_target D env port = Inr t"
  obtains p where "port = Some p"
    and "dl_parse_url D (''https://'' @ dl_server_domain D @ FIXTURE_JSON_PATH) = Some (dt_url t)"
    and "dt_field t = normalize_field (case env ''DEMO_FIELD'' of Some f \<Rightarrow> f | None \<Rightarrow> ''/meta/version'')"
    and "dt_fixture t" and "server_addr (dt_notarize t) = (''127.0.0.1'', p)"
    and "server_name (dt_notarize t) = dl_server_domain D" and "uri (dt_notarize t) = FIXTURE_JSON_PATH"
    and "server_trust (dt_notarize t) = Custom [dl_ca_cert_der D]"
  using assms that
  by (auto simp: resolve_target_def demo_url_def [symmetric] Let_def result_simps)

lemma resolve_target_limits:
  assumes "resolve_target D env port = Inr t"
  shows "length (notary_key_seed (dt_notarize t)) = 32" and "max_sent_data (dt_notarize t) < 2 ^ 64"
    and "max_recv_data (dt_notarize t) < 2 ^ 64" and "extra_headers (dt_notarize t) = []"
proof -
  from assms obtain key ms mr where "notary_key D env = Inr key"
      "env_usize env ''DEMO_MAX_SENT'' DEFAULT_MAX_SENT_DATA = Inr ms"
      "env_usize env ''DEMO_MAX_RECV'' DEFAULT_MAX_RECV_DATA = Inr mr"
      and t: "notary_key_seed (dt_notarize t) = key" "max_sent_data (dt_notarize t) = ms"
        "max_recv_data (dt_notarize t) = mr" "extra_headers (dt_notarize t) = []"
    by (auto simp: resolve_target_def Let_def result_simps split: option.splits if_splits)
  moreover have "DEFAULT_MAX_SENT_DATA < 2 ^ 64" "DEFAULT_MAX_RECV_DATA < 2 ^ 64"
    by (simp_all add: DEFAULT_MAX_SENT_DATA_def DEFAULT_MAX_RECV_DATA_def)
  ultimately have "length key = 32" "ms < 2 ^ 64" "mr < 2 ^ 64"
    using notary_key_length env_usize_bound by blast+
  with t show "length (notary_key_seed (dt_notarize t)) = 32" "max_sent_data (dt_notarize t) < 2 ^ 64"
      "max_recv_data (dt_notarize t) < 2 ^ 64" "extra_headers (dt_notarize t) = []" by simp_all
qed

lemma resolve_target_field: "resolve_target D env port = Inr t \<Longrightarrow> starts_with (dt_field t) (CHR ''/'')"
  by (cases "demo_url env"; erule (1) resolve_target_public resolve_target_local) (simp_all add: normalize_field_starts)

lemma resolve_target_host:
  "fixture_url_spec D \<Longrightarrow> resolve_target D env port = Inr t \<Longrightarrow> expects_host (dt_url t) (server_name (dt_notarize t))"
  by (cases "demo_url env"; erule (1) resolve_target_public resolve_target_local)
     (simp_all add: expects_host_def fixture_url_spec_def)

lemma resolve_target_trust:
  "resolve_target D env port = Inr t \<Longrightarrow>
     server_trust (dt_notarize t) = (if dt_fixture t then Custom [dl_ca_cert_der D] else Mozilla)"
  by (cases "demo_url env"; erule (1) resolve_target_public resolve_target_local) simp_all

text \<open>
  C29.  A resolved target is consistent.  The field is a JSON pointer; the URL is https and names
  exactly the TLS server that is notarized, so that the signer will not refuse an honest session
  for its host; the request goes to that host (or, for the test server, to the loopback address),
  without extra headers; the notary seed has 32 bytes; and the custom certificate root is trusted
  if and only if the test server is used, which in turn happens only when no public endpoint is
  named.  A public URL with credentials or another scheme never resolves.
\<close>

theorem resolve_target_consistent:
  assumes "fixture_url_spec D" and "resolve_target D env port = Inr t"
  shows "starts_with (dt_field t) (CHR ''/'') \<and>
    expects_host (dt_url t) (server_name (dt_notarize t)) \<and>
    extra_headers (dt_notarize t) = [] \<and> length (notary_key_seed (dt_notarize t)) = 32 \<and>
    max_sent_data (dt_notarize t) < 2 ^ 64 \<and> max_recv_data (dt_notarize t) < 2 ^ 64 \<and>
    (if dt_fixture t
     then demo_url env = None \<and> fst (server_addr (dt_notarize t)) = ''127.0.0.1'' \<and>
       server_trust (dt_notarize t) = Custom [dl_ca_cert_der D]
     else fst (server_addr (dt_notarize t)) = server_name (dt_notarize t) \<and>
       server_trust (dt_notarize t) = Mozilla \<and>
       url_username (dt_url t) = [] \<and> url_password (dt_url t) = None \<and>
       (\<exists>raw. demo_url env = Some raw \<and> dl_parse_url D raw = Some (dt_url t)))"
proof (cases "demo_url env")
  case None
  obtain p where "dl_parse_url D (''https://'' @ dl_server_domain D @ FIXTURE_JSON_PATH) = Some (dt_url t)"
      and "dt_field t = normalize_field (case env ''DEMO_FIELD'' of Some f \<Rightarrow> f | None \<Rightarrow> ''/meta/version'')"
      and "dt_fixture t" "server_addr (dt_notarize t) = (''127.0.0.1'', p)"
      and "server_name (dt_notarize t) = dl_server_domain D" "server_trust (dt_notarize t) = Custom [dl_ca_cert_der D]"
    by (rule resolve_target_local [OF None assms(2)])
  with resolve_target_limits [OF assms(2)] assms(1) None show ?thesis
    by (simp add: fixture_url_spec_def expects_host_def normalize_field_starts)
next
  case (Some raw)
  show ?thesis
    by (rule resolve_target_public [OF Some assms(2)])
       (use resolve_target_limits [OF assms(2)] Some in \<open>simp add: expects_host_def normalize_field_starts\<close>)
qed

end
