(* ===== verification/Presentation_Verifier.thy ===== *)
theory Presentation_Verifier
  imports Claim_Signer
begin

text \<open>
  \<open>crates/tlsn-demo/webproof-tlsn/src/verify.rs\<close>: the implementation of the proof-verifier trait
  over a persisted TLSNotary presentation.  The TLSNotary release, \<open>bincode\<close>, its HTTP parser and
  \<open>serde_json\<close> are library code and enter as the record \<open>tlsn_lib\<close>, polymorphic in the opaque
  presentation \<open>'p\<close> and crypto provider \<open>'q\<close>.  A \<open>RangeSet<usize>\<close> is the set of indices it denotes.
\<close>

section \<open>Library interface and data\<close>

type_synonym RangeSet = "nat set"

record PartialTranscript =
  tr_sent_unsafe :: bytes
  tr_sent_authed :: RangeSet
  tr_received_unsafe :: bytes
  tr_received_authed :: RangeSet

record PresentationOutput =
  po_server_name :: "string option" \<comment> \<open>\<open>ServerName::Dns\<close>, the only variant\<close>
  po_transcript :: "PartialTranscript option"

record HttpRequest =
  rq_line_indices :: RangeSet
  rq_target :: string

record HttpResponse =
  rs_indices :: RangeSet
  rs_body :: "bytes option" \<comment> \<open>the body's \<open>content_data\<close>, if there is a body\<close>

record ('p, 'q) tlsn_lib =
  tl_deserialize :: "bytes \<Rightarrow> 'p option"
  tl_verifying_key :: "'p \<Rightarrow> bytes"
  tl_default_provider :: 'q
  tl_cert_provider :: "bytes list \<Rightarrow> string + 'q"
  tl_verify :: "'p \<Rightarrow> 'q \<Rightarrow> string + PresentationOutput"
  tl_parse_request :: "bytes \<Rightarrow> string + HttpRequest"
  tl_parse_response :: "bytes \<Rightarrow> string + HttpResponse"
  tl_json :: "bytes \<Rightarrow> Value option"

datatype VerifyError =
    Deserialize | UntrustedNotary | Verification string | MissingServerName | MissingTranscript
  | Coverage string | Http string | Json

record TlsnPresentationVerifier =
  server_roots :: "bytes list"
  trusted_notary_keys :: "bytes list"

section \<open>Operations\<close>

definition with_mozilla_roots :: "bytes list \<Rightarrow> TlsnPresentationVerifier" where
  "with_mozilla_roots keys = \<lparr>server_roots = [], trusted_notary_keys = keys\<rparr>"

definition with_custom_roots :: "bytes list \<Rightarrow> bytes list \<Rightarrow> TlsnPresentationVerifier" where
  "with_custom_roots roots keys = \<lparr>server_roots = roots, trusted_notary_keys = keys\<rparr>"

definition crypto_provider :: "('p, 'q) tlsn_lib \<Rightarrow> TlsnPresentationVerifier \<Rightarrow> VerifyError + 'q" where
  "crypto_provider T self =
     (if server_roots self = [] then Inr (tl_default_provider T)
      else map_err Verification (tl_cert_provider T (server_roots self)))"

definition is_subset :: "RangeSet \<Rightarrow> RangeSet \<Rightarrow> bool" where
  "is_subset candidate authed = (let remainder = candidate - authed in remainder = {})"

definition verify :: "('p, 'q) tlsn_lib \<Rightarrow> TlsnPresentationVerifier \<Rightarrow> bytes \<Rightarrow> VerifyError + VerifiedTlsData" where
  "verify T self artifact =
     try_then (ok_or (tl_deserialize T artifact) Deserialize) (\<lambda>presentation.
     let key_data = tl_verifying_key T presentation in
     ensure (\<not> \<not> list_ex (\<lambda>trusted. trusted = key_data) (trusted_notary_keys self)) UntrustedNotary (
     try_then (crypto_provider T self) (\<lambda>provider.
     try_then (map_err Verification (tl_verify T presentation provider)) (\<lambda>output.
     try_then (ok_or (po_server_name output) MissingServerName) (\<lambda>host.
     try_then (ok_or (po_transcript output) MissingTranscript) (\<lambda>transcript.
     try_then (map_err Http (tl_parse_request T (tr_sent_unsafe transcript))) (\<lambda>request.
     ensure (is_subset (rq_line_indices request) (tr_sent_authed transcript)) (Coverage ''request line'') (
     let path = rq_target request in
     try_then (map_err Http (tl_parse_response T (tr_received_unsafe transcript))) (\<lambda>response.
     ensure (is_subset (rs_indices response) (tr_received_authed transcript)) (Coverage ''full response'') (
     try_then (ok_or (rs_body response) (Coverage ''response body'')) (\<lambda>body.
     try_then (ok_or (tl_json T body) Json) (\<lambda>response_json.
     Inr (from_verified_presentation host path response_json artifact)))))))))))))"

section \<open>What a verified presentation backs\<close>

lemma is_subset_iff: "is_subset a b \<longleftrightarrow> a \<subseteq> b"
  by (auto simp: is_subset_def Let_def)

text \<open>
  The data is what an authentic presentation discloses: a presentation signed by an allowlisted
  notary that passes TLSNotary's verification, with the host from the proven server identity, the
  path from a fully authenticated request line and the response parsed from a fully authenticated
  transcript.
\<close>

definition presentation_backs ::
  "('p, 'q) tlsn_lib \<Rightarrow> TlsnPresentationVerifier \<Rightarrow> bytes \<Rightarrow> VerifiedTlsData \<Rightarrow> bool" where
  "presentation_backs T self a d \<longleftrightarrow>
     (\<exists>p q out tr rq rs body.
        tl_deserialize T a = Some p \<and> tl_verifying_key T p \<in> set (trusted_notary_keys self) \<and>
        crypto_provider T self = Inr q \<and> tl_verify T p q = Inr out \<and>
        po_server_name out = Some (vt_host d) \<and> po_transcript out = Some tr \<and>
        tl_parse_request T (tr_sent_unsafe tr) = Inr rq \<and> rq_line_indices rq \<subseteq> tr_sent_authed tr \<and>
        rq_target rq = vt_path d \<and>
        tl_parse_response T (tr_received_unsafe tr) = Inr rs \<and> rs_indices rs \<subseteq> tr_received_authed tr \<and>
        rs_body rs = Some body \<and> tl_json T body = Some (vt_response d))"

lemma verify_iff:
  "verify T self a = Inr d \<longleftrightarrow> presentation_backs T self a d \<and> vt_artifact d = a"
  by (cases d)
     (auto simp: verify_def presentation_backs_def result_simps Let_def is_subset_iff list_ex_iff
      from_verified_presentation_def)

interpretation tlsn: proof_verifier "verify T self" "presentation_backs T self" for T self
  by unfold_locales (simp_all add: verify_iff)

text \<open>
  C21.  \<open>TlsnPresentationVerifier::verify\<close> yields data for an artifact exactly when the artifact
  deserializes to a presentation signed by an allowlisted notary key, TLSNotary's verification
  accepts it, the server identity and a transcript are disclosed, the request line and the whole
  response lie inside the authenticated ranges, and the body is JSON; the data is then the proven
  host, the disclosed target, the parsed body and the artifact itself.
\<close>

theorem verify_exact:
  "verify T self a = Inr d \<longleftrightarrow> vt_artifact d = a \<and>
     (\<exists>p q out tr rq rs body.
        tl_deserialize T a = Some p \<and> tl_verifying_key T p \<in> set (trusted_notary_keys self) \<and>
        crypto_provider T self = Inr q \<and> tl_verify T p q = Inr out \<and>
        po_server_name out = Some (vt_host d) \<and> po_transcript out = Some tr \<and>
        tl_parse_request T (tr_sent_unsafe tr) = Inr rq \<and> rq_line_indices rq \<subseteq> tr_sent_authed tr \<and>
        rq_target rq = vt_path d \<and>
        tl_parse_response T (tr_received_unsafe tr) = Inr rs \<and> rs_indices rs \<subseteq> tr_received_authed tr \<and>
        rs_body rs = Some body \<and> tl_json T body = Some (vt_response d))"
  unfolding verify_iff presentation_backs_def by blast

text \<open>
  C22.  The notary allowlist is decided first: a presentation whose notary key is not allowlisted is
  refused as UntrustedNotary whatever the rest of the library would say about it, no artifact
  verifies under an empty allowlist, and enlarging the allowlist never changes a successful result.
\<close>

theorem notary_allowlist:
  "(\<forall>p. tl_deserialize T a = Some p \<longrightarrow> tl_verifying_key T p \<notin> set (trusted_notary_keys self) \<longrightarrow>
      verify T self a = Inl UntrustedNotary) \<and>
   \<not> is_ok (verify T (self\<lparr>trusted_notary_keys := []\<rparr>) a) \<and>
   (\<forall>d. verify T self a = Inr d \<longrightarrow>
      verify T (self\<lparr>trusted_notary_keys := trusted_notary_keys self @ more_keys\<rparr>) a = Inr d)"
proof -
  have "crypto_provider T (self\<lparr>trusted_notary_keys := ks\<rparr>) = crypto_provider T self" for ks
    by (simp add: crypto_provider_def)
  then have "\<forall>d. verify T self a = Inr d \<longrightarrow>
      verify T (self\<lparr>trusted_notary_keys := trusted_notary_keys self @ more_keys\<rparr>) a = Inr d"
    by (auto simp: verify_iff presentation_backs_def)
  moreover have "\<not> is_ok (verify T (self\<lparr>trusted_notary_keys := []\<rparr>) a)"
    by (simp add: is_ok_iff verify_iff presentation_backs_def)
  moreover have "verify T self a = Inl UntrustedNotary"
    if "tl_deserialize T a = Some p" "tl_verifying_key T p \<notin> set (trusted_notary_keys self)" for p
    using that by (auto simp: verify_def Let_def list_ex_iff ensure_def)
  ultimately show ?thesis by blast
qed

text \<open>
  From presentation to signature: with the presentation verifier in the seam, every signed
  claim is backed by a verified presentation.  Its source host is the TLS identity the presentation
  proves, its path hash covers the authenticated request target, its value is the scalar of the
  authenticated response at the claim key, and its provenance hash is the digest of the artifact;
  an artifact that does not verify is never signed.
\<close>

lemma signed_claim_is_backed_by_presentation:
  "case verify_and_sign lib signer (verify T self) a url field now ttl n of
     Inr s \<Rightarrow> (\<exists>d. presentation_backs T self a d \<and> source_host (sg_claim s) = vt_host d \<and>
       request_path_hash (sg_claim s) = lib_sha256 lib (as_bytes (vt_path d)) \<and>
       addressed_scalar lib (vt_response d) (claim_key (sg_claim s)) = Some (claim_value (sg_claim s)) \<and>
       provenance_hash (sg_claim s) = lib_sha256 lib a)
   | Inl e \<Rightarrow> e = Tlsn \<longleftrightarrow> \<not> is_ok (verify T self a)"
proof (cases "verify_and_sign lib signer (verify T self) a url field now ttl n")
  case (Inr s)
  then show ?thesis using tlsn.signed_claim_backed [OF Inr] by simp
next
  case (Inl e)
  show ?thesis
  proof (cases "verify T self a")
    case (Inl e')
    with \<open>verify_and_sign lib signer (verify T self) a url field now ttl n = Inl e\<close> show ?thesis
      by (simp add: tlsn.unverified_never_signed)
  next
    case (Inr d)
    with Inl show ?thesis
      by (auto simp: verify_and_sign_def sign_verified_alt result_simps Let_def)
  qed
qed

end
