(* ===== verification/Verify_Sign.thy ===== *)
theory Verify_Sign
  imports Demo_Config Presentation_Verifier
begin

text \<open>
  \<open>crates/tlsn-demo/demo/src/bin/webproof_verify_sign.rs\<close>: the binary that verifies a persisted
  presentation and writes the signed claim.  The process sees a \<open>world\<close>: its environment, the file
  system (contents by path), the clock in seconds since the epoch and the operating system's random
  bytes.  A run returns the error it exits with or the file system it leaves behind; what it
  prints is not modelled.
\<close>

section \<open>World, paths and JSON access\<close>

type_synonym files = "string \<Rightarrow> bytes option"

record world =
  w_env :: environment
  w_files :: files
  w_writable :: "string \<Rightarrow> bool" \<comment> \<open>whether writing a path succeeds\<close>
  w_mkdir :: "string \<Rightarrow> bool" \<comment> \<open>whether creating a directory succeeds\<close>
  w_clock :: "64 word option" \<comment> \<open>none when the clock is before the epoch\<close>
  w_random :: bytes

text \<open>\<open>Path::join\<close> of a directory and a plain file name.\<close>

definition path_join :: "string \<Rightarrow> string \<Rightarrow> string" where
  "path_join dir name = (if dir = [] then name else if last dir = CHR ''/'' then dir @ name else dir @ CHR ''/'' # name)"

definition read_to_string :: "files \<Rightarrow> string \<Rightarrow> string option" where
  "read_to_string fs p = (case fs p of Some b \<Rightarrow> if utf8_valid b then Some (of_bytes b) else None | None \<Rightarrow> None)"

fun value_get :: "Value \<Rightarrow> string \<Rightarrow> Value option" where
  "value_get (Object kvs) k = map_of kvs k"
| "value_get _ k = None"

fun as_str :: "Value \<Rightarrow> string option" where
  "as_str (String s) = Some s"
| "as_str _ = None"

fun as_bool :: "Value \<Rightarrow> bool option" where
  "as_bool (Bool b) = Some b"
| "as_bool _ = None"

fun collect :: "'a option list \<Rightarrow> 'a list option" where
  "collect [] = Some []"
| "collect (x # xs) = (case x of None \<Rightarrow> None | Some v \<Rightarrow> map_option ((#) v) (collect xs))"

record json_lib =
  js_from_str :: "string \<Rightarrow> Value option" \<comment> \<open>\<open>from_str::<Value>\<close>\<close>
  js_signed_claim :: "SignedClaim \<Rightarrow> string option" \<comment> \<open>\<open>to_string_pretty(&signed)\<close>\<close>
  js_value :: "Value \<Rightarrow> string option" \<comment> \<open>\<open>to_string_pretty\<close> of a JSON value\<close>

datatype MainError =
    ArtifactNotFound | RequestUnreadable | RequestNotJson | RequestUrlMissing | RequestUrlInvalid
  | RequestFieldMissing | AllowedHostsUnset | ExpectedHostMissing | HostNotAllowed
  | TrustedKeyNotHex | NotaryKeyFileMissing | SignerKeyUnset | SignerKey DemoError
  | TtlNotAnInteger | ClockBeforeEpoch | RefusingToSign Error | NotSerialized | NotWritten

section \<open>The binary\<close>

definition host_allowed :: "string \<Rightarrow> string \<Rightarrow> bool" where
  "host_allowed allowed expected_host \<longleftrightarrow>
     list_ex (\<lambda>h. h \<noteq> [] \<and> eq_ignore_ascii_case h expected_host) (map trim (split_on (CHR '','') allowed))"

definition trusted_notary_keys_from :: "demo_lib \<Rightarrow> world \<Rightarrow> string \<Rightarrow> MainError + bytes list" where
  "trusted_notary_keys_from D w dir =
     (case w_env w ''WEBPROOF_TRUSTED_NOTARY_KEYS'' of
        Some list \<Rightarrow>
          ok_or (collect (map (dl_hex_decode D) (filter (\<lambda>s. s \<noteq> []) (map trim (split_on (CHR '','') list)))))
            TrustedKeyNotHex
      | None \<Rightarrow>
          try_then (ok_or (read_to_string (w_files w) (path_join dir ''notary-key.hex'')) NotaryKeyFileMissing) (\<lambda>text.
          try_then (ok_or (dl_hex_decode D (trim text)) TrustedKeyNotHex) (\<lambda>k. Inr [k])))"

definition artifact_dir :: "world \<Rightarrow> string" where
  "artifact_dir w = (case w_env w ''WEBPROOF_ARTIFACT_DIR'' of Some d \<Rightarrow> d | None \<Rightarrow> ''artifacts/demo'')"

definition verify_sign_main ::
  "library \<Rightarrow> ('p, 'q) tlsn_lib \<Rightarrow> demo_lib \<Rightarrow> json_lib \<Rightarrow> world \<Rightarrow> MainError + files" where
  "verify_sign_main lib T D J w =
     (let dir = artifact_dir w in
      try_then (ok_or (w_files w (path_join dir ''presentation.tlsn.bin'')) ArtifactNotFound) (\<lambda>artifact.
      try_then (ok_or (read_to_string (w_files w) (path_join dir ''request.json'')) RequestUnreadable) (\<lambda>text.
      try_then (ok_or (js_from_str J text) RequestNotJson) (\<lambda>request.
      try_then (ok_or (Option.bind (value_get request ''url'') as_str) RequestUrlMissing) (\<lambda>raw_url.
      try_then (ok_or (dl_parse_url D raw_url) RequestUrlInvalid) (\<lambda>expected_url.
      try_then (ok_or (Option.bind (value_get request ''field'') as_str) RequestFieldMissing) (\<lambda>field.
      let fixture = (case Option.bind (value_get request ''fixture'') as_bool of Some b \<Rightarrow> b | None \<Rightarrow> False) in
      try_then (ok_or (w_env w ''WEBPROOF_ALLOWED_HOSTS'') AllowedHostsUnset) (\<lambda>allowed.
      try_then (ok_or (url_host_str expected_url) ExpectedHostMissing) (\<lambda>expected_host.
      ensure (host_allowed allowed expected_host) HostNotAllowed (
      try_then (trusted_notary_keys_from D w dir) (\<lambda>keys.
      let verifier = (if fixture then with_custom_roots [dl_ca_cert_der D] keys else with_mozilla_roots keys) in
      try_then (ok_or (w_env w ''WEBPROOF_SIGNER_KEY'') SignerKeyUnset) (\<lambda>signer_key.
      try_then (map_err SignerKey (parse_signing_key D signer_key)) (\<lambda>seed.
      let signer = ClaimSigner_new seed;
          ttl_text = (case w_env w ''CLAIM_TTL_SECONDS'' of Some t \<Rightarrow> t | None \<Rightarrow> ''300'') in
      try_then (ok_or (parse_i64 (trim ttl_text)) TtlNotAnInteger) (\<lambda>ttl.
      try_then (ok_or (w_clock w) ClockBeforeEpoch) (\<lambda>now.
      let n = w_random w in
      try_then (map_err RefusingToSign
        (verify_and_sign lib signer (verify T verifier) artifact expected_url field now ttl n)) (\<lambda>signed.
      let out = path_join dir ''signed-claim.json'' in
      try_then (ok_or (js_signed_claim J signed) NotSerialized) (\<lambda>text.
      ensure (w_writable w out) NotWritten (
      Inr ((w_files w)(out \<mapsto> as_bytes text))))))))))))))))))))"

section \<open>What a successful run did\<close>

text \<open>The request file as the binary reads it.\<close>

definition request_of :: "demo_lib \<Rightarrow> json_lib \<Rightarrow> files \<Rightarrow> string \<Rightarrow> (Url \<times> string \<times> bool) option" where
  "request_of D J fs dir =
     Option.bind (read_to_string fs (path_join dir ''request.json'')) (\<lambda>text.
     Option.bind (js_from_str J text) (\<lambda>r.
     Option.bind (Option.bind (Option.bind (value_get r ''url'') as_str) (dl_parse_url D)) (\<lambda>url.
     map_option (\<lambda>field. (url, field,
        case Option.bind (value_get r ''fixture'') as_bool of Some b \<Rightarrow> b | None \<Rightarrow> False))
       (Option.bind (value_get r ''field'') as_str))))"

lemma request_of_iff:
  "request_of D J fs dir = Some (url, field, fixture) \<longleftrightarrow>
     (\<exists>text r raw. read_to_string fs (path_join dir ''request.json'') = Some text \<and> js_from_str J text = Some r \<and>
        Option.bind (value_get r ''url'') as_str = Some raw \<and> dl_parse_url D raw = Some url \<and>
        Option.bind (value_get r ''field'') as_str = Some field \<and>
        fixture = (case Option.bind (value_get r ''fixture'') as_bool of Some b \<Rightarrow> b | None \<Rightarrow> False))"
  by (auto simp: request_of_def bind_eq_Some_conv)

definition chosen_verifier :: "demo_lib \<Rightarrow> bool \<Rightarrow> bytes list \<Rightarrow> TlsnPresentationVerifier" where
  "chosen_verifier D fixture keys = \<lparr>server_roots = (if fixture then [dl_ca_cert_der D] else []), trusted_notary_keys = keys\<rparr>"

lemma chosen_verifier_if:
  "(if fixture then with_custom_roots [dl_ca_cert_der D] keys else with_mozilla_roots keys) = chosen_verifier D fixture keys"
  by (simp add: chosen_verifier_def with_custom_roots_def with_mozilla_roots_def)

text \<open>Everything after the inputs have been read and checked.\<close>

lemma verify_sign_main_iff:
  "verify_sign_main lib T D J w = Inr fs' \<longleftrightarrow>
     (\<exists>artifact url field fixture allowed host keys raw seed ttl now s text.
        w_files w (path_join (artifact_dir w) ''presentation.tlsn.bin'') = Some artifact \<and>
        request_of D J (w_files w) (artifact_dir w) = Some (url, field, fixture) \<and>
        w_env w ''WEBPROOF_ALLOWED_HOSTS'' = Some allowed \<and> url_host_str url = Some host \<and> host_allowed allowed host \<and>
        trusted_notary_keys_from D w (artifact_dir w) = Inr keys \<and>
        w_env w ''WEBPROOF_SIGNER_KEY'' = Some raw \<and> parse_signing_key D raw = Inr seed \<and>
        parse_i64 (trim (case w_env w ''CLAIM_TTL_SECONDS'' of Some t \<Rightarrow> t | None \<Rightarrow> ''300'')) = Some ttl \<and>
        w_clock w = Some now \<and>
        verify_and_sign lib \<lparr>cs_key = seed\<rparr> (verify T (chosen_verifier D fixture keys)) artifact url field now ttl (w_random w) = Inr s \<and>
        js_signed_claim J s = Some text \<and> w_writable w (path_join (artifact_dir w) ''signed-claim.json'') \<and>
        fs' = (w_files w)(path_join (artifact_dir w) ''signed-claim.json'' \<mapsto> as_bytes text))"
  (is "?l \<longleftrightarrow> ?r")
proof
  assume ?l
  then show ?r
    unfolding verify_sign_main_def Let_def chosen_verifier_if ClaimSigner_new_def result_simps
    by (elim exE conjE, intro exI conjI) (assumption | simp add: request_of_iff)+
next
  assume ?r
  then show ?l
    by (auto simp: verify_sign_main_def Let_def chosen_verifier_if ClaimSigner_new_def request_of_iff)
qed

section \<open>Guarantees of the binary\<close>

text \<open>
  C30.  The binary writes one file, signed-claim.json, and only for verified data: the claim in it is
  backed by the presentation it read, signed by a notary key of its trusted list and validated
  against the WebPKI roots or, when the fixture flag of request.json is set (nothing else decides it),
  against the test certificate alone; its key is the requested field; its host is the one of the
  requested URL and on the operator's allowlist; its issue time and nonce are those of the clock and the random source;
  and its signature is by the operator's 32-byte seed.  Every other file is unchanged.
\<close>

theorem verify_sign_writes_verified_claim:
  assumes "verify_sign_main lib T D J w = Inr fs'"
  shows "\<exists>artifact url fixture keys d s text allowed seed.
    w_files w (path_join (artifact_dir w) ''presentation.tlsn.bin'') = Some artifact \<and>
    request_of D J (w_files w) (artifact_dir w) = Some (url, claim_key (sg_claim s), fixture) \<and>
    url_host_str url = Some (source_host (sg_claim s)) \<and>
    trusted_notary_keys_from D w (artifact_dir w) = Inr keys \<and>
    presentation_backs T \<lparr>server_roots = (if fixture then [dl_ca_cert_der D] else []), trusted_notary_keys = keys\<rparr> artifact d \<and>
    w_env w ''WEBPROOF_ALLOWED_HOSTS'' = Some allowed \<and> host_allowed allowed (source_host (sg_claim s)) \<and>
    source_host (sg_claim s) = vt_host d \<and>
    request_path_hash (sg_claim s) = lib_sha256 lib (as_bytes (vt_path d)) \<and>
    addressed_scalar lib (vt_response d) (claim_key (sg_claim s)) = Some (claim_value (sg_claim s)) \<and>
    provenance_hash (sg_claim s) = lib_sha256 lib artifact \<and>
    w_clock w = Some (issued_at (sg_claim s)) \<and> nonce (sg_claim s) = w_random w \<and>
    length seed = 32 \<and> sg_verifier_public_key s = lib_verifying_key lib seed \<and>
    js_signed_claim J s = Some text \<and>
    fs' = (w_files w)(path_join (artifact_dir w) ''signed-claim.json'' \<mapsto> as_bytes text)"
proof -
  obtain artifact url field fixture allowed host keys raw seed ttl now s json where
      art: "w_files w (path_join (artifact_dir w) ''presentation.tlsn.bin'') = Some artifact"
      and req: "request_of D J (w_files w) (artifact_dir w) = Some (url, field, fixture)"
      and allowed: "w_env w ''WEBPROOF_ALLOWED_HOSTS'' = Some allowed" "url_host_str url = Some host" "host_allowed allowed host"
      and keys: "trusted_notary_keys_from D w (artifact_dir w) = Inr keys"
      and seed: "parse_signing_key D raw = Inr seed" and now: "w_clock w = Some now"
      and s: "verify_and_sign lib \<lparr>cs_key = seed\<rparr> (verify T (chosen_verifier D fixture keys)) artifact url field now ttl
        (w_random w) = Inr s"
      and out: "js_signed_claim J s = Some json"
        "fs' = (w_files w)(path_join (artifact_dir w) ''signed-claim.json'' \<mapsto> as_bytes json)"
    using assms unfolding verify_sign_main_iff by blast
  obtain d v where d: "verify T (chosen_verifier D fixture keys) artifact = Inr d" "expects_host url (vt_host d)"
      and v: "addressed_scalar lib (vt_response d) field = Some v"
        "sg_claim s = built_claim lib d field v now ttl (w_random w)"
        "sg_verifier_public_key s = public_key lib \<lparr>cs_key = seed\<rparr>"
    using s unfolding verify_and_sign_iff sign_verified_iff by blast
  have "host = vt_host d" using allowed(2) d(2) by (simp add: expects_host_def)
  moreover have "presentation_backs T (chosen_verifier D fixture keys) artifact d" "vt_artifact d = artifact"
    using d(1) by (simp_all add: verify_iff)
  ultimately show ?thesis
    using art req allowed keys now v out parse_signing_key_length [OF seed]
    unfolding chosen_verifier_def public_key_def
    by (intro exI [of _ artifact] exI [of _ url] exI [of _ fixture] exI [of _ keys] exI [of _ d] exI [of _ s] exI [of _ json]
        exI [of _ allowed] exI [of _ seed]) simp
qed

lemma map_eq_nth: "map f xs = map f ys \<longleftrightarrow> length xs = length ys \<and> (\<forall>i < length xs. f (xs ! i) = f (ys ! i))"
  by (auto simp: list_eq_iff_nth_eq)

lemma white_space_no_comma: "w \<in> set white_space \<Longrightarrow> CHR '','' \<notin> set w"
  using white_space_no_graphic [of w "CHR '',''"] by (auto simp: graphic_def)

text \<open>
  The allowlist comparison of the code in full.  It is exact up to ASCII case and white space: for entries separated by commas, each a word of
  graphic characters with any white space around it, a host is allowed if and only if it equals one
  of the non-empty entries, ignoring only the case of ASCII letters.  In particular an allowed host
  has the length of an entry: no subdomain, suffix or wildcard matches.
\<close>

lemma host_allowed_ignores_case:
  assumes "es \<noteq> []"
    and "\<And>ps h qs. (ps, h, qs) \<in> set es \<Longrightarrow> set ps \<subseteq> set white_space \<and> set qs \<subseteq> set white_space \<and>
      list_all graphic h \<and> CHR '','' \<notin> set h"
  shows "host_allowed (join (CHR '','') (map (\<lambda>(ps, h, qs). concat ps @ h @ concat qs) es)) host \<longleftrightarrow>
    (\<exists>(ps, h, qs) \<in> set es. h \<noteq> [] \<and> length h = length host \<and>
       (\<forall>i < length h. lower_char (h ! i) = lower_char (host ! i)))"
proof -
  let ?pad = "\<lambda>(ps, h, qs). concat ps @ h @ concat qs :: string"
  have trim: "trim (?pad e) = fst (snd e)" if "e \<in> set es" for e
    using assms(2) [of "fst e" "fst (snd e)" "snd (snd e)"] that by (simp add: case_prod_beta trim_padded)
  have "CHR '','' \<notin> set (?pad e)" if "e \<in> set es" for e
    using assms(2) [of "fst e" "fst (snd e)" "snd (snd e)"] that white_space_no_comma
    by (auto simp: case_prod_beta)
  then have "split_on (CHR '','') (join (CHR '','') (map ?pad es)) = map ?pad es"
    using assms(1) by (intro split_on_join) auto
  then have "host_allowed (join (CHR '','') (map ?pad es)) host \<longleftrightarrow>
      (\<exists>e \<in> set es. fst (snd e) \<noteq> [] \<and> eq_ignore_ascii_case (fst (snd e)) host)"
    using trim by (simp add: host_allowed_def list_ex_iff)
  moreover have "eq_ignore_ascii_case h host \<longleftrightarrow>
      length h = length host \<and> (\<forall>i < length h. lower_char (h ! i) = lower_char (host ! i))" for h
    by (simp add: eq_ignore_ascii_case_def to_ascii_lowercase_def map_eq_nth)
  ultimately show ?thesis by (simp add: case_prod_beta)
qed

lemma host_allowed_ignores_case_instance:
  "host_allowed ''api.example.com, test-server.io'' ''API.example.com''"
proof -
  let ?es = "[([], ''api.example.com'', []), ([[CHR '' '']], ''test-server.io'', [])] :: (string list \<times> string \<times> string list) list"
  have "host_allowed (join (CHR '','') (map (\<lambda>(ps, h, qs). concat ps @ h @ concat qs) ?es)) host \<longleftrightarrow>
    (\<exists>(ps, h, qs) \<in> set ?es. h \<noteq> [] \<and> length h = length host \<and>
       (\<forall>i < length h. lower_char (h ! i) = lower_char (host ! i)))" for host
    by (rule host_allowed_ignores_case) (use space_is_white in \<open>auto simp: graphic_def\<close>)
  moreover have "map lower_char ''api.example.com'' = map lower_char ''API.example.com''" by code_simp
  ultimately show ?thesis by (simp add: All_less_Suc)
qed

text \<open>
  C31.  The allowlist is an exact list of hostnames: for a comma-separated list of hostnames in lower
  case, as a parsed URL has them, a lower-case host is allowed if and only if it is one of the
  non-empty entries.  No subdomain, parent domain, prefix, suffix or wildcard of an entry is allowed,
  an empty entry allows nothing, and adding or removing an entry changes the verdict on no other host.
\<close>

theorem host_allowlist_exact:
  assumes "es \<noteq> []" and "\<forall>h \<in> set es. list_all graphic h \<and> CHR '','' \<notin> set h \<and> map lower_char h = h"
    and "map lower_char host = host"
  shows "host_allowed (join (CHR '','') es) host \<longleftrightarrow> host \<noteq> [] \<and> host \<in> set es"
proof -
  have "split_on (CHR '','') (join (CHR '','') es) = es" using assms(1,2) by (intro split_on_join) auto
  moreover have "trim h = h" if "h \<in> set es" for h using that assms(2) trim_graphic by blast
  moreover have "eq_ignore_ascii_case h host \<longleftrightarrow> h = host" if "h \<in> set es" for h
    using that assms(2,3) by (auto simp: eq_ignore_ascii_case_def to_ascii_lowercase_def)
  ultimately show ?thesis by (auto simp: host_allowed_def list_ex_iff)
qed

theorem host_allowlist_exact_witness:
  "host_allowed ''api.example.com,test-server.io'' ''test-server.io'' \<and>
   \<not> host_allowed ''api.example.com,test-server.io'' ''evil-api.example.com'' \<and>
   \<not> host_allowed ''api.example.com,test-server.io'' ''example.com''"
proof -
  have lower: "map lower_char ''api.example.com'' = ''api.example.com''" "map lower_char ''test-server.io'' = ''test-server.io''"
      "map lower_char ''evil-api.example.com'' = ''evil-api.example.com''" "map lower_char ''example.com'' = ''example.com''"
    by code_simp+
  have "host_allowed (join (CHR '','') [''api.example.com'', ''test-server.io'']) host \<longleftrightarrow>
      host \<noteq> [] \<and> host \<in> set [''api.example.com'', ''test-server.io'']" if "map lower_char host = host" for host
    by (rule host_allowlist_exact) (use that lower in \<open>auto simp: graphic_def\<close>)
  from this [OF lower(2)] this [OF lower(3)] this [OF lower(4)] show ?thesis by simp
qed

end
