(* ===== verification/Presentation_Builder.thy ===== *)
theory Presentation_Builder
  imports Presentation_Verifier Rust_Strings
begin

text \<open>
  \<open>crates/tlsn-demo/webproof-tlsn/src/present.rs\<close>: which parts of the transcript a presentation
  discloses.  The HTTP parser and the proof builders of TLSNotary are library code, the record
  \<open>present_lib\<close> over opaque attestations \<open>'a\<close>, secrets \<open>'s\<close>, transcript proofs \<open>'t\<close> and presentations \<open>'p\<close>.
  A transcript proof builder is the two sets of indices revealed so far.
\<close>

section \<open>Library interface and data\<close>

record HttpHeader =
  hd_name :: string
  hd_indices :: RangeSet
  hd_without_value :: RangeSet

record SentRequest =
  sr_without_data :: RangeSet
  sr_target :: RangeSet
  sr_headers :: "HttpHeader list"

record HttpTranscript =
  ht_requests :: "SentRequest list"
  ht_responses :: "RangeSet list" \<comment> \<open>the indices of each response\<close>

record TranscriptProofBuilder =
  tb_sent :: RangeSet
  tb_recv :: RangeSet

record ('a, 's, 't, 'p) present_lib =
  pb_parse :: "'s \<Rightarrow> HttpTranscript option"
  pb_sent_ok :: "'s \<Rightarrow> RangeSet \<Rightarrow> bool" \<comment> \<open>the ranges can be revealed from the secrets\<close>
  pb_recv_ok :: "'s \<Rightarrow> RangeSet \<Rightarrow> bool"
  pb_build_proof :: "'s \<Rightarrow> TranscriptProofBuilder \<Rightarrow> 't option"
  pb_present :: "'a \<Rightarrow> 's \<Rightarrow> 't \<Rightarrow> 'p option" \<comment> \<open>with the identity proof of the secrets\<close>

datatype PresentError =
    TranscriptNotParsed | NoRequest \<comment> \<open>\<open>requests[0]\<close> panics\<close> | NoResponse | RevealFailed | ProofNotBuilt | NotPresented

section \<open>Operations\<close>

text \<open>\<open>xs[0]\<close>, which panics on an empty vector.\<close>

definition index_0 :: "'a list \<Rightarrow> 'e \<Rightarrow> 'e + 'a" where
  "index_0 xs e = (case xs of [] \<Rightarrow> Inl e | x # _ \<Rightarrow> Inr x)"

lemma index_0_eq_Inr [result_simps]: "index_0 xs e = Inr x \<longleftrightarrow> (\<exists>ys. xs = x # ys)"
  by (cases xs) (auto simp: index_0_def)

definition SECRET_HEADERS :: "string list" where
  "SECRET_HEADERS = [''authorization'', ''cookie'', ''proxy-authorization'']"

definition reveal_sent ::
  "('a, 's, 't, 'p) present_lib \<Rightarrow> 's \<Rightarrow> RangeSet \<Rightarrow> TranscriptProofBuilder \<Rightarrow> PresentError + TranscriptProofBuilder" where
  "reveal_sent B s r b = ensure (pb_sent_ok B s r) RevealFailed (Inr (b\<lparr>tb_sent := tb_sent b \<union> r\<rparr>))"

definition reveal_recv ::
  "('a, 's, 't, 'p) present_lib \<Rightarrow> 's \<Rightarrow> RangeSet \<Rightarrow> TranscriptProofBuilder \<Rightarrow> PresentError + TranscriptProofBuilder" where
  "reveal_recv B s r b = ensure (pb_recv_ok B s r) RevealFailed (Inr (b\<lparr>tb_recv := tb_recv b \<union> r\<rparr>))"

fun reveal_headers ::
  "('a, 's, 't, 'p) present_lib \<Rightarrow> 's \<Rightarrow> HttpHeader list \<Rightarrow> TranscriptProofBuilder \<Rightarrow> PresentError + TranscriptProofBuilder" where
  "reveal_headers B s [] b = Inr b"
| "reveal_headers B s (header # hs) b =
     (let name = to_ascii_lowercase (hd_name header) in
      try_then (if name \<in> set SECRET_HEADERS then reveal_sent B s (hd_without_value header) b
                else reveal_sent B s (hd_indices header) b) (\<lambda>b.
      reveal_headers B s hs b))"

definition build_presentation :: "('a, 's, 't, 'p) present_lib \<Rightarrow> 'a \<Rightarrow> 's \<Rightarrow> PresentError + 'p" where
  "build_presentation B attestation secrets =
     try_then (ok_or (pb_parse B secrets) TranscriptNotParsed) (\<lambda>transcript.
     let builder = \<lparr>tb_sent = {}, tb_recv = {}\<rparr> in
     try_then (index_0 (ht_requests transcript) NoRequest) (\<lambda>request.
     try_then (reveal_sent B secrets (sr_without_data request) builder) (\<lambda>builder.
     try_then (reveal_sent B secrets (sr_target request) builder) (\<lambda>builder.
     try_then (reveal_headers B secrets (sr_headers request) builder) (\<lambda>builder.
     try_then (index_0 (ht_responses transcript) NoResponse) (\<lambda>response.
     try_then (reveal_recv B secrets response builder) (\<lambda>builder.
     try_then (ok_or (pb_build_proof B secrets builder) ProofNotBuilt) (\<lambda>transcript_proof.
     ok_or (pb_present B attestation secrets transcript_proof) NotPresented))))))))"

section \<open>What is disclosed\<close>

definition is_secret :: "HttpHeader \<Rightarrow> bool" where
  "is_secret h \<longleftrightarrow> to_ascii_lowercase (hd_name h) \<in> set SECRET_HEADERS"

definition disclosed_header :: "HttpHeader \<Rightarrow> RangeSet" where
  "disclosed_header h = (if is_secret h then hd_without_value h else hd_indices h)"

definition disclosed_request :: "SentRequest \<Rightarrow> RangeSet" where
  "disclosed_request r = sr_without_data r \<union> sr_target r \<union> \<Union> (disclosed_header ` set (sr_headers r))"

lemma reveal_headers_Cons:
  "reveal_headers B s (h # hs) b = try_then (reveal_sent B s (disclosed_header h) b) (reveal_headers B s hs)"
  by (simp add: Let_def disclosed_header_def is_secret_def)

declare reveal_headers.simps(2) [simp del]

lemma reveal_headers_Inr:
  "reveal_headers B s hs b = Inr b' \<Longrightarrow>
     b' = b\<lparr>tb_sent := tb_sent b \<union> \<Union> (disclosed_header ` set hs)\<rparr> \<and> (\<forall>h \<in> set hs. pb_sent_ok B s (disclosed_header h))"
proof (induction hs arbitrary: b)
  case (Cons h hs)
  from Cons.prems have "pb_sent_ok B s (disclosed_header h)"
      and "reveal_headers B s hs (b\<lparr>tb_sent := tb_sent b \<union> disclosed_header h\<rparr>) = Inr b'"
    by (auto simp: reveal_headers_Cons result_simps reveal_sent_def)
  with Cons.IH [OF this(2)] show ?case by (simp add: Un_assoc)
qed simp

lemma reveal_headers_ok:
  "\<forall>h \<in> set hs. pb_sent_ok B s (disclosed_header h) \<Longrightarrow>
     reveal_headers B s hs b = Inr (b\<lparr>tb_sent := tb_sent b \<union> \<Union> (disclosed_header ` set hs)\<rparr>)"
  by (induction hs arbitrary: b)
     (auto simp: reveal_headers_Cons reveal_sent_def Un_assoc)

lemma build_presentation_iff:
  "build_presentation B a s = Inr p \<longleftrightarrow>
     (\<exists>ht rq rqs rs rss t. pb_parse B s = Some ht \<and> ht_requests ht = rq # rqs \<and> ht_responses ht = rs # rss \<and>
        pb_sent_ok B s (sr_without_data rq) \<and> pb_sent_ok B s (sr_target rq) \<and>
        (\<forall>h \<in> set (sr_headers rq). pb_sent_ok B s (disclosed_header h)) \<and> pb_recv_ok B s rs \<and>
        pb_build_proof B s \<lparr>tb_sent = disclosed_request rq, tb_recv = rs\<rparr> = Some t \<and> pb_present B a s t = Some p)"
  (is "?l \<longleftrightarrow> ?r")
proof
  assume ?l
  then obtain ht rq b rs rqs rss t where ht: "pb_parse B s = Some ht" "ht_requests ht = rq # rqs" "ht_responses ht = rs # rss"
      and ok: "pb_sent_ok B s (sr_without_data rq)" "pb_sent_ok B s (sr_target rq)" "pb_recv_ok B s rs"
      and h: "reveal_headers B s (sr_headers rq) \<lparr>tb_sent = sr_without_data rq \<union> sr_target rq, tb_recv = {}\<rparr> = Inr b"
      and t: "pb_build_proof B s (b\<lparr>tb_recv := tb_recv b \<union> rs\<rparr>) = Some t" "pb_present B a s t = Some p"
    by (auto simp: build_presentation_def Let_def result_simps reveal_sent_def reveal_recv_def)
  from reveal_headers_Inr [OF h] ht ok t show ?r by (auto simp: disclosed_request_def)
next
  assume ?r
  then show ?l
    by (auto simp: build_presentation_def Let_def index_0_def reveal_sent_def reveal_recv_def reveal_headers_ok disclosed_request_def)
qed

text \<open>
  C32.  The disclosure policy of \<open>build_presentation\<close>: a presentation is built from a proof that reveals
  exactly the request structure, the target, every header that is not secret in full and the secret
  ones (Authorization, Cookie, Proxy-Authorization in any ASCII case) by name only, and of the
  received data exactly the whole first response.  Consequently no byte of a secret header's value
  is revealed, provided the parser keeps it apart from the other parts of the request.
\<close>

theorem build_presentation_discloses:
  assumes "build_presentation B attestation secrets = Inr p"
  shows "\<exists>rq rs sent t. map_option (hd \<circ> ht_requests) (pb_parse B secrets) = Some rq \<and>
    map_option (hd \<circ> ht_responses) (pb_parse B secrets) = Some rs \<and>
    pb_build_proof B secrets \<lparr>tb_sent = sent, tb_recv = rs\<rparr> = Some t \<and> pb_present B attestation secrets t = Some p \<and>
    sr_without_data rq \<union> sr_target rq \<subseteq> sent \<and>
    (\<forall>h \<in> set (sr_headers rq). \<not> is_secret h \<longrightarrow> hd_indices h \<subseteq> sent) \<and>
    (\<forall>h i. h \<in> set (sr_headers rq) \<and> is_secret h \<and> i \<in> hd_indices h - hd_without_value h \<and>
       i \<notin> sr_without_data rq \<union> sr_target rq \<and> (\<forall>h' \<in> set (sr_headers rq). h' \<noteq> h \<longrightarrow> i \<notin> hd_indices h' \<union> hd_without_value h') \<longrightarrow>
       i \<notin> sent)"
proof -
  obtain ht rq rqs rs rss t where "pb_parse B secrets = Some ht" "ht_requests ht = rq # rqs" "ht_responses ht = rs # rss"
      "pb_build_proof B secrets \<lparr>tb_sent = disclosed_request rq, tb_recv = rs\<rparr> = Some t"
      "pb_present B attestation secrets t = Some p"
    using assms unfolding build_presentation_iff by blast
  then show ?thesis
    by (intro exI [of _ rq] exI [of _ rs] exI [of _ "disclosed_request rq"] exI [of _ t])
       (auto simp: disclosed_request_def disclosed_header_def split: if_splits)
qed

section \<open>Builder and verifier fit together\<close>

text \<open>
  What TLSNotary promises about a presentation built from a transcript proof: its bytes deserialize
  to it, its verified transcript authenticates exactly the revealed ranges, and the parser finds the
  request line within the request's structure and target, and the response within the range it had
  as a response of the full transcript.
\<close>

definition disclosure_spec ::
  "('a, 's, 't, 'p) present_lib \<Rightarrow> ('p, 'q) tlsn_lib \<Rightarrow> ('p \<Rightarrow> bytes option) \<Rightarrow> bool" where
  "disclosure_spec B T ser \<longleftrightarrow>
     (\<forall>a s b t p ht rq rs rqs rss art. pb_parse B s = Some ht \<longrightarrow> ht_requests ht = rq # rqs \<longrightarrow> ht_responses ht = rs # rss \<longrightarrow>
        pb_build_proof B s b = Some t \<longrightarrow> pb_present B a s t = Some p \<longrightarrow> ser p = Some art \<longrightarrow>
        tl_deserialize T art = Some p \<and>
        (\<forall>q out tr. tl_verify T p q = Inr out \<longrightarrow> po_transcript out = Some tr \<longrightarrow>
           tr_sent_authed tr = tb_sent b \<and> tr_received_authed tr = tb_recv b \<and>
           (\<forall>x. tl_parse_request T (tr_sent_unsafe tr) = Inr x \<longrightarrow> rq_line_indices x \<subseteq> sr_without_data rq \<union> sr_target rq) \<and>
           (\<forall>x. tl_parse_response T (tr_received_unsafe tr) = Inr x \<longrightarrow> rs_indices x \<subseteq> rs)))"

text \<open>
  C36.  The disclosure policy satisfies the verifier: a presentation made by \<open>build_presentation\<close> always
  deserializes and is never refused because its request line or its response is not covered by the
  authenticated ranges, whatever headers the request carries.
\<close>

theorem built_presentation_is_covered:
  assumes "disclosure_spec B T ser" and "build_presentation B attestation secrets = Inr p" and "ser p = Some art"
  shows "verify T self art \<notin> {Inl Deserialize, Inl (Coverage ''request line''), Inl (Coverage ''full response'')}"
proof -
  obtain ht rq rqs rs rss t where b: "pb_parse B secrets = Some ht" "ht_requests ht = rq # rqs" "ht_responses ht = rs # rss"
      "pb_build_proof B secrets \<lparr>tb_sent = disclosed_request rq, tb_recv = rs\<rparr> = Some t"
      "pb_present B attestation secrets t = Some p"
    using assms(2) unfolding build_presentation_iff by blast
  have de: "tl_deserialize T art = Some p" using assms(1,3) b unfolding disclosure_spec_def by blast
  have sent: "rq_line_indices x \<subseteq> tr_sent_authed tr"
    if "tl_verify T p q = Inr out" "po_transcript out = Some tr" "tl_parse_request T (tr_sent_unsafe tr) = Inr x" for q out tr x
  proof -
    have "tr_sent_authed tr = disclosed_request rq" "rq_line_indices x \<subseteq> sr_without_data rq \<union> sr_target rq"
      using assms(1,3) b that unfolding disclosure_spec_def by fastforce+
    then show ?thesis by (auto simp: disclosed_request_def)
  qed
  have recv: "rs_indices x \<subseteq> tr_received_authed tr"
    if "tl_verify T p q = Inr out" "po_transcript out = Some tr" "tl_parse_response T (tr_received_unsafe tr) = Inr x" for q out tr x
  proof -
    have "tr_received_authed tr = rs" "rs_indices x \<subseteq> rs"
      using assms(1,3) b that unfolding disclosure_spec_def by fastforce+
    then show ?thesis by simp
  qed
  show ?thesis
    using de sent recv
    by (auto simp: verify_def Let_def result_simps is_subset_iff crypto_provider_def split: if_splits)
qed

end
