(* ===== verification/Demo_Pipeline.thy ===== *)
theory Demo_Pipeline
  imports Verify_Sign Presentation_Builder
begin

text \<open>
  The prover-side binary \<open>webproof_notarize.rs\<close>, the self-check \<open>spike.rs\<close>, and how the files of the
  first are read by \<open>webproof_verify_sign.rs\<close>.  Serialization of presentations is bincode's, a
  parameter here.
\<close>

section \<open>The binaries\<close>

record ('o, 'a, 's, 't, 'p) prover_side =
  ps_notarize :: "('o, 'a, 's) notarize_lib"
  ps_present :: "('a, 's, 't, 'p) present_lib"
  ps_serialize :: "'p \<Rightarrow> bytes option"

datatype RunError =
    Target DemoError | DirectoryNotCreated | Notarize NotarizeError | Present PresentError
  | ArtifactNotSerialized | FileNotWritten string | RequestNotSerialized
  | Rejected VerifyError | FieldAbsent

text \<open>What the environment decides about one run: the test server's port, and the notary task.\<close>

record run_events =
  ev_fixture_port :: "u16 option"
  ev_notary_panics :: bool
  ev_elapsed :: nat

definition write_file :: "world \<Rightarrow> string \<Rightarrow> bytes \<Rightarrow> files \<Rightarrow> RunError + files" where
  "write_file w p b fs = ensure (w_writable w p) (FileNotWritten p) (Inr (fs(p \<mapsto> b)))"

definition request_json :: "demo_lib \<Rightarrow> DemoTarget \<Rightarrow> Value" where
  "request_json D target =
     Object [(''field'', String (dt_field target)), (''fixture'', Bool (dt_fixture target)),
             (''url'', String (dl_url_str D (dt_url target)))]"

definition notarize_main ::
  "('o, 'a, 's, 't, 'p) prover_side \<Rightarrow> demo_lib \<Rightarrow> json_lib \<Rightarrow> run_events \<Rightarrow> world \<Rightarrow> RunError + files" where
  "notarize_main P D J ev w =
     try_then (map_err Target (resolve_target D (w_env w) (ev_fixture_port ev))) (\<lambda>target.
     let out_dir = artifact_dir w in
     ensure (w_mkdir w out_dir) DirectoryNotCreated (
     try_then (map_err Notarize (notarize (ps_notarize P) (ev_notary_panics ev) (ev_elapsed ev) (dt_notarize target))) (\<lambda>session.
     try_then (map_err Present (build_presentation (ps_present P) (ns_attestation session) (ns_secrets session))) (\<lambda>presentation.
     try_then (ok_or (ps_serialize P presentation) ArtifactNotSerialized) (\<lambda>artifact.
     try_then (write_file w (path_join out_dir ''presentation.tlsn.bin'') artifact (w_files w)) (\<lambda>fs.
     try_then (write_file w (path_join out_dir ''notary-key.hex'')
                 (as_bytes (dl_hex_encode D (ns_notary_verifying_key session))) fs) (\<lambda>fs.
     try_then (ok_or (js_value J (request_json D target)) RequestNotSerialized) (\<lambda>text.
     write_file w (path_join out_dir ''request.json'') (as_bytes text) fs))))))))"

text \<open>The self-check: what it prints is the host, the field and the value.\<close>

definition spike_main ::
  "('o, 'a, 's, 't, 'p) prover_side \<Rightarrow> library \<Rightarrow> ('v, 'q) tlsn_lib \<Rightarrow> demo_lib \<Rightarrow> run_events \<Rightarrow> environment
     \<Rightarrow> RunError + (string \<times> string \<times> Value)" where
  "spike_main P lib T D ev env =
     try_then (map_err Target (resolve_target D env (ev_fixture_port ev))) (\<lambda>target.
     try_then (map_err Notarize (notarize (ps_notarize P) (ev_notary_panics ev) (ev_elapsed ev) (dt_notarize target))) (\<lambda>session.
     try_then (map_err Present (build_presentation (ps_present P) (ns_attestation session) (ns_secrets session))) (\<lambda>presentation.
     try_then (ok_or (ps_serialize P presentation) ArtifactNotSerialized) (\<lambda>artifact.
     let verifier = (if dt_fixture target then with_custom_roots [dl_ca_cert_der D] [ns_notary_verifying_key session]
                     else with_mozilla_roots [ns_notary_verifying_key session]) in
     try_then (map_err Rejected (verify T verifier artifact)) (\<lambda>verified.
     try_then (ok_or (lib_pointer lib (vt_response verified) (dt_field target)) FieldAbsent) (\<lambda>value.
     Inr (vt_host verified, dt_field target, value)))))))"

section \<open>Hand-over through the artifact directory\<close>

text \<open>
  Printing JSON and parsing it back is the identity, printed JSON is UTF-8 text, and a URL's text
  parses to that URL.
\<close>

definition json_spec :: "json_lib \<Rightarrow> bool" where
  "json_spec J \<longleftrightarrow> (\<forall>v t. js_value J v = Some t \<longrightarrow> js_from_str J t = Some v \<and> utf8_valid (as_bytes t))"

definition url_spec :: "demo_lib \<Rightarrow> bool" where
  "url_spec D \<longleftrightarrow> (\<forall>s u. dl_parse_url D s = Some u \<longrightarrow> dl_parse_url D (dl_url_str D u) = Some u)"

lemma path_join_inject [simp]: "path_join d a = path_join d b \<longleftrightarrow> a = b"
  by (simp add: path_join_def)

lemma write_file_Inr [result_simps]: "write_file w p b fs = Inr fs' \<longleftrightarrow> w_writable w p \<and> fs' = fs(p \<mapsto> b)"
  by (auto simp: write_file_def ensure_def)

lemma hexdigits_utf8: "list_all is_ascii_hexdigit s \<Longrightarrow> utf8_valid (as_bytes s)"
proof (rule utf8_valid_ascii)
  assume "list_all is_ascii_hexdigit s"
  then have "graphic c" if "c \<in> set s" for c using that hexdigit_graphic by (auto simp: list_all_iff)
  then show "list_all (in_range 0 0x7F) (as_bytes s)"
    by (force simp: list_all_iff as_bytes_def in_range_def graphic_def unat_of_char)
qed

lemma read_text: "fs p = Some (as_bytes s) \<Longrightarrow> utf8_valid (as_bytes s) \<Longrightarrow> read_to_string fs p = Some s"
  by (simp add: read_to_string_def)

lemma resolved_url_parses: "resolve_target D env port = Inr t \<Longrightarrow> \<exists>s. dl_parse_url D s = Some (dt_url t)"
  by (cases "demo_url env") (auto elim: resolve_target_public resolve_target_local)

lemma notarize_main_Inr:
  assumes "notarize_main P D J ev w = Inr fs"
  obtains target session presentation artifact json where
    "resolve_target D (w_env w) (ev_fixture_port ev) = Inr target"
    "notarize (ps_notarize P) (ev_notary_panics ev) (ev_elapsed ev) (dt_notarize target) = Inr session"
    "build_presentation (ps_present P) (ns_attestation session) (ns_secrets session) = Inr presentation"
    "ps_serialize P presentation = Some artifact" "js_value J (request_json D target) = Some json"
    "fs = (w_files w)(path_join (artifact_dir w) ''presentation.tlsn.bin'' \<mapsto> artifact,
             path_join (artifact_dir w) ''notary-key.hex'' \<mapsto> as_bytes (dl_hex_encode D (ns_notary_verifying_key session)),
             path_join (artifact_dir w) ''request.json'' \<mapsto> as_bytes json)"
  using assms that unfolding notarize_main_def Let_def by (auto simp: result_simps)

text \<open>What the prover left is what a reader of its files gets back.\<close>

lemma notarize_main_request:
  assumes "json_spec J" and "url_spec D" and run: "notarize_main P D J ev w = Inr fs"
    and t: "resolve_target D (w_env w) (ev_fixture_port ev) = Inr target"
  shows "request_of D J fs (artifact_dir w) = Some (dt_url target, dt_field target, dt_fixture target)"
proof -
  obtain json artifact key where json: "js_value J (request_json D target) = Some json"
      and fs: "fs = (w_files w)(path_join (artifact_dir w) ''presentation.tlsn.bin'' \<mapsto> artifact,
             path_join (artifact_dir w) ''notary-key.hex'' \<mapsto> key, path_join (artifact_dir w) ''request.json'' \<mapsto> as_bytes json)"
    by (rule notarize_main_Inr [OF run]) (use t in auto)
  have j: "js_from_str J json = Some (request_json D target)" "utf8_valid (as_bytes json)"
    using assms(1) json by (simp_all add: json_spec_def)
  have "read_to_string fs (path_join (artifact_dir w) ''request.json'') = Some json"
    by (rule read_text) (simp_all add: fs j)
  moreover have "dl_parse_url D (dl_url_str D (dt_url target)) = Some (dt_url target)"
    using resolved_url_parses [OF t] assms(2) by (auto simp: url_spec_def)
  ultimately show ?thesis using j(1) by (simp add: request_of_iff request_json_def)
qed

text \<open>
  C34.  Hand-over between the binaries.  After a successful run of the prover, a verifier started on
  the files it left, in the same artifact directory and without an explicit key list, reads exactly
  the prover's presentation, trusts exactly the key of the notary that attested the session, expects
  exactly the URL and the field of the target, and validates certificates against exactly the roots
  the session was notarized with (the test certificate for the local server, the WebPKI roots
  otherwise).  The expected URL names the notarized server, so the session's own host is not refused.
\<close>

theorem verifier_reads_what_the_prover_wrote:
  assumes "hex_spec D" and "json_spec J" and "url_spec D" and "fixture_url_spec D"
    and run: "notarize_main P D J ev w = Inr (w_files w')"
    and "artifact_dir w' = artifact_dir w" and "w_env w' ''WEBPROOF_TRUSTED_NOTARY_KEYS'' = None"
  shows "\<exists>target session presentation artifact.
    resolve_target D (w_env w) (ev_fixture_port ev) = Inr target \<and>
    notarize (ps_notarize P) (ev_notary_panics ev) (ev_elapsed ev) (dt_notarize target) = Inr session \<and>
    build_presentation (ps_present P) (ns_attestation session) (ns_secrets session) = Inr presentation \<and>
    ps_serialize P presentation = Some artifact \<and>
    w_files w' (path_join (artifact_dir w') ''presentation.tlsn.bin'') = Some artifact \<and>
    request_of D J (w_files w') (artifact_dir w') = Some (dt_url target, dt_field target, dt_fixture target) \<and>
    trusted_notary_keys_from D w' (artifact_dir w') = Inr [ns_notary_verifying_key session] \<and>
    server_trust (dt_notarize target) =
      (if dt_fixture target then Custom (server_roots (chosen_verifier D True keys)) else Mozilla) \<and>
    expects_host (dt_url target) (server_name (dt_notarize target))"
proof -
  obtain target session presentation artifact json where
      t: "resolve_target D (w_env w) (ev_fixture_port ev) = Inr target"
      and ses: "notarize (ps_notarize P) (ev_notary_panics ev) (ev_elapsed ev) (dt_notarize target) = Inr session"
      and pres: "build_presentation (ps_present P) (ns_attestation session) (ns_secrets session) = Inr presentation"
      and art: "ps_serialize P presentation = Some artifact" and json: "js_value J (request_json D target) = Some json"
      and fs: "w_files w' = (w_files w)(path_join (artifact_dir w) ''presentation.tlsn.bin'' \<mapsto> artifact,
             path_join (artifact_dir w) ''notary-key.hex'' \<mapsto> as_bytes (dl_hex_encode D (ns_notary_verifying_key session)),
             path_join (artifact_dir w) ''request.json'' \<mapsto> as_bytes json)"
    by (rule notarize_main_Inr [OF run])
  let ?d = "artifact_dir w" and ?h = "dl_hex_encode D (ns_notary_verifying_key session)"
  have h: "dl_hex_decode D ?h = Some (ns_notary_verifying_key session)" "list_all is_ascii_hexdigit ?h"
    using assms(1) by (simp_all add: hex_spec_def)
  then have "trim ?h = ?h" using trim_graphic hexdigit_graphic by (auto simp: list_all_iff)
  moreover have "read_to_string (w_files w') (path_join ?d ''notary-key.hex'') = Some ?h"
    using hexdigits_utf8 [OF h(2)] by (intro read_text) (simp_all add: fs)
  ultimately have keys: "trusted_notary_keys_from D w' ?d = Inr [ns_notary_verifying_key session]"
    using assms(7) h(1) by (simp add: trusted_notary_keys_from_def)
  have req: "request_of D J (w_files w') ?d = Some (dt_url target, dt_field target, dt_fixture target)"
    by (rule notarize_main_request [OF assms(2,3) run t])
  note c = resolve_target_host [OF assms(4) t] resolve_target_trust [OF t]
  have "w_files w' (path_join ?d ''presentation.tlsn.bin'') = Some artifact" by (simp add: fs)
  with t ses pres art req keys c assms(6) show ?thesis by (simp add: chosen_verifier_def)
qed

text \<open>
  The self-check reports verified data only: what it prints is the server identity, the target's
  field and the value at that field of a presentation that passed the same verifier the signing
  binary would choose, under the key of the session's own notary.
\<close>

lemma spike_reports_verified_data:
  assumes "spike_main P lib T D ev env = Inr (host, field, val)"
  shows "\<exists>target session artifact d. resolve_target D env (ev_fixture_port ev) = Inr target \<and>
    notarize (ps_notarize P) (ev_notary_panics ev) (ev_elapsed ev) (dt_notarize target) = Inr session \<and>
    presentation_backs T (chosen_verifier D (dt_fixture target) [ns_notary_verifying_key session]) artifact d \<and>
    host = vt_host d \<and> field = dt_field target \<and> starts_with field (CHR ''/'') \<and>
    lib_pointer lib (vt_response d) field = Some val"
proof -
  obtain target session artifact d where
      t: "resolve_target D env (ev_fixture_port ev) = Inr target"
      and "notarize (ps_notarize P) (ev_notary_panics ev) (ev_elapsed ev) (dt_notarize target) = Inr session"
      and "verify T (chosen_verifier D (dt_fixture target) [ns_notary_verifying_key session]) artifact = Inr d"
      and "lib_pointer lib (vt_response d) (dt_field target) = Some val" "host = vt_host d" "field = dt_field target"
    using assms unfolding spike_main_def Let_def chosen_verifier_if by (auto simp: result_simps)
  with resolve_target_field [OF t] show ?thesis by (auto simp: verify_iff)
qed

end
