(* ===== verification/Command_Line.thy ===== *)
theory Command_Line
  imports SDK_Client Demo_Pipeline
begin

text \<open>
  \<open>cli/src/index.ts\<close>: the commands \<open>prove\<close>, \<open>verify\<close>, \<open>init\<close>, \<open>submit\<close>, \<open>get\<close> and \<open>demo\<close>.  The Rust binaries
  are the functions of \<open>Demo_Pipeline\<close> and \<open>Verify_Sign\<close>, run on the process environment with the overrides
  of the command; the chain is the cluster of \<open>SDK_Client\<close>.  What a command throws is an error value,
  what it prints is not modelled, except for the record \<open>get\<close> reports.  \<open>commander\<close> delivers the options, an
  absent one being \<open>None\<close>.
\<close>

section \<open>Node's strings and paths\<close>

text \<open>
  \<open>Buffer.from(s, "hex")\<close> decodes up to the first pair that is not hexadecimal; \<open>toString("hex")\<close> is \<open>to_hex\<close>.
\<close>

fun js_hex :: "string \<Rightarrow> bytes" where
  "js_hex (a # b # s) =
     (if is_ascii_hexdigit a \<and> is_ascii_hexdigit b then word_of_nat (16 * nibble a + nibble b) # js_hex s else [])"
| "js_hex _ = []"

text \<open>The white space of ECMAScript: unlike Rust's it has U+FEFF and lacks U+0085.\<close>

definition js_white_space :: "string list" where
  "js_white_space = map char_of ([0xEF, 0xBB, 0xBF] :: nat list) # filter (\<lambda>w. w \<noteq> map char_of ([0xC2, 0x85] :: nat list)) white_space"

definition js_trim :: "string \<Rightarrow> string" where
  "js_trim s = rev (strip_front (map rev js_white_space) (rev (strip_front js_white_space s)))"

text \<open>\<open>BigInt(s)\<close>: empty is zero, a decimal may have a sign, the prefixes 0x, 0o and 0b may not.\<close>

definition digits_in :: "nat \<Rightarrow> string \<Rightarrow> bool" where
  "digits_in base ds \<longleftrightarrow> ds \<noteq> [] \<and> list_all (\<lambda>c. is_ascii_hexdigit c \<and> nibble c < base) ds"

definition number_in :: "nat \<Rightarrow> string \<Rightarrow> int" where
  "number_in base ds = foldl (\<lambda>v c. v * int base + int (nibble c)) 0 ds"

definition js_BigInt :: "string \<Rightarrow> int option" where
  "js_BigInt s =
     (let t = js_trim s;
          unsigned = (\<lambda>base ds. if digits_in base ds then Some (number_in base ds) else None) in
      case t of
        [] \<Rightarrow> Some 0
      | c # ds \<Rightarrow>
          if c = CHR ''-'' then map_option uminus (unsigned 10 ds)
          else if c = CHR ''+'' then unsigned 10 ds
          else if c = CHR ''0'' \<and> ds \<noteq> [] \<and> lower_char (hd ds) = CHR ''x'' then unsigned 16 (tl ds)
          else if c = CHR ''0'' \<and> ds \<noteq> [] \<and> lower_char (hd ds) = CHR ''o'' then unsigned 8 (tl ds)
          else if c = CHR ''0'' \<and> ds \<noteq> [] \<and> lower_char (hd ds) = CHR ''b'' then unsigned 2 (tl ds)
          else unsigned 10 t)"

text \<open>\<open>path.resolve\<close> and, for an absolute directory, \<open>path.join\<close> on POSIX.\<close>

fun normalize_segments :: "string list \<Rightarrow> string list \<Rightarrow> string list" where
  "normalize_segments acc [] = rev acc"
| "normalize_segments acc (s # ss) =
     (if s = [] \<or> s = ''.'' then normalize_segments acc ss
      else if s = ''..'' then normalize_segments (tl acc) ss
      else normalize_segments (s # acc) ss)"

definition js_join :: "string \<Rightarrow> string \<Rightarrow> string" where
  "js_join dir p = CHR ''/'' # join (CHR ''/'') (normalize_segments [] (split_on (CHR ''/'') (dir @ CHR ''/'' # p)))"

definition js_resolve :: "string \<Rightarrow> string \<Rightarrow> string" where
  "js_resolve cwd p = (if starts_with p (CHR ''/'') then js_join [] p else js_join cwd p)"

section \<open>Options and environment\<close>

record ChainOpts =
  rpc :: string
  programId :: string
  keypair :: string

record cli_process =
  cp_world :: world \<comment> \<open>the process environment and the files\<close>
  cp_cwd :: string
  cp_repo_root :: string
  cp_starts :: "string \<Rightarrow> bool" \<comment> \<open>a prebuilt binary exists or cargo can build it\<close>

record 's cli_lib =
  cl_endpoint_ok :: "string \<Rightarrow> bool" \<comment> \<open>\<open>new Connection\<close> accepts the URL\<close>
  cl_keypair :: "string \<Rightarrow> Pubkey option" \<comment> \<open>public key of the key pair file's text\<close>
  cl_pubkey :: "string \<Rightarrow> Pubkey option" \<comment> \<open>\<open>new PublicKey\<close>\<close>
  cl_claim_json :: "string \<Rightarrow> SignedClaimFile option" \<comment> \<open>the JSON text, numbers as written\<close>
  cl_web3 :: web3_lib
  cl_network :: "string \<Rightarrow> 's network" \<comment> \<open>by endpoint\<close>
  cl_fetch :: "string \<Rightarrow> account_data"

datatype cli_error =
    BinFailed string | FileUnreadable string | NotJson | EndpointInvalid | KeypairInvalid | ProgramIdInvalid
  | MaxAgeInvalid | ParseFailed parse_error | ClientFailed client_error | ClaimNotFound

definition DEFAULT_PROGRAM_ID :: string where
  "DEFAULT_PROGRAM_ID = ''vKofkBS5rcgK3V8HemwiZZygPQYd4e6GTyUGTvFRB7p''"

definition or_else :: "'a option \<Rightarrow> 'a \<Rightarrow> 'a" where
  "or_else x d = (case x of Some v \<Rightarrow> v | None \<Rightarrow> d)"

definition chainOptions :: "environment \<Rightarrow> string option \<Rightarrow> string option \<Rightarrow> string option \<Rightarrow> ChainOpts" where
  "chainOptions env rpc_opt program_opt keypair_opt =
     \<lparr>rpc = or_else rpc_opt (or_else (env ''SOLANA_RPC_URL'') ''http://127.0.0.1:8899''),
      programId = or_else program_opt (or_else (env ''WEBPROOF_PROGRAM_ID'') DEFAULT_PROGRAM_ID),
      keypair = or_else keypair_opt (or_else (env ''SOLANA_KEYPAIR'')
        (or_else (env ''HOME'') ''undefined'' @ ''/.config/solana/id.json''))\<rparr>"

definition clientFor :: "'s cli_lib \<Rightarrow> ChainOpts \<Rightarrow> files \<Rightarrow> cli_error + (WebProofClient \<times> Pubkey)" where
  "clientFor C opts fs =
     ensure (cl_endpoint_ok C (rpc opts)) EndpointInvalid (
     try_then (ok_or (read_to_string fs (keypair opts)) (FileUnreadable (keypair opts))) (\<lambda>json.
     try_then (ok_or (cl_keypair C json) KeypairInvalid) (\<lambda>payer.
     try_then (ok_or (cl_pubkey C (programId opts)) ProgramIdInvalid) (\<lambda>pid.
     Inr (\<lparr>wp_programId = pid\<rparr>, payer)))))"

text \<open>
  \<open>{ ...process.env, ...env }\<close>: a key of the second object wins even if its value is \<open>undefined\<close>, and
  \<open>spawnSync\<close> leaves out variables whose value is \<open>undefined\<close>.
\<close>

definition merged :: "environment \<Rightarrow> (string \<times> string option) list \<Rightarrow> environment" where
  "merged process_env env = (\<lambda>k. case map_of env k of Some v \<Rightarrow> v | None \<Rightarrow> process_env k)"

definition child_world :: "cli_process \<Rightarrow> (string \<times> string option) list \<Rightarrow> world" where
  "child_world p env = (cp_world p)\<lparr>w_env := merged (w_env (cp_world p)) env\<rparr>"

definition runRust ::
  "string \<Rightarrow> (world \<Rightarrow> 'e + files) \<Rightarrow> (string \<times> string option) list \<Rightarrow> cli_process \<Rightarrow> cli_error + cli_process" where
  "runRust bin main env p =
     ensure (cp_starts p bin) (BinFailed bin) (
     case main (child_world p env) of
       Inl _ \<Rightarrow> Inl (BinFailed bin)
     | Inr fs \<Rightarrow> Inr (p\<lparr>cp_world := (cp_world p)\<lparr>w_files := fs\<rparr>\<rparr>))"

definition artifactDir :: "cli_process \<Rightarrow> string option \<Rightarrow> string" where
  "artifactDir p dir =
     js_resolve (cp_cwd p)
       (or_else dir (or_else (w_env (cp_world p) ''WEBPROOF_ARTIFACT_DIR'') (js_join (cp_repo_root p) ''artifacts/demo'')))"

section \<open>Commands\<close>

definition prove_env :: "string option \<Rightarrow> string option \<Rightarrow> string \<Rightarrow> (string \<times> string option) list" where
  "prove_env url field dir =
     [(''DEMO_URL'', url), (''DEMO_FIELD'', field), (''WEBPROOF_ARTIFACT_DIR'', Some dir)]"

definition cli_prove ::
  "(world \<Rightarrow> 'e + files) \<Rightarrow> string option \<Rightarrow> string option \<Rightarrow> string option \<Rightarrow> cli_process \<Rightarrow> cli_error + cli_process" where
  "cli_prove notarize_bin url field dir p =
     runRust ''webproof-notarize'' notarize_bin (prove_env url field (artifactDir p dir)) p"

definition cli_verify :: "(world \<Rightarrow> 'e + files) \<Rightarrow> string option \<Rightarrow> cli_process \<Rightarrow> cli_error + cli_process" where
  "cli_verify verify_bin dir p =
     runRust ''webproof-verify-sign'' verify_bin [(''WEBPROOF_ARTIFACT_DIR'', Some (artifactDir p dir))] p"

text \<open>\<open>JSON.parse(readFileSync(join(dir, "signed-claim.json"), "utf8"))\<close>.\<close>

definition claim_json :: "'s cli_lib \<Rightarrow> files \<Rightarrow> string \<Rightarrow> cli_error + SignedClaimFile" where
  "claim_json C fs dir =
     (let path = js_join dir ''signed-claim.json'' in
      try_then (ok_or (read_to_string fs path) (FileUnreadable path)) (\<lambda>json.
      try_then (ok_or (cl_claim_json C json) NotJson) (\<lambda>file.
      Inr (JSON_parse file))))"

definition cli_init ::
  "'s cli_lib \<Rightarrow> ChainOpts \<Rightarrow> string option \<Rightarrow> string option \<Rightarrow> string \<Rightarrow> cli_process \<Rightarrow> ledger \<Rightarrow> cli_error + ledger" where
  "cli_init C chain verifierPubkey dir maxAge p L =
     try_then (clientFor C chain (w_files (cp_world p))) (\<lambda>(client, payer).
     try_then (case verifierPubkey of
         Some (c # cs) \<Rightarrow> Inr (js_hex (c # cs))
       | _ \<Rightarrow> try_then (claim_json C (w_files (cp_world p)) (artifactDir p dir)) (\<lambda>file.
           Inr (map to_uint8 (sf_verifierPublicKey file)))) (\<lambda>verifierKey.
     try_then (ok_or (js_BigInt maxAge) MaxAgeInvalid) (\<lambda>age.
     try_then (map_err ClientFailed (initializeConfig (cl_web3 C) client (cl_network C (rpc chain)) L verifierKey age payer)) (\<lambda>signature.
     map_err ClientFailed (confirm (cl_network C (rpc chain)) L signature)))))"

definition cli_submit ::
  "'s cli_lib \<Rightarrow> ChainOpts \<Rightarrow> string option \<Rightarrow> cli_process \<Rightarrow> ledger \<Rightarrow> cli_error + (ledger \<times> Pubkey)" where
  "cli_submit C chain dir p L =
     try_then (clientFor C chain (w_files (cp_world p))) (\<lambda>(client, payer).
     try_then (claim_json C (w_files (cp_world p)) (artifactDir p dir)) (\<lambda>file.
     try_then (map_err ParseFailed (parseSignedClaim (w3_sha256 (cl_web3 C)) file)) (\<lambda>parsed.
     try_then (map_err ClientFailed (submitClaim (cl_web3 C) client (cl_network C (rpc chain)) L (pc_claim parsed) (pc_signature parsed)
       (pc_verifierPublicKey parsed) payer)) (\<lambda>(signature, address).
     try_then (map_err ClientFailed (confirm (cl_network C (rpc chain)) L signature)) (\<lambda>L. Inr (L, address))))))"

text \<open>The object that \<open>get\<close> prints; byte arrays as hexadecimal text, the two addresses left as keys.\<close>

record get_output =
  go_claimId :: string
  go_sourceHost :: string
  go_claimKey :: string
  go_claimValue :: string
  go_issuedAt :: int
  go_expiresAt :: int
  go_provenanceHash :: string
  go_submittedBy :: Pubkey
  go_createdAt :: int
  go_address :: Pubkey

definition cli_get :: "'s cli_lib \<Rightarrow> ChainOpts \<Rightarrow> string \<Rightarrow> cli_process \<Rightarrow> ledger \<Rightarrow> cli_error + get_output" where
  "cli_get C chain claim_hex p L =
     try_then (clientFor C chain (w_files (cp_world p))) (\<lambda>(client, _).
     let i = js_hex claim_hex in
     try_then (map_err ClientFailed (getClaim (cl_web3 C) client (cl_fetch C (rpc chain)) L i)) (\<lambda>found.
     try_then (ok_or found ClaimNotFound) (\<lambda>stored.
     Inr \<lparr>go_claimId = to_hex (vc_claim_id stored), go_sourceHost = vc_source_host stored,
          go_claimKey = vc_claim_key stored, go_claimValue = vc_claim_value stored,
          go_issuedAt = sint (vc_issued_at stored), go_expiresAt = sint (vc_expires_at stored),
          go_provenanceHash = to_hex (vc_provenance_hash stored), go_submittedBy = vc_submitted_by stored,
          go_createdAt = sint (vc_created_at stored), go_address = claimAddress (cl_web3 C) client i\<rparr>)))"

definition cli_demo ::
  "(world \<Rightarrow> 'e + files) \<Rightarrow> (world \<Rightarrow> 'f + files) \<Rightarrow> 's cli_lib \<Rightarrow> ChainOpts \<Rightarrow> string option \<Rightarrow> string option \<Rightarrow> string option
     \<Rightarrow> cli_process \<Rightarrow> ledger \<Rightarrow> cli_error + (cli_process \<times> ledger \<times> Pubkey)" where
  "cli_demo notarize_bin verify_bin C chain url field dir_opt p L =
     (let dir = artifactDir p dir_opt in
      try_then (runRust ''webproof-notarize'' notarize_bin (prove_env url field dir) p) (\<lambda>p.
      try_then (runRust ''webproof-verify-sign'' verify_bin [(''WEBPROOF_ARTIFACT_DIR'', Some dir)] p) (\<lambda>p.
      try_then (claim_json C (w_files (cp_world p)) dir) (\<lambda>file.
      try_then (map_err ParseFailed (parseSignedClaim (w3_sha256 (cl_web3 C)) file)) (\<lambda>parsed.
      try_then (clientFor C chain (w_files (cp_world p))) (\<lambda>(client, payer).
      try_then (map_err ClientFailed (demo_onchain (cl_web3 C) client (cl_network C (rpc chain)) (cl_fetch C (rpc chain)) L parsed payer))
        (\<lambda>(L, address). Inr (p, L, address))))))))"

section \<open>Paths and environment of the binaries\<close>

text \<open>A file name that is one path segment of its own.\<close>

definition plain_name :: "string \<Rightarrow> bool" where
  "plain_name n \<longleftrightarrow> n \<noteq> [] \<and> n \<noteq> ''.'' \<and> n \<noteq> ''..'' \<and> CHR ''/'' \<notin> set n"

lemma normalize_segments_plain:
  "(\<And>n. n \<in> set ss \<Longrightarrow> CHR ''/'' \<notin> set n) \<Longrightarrow> list_all plain_name acc \<Longrightarrow>
     list_all plain_name (normalize_segments acc ss)"
proof (induction acc ss rule: normalize_segments.induct)
  case (2 acc s ss)
  have "list_all plain_name (tl acc)" using "2.prems"(2) by (cases acc) simp_all
  moreover have "plain_name s" if "s \<noteq> []" "s \<noteq> ''.''" "s \<noteq> ''..''"
    using that "2.prems"(1) by (simp add: plain_name_def)
  ultimately show ?case using 2 by auto
qed (simp add: list_all_iff)

lemma normalize_segments_id: "list_all plain_name ss \<Longrightarrow> normalize_segments acc ss = rev acc @ ss"
  by (induction acc ss rule: normalize_segments.induct) (auto simp: plain_name_def)

lemma js_join_segments:
  obtains segs where "js_join dir p = CHR ''/'' # join (CHR ''/'') segs" and "list_all plain_name segs"
  by (rule that [OF js_join_def normalize_segments_plain]) (auto dest: split_on_pieces)

lemma split_on_join_append:
  "segs \<noteq> [] \<Longrightarrow> (\<And>p. p \<in> set segs \<Longrightarrow> c \<notin> set p) \<Longrightarrow> split_on c (join c segs @ c # s) = segs @ split_on c s"
  by (induction c segs rule: join.induct) (simp_all add: split_on_append)

lemma join_snoc: "segs \<noteq> [] \<Longrightarrow> join c (segs @ [s]) = join c segs @ c # s"
  by (induction c segs rule: join.induct) (simp_all add: join_Cons)

lemma join_plain_last:
  "segs \<noteq> [] \<Longrightarrow> list_all plain_name segs \<Longrightarrow>
     join (CHR ''/'') segs \<noteq> [] \<and> last (join (CHR ''/'') segs) \<noteq> CHR ''/''"
  by (induction "CHR ''/''" segs rule: join.induct) (auto simp: plain_name_def last_in_set dest: last_in_set)

text \<open>
  Node's \<open>join\<close> and Rust's \<open>Path::join\<close> name the same file of a resolved directory, so the command and the
  binaries it starts meet in the same files.
\<close>

lemma js_join_path_join:
  assumes "plain_name n"
  shows "js_join (js_join dir p) n = path_join (js_join dir p) n"
proof -
  obtain segs where d: "js_join dir p = CHR ''/'' # join (CHR ''/'') segs" and segs: "list_all plain_name segs"
    by (rule js_join_segments)
  show ?thesis
  proof (cases "segs = []")
    case True
    with assms d show ?thesis by (simp add: js_join_def path_join_def plain_name_def split_on_none)
  next
    case False
    have "\<And>q. q \<in> set segs \<Longrightarrow> CHR ''/'' \<notin> set q" using segs by (auto simp: list_all_iff plain_name_def)
    then have "split_on (CHR ''/'') (js_join dir p @ CHR ''/'' # n) = [] # segs @ [n]"
      using d split_on_join_append [OF False, of "CHR ''/''" n] assms by (simp add: plain_name_def split_on_none)
    then have "js_join (js_join dir p) n = CHR ''/'' # join (CHR ''/'') (segs @ [n])"
      using segs assms by (simp add: js_join_def [of "js_join dir p"] normalize_segments_id)
    then show ?thesis
      using join_plain_last [OF False segs] d by (simp add: path_join_def join_snoc [OF False])
  qed
qed

lemma artifactDir_join: "plain_name n \<Longrightarrow> js_join (artifactDir p dir) n = path_join (artifactDir p dir) n"
  by (simp add: artifactDir_def js_resolve_def js_join_path_join)

lemma child_world_simps [simp]:
  "w_files (child_world p env) = w_files (cp_world p)" "w_random (child_world p env) = w_random (cp_world p)"
  "w_env (child_world p env) = merged (w_env (cp_world p)) env"
  by (simp_all add: child_world_def)

lemma runRust_Inr [result_simps]:
  "runRust bin main env p = Inr p' \<longleftrightarrow>
     cp_starts p bin \<and> (\<exists>fs. main (child_world p env) = Inr fs \<and> p' = p\<lparr>cp_world := (cp_world p)\<lparr>w_files := fs\<rparr>\<rparr>)"
  by (auto simp: runRust_def ensure_def split: sum.splits)

lemma js_hex_to_hex [simp]: "js_hex (to_hex b) = b"
proof (induction b)
  case (Cons x b)
  with hex_digits [of x] show ?case by (simp add: to_hex_def)
qed (simp add: to_hex_def)

section \<open>Where the target comes from\<close>

text \<open>The process with other values of the demo's own variables.\<close>

definition set_demo :: "string option \<Rightarrow> string option \<Rightarrow> cli_process \<Rightarrow> cli_process" where
  "set_demo url field p =
     p\<lparr>cp_world := (cp_world p)\<lparr>w_env := (w_env (cp_world p))(''DEMO_URL'' := url, ''DEMO_FIELD'' := field)\<rparr>\<rparr>"

lemma artifactDir_set_demo [simp]: "artifactDir (set_demo x y p) dir = artifactDir p dir"
  by (simp add: artifactDir_def set_demo_def)

lemma child_world_set_demo: "child_world (set_demo x y p) (prove_env url field dir) = child_world p (prove_env url field dir)"
proof -
  have "merged (e(''DEMO_URL'' := x, ''DEMO_FIELD'' := y)) (prove_env url field dir) = merged e (prove_env url field dir)" for e
    by (auto simp: merged_def prove_env_def fun_eq_iff)
  then show ?thesis by (simp add: child_world_def set_demo_def)
qed

lemma cli_prove_set_demo:
  "cli_prove notarize_bin url field dir (set_demo x y p) =
     try_then (cli_prove notarize_bin url field dir p) (\<lambda>p'. Inr (set_demo x y p'))"
  unfolding cli_prove_def runRust_def artifactDir_set_demo child_world_set_demo
  by (auto simp: set_demo_def ensure_def split: sum.splits)

lemma prove_env_sees [simp]:
  "merged env (prove_env url field dir) ''DEMO_URL'' = url" "merged env (prove_env url field dir) ''DEMO_FIELD'' = field"
  "merged env (prove_env url field dir) ''WEBPROOF_ARTIFACT_DIR'' = Some dir"
  by (simp_all add: merged_def prove_env_def)

lemma artifact_dir_child [simp]:
  "artifact_dir (child_world p (prove_env url field dir)) = dir"
  "artifact_dir (child_world p [(''WEBPROOF_ARTIFACT_DIR'', Some dir)]) = dir"
  by (simp_all add: artifact_dir_def) (simp add: merged_def)

text \<open>
  The target of \<open>prove\<close> comes from its options alone.  Whatever \<open>DEMO_URL\<close> and \<open>DEMO_FIELD\<close> are in the
  process environment, the command does the same.  After a successful run without \<open>--url\<close> the request
  file in the artifact directory names the local test server, and the field of \<open>--field\<close> or the
  default; with a non-blank \<open>--url\<close> it names that URL, not the test server, and the field of \<open>--field\<close>,
  which is then required.
\<close>

lemma prove_target_from_options:
  assumes "json_spec J" and "url_spec D"
    and run: "cli_prove (notarize_main P D J ev) url field dir p = Inr p'"
  shows "cli_prove (notarize_main P D J ev) url field dir (set_demo x y p) = Inr (set_demo x y p') \<and>
    (\<exists>u f fixture. request_of D J (w_files (cp_world p')) (artifactDir p dir) = Some (u, f, fixture) \<and>
       (case url of
          None \<Rightarrow> fixture \<and> dl_parse_url D (''https://'' @ dl_server_domain D @ FIXTURE_JSON_PATH) = Some u \<and>
            f = normalize_field (or_else field ''/meta/version'')
        | Some raw \<Rightarrow> trim raw \<noteq> [] \<longrightarrow> \<not> fixture \<and> dl_parse_url D (trim raw) = Some u \<and>
            (\<exists>g. field = Some g \<and> f = normalize_field g)))"
proof -
  let ?w = "child_world p (prove_env url field (artifactDir p dir))"
  obtain fs where main: "notarize_main P D J ev ?w = Inr fs" and p': "w_files (cp_world p') = fs"
    using run by (auto simp: cli_prove_def runRust_Inr)
  obtain target where t: "resolve_target D (w_env ?w) (ev_fixture_port ev) = Inr target"
    by (rule notarize_main_Inr [OF main])
  have "request_of D J (w_files (cp_world p')) (artifactDir p dir) = Some (dt_url target, dt_field target, dt_fixture target)"
    using notarize_main_request [OF assms(1,2) main t] p' by simp
  moreover have "case url of
          None \<Rightarrow> dt_fixture target \<and>
            dl_parse_url D (''https://'' @ dl_server_domain D @ FIXTURE_JSON_PATH) = Some (dt_url target) \<and>
            dt_field target = normalize_field (or_else field ''/meta/version'')
        | Some raw \<Rightarrow> trim raw \<noteq> [] \<longrightarrow> \<not> dt_fixture target \<and> dl_parse_url D (trim raw) = Some (dt_url target) \<and>
            (\<exists>g. field = Some g \<and> dt_field target = normalize_field g)"
  proof (cases url)
    case None
    then have "demo_url (w_env ?w) = None" by (simp add: demo_url_def)
    then show ?thesis by (rule resolve_target_local [OF _ t]) (simp add: None or_else_def)
  next
    case (Some raw)
    have "\<not> dt_fixture target \<and> dl_parse_url D (trim raw) = Some (dt_url target) \<and>
        (\<exists>g. field = Some g \<and> dt_field target = normalize_field g)" if "trim raw \<noteq> []"
    proof -
      have "demo_url (w_env ?w) = Some (trim raw)" using that Some by (simp add: demo_url_def)
      then show ?thesis by (rule resolve_target_public [OF _ t]) simp
    qed
    with Some show ?thesis by simp
  qed
  ultimately show ?thesis using run by (auto simp: cli_prove_set_demo)
qed


section \<open>The demo command\<close>

text \<open>
  The JSON text of a signed claim is UTF-8 and parses, in JavaScript, to the object it was printed from;
  a key pair's public key has 32 bytes.
\<close>

definition claim_text_spec :: "json_lib \<Rightarrow> 's cli_lib \<Rightarrow> bool" where
  "claim_text_spec J C \<longleftrightarrow>
     (\<forall>s t. js_signed_claim J s = Some t \<longrightarrow> utf8_valid (as_bytes t) \<and> cl_claim_json C t = Some (signed_file s))"

definition keypair_spec :: "'s cli_lib \<Rightarrow> bool" where
  "keypair_spec C \<longleftrightarrow> (\<forall>t k. cl_keypair C t = Some k \<longrightarrow> length k = 32)"

lemma signed_claim_plain: "plain_name ''signed-claim.json''"
  by (simp add: plain_name_def)

lemma claim_json_written:
  assumes "claim_text_spec J C" and "js_signed_claim J s = Some t"
    and "fs (path_join (artifactDir p dir) ''signed-claim.json'') = Some (as_bytes t)"
  shows "claim_json C fs (artifactDir p dir) = Inr (JSON_parse (signed_file s))"
proof -
  have t: "utf8_valid (as_bytes t)" "cl_claim_json C t = Some (signed_file s)"
    using assms(1,2) by (simp_all add: claim_text_spec_def)
  from read_text [of fs, OF assms(3) t(1)] t(2) show ?thesis
    by (simp add: claim_json_def artifactDir_join [OF signed_claim_plain])
qed

lemma word_read_claim:
  "word_claim (read_claim_of c) = c\<lparr>issued_at := issued_at (word_claim (read_claim_of c)),
     expires_at := expires_at (word_claim (read_claim_of c))\<rparr>"
  by (simp add: word_claim_def read_claim_of_def js_claim_def to_uint8_def)

lemma clientFor_Inr:
  "clientFor C opts fs = Inr (client, payer) \<longleftrightarrow>
     (\<exists>json pid. cl_endpoint_ok C (rpc opts) \<and> read_to_string fs (keypair opts) = Some json \<and>
        cl_keypair C json = Some payer \<and> cl_pubkey C (programId opts) = Some pid \<and> client = \<lparr>wp_programId = pid\<rparr>)"
  by (auto simp: clientFor_def result_simps)

text \<open>A successful run, stage by stage.\<close>

lemma cli_demo_Inr:
  assumes "cli_demo notarize_bin verify_bin C chain url field dir p L = Inr (p', L', a)"
  obtains fs1 fs2 p1 json parsed client payer where
    "notarize_bin (child_world p (prove_env url field (artifactDir p dir))) = Inr fs1"
    "p1 = p\<lparr>cp_world := (cp_world p)\<lparr>w_files := fs1\<rparr>\<rparr>"
    "verify_bin (child_world p1 [(''WEBPROOF_ARTIFACT_DIR'', Some (artifactDir p dir))]) = Inr fs2"
    "p' = p1\<lparr>cp_world := (cp_world p1)\<lparr>w_files := fs2\<rparr>\<rparr>"
    "claim_json C fs2 (artifactDir p dir) = Inr json" "parseSignedClaim (w3_sha256 (cl_web3 C)) json = Inr parsed"
    "clientFor C chain fs2 = Inr (client, payer)"
    "demo_onchain (cl_web3 C) client (cl_network C (rpc chain)) (cl_fetch C (rpc chain)) L parsed payer = Inr (L', a)"
  using assms that unfolding cli_demo_def Let_def by (auto simp: result_simps)

text \<open>The signing stage: what it leaves in the claim file comes from a verified presentation.\<close>

lemma verify_stage:
  assumes run: "verify_sign_main lib T D J w = Inr fs'"
    and req: "request_of D J (w_files w) (artifact_dir w) = Some (u, field, fixture)"
    and "sha256_spec (lib_sha256 lib)"
    and typed: "\<And>self artifact d. verify T self artifact = Inr d \<Longrightarrow> inputs_typed lib d field (w_random w)"
  obtains artifact keys allowed raw seed d s t where
    "w_files w (path_join (artifact_dir w) ''presentation.tlsn.bin'') = Some artifact"
    "trusted_notary_keys_from D w (artifact_dir w) = Inr keys"
    "presentation_backs T (chosen_verifier D fixture keys) artifact d"
    "w_env w ''WEBPROOF_ALLOWED_HOSTS'' = Some allowed" "host_allowed allowed (vt_host d)" "url_host_str u = Some (vt_host d)"
    "w_env w ''WEBPROOF_SIGNER_KEY'' = Some raw" "parse_signing_key D raw = Inr seed"
    "encodable (sg_claim s)" "source_host (sg_claim s) = vt_host d" "claim_key (sg_claim s) = field"
    "request_path_hash (sg_claim s) = lib_sha256 lib (as_bytes (vt_path d))"
    "addressed_scalar lib (vt_response d) field = Some (claim_value (sg_claim s))"
    "provenance_hash (sg_claim s) = lib_sha256 lib artifact" "sg_verifier_public_key s = lib_verifying_key lib seed"
    "js_signed_claim J s = Some t"
    "fs' = (w_files w)(path_join (artifact_dir w) ''signed-claim.json'' \<mapsto> as_bytes t)"
proof -
  obtain artifact allowed host keys raw seed ttl now s t where
      files: "w_files w (path_join (artifact_dir w) ''presentation.tlsn.bin'') = Some artifact"
        "trusted_notary_keys_from D w (artifact_dir w) = Inr keys"
      and env: "w_env w ''WEBPROOF_ALLOWED_HOSTS'' = Some allowed" "url_host_str u = Some host" "host_allowed allowed host"
        "w_env w ''WEBPROOF_SIGNER_KEY'' = Some raw" "parse_signing_key D raw = Inr seed"
      and s: "verify_and_sign lib \<lparr>cs_key = seed\<rparr> (verify T (chosen_verifier D fixture keys)) artifact u field now ttl
        (w_random w) = Inr s"
      and out: "js_signed_claim J s = Some t"
        "fs' = (w_files w)(path_join (artifact_dir w) ''signed-claim.json'' \<mapsto> as_bytes t)"
    using run unfolding verify_sign_main_iff req by auto
  obtain d v where d: "verify T (chosen_verifier D fixture keys) artifact = Inr d" "expects_host u (vt_host d)"
      and v: "addressed_scalar lib (vt_response d) field = Some v"
        "sg_claim s = built_claim lib d field v now ttl (w_random w)"
        "sg_verifier_public_key s = public_key lib \<lparr>cs_key = seed\<rparr>"
    using s unfolding verify_and_sign_iff sign_verified_iff by blast
  have "encodable (sg_claim s)" by (rule signed_claim_encodable [OF assms(3) d(1) typed [OF d(1)] s])
  moreover have "host = vt_host d" using env(2) d(2) by (simp add: expects_host_def)
  moreover have "presentation_backs T (chosen_verifier D fixture keys) artifact d" "vt_artifact d = artifact"
    using d(1) by (simp_all add: verify_iff)
  ultimately show thesis
    using files env v out by (intro that) (simp_all add: public_key_def)
qed

text \<open>The chain stage: the ledger gets the claim of the file, whatever rounding did to its times.\<close>

lemma stored_read_claim:
  assumes "stored_fields (word_claim (read_claim_of c)) v"
  shows "vc_source_host v = source_host c" and "vc_request_path_hash v = request_path_hash c" and "vc_claim_key v = claim_key c"
    and "vc_claim_value v = claim_value c" and "vc_provenance_hash v = provenance_hash c"
  using assms by (subst (asm) word_read_claim, simp add: stored_fields_def)+

lemma chain_stage:
  assumes "sha256_spec (rt_hash rt)" and "anchor_account_spec (rt_hash rt) (rt_account_bytes rt)"
    and "borsh_spec (rt_try_to_vec rt)" and "keypair_spec C" and "cl_pubkey C (programId chain) = Some pid"
    and "cluster_spec rt native_ok (cl_web3 C) \<lparr>wp_programId = pid\<rparr> room funded clock (cl_network C (rpc chain)) (cl_fetch C (rpc chain))"
    and "encodable (sg_claim s)" and parse: "parseSignedClaim (w3_sha256 (cl_web3 C)) (JSON_parse (signed_file s)) = Inr parsed"
    and client: "clientFor C chain fs = Inr (client, payer)"
    and run: "demo_onchain (cl_web3 C) client (cl_network C (rpc chain)) (cl_fetch C (rpc chain)) L parsed payer = Inr (L', a)"
  obtains v cfg where "(ledger_step rt native_ok)\<^sup>*\<^sup>* L L'" and "client = \<lparr>wp_programId = pid\<rparr>"
    and "L' a = Some (ClaimAccount v)"
    and "stored_fields (word_claim (read_claim_of (sg_claim s))) v" and "vc_submitted_by v = payer"
    and "L' (configAddress (cl_web3 C) \<lparr>wp_programId = pid\<rparr>) = Some (ConfigAccount cfg)"
    and "verifier_pubkey cfg = sg_verifier_public_key s"
proof -
  have parsed: "pc_claim parsed = read_claim_of (sg_claim s)" "pc_verifierPublicKey parsed = sg_verifier_public_key s"
    using parse by (simp_all add: parseSignedClaim_signed_file)
  have c: "client = \<lparr>wp_programId = pid\<rparr>" "length payer = 32"
    using client assms(4,5) by (auto simp: clientFor_Inr keypair_spec_def)
  have "claim_typed (word_claim (pc_claim parsed))"
    unfolding parsed by (subst word_read_claim) (use assms(7) in \<open>simp add: encodable_def claim_typed_def\<close>)
  from demo_onchain_stored [OF assms(6,1-3) this c(2) run [unfolded c(1)]] show thesis
    using that c(1) unfolding parsed by blast
qed

text \<open>
  C18.  The whole \<open>demo\<close> command stores verified data only.  Over the real binaries and a cluster that
  runs the program (and on which nothing else happens meanwhile), a run that succeeds leaves the ledger after steps of the program, and the account
  at the address it reports holds data of a TLS session: the presentation in the artifact directory
  passes the verifier chosen for the target of the options, its server is the target's host and on
  the operator's allowlist, the stored path hash, key, value and provenance hash are those of its
  request, the target's field, its response and its bytes.  The submitter is the payer, and the
  config trusts the operator's key.
\<close>

theorem demo_command_stores_verified_data:
  assumes "json_spec J" and "url_spec D" and "claim_text_spec J C" and "keypair_spec C"
    and "sha256_spec (rt_hash rt)" and "lib_sha256 lib = rt_hash rt"
    and "anchor_account_spec (rt_hash rt) (rt_account_bytes rt)" and "borsh_spec (rt_try_to_vec rt)"
    and pid: "cl_pubkey C (programId chain) = Some pid"
    and "cluster_spec rt native_ok (cl_web3 C) \<lparr>wp_programId = pid\<rparr> room funded clock (cl_network C (rpc chain)) (cl_fetch C (rpc chain))"
    and t: "resolve_target D (merged (w_env (cp_world p)) (prove_env url field (artifactDir p dir))) (ev_fixture_port ev) = Inr target"
    and typed: "\<forall>self artifact d. verify T self artifact = Inr d \<longrightarrow> inputs_typed lib d (dt_field target) (w_random (cp_world p))"
    and run: "cli_demo (notarize_main P D J ev) (verify_sign_main lib T D J) C chain url field dir p L = Inr (p', L', a)"
  shows "(ledger_step rt native_ok)\<^sup>*\<^sup>* L L' \<and>
    (\<exists>artifact keys allowed seed d payer v cfg.
      w_files (cp_world p') (path_join (artifactDir p dir) ''presentation.tlsn.bin'') = Some artifact \<and>
      presentation_backs T (chosen_verifier D (dt_fixture target) keys) artifact d \<and>
      url_host_str (dt_url target) = Some (vt_host d) \<and>
      w_env (cp_world p) ''WEBPROOF_ALLOWED_HOSTS'' = Some allowed \<and> host_allowed allowed (vt_host d) \<and>
      L' a = Some (ClaimAccount v) \<and> vc_source_host v = vt_host d \<and>
      vc_request_path_hash v = rt_hash rt (as_bytes (vt_path d)) \<and> vc_claim_key v = dt_field target \<and>
      addressed_scalar lib (vt_response d) (dt_field target) = Some (vc_claim_value v) \<and>
      vc_provenance_hash v = rt_hash rt artifact \<and> vc_submitted_by v = payer \<and>
      clientFor C chain (w_files (cp_world p')) = Inr (\<lparr>wp_programId = pid\<rparr>, payer) \<and>
      map_option (parse_signing_key D) (w_env (cp_world p) ''WEBPROOF_SIGNER_KEY'') = Some (Inr seed) \<and>
      L' (configAddress (cl_web3 C) \<lparr>wp_programId = pid\<rparr>) = Some (ConfigAccount cfg) \<and>
      verifier_pubkey cfg = lib_verifying_key lib seed)"
proof -
  let ?dir = "artifactDir p dir"
  obtain fs1 fs2 p1 json parsed client payer where
      prove: "notarize_main P D J ev (child_world p (prove_env url field ?dir)) = Inr fs1"
      and p1: "p1 = p\<lparr>cp_world := (cp_world p)\<lparr>w_files := fs1\<rparr>\<rparr>"
      and sign: "verify_sign_main lib T D J (child_world p1 [(''WEBPROOF_ARTIFACT_DIR'', Some ?dir)]) = Inr fs2"
      and p': "p' = p1\<lparr>cp_world := (cp_world p1)\<lparr>w_files := fs2\<rparr>\<rparr>"
      and json: "claim_json C fs2 ?dir = Inr json" "parseSignedClaim (w3_sha256 (cl_web3 C)) json = Inr parsed"
      and client: "clientFor C chain fs2 = Inr (client, payer)"
      and chain: "demo_onchain (cl_web3 C) client (cl_network C (rpc chain)) (cl_fetch C (rpc chain)) L parsed payer = Inr (L', a)"
    by (rule cli_demo_Inr [OF run])
  let ?w = "child_world p1 [(''WEBPROOF_ARTIFACT_DIR'', Some ?dir)]"
  have w: "w_files ?w = fs1" "w_random ?w = w_random (cp_world p)" "artifact_dir ?w = ?dir"
      "w_env ?w ''WEBPROOF_ALLOWED_HOSTS'' = w_env (cp_world p) ''WEBPROOF_ALLOWED_HOSTS''"
      "w_env ?w ''WEBPROOF_SIGNER_KEY'' = w_env (cp_world p) ''WEBPROOF_SIGNER_KEY''"
    by (simp_all add: p1 merged_def)
  have req: "request_of D J (w_files ?w) (artifact_dir ?w) = Some (dt_url target, dt_field target, dt_fixture target)"
    using notarize_main_request [OF assms(1,2) prove] t unfolding w by simp
  obtain artifact keys allowed raw seed d s t' where
      art: "fs1 (path_join ?dir ''presentation.tlsn.bin'') = Some artifact"
      and d: "presentation_backs T (chosen_verifier D (dt_fixture target) keys) artifact d"
        "w_env (cp_world p) ''WEBPROOF_ALLOWED_HOSTS'' = Some allowed" "host_allowed allowed (vt_host d)"
        "url_host_str (dt_url target) = Some (vt_host d)"
      and seed: "w_env (cp_world p) ''WEBPROOF_SIGNER_KEY'' = Some raw" "parse_signing_key D raw = Inr seed"
        "sg_verifier_public_key s = lib_verifying_key lib seed"
      and s: "encodable (sg_claim s)" "source_host (sg_claim s) = vt_host d" "claim_key (sg_claim s) = dt_field target"
        "request_path_hash (sg_claim s) = lib_sha256 lib (as_bytes (vt_path d))"
        "addressed_scalar lib (vt_response d) (dt_field target) = Some (claim_value (sg_claim s))"
        "provenance_hash (sg_claim s) = lib_sha256 lib artifact"
      and out: "js_signed_claim J s = Some t'" "fs2 = fs1(path_join ?dir ''signed-claim.json'' \<mapsto> as_bytes t')"
    by (rule verify_stage [OF sign req]) (use assms(5,6) typed in \<open>simp_all only: w\<close>)
  have "json = JSON_parse (signed_file s)"
    using json(1) claim_json_written [OF assms(3) out(1), of fs2 p dir] out(2) by simp
  with json(2) have parse: "parseSignedClaim (w3_sha256 (cl_web3 C)) (JSON_parse (signed_file s)) = Inr parsed" by simp
  obtain v cfg where steps: "(ledger_step rt native_ok)\<^sup>*\<^sup>* L L'" and c: "client = \<lparr>wp_programId = pid\<rparr>"
      and v: "L' a = Some (ClaimAccount v)" "stored_fields (word_claim (read_claim_of (sg_claim s))) v" "vc_submitted_by v = payer"
        "L' (configAddress (cl_web3 C) \<lparr>wp_programId = pid\<rparr>) = Some (ConfigAccount cfg)"
        "verifier_pubkey cfg = sg_verifier_public_key s"
    by (rule chain_stage [OF assms(5,7,8,4,9,10) s(1) parse client chain])
  have "w_files (cp_world p') = fs2" by (simp add: p')
  moreover have "fs2 (path_join ?dir ''presentation.tlsn.bin'') = Some artifact" using art out(2) by simp
  moreover have "lib_sha256 lib = rt_hash rt" by fact
  ultimately show ?thesis
    using steps d seed s(2-6) v(1,3-5) stored_read_claim [OF v(2)] client unfolding c
    by (intro conjI exI [of _ artifact] exI [of _ keys] exI [of _ allowed] exI [of _ seed] exI [of _ d] exI [of _ payer]
        exI [of _ v] exI [of _ cfg]) simp_all
qed

section \<open>The single commands\<close>

text \<open>\<open>init\<close> with the hexadecimal form of a key and the default age is the SDK's \<open>initializeConfig\<close>, confirmed.\<close>

lemma cli_init_hex:
  assumes "clientFor C chain (w_files (cp_world p)) = Inr (client, payer)" and "key \<noteq> []" and "js_BigInt maxAge = Some age"
  shows "cli_init C chain (Some (to_hex key)) dir maxAge p L =
    map_err ClientFailed (initialized (cl_web3 C) client (cl_network C (rpc chain)) L key age payer)"
proof -
  obtain x xs where k: "to_hex key = x # xs" using assms(2) to_hex_shape(1) [of key] by (cases "to_hex key") simp_all
  then have "js_hex (x # xs) = key" using js_hex_to_hex [of key] by simp
  with assms k show ?thesis
    by (cases "initializeConfig (cl_web3 C) client (cl_network C (rpc chain)) L key age payer")
       (simp_all add: cli_init_def initialized_def)
qed

text \<open>
  A submitted claim can be fetched: \<open>get\<close> with the hexadecimal identifier of the claim file reports the
  submitted fields, as they are on the ledger, and the address that \<open>submit\<close> reported.
\<close>

lemma submit_then_get:
  assumes "cluster_spec rt native_ok (cl_web3 C) \<lparr>wp_programId = pid\<rparr> room funded clock (cl_network C (rpc chain)) (cl_fetch C (rpc chain))"
    and "sha256_spec (rt_hash rt)" and "anchor_account_spec (rt_hash rt) (rt_account_bytes rt)" and "borsh_spec (rt_try_to_vec rt)"
    and "keypair_spec C" and "cl_pubkey C (programId chain) = Some pid"
    and typed: "\<And>f parsed. claim_json C (w_files (cp_world p)) (artifactDir p dir) = Inr f \<Longrightarrow>
      parseSignedClaim (w3_sha256 (cl_web3 C)) f = Inr parsed \<Longrightarrow> claim_typed (word_claim (pc_claim parsed))"
    and run: "cli_submit C chain dir p L = Inr (L', a)"
  shows "\<exists>f parsed out i. claim_json C (w_files (cp_world p)) (artifactDir p dir) = Inr f \<and>
    parseSignedClaim (w3_sha256 (cl_web3 C)) f = Inr parsed \<and> claimId (w3_sha256 (cl_web3 C)) (pc_claim parsed) = Inr i \<and>
    cli_get C chain (to_hex i) p L' = Inr out \<and> go_sourceHost out = js_sourceHost (pc_claim parsed) \<and>
    go_claimKey out = js_claimKey (pc_claim parsed) \<and> go_claimValue out = js_claimValue (pc_claim parsed) \<and>
    go_provenanceHash out = to_hex (js_provenanceHash (pc_claim parsed)) \<and> go_address out = a"
proof -
  from run obtain f parsed client payer where
      c: "clientFor C chain (w_files (cp_world p)) = Inr (client, payer)"
      and f: "claim_json C (w_files (cp_world p)) (artifactDir p dir) = Inr f"
        "parseSignedClaim (w3_sha256 (cl_web3 C)) f = Inr parsed"
      and sub: "submitted (cl_web3 C) client (cl_network C (rpc chain)) L (pc_claim parsed) (pc_signature parsed)
        (pc_verifierPublicKey parsed) payer = Inr (L', a)"
    unfolding cli_submit_def submitted_def by (auto simp: result_simps)
  have cl: "client = \<lparr>wp_programId = pid\<rparr>" "length payer = 32"
    using c assms(5,6) by (auto simp: clientFor_Inr keypair_spec_def)
  obtain i v where i: "claimId (w3_sha256 (cl_web3 C)) (pc_claim parsed) = Inr i" "a = claimAddress (cl_web3 C) client i"
      and v: "stored_fields (word_claim (pc_claim parsed)) v"
        "getClaim (cl_web3 C) client (cl_fetch C (rpc chain)) L' i = Inr (Some v)"
    using submitted_stored [OF assms(1-4) typed [OF f] cl(2) sub [unfolded cl(1)]] unfolding cl(1) by metis
  obtain out where "cli_get C chain (to_hex i) p L' = Inr out" "go_sourceHost out = vc_source_host v"
      "go_claimKey out = vc_claim_key v" "go_claimValue out = vc_claim_value v"
      "go_provenanceHash out = to_hex (vc_provenance_hash v)" "go_address out = a"
    using c v(2) i(2) by (simp add: cli_get_def)
  with f i(1) v(1) show ?thesis
    by (intro exI [of _ f] exI [of _ parsed] exI [of _ out] exI [of _ i]) (simp add: stored_fields_def word_claim_def)
qed

end
