(* ===== verification/Program_Tests.thy ===== *)
theory Program_Tests
  imports SDK_Client
begin

text \<open>
  The onchain test matrix, \<open>tests/program/webproof.test.ts\<close>, on the model: the transactions its helper
  \<open>submitTx\<close> can build, with any combination of its options, and what the program answers when the
  runtime executes them.  Each test of the matrix is an instance of one decision table.  Whether a
  transaction is executed at all is the runtime's business: it must fit a packet, and the native
  program must accept its Ed25519 instructions.
\<close>

section \<open>The helpers of the test suite\<close>

record submit_opts =
  so_signature :: "bytes option"
  so_verifierKey :: "bytes option"
  so_message :: "bytes option"
  so_id :: "bytes option"
  so_omitEd25519 :: bool
  so_insertBetween :: "TransactionInstruction option"

definition no_opts :: submit_opts where
  "no_opts = \<lparr>so_signature = None, so_verifierKey = None, so_message = None, so_id = None, so_omitEd25519 = False,
     so_insertBetween = None\<rparr>"

definition default_to :: "'a \<Rightarrow> 'a option \<Rightarrow> 'a" where
  "default_to d x = (case x of Some v \<Rightarrow> v | None \<Rightarrow> d)"

text \<open>The random byte strings of a claim are parameters.\<close>

definition makeClaim :: "bytes \<Rightarrow> bytes \<Rightarrow> bytes \<Rightarrow> int \<Rightarrow> JsClaim" where
  "makeClaim path n prov issuedAt =
     \<lparr>js_version = 1, js_sourceHost = ''api.example.com'', js_requestPathHash = path, js_claimKey = ''price'',
      js_claimValue = ''12345.67'', js_issuedAt = issuedAt, js_expiresAt = issuedAt + 300, js_nonce = n,
      js_provenanceHash = prov\<rparr>"

definition submitTx ::
  "web3_lib \<Rightarrow> WebProofClient \<Rightarrow> Pubkey \<Rightarrow> bytes \<Rightarrow> (JsClaim \<Rightarrow> bytes) \<Rightarrow> JsClaim \<Rightarrow> submit_opts
     \<Rightarrow> client_error + (TransactionInstruction list \<times> bytes)" where
  "submitTx W client payer verifierPublic sign claim opts =
     try_then (case so_id opts of Some i \<Rightarrow> Inr i | None \<Rightarrow> map_err SdkError (claimId (w3_sha256 W) claim)) (\<lambda>i.
     try_then (case so_message opts of Some m \<Rightarrow> Inr m | None \<Rightarrow> map_err SdkError (signingMessage claim)) (\<lambda>message.
     let verifierKey = default_to verifierPublic (so_verifierKey opts);
         signature = default_to (sign claim) (so_signature opts);
         address = claimAddress W client i in
     try_then (ok_or (w3_ed25519_instruction W verifierKey message signature) Web3Error) (\<lambda>verify.
     try_then (map_err SdkError (serializeClaim claim)) (\<lambda>bytes.
     let submit = \<lparr>ti_programId = wp_programId client,
                   ti_keys =
                     [\<lparr>am_key = configAddress W client, am_is_signer = False, am_is_writable = False\<rparr>,
                      \<lparr>am_key = address, am_is_signer = False, am_is_writable = True\<rparr>,
                      \<lparr>am_key = payer, am_is_signer = True, am_is_writable = True\<rparr>,
                      \<lparr>am_key = w3_instructions_sysvar W, am_is_signer = False, am_is_writable = False\<rparr>,
                      \<lparr>am_key = w3_system_program W, am_is_signer = False, am_is_writable = False\<rparr>],
                   ti_data = instructionDiscriminator W ''submit_claim'' @ bytes @ i\<rparr> in
     Inr ((if so_omitEd25519 opts then [] else [verify])
          @ (case so_insertBetween opts of Some ix \<Rightarrow> [ix] | None \<Rightarrow> []) @ [submit], i)))))"

section \<open>The decision table\<close>

text \<open>The state after the test that initializes the config: the verifier's key and a maximum age of 300.\<close>

definition test_bed :: "runtime \<Rightarrow> web3_lib \<Rightarrow> WebProofClient \<Rightarrow> Pubkey \<Rightarrow> bytes \<Rightarrow> ledger \<Rightarrow> bool" where
  "test_bed rt W client payer verifierPublic L \<longleftrightarrow>
     web3_spec rt W client \<and> pda_spec rt \<and> sha256_spec (rt_hash rt) \<and> borsh_spec (rt_try_to_vec rt) \<and>
     anchor_account_spec (rt_hash rt) (rt_account_bytes rt) \<and> length payer = 32 \<and> length verifierPublic = 32 \<and>
     (\<exists>cfg. L (configAddress W client) = Some (ConfigAccount cfg) \<and> config_origin rt (configAddress W client) cfg \<and>
        verifier_pubkey cfg = verifierPublic \<and> max_claim_age_seconds cfg = 300)"

text \<open>
  The checks of \<open>submit_claim\<close> in their order, in terms of the options.  An instruction put between the
  two is the one the program looks at: it must be an Ed25519 instruction that says the right thing in
  its own data.
\<close>

definition filler_verdict :: "bytes \<Rightarrow> bytes \<Rightarrow> bytes \<Rightarrow> WebProofError + unit" where
  "filler_verdict verifierPublic message d =
     ensure (self_contained d) MalformedEd25519 (
     ensure (key_of d = Some verifierPublic) WrongVerifier (
     ensure (message_of d = Some message) MessageMismatch (
     ensure (signature_of d \<noteq> None) MalformedEd25519 (Inr ()))))"

definition verdict ::
  "runtime \<Rightarrow> bytes \<Rightarrow> i64 \<Rightarrow> JsClaim \<Rightarrow> bytes \<Rightarrow> submit_opts \<Rightarrow> WebProofError + unit" where
  "verdict rt verifierPublic now claim bs opts =
     try_then (validate_claim (word_claim claim) now 300) (\<lambda>_.
     ensure (default_to (rt_hash rt bs) (so_id opts) = rt_hash rt bs) ClaimIdMismatch (
     case so_insertBetween opts of
       Some ix \<Rightarrow> if ti_programId ix = rt_ed25519_id rt then filler_verdict verifierPublic (DOMAIN @ bs) (ti_data ix)
                  else Inl MissingSignature
     | None \<Rightarrow>
         ensure (\<not> so_omitEd25519 opts) MissingSignature (
         ensure (default_to verifierPublic (so_verifierKey opts) = verifierPublic) WrongVerifier (
         ensure (default_to (DOMAIN @ bs) (so_message opts) = DOMAIN @ bs) MessageMismatch (
         Inr ())))))"

text \<open>The context in which the runtime runs the last instruction of a transaction.\<close>

definition last_context :: "TransactionInstruction list \<Rightarrow> SubmitClaim" where
  "last_context ixs =
     (submit_context True ixs (ti_keys (last ixs)))\<lparr>sc_sysvar := transaction_sysvar ixs (length ixs - 1)\<rparr>"

lemma last_preceding:
  "length xs < 65536 \<Longrightarrow> preceding_ed25519 ed (transaction_sysvar (xs @ [ix]) (length xs)) =
     (if xs \<noteq> [] \<and> ti_programId (last xs) = ed then Some (ti_data (last xs)) else None)"
  by (auto simp: preceding_ed25519_def transaction_sysvar_def unat_of_nat take_bit_nat_eq_self nth_append last_conv_nth)

lemma verify_attested:
  "preceding_ed25519 ed sysvar = Some d \<Longrightarrow> attests d k m sig \<Longrightarrow>
     verify_preceding_ed25519 ed sysvar key msg = ensure (k = key) WrongVerifier (ensure (m = msg) MessageMismatch (Inr ()))"
  by (auto simp: verify_preceding_Some attests_def ensure_def)

text \<open>\<open>submit_claim\<close> with the accounts in order, in terms of what the introspection says.\<close>

lemma submit_claim_table:
  assumes "sha256_spec (rt_hash rt)" and "anchor_account_spec (rt_hash rt) (rt_account_bytes rt)"
    and typed: "claim_typed c" and "length (am_key (sc_submitter ctx)) = 32" and "rt_try_to_vec rt c = Some bs"
    and "accounts_SubmitClaim rt L ctx i = Some (cfg, b)"
    and "verify_preceding_ed25519 (rt_ed25519_id rt) (sc_sysvar ctx) (verifier_pubkey cfg) (DOMAIN @ bs) = r"
  shows "submit_claim rt L ctx (Some now) c i =
    (case try_then (validate_claim c now (max_claim_age_seconds cfg)) (\<lambda>_. ensure (i = rt_hash rt bs) ClaimIdMismatch r) of
       Inl e \<Rightarrow> Inl (WebProof e)
     | Inr _ \<Rightarrow> Inr (L(am_key (sc_verified_claim ctx) \<mapsto> ClaimAccount (stored_claim ctx now c i b))))"
proof (cases "validate_claim c now (max_claim_age_seconds cfg) = Inr () \<and> i = rt_hash rt bs \<and> r = Inr ()")
  case True
  moreover from True have "acceptable c now (max_claim_age_seconds cfg)"
    using onchain_validator.check_iff [of c now "max_claim_age_seconds cfg"] by simp
  then have "length (rt_account_bytes rt (stored_claim ctx now c i b)) \<le> 8 + verified_claim_INIT_SPACE"
    using True assms(1) by (intro stored_claim_fits [OF assms(1,2)] stored_claim_typed [OF typed _ _ assms(4)])
       (simp_all add: sha256_spec_def)
  ultimately have "submit_claim rt L ctx (Some now) c i =
      Inr (L(am_key (sc_verified_claim ctx) \<mapsto> ClaimAccount (stored_claim ctx now c i b)))"
    unfolding submit_claim_iff using assms(5-7) by blast
  with True show ?thesis by (simp add: ensure_def)
next
  case False
  then show ?thesis
    using assms(5-7) by (cases "validate_claim c now (max_claim_age_seconds cfg)"; cases r) (auto simp: submit_claim_def ensure_def)
qed

text \<open>What \<open>submitTx\<close> builds once its SDK calls go through, and the context the program sees.\<close>

definition verify_part :: "runtime \<Rightarrow> bytes \<Rightarrow> bytes \<Rightarrow> bytes \<Rightarrow> submit_opts \<Rightarrow> TransactionInstruction list \<Rightarrow> bool" where
  "verify_part rt key sig m opts xs \<longleftrightarrow>
     (\<exists>ed. ti_programId ed = rt_ed25519_id rt \<and> ti_data ed = ed25519_layout key sig m \<and>
        xs = (if so_omitEd25519 opts then [] else [ed]) @ (case so_insertBetween opts of Some ix \<Rightarrow> [ix] | None \<Rightarrow> []))"

lemma verify_part_preceding:
  assumes "verify_part rt key sig m opts xs" and "attests (ed25519_layout key sig m) key m sig"
  shows "verify_preceding_ed25519 (rt_ed25519_id rt) (transaction_sysvar (xs @ [ix]) (length xs)) k msg =
    (case so_insertBetween opts of
       Some f \<Rightarrow> if ti_programId f = rt_ed25519_id rt then filler_verdict k msg (ti_data f) else Inl MissingSignature
     | None \<Rightarrow> ensure (\<not> so_omitEd25519 opts) MissingSignature (
         ensure (key = k) WrongVerifier (ensure (m = msg) MessageMismatch (Inr ()))))"
proof -
  let ?sysvar = "transaction_sysvar (xs @ [ix]) (length xs)"
  have "length xs < 65536" using assms(1) by (auto simp: verify_part_def split: option.splits)
  note pre = last_preceding [OF this, of "rt_ed25519_id rt" ix]
  show ?thesis
  proof (cases "so_insertBetween opts")
    case None
    show ?thesis
    proof (cases "so_omitEd25519 opts")
      case True
      with None have "preceding_ed25519 (rt_ed25519_id rt) ?sysvar = None"
        using assms(1) unfolding pre by (auto simp: verify_part_def)
      from verify_preceding_None [OF this] None True show ?thesis by simp
    next
      case False
      with None have "preceding_ed25519 (rt_ed25519_id rt) ?sysvar = Some (ed25519_layout key sig m)"
        using assms(1) unfolding pre by (auto simp: verify_part_def)
      from verify_attested [OF this assms(2)] None False show ?thesis by simp
    qed
  next
    case (Some f)
    have pre': "preceding_ed25519 (rt_ed25519_id rt) ?sysvar =
        (if ti_programId f = rt_ed25519_id rt then Some (ti_data f) else None)"
      using assms(1) Some unfolding pre by (auto simp: verify_part_def)
    show ?thesis
    proof (cases "ti_programId f = rt_ed25519_id rt")
      case True
      with pre' have "preceding_ed25519 (rt_ed25519_id rt) ?sysvar = Some (ti_data f)" by simp
      from verify_preceding_Some [OF this] Some True show ?thesis by (simp add: filler_verdict_def)
    next
      case False
      with pre' have "preceding_ed25519 (rt_ed25519_id rt) ?sysvar = None" by simp
      from verify_preceding_None [OF this] Some False show ?thesis by simp
    qed
  qed
qed

lemma submitTx_Inr:
  assumes w: "web3_spec rt W client" and ser: "serializeClaim claim = Inr bs"
    and tx: "submitTx W client payer verifierPublic sign claim opts = Inr (ixs, i)"
  obtains xs submit where "ixs = xs @ [submit]" and "i = default_to (rt_hash rt bs) (so_id opts)"
    and "length (default_to verifierPublic (so_verifierKey opts)) = 32"
    and "length (default_to (sign claim) (so_signature opts)) = 64"
    and "verify_part rt (default_to verifierPublic (so_verifierKey opts)) (default_to (sign claim) (so_signature opts))
      (default_to (DOMAIN @ bs) (so_message opts)) opts xs"
    and "ti_programId submit = wp_programId client"
    and "ti_data submit = instructionDiscriminator W ''submit_claim'' @ bs @ i"
    and "ti_keys submit =
      [\<lparr>am_key = configAddress W client, am_is_signer = False, am_is_writable = False\<rparr>,
       \<lparr>am_key = claimAddress W client i, am_is_signer = False, am_is_writable = True\<rparr>,
       \<lparr>am_key = payer, am_is_signer = True, am_is_writable = True\<rparr>,
       \<lparr>am_key = rt_instructions_id rt, am_is_signer = False, am_is_writable = False\<rparr>,
       \<lparr>am_key = rt_system_id rt, am_is_signer = False, am_is_writable = False\<rparr>]"
proof -
  let ?m = "default_to (DOMAIN @ bs) (so_message opts)"
  have i: "(case so_id opts of Some i \<Rightarrow> Inr i | None \<Rightarrow> map_err SdkError (claimId (w3_sha256 W) claim)) =
      Inr (default_to (rt_hash rt bs) (so_id opts))"
    using w ser by (simp add: claimId_def default_to_def web3_spec_def split: option.splits)
  have m: "(case so_message opts of Some m \<Rightarrow> Inr m | None \<Rightarrow> map_err SdkError (signingMessage claim)) = Inr ?m"
    using ser by (simp add: signingMessage_def default_to_def domains_agree split: option.splits)
  obtain ed where ed: "w3_ed25519_instruction W (default_to verifierPublic (so_verifierKey opts)) ?m
      (default_to (sign claim) (so_signature opts)) = Some ed"
    using tx by (auto simp: submitTx_def i m result_simps)
  let ?xs = "(if so_omitEd25519 opts then [] else [ed]) @ (case so_insertBetween opts of Some ix \<Rightarrow> [ix] | None \<Rightarrow> [])"
  have "verify_part rt (default_to verifierPublic (so_verifierKey opts)) (default_to (sign claim) (so_signature opts)) ?m opts ?xs"
    unfolding verify_part_def by (rule exI [of _ ed]) (use w ed in \<open>simp add: web3_spec_def\<close>)
  then show thesis
    using tx w ed ser by (intro that [of ?xs]) (auto simp: submitTx_def i m web3_spec_def)
qed

text \<open>The accounts of such a transaction are in order, unless the claim's address is taken.\<close>

lemma last_context_accounts:
  assumes "web3_spec rt W client" and "pda_spec rt" and "L (configAddress W client) = Some (ConfigAccount cfg)"
    and "config_origin rt (configAddress W client) cfg" and "a = claimAddress W client i"
    and keys: "ti_keys submit =
      [\<lparr>am_key = configAddress W client, am_is_signer = False, am_is_writable = False\<rparr>,
       \<lparr>am_key = a, am_is_signer = False, am_is_writable = True\<rparr>,
       \<lparr>am_key = payer, am_is_signer = True, am_is_writable = True\<rparr>,
       \<lparr>am_key = rt_instructions_id rt, am_is_signer = False, am_is_writable = False\<rparr>,
       \<lparr>am_key = rt_system_id rt, am_is_signer = False, am_is_writable = False\<rparr>]"
  obtains b where "accounts_SubmitClaim rt L (last_context (xs @ [submit])) i = (if L a = None then Some (cfg, b) else None)"
    and "am_key (sc_submitter (last_context (xs @ [submit]))) = payer"
    and "am_key (sc_verified_claim (last_context (xs @ [submit]))) = a"
    and "sc_sysvar (last_context (xs @ [submit])) = transaction_sysvar (xs @ [submit]) (length xs)"
proof -
  obtain b where "rt_find_program_address rt [as_bytes ''claim'', i] = (a, b)"
    using assms(1,5) by (cases "rt_find_program_address rt [as_bytes ''claim'', i]") (simp add: web3_spec_def claimAddress_def)
  moreover have "rt_create_program_address rt [as_bytes ''config''] (bump cfg) = Some (configAddress W client)"
    using assms(2,4) by (simp add: pda_spec_def config_origin_def)
  ultimately show thesis
    using assms(3)
    by (intro that [of b]) (simp_all add: accounts_SubmitClaim_def init_pda_def last_context_def submit_context_def keys numeral_eq_Suc)
qed


section \<open>The tests\<close>

text \<open>Validation of a claim made at an int time, with everything in range of the clock.\<close>

lemma validate_times:
  assumes "{js_issuedAt j, js_expiresAt j, n} \<subseteq> {I64_MIN..I64_MAX}" and "bounded_fields (word_claim j)" and "js_version j = 1"
  shows "validate_claim (word_claim j) (word_of_int n) 300 =
    ensure (js_issuedAt j < js_expiresAt j) InvalidTimeWindow (
    ensure (n \<le> js_expiresAt j) WebProofError.Expired (
    ensure (js_issuedAt j \<le> n + 30) WebProofError.Future (
    ensure (n - js_issuedAt j \<le> 300) WebProofError.TooOld (Inr ()))))"
proof -
  have t: "sint (issued_at (word_claim j)) = js_issuedAt j" "sint (expires_at (word_claim j)) = js_expiresAt j"
      "sint (word_of_int n :: i64) = n"
    using assms(1) by (simp_all add: word_claim_def sint_word_of_int_i64)
  have s: "sint (issued_at (word_claim j)) \<le> sint (saturating_add (word_of_int n) FUTURE_SKEW) \<longleftrightarrow> js_issuedAt j \<le> n + 30"
      "sint (saturating_sub (word_of_int n) (issued_at (word_claim j))) \<le> sint (300 :: i64) \<longleftrightarrow> n - js_issuedAt j \<le> 300"
    using skew_check_exact [of "issued_at (word_claim j)" "word_of_int n"] age_check_exact [of "word_of_int n" "issued_at (word_claim j)" 300] t
    by (simp_all add: FUTURE_SKEW_def MAX_FUTURE_SKEW_SECONDS_def i64_bounds)
  have "version (word_claim j) = 1" using assms(3) by (simp add: word_claim_def to_uint8_def)
  with assms(2) t s show ?thesis by (simp add: validate_claim_def bounded_fields_def Suc_le_eq)
qed

text \<open>The suite's claims, at a test time from the epoch on, far from the end of the clock.\<close>

definition test_time :: "int \<Rightarrow> bool" where
  "test_time n \<longleftrightarrow> 0 \<le> n \<and> n \<le> 2 ^ 62"

lemma made_claim:
  "bounded_fields (word_claim (makeClaim path r prov t))" "js_version (makeClaim path r prov t) = 1"
  "js_issuedAt (makeClaim path r prov t) = t" "js_expiresAt (makeClaim path r prov t) = t + 300"
  by (simp_all add: makeClaim_def word_claim_def bounded_fields_def)

lemma rescheduled:
  "bounded_fields (word_claim (j\<lparr>js_expiresAt := e\<rparr>)) = bounded_fields (word_claim j)"
  by (simp add: word_claim_def bounded_fields_def)

lemmas time_test = validate_times made_claim rescheduled test_time_def i64_bounds

text \<open>Tests of the clock: valid, expired, issued in the future, too old, inverted window.\<close>

lemma time_tests:
  assumes "test_time n"
  shows "validate_claim (word_claim (makeClaim path r prov n)) (word_of_int n) 300 = Inr ()"
    and "validate_claim (word_claim ((makeClaim path r prov (n - 250))\<lparr>js_expiresAt := n - 150\<rparr>)) (word_of_int n) 300
      = Inl WebProofError.Expired"
    and "validate_claim (word_claim (makeClaim path r prov (n + 120))) (word_of_int n) 300 = Inl WebProofError.Future"
    and "validate_claim (word_claim ((makeClaim path r prov (n - 400))\<lparr>js_expiresAt := n + 200\<rparr>)) (word_of_int n) 300
      = Inl WebProofError.TooOld"
    and "validate_claim (word_claim ((makeClaim path r prov n)\<lparr>js_expiresAt := n\<rparr>)) (word_of_int n) 300 = Inl InvalidTimeWindow"
  using assms by (simp_all add: time_test ensure_def)

text \<open>Tests of the format: version, oversized host and value, empty key.\<close>

lemma format_tests:
  "validate_claim (word_claim ((makeClaim path r prov n)\<lparr>js_version := 2\<rparr>)) t 300 = Inl InvalidVersion"
  "validate_claim (word_claim ((makeClaim path r prov n)\<lparr>js_sourceHost := replicate 129 (CHR ''h'')\<rparr>)) t 300 = Inl InvalidLength"
  "validate_claim (word_claim ((makeClaim path r prov n)\<lparr>js_claimValue := replicate 257 (CHR ''v'')\<rparr>)) t 300 = Inl InvalidLength"
  "validate_claim (word_claim ((makeClaim path r prov n)\<lparr>js_claimKey := []\<rparr>)) t 300 = Inl InvalidLength"
  by (simp_all add: validate_claim_def word_claim_def makeClaim_def to_uint8_def ensure_def)

text \<open>Tests of the signature and the identifier; \<open>ix\<close> is the transfer between the two instructions.\<close>

lemma submission_tests:
  assumes "test_time n" and j: "j = makeClaim path r prov n"
  shows "verdict rt vp (word_of_int n) j bs no_opts = Inr ()"
    and "k \<noteq> vp \<Longrightarrow> verdict rt vp (word_of_int n) j bs (no_opts\<lparr>so_verifierKey := Some k, so_signature := Some s\<rparr>) = Inl WrongVerifier"
    and "verdict rt vp (word_of_int n) j bs (no_opts\<lparr>so_omitEd25519 := True\<rparr>) = Inl MissingSignature"
    and "ti_programId ix \<noteq> rt_ed25519_id rt \<Longrightarrow>
      verdict rt vp (word_of_int n) j bs (no_opts\<lparr>so_insertBetween := Some ix\<rparr>) = Inl MissingSignature"
    and "m \<noteq> DOMAIN @ bs \<Longrightarrow>
      verdict rt vp (word_of_int n) j bs (no_opts\<lparr>so_message := Some m, so_signature := Some s\<rparr>) = Inl MessageMismatch"
    and "i \<noteq> rt_hash rt bs \<Longrightarrow> verdict rt vp (word_of_int n) j bs (no_opts\<lparr>so_id := Some i\<rparr>) = Inl ClaimIdMismatch"
  using time_tests(1) [OF assms(1), of path r prov]
  by (simp_all add: j verdict_def no_opts_def default_to_def ensure_def)

text \<open>Tests of the config: a maximum age of zero, the first initialization, and a second one.\<close>

lemma config_tests:
  assumes "cluster_spec rt native_ok W client room True clock nw fetch" and "length key = 32"
  shows "L (configAddress W client) = None \<Longrightarrow>
      initialized W client nw L key 0 payer = Inl (TransactionFailed (WebProof InvalidMaxAge))"
    and "L (configAddress W client) = None \<Longrightarrow> \<exists>L' cfg. initialized W client nw L key 300 payer = Inr L' \<and>
      L' (configAddress W client) = Some (ConfigAccount cfg) \<and> authority cfg = payer \<and> verifier_pubkey cfg = key"
    and "L (configAddress W client) \<noteq> None \<Longrightarrow>
      initialized W client nw L key 300 payer = Inl (TransactionFailed AccountsRejected)"
proof -
  obtain b where pda: "rt_find_program_address rt [as_bytes ''config''] = (configAddress W client, b)"
    using assms(1) by (cases "rt_find_program_address rt [as_bytes ''config'']")
      (simp add: cluster_spec_def web3_spec_def configAddress_def)
  show "initialized W client nw L key 0 payer = Inl (TransactionFailed (WebProof InvalidMaxAge))"
    if "L (configAddress W client) = None"
    using assms that pda
    by (simp add: initialized_sent initializeConfigInstruction_def sdk_bytes32_def sdk_i64_def i64_bounds cluster_spec_def
        runs_initialize_def web3_spec_def init_context_def numeral_eq_Suc initialize_config_def accounts_InitializeConfig_def init_pda_def)
  note runs = initialized_runs [OF assms] initialize_config_def accounts_InitializeConfig_def init_pda_def pda
  show "\<exists>L' cfg. initialized W client nw L key 300 payer = Inr L' \<and>
      L' (configAddress W client) = Some (ConfigAccount cfg) \<and> authority cfg = payer \<and> verifier_pubkey cfg = key"
    if "L (configAddress W client) = None"
    using that by (simp add: runs)
  show "initialized W client nw L key 300 payer = Inl (TransactionFailed AccountsRejected)"
    if "L (configAddress W client) \<noteq> None"
    using that by (simp add: runs)
qed

end
