(* ===== verification/Pipeline_Samples.thy ===== *)
theory Pipeline_Samples
  imports Presentation_Verifier Program_Properties
begin

text \<open>
  A concrete library for the offchain side, matching the concrete runtime of the program, and one
  complete run: a presentation for \<open>https://api.example.com/data\<close> whose response has a price.  The
  instances of the signer's and the presentation verifier's guarantees are evaluated on it.
\<close>

section \<open>Concrete library\<close>

text \<open>Lookup of a one-level JSON pointer, enough for the run below.\<close>

fun sample_pointer :: "Value \<Rightarrow> string \<Rightarrow> Value option" where
  "sample_pointer v [] = Some v"
| "sample_pointer (Object kvs) (c # k) = (if c = CHR ''/'' then map_of kvs k else None)"
| "sample_pointer _ _ = None"

definition sample_library :: library where
  "sample_library =
     \<lparr>lib_sha256 = sample_digest, lib_to_vec = sdk_to_vec, lib_sign = sample_sign,
      lib_verifying_key = sample_digest, lib_pointer = sample_pointer\<rparr>"

definition sample_response :: Value where
  "sample_response = Object [(''price'', String ''12345.67''), (''meta'', Object [])]"

definition sample_transcript :: PartialTranscript where
  "sample_transcript =
     \<lparr>tr_sent_unsafe = [1, 2], tr_sent_authed = {0, 1}, tr_received_unsafe = [3, 4, 5],
      tr_received_authed = {0, 1, 2}\<rparr>"

definition sample_tlsn :: "(bytes, unit) tlsn_lib" where
  "sample_tlsn =
     \<lparr>tl_deserialize = (\<lambda>a. if a = [] then None else Some a), tl_verifying_key = (\<lambda>p. [hd p]),
      tl_default_provider = (), tl_cert_provider = (\<lambda>_. Inr ()),
      tl_verify = (\<lambda>p _. Inr \<lparr>po_server_name = Some ''api.example.com'', po_transcript = Some sample_transcript\<rparr>),
      tl_parse_request = (\<lambda>_. Inr \<lparr>rq_line_indices = {0, 1}, rq_target = ''/data''\<rparr>),
      tl_parse_response = (\<lambda>_. Inr \<lparr>rs_indices = {0, 1, 2}, rs_body = Some [5]\<rparr>),
      tl_json = (\<lambda>_. Some sample_response)\<rparr>"

definition sample_verifier :: TlsnPresentationVerifier where
  "sample_verifier = with_mozilla_roots [[7]]"

definition sample_artifact :: bytes where
  "sample_artifact = [7, 1, 2, 3]"

definition sample_url :: Url where
  "sample_url =
     \<lparr>url_scheme = ''https'', url_host_str = Some ''api.example.com'', url_username = [],
      url_password = None, url_port = None, url_path = ''/data'', url_query = None\<rparr>"

definition sample_signer :: ClaimSigner where
  "sample_signer = \<lparr>cs_key = sample_key\<rparr>"

definition sample_nonce :: bytes where
  "sample_nonce = replicate 32 9"

definition sample_data :: VerifiedTlsData where
  "sample_data = from_verified_presentation ''api.example.com'' ''/data'' sample_response sample_artifact"

definition sample_claim :: ClaimV1 where
  "sample_claim = built_claim sample_library sample_data ''/price'' ''12345.67'' 1700000000 300 sample_nonce"

lemma sample_verifies: "verify sample_tlsn sample_verifier sample_artifact = Inr sample_data"
  by (simp add: verify_def sample_tlsn_def sample_verifier_def with_mozilla_roots_def sample_artifact_def
      crypto_provider_def is_subset_def sample_transcript_def sample_data_def Let_def)

lemma sample_addressed: "addressed_scalar sample_library sample_response ''/price'' = Some ''12345.67''"
  by (simp add: addressed_scalar_def sample_library_def sample_response_def)

lemma sample_inputs_typed: "inputs_typed sample_library sample_data ''/price'' sample_nonce"
  using sample_addressed
  by (simp add: inputs_typed_def sample_data_def from_verified_presentation_def sample_nonce_def concrete)

lemma sample_library_specs:
  "sha256_spec (lib_sha256 sample_library)" "borsh_spec (lib_to_vec sample_library)"
  using sha256_spec_sample borsh_spec_sdk by (simp_all add: sample_library_def)

lemma sample_claim_bounded: "bounded_fields sample_claim"
  by (simp add: bounded_fields_def sample_claim_def sample_data_def from_verified_presentation_def)

lemma sample_claim_encodable: "encodable sample_claim"
  unfolding sample_claim_def
  by (rule built_claim_encodable [OF sample_library_specs(1) sample_inputs_typed])
     (use sample_addressed sample_claim_bounded
       in \<open>simp_all add: sample_data_def from_verified_presentation_def built_claim_valid sample_claim_def i64_bounds\<close>)

definition sample_signed :: SignedClaim where
  "sample_signed =
     \<lparr>sg_claim = sample_claim, sg_claim_id = sample_digest (enc_claim (claim_fields sample_claim)),
      sg_signature = sample_sign sample_key (DOMAIN_SEPARATOR @ enc_claim (claim_fields sample_claim)),
      sg_verifier_public_key = sample_digest sample_key, sg_tlsn_artifact_hash = sample_digest sample_artifact\<rparr>"

lemma sample_signs:
  "verify_and_sign sample_library sample_signer (verify sample_tlsn sample_verifier) sample_artifact sample_url
     ''/price'' 1700000000 300 sample_nonce = Inr sample_signed"
proof -
  have "vt_host sample_data = ''api.example.com''" "vt_response sample_data = sample_response"
      "vt_artifact sample_data = sample_artifact"
    by (simp_all add: sample_data_def from_verified_presentation_def)
  moreover have "canonical_bytes sdk_to_vec sample_claim = Some (enc_claim (claim_fields sample_claim))"
    using borsh_canonical [OF borsh_spec_sdk sample_claim_encodable] .
  ultimately show ?thesis
    unfolding verify_and_sign_iff sign_verified_iff
    using sample_verifies sample_addressed sample_claim_bounded
    by (auto simp: expects_host_def sample_url_def sample_claim_def sample_signed_def sample_signer_def
        public_key_def sample_library_def i64_bounds)
qed

section \<open>The run on the ledger\<close>

text \<open>
  A signature scheme under which only the message of this run verifies, and the ledger after the
  claim of the run has been submitted.
\<close>

definition strict_verify :: "bytes \<Rightarrow> bytes \<Rightarrow> bytes \<Rightarrow> bool" where
  "strict_verify k m sig \<longleftrightarrow>
     m = DOMAIN @ enc_claim (claim_fields sample_claim) \<and> sig = sample_sign k m"

definition strict_native :: "bytes \<Rightarrow> bool" where
  "strict_native d =
     (case (key_of d, message_of d, signature_of d) of
        (Some k, Some m, Some s) \<Rightarrow> strict_verify k m s
      | _ \<Rightarrow> False)"

definition run_bytes :: bytes where
  "run_bytes = enc_claim (claim_fields sample_claim)"

definition run_stored :: VerifiedClaim where
  "run_stored = stored_claim (sample_submit run_bytes) 1700000010 sample_claim (sample_digest run_bytes) 255"

definition run_ledger :: ledger where
  "run_ledger = config_ledger(sample_address [as_bytes ''claim'', sample_digest run_bytes] \<mapsto> ClaimAccount run_stored)"

lemma sample_claim_acceptable: "acceptable sample_claim 1700000010 300"
  using sample_claim_bounded
  by (simp add: acceptable_def sample_claim_def in_window_def sint_saturating_add clamp_i64_def i64_bounds)

lemma strict_spec: "native_ed25519_spec strict_verify strict_native"
  by (auto simp: native_ed25519_spec_def strict_native_def attests_def)

lemma run_bytes_short: "length run_bytes < 65000"
  unfolding run_bytes_def length_enc_claim [OF sample_claim_encodable]
  using sample_claim_bounded by (simp add: bounded_fields_def)

lemma run_native_verified: "native_verified strict_native (replicate 32 7) (sample_sysvar run_bytes)"
  using sample_attests [OF run_bytes_short]
  by (auto simp: native_verified_def sample_sysvar_def strict_native_def strict_verify_def attests_def
      run_bytes_def split: if_splits)

lemma run_reachable: "reachable sample_runtime strict_native run_ledger"
proof -
  have "reachable sample_runtime strict_native empty_ledger"
    by (rule reachable.genesis) (simp add: empty_ledger_def)
  moreover have "ledger_step sample_runtime strict_native empty_ledger config_ledger"
    using sample_initialized by (rule ledger_step.init_step)
  moreover have "submit_claim sample_runtime config_ledger (sample_submit run_bytes) (Some 1700000010) sample_claim
      (sample_digest run_bytes) = Inr run_ledger"
    using sample_submit_any [OF sample_claim_encodable sample_claim_acceptable run_bytes_def]
    by (simp add: run_ledger_def run_stored_def)
  then have "ledger_step sample_runtime strict_native config_ledger run_ledger"
    by (rule ledger_step.submit_step)
       (use run_native_verified sample_claim_encodable in \<open>simp_all add: sample_defs encodable_def\<close>)
  ultimately show ?thesis using reachable.step by blast
qed

lemma run_ledger_lookup:
  "run_ledger (sample_address [as_bytes ''claim'', sample_digest run_bytes]) = Some (ClaimAccount run_stored)"
  "run_ledger (sample_address [as_bytes ''config'']) = Some (ConfigAccount sample_config)"
  using config_address_distinct [of "sample_digest run_bytes"] by (auto simp: run_ledger_def config_ledger_def)

section \<open>Instances\<close>

theorem verify_and_sign_refusals_witness:
  "verify_and_sign sample_library sample_signer (verify sample_tlsn sample_verifier) sample_artifact
     (sample_url\<lparr>url_host_str := Some ''api.example.com.attacker.com''\<rparr>) ''/price'' 100 300 sample_nonce = Inl Host \<and>
   (\<exists>d. verify sample_tlsn sample_verifier sample_artifact = Inr d \<and>
      \<not> expects_host (sample_url\<lparr>url_host_str := Some ''api.example.com.attacker.com''\<rparr>) (vt_host d))"
proof -
  let ?u = "sample_url\<lparr>url_host_str := Some ''api.example.com.attacker.com''\<rparr>"
  let ?v = "verify sample_tlsn sample_verifier"
  have r: "verify_and_sign sample_library sample_signer ?v sample_artifact ?u ''/price'' 100 300 sample_nonce = Inl Host"
    by (simp add: verify_and_sign_def sample_verifies sign_verified_def)
       (simp add: sample_data_def from_verified_presentation_def)
  have "case ?v sample_artifact of Inl _ \<Rightarrow> True | Inr d \<Rightarrow> inputs_typed sample_library d ''/price'' sample_nonce"
    using sample_inputs_typed sample_verifies by simp
  from verify_and_sign_refusals [where verifier = ?v and a = sample_artifact and self = sample_signer and url = ?u
      and now = 100 and ttl = 300, OF sample_library_specs this]
  show ?thesis unfolding r by simp
qed

theorem notary_allowlist_witness:
  "verify sample_tlsn sample_verifier [8, 1] = Inl UntrustedNotary \<and>
   verify sample_tlsn (sample_verifier\<lparr>trusted_notary_keys := trusted_notary_keys sample_verifier @ [[9]]\<rparr>) sample_artifact
     = Inr sample_data"
proof -
  have "tl_deserialize sample_tlsn [8, 1] = Some [8, 1]"
      "tl_verifying_key sample_tlsn [8, 1] \<notin> set (trusted_notary_keys sample_verifier)"
    by (simp_all add: sample_tlsn_def sample_verifier_def with_mozilla_roots_def)
  then show ?thesis
    using notary_allowlist [of sample_tlsn "[8, 1]" sample_verifier]
      notary_allowlist [of sample_tlsn sample_artifact sample_verifier] sample_verifies by blast
qed

end
