(* ===== verification/SDK_Samples.thy ===== *)
theory SDK_Samples
  imports Program_Tests Pipeline_Samples
begin

text \<open>
  A concrete cluster behind the SDK: it decodes the instruction data of the two transactions and runs
  the program of the concrete runtime.  The guarantees of the SDK are evaluated on the claim of the
  sample run, from its file to a fresh ledger.
\<close>

section \<open>A concrete cluster\<close>

definition sample_web3 :: web3_lib where
  "sample_web3 =
     \<lparr>w3_sha256 = sample_digest, w3_find_program_address = (\<lambda>seeds _. (sample_address seeds, 255)),
      w3_ed25519_instruction = (\<lambda>k m s. if length k = 32 \<and> length s = 64
        then Some \<lparr>ti_programId = replicate 32 7, ti_keys = [], ti_data = ed25519_layout k s m\<rparr> else None),
      w3_system_program = replicate 32 9, w3_instructions_sysvar = replicate 32 8\<rparr>"

definition sample_client :: WebProofClient where
  "sample_client = \<lparr>wp_programId = replicate 32 3\<rparr>"

definition claim_of :: "claim_tuple \<Rightarrow> ClaimV1" where
  "claim_of t = (case t of (ver, h, p, k, val, a, e, n, q) \<Rightarrow>
     \<lparr>version = ver, source_host = h, request_path_hash = p, claim_key = k, claim_value = val,
      issued_at = a, expires_at = e, nonce = n, provenance_hash = q\<rparr>)"

definition sample_time :: i64 where "sample_time = 1700000010"

fun sample_send :: "ledger \<Rightarrow> TransactionInstruction list \<Rightarrow> Pubkey \<Rightarrow> client_error + ledger" where
  "sample_send L [ix] payer = map_err TransactionFailed
     (initialize_config sample_runtime L (init_context True (ti_keys ix)) (take 32 (drop 8 (ti_data ix)))
        (word_of_nat (le_val (drop 40 (ti_data ix)))))"
| "sample_send L [ed, ix] payer =
     (if 893 < length (ti_data ed) + length (ti_data ix) then Inl TransactionTooLarge
      else if sample_native (ti_data ed)
      then (case read_claim \<lparr>rd_buf = ti_data ix, rd_offset = 8\<rparr> of
              Inl _ \<Rightarrow> Inl Web3Error
            | Inr (t, r) \<Rightarrow> map_err TransactionFailed (submit_claim sample_runtime L
                (submit_context True [ed, ix] (ti_keys ix)) (Some sample_time) (claim_of t) (remaining r)))
      else Inl SignatureRejected)"
| "sample_send L _ payer = Inl Web3Error"

text \<open>
  The cluster simulates a transaction before it sends it, and has executed it when it confirms it.
  A submission has 893 bytes for instruction data in a packet of 1232: one signature of 64 bytes,
  seven accounts and the blockhash of 32, and 19 bytes of headers, lengths and indices come first.
\<close>

definition sample_network :: "(TransactionInstruction list \<times> Pubkey) network" where
  "sample_network =
     \<lparr>nw_sendTransaction = (\<lambda>L ixs payer. map_sum id (\<lambda>_. (ixs, payer)) (sample_send L ixs payer)),
      nw_getLatestBlockhash = (\<lambda>_. Inr []),
      nw_confirmTransaction = (\<lambda>L (ixs, payer) _. map_sum id (\<lambda>L'. (L', False)) (sample_send L ixs payer))\<rparr>"

lemma sample_sent: "sent sample_network L ixs payer = sample_send L ixs payer"
  by (cases "sample_send L ixs payer") (simp_all add: sent_def confirm_def sample_network_def)

definition sample_fetch :: account_data where
  "sample_fetch L a = (case L a of None \<Rightarrow> None | Some (ClaimAccount v) \<Rightarrow> Some (sample_account_bytes v @ [0, 0]) | _ \<Rightarrow> Some [])"

lemma claim_of_fields [simp]: "claim_of (claim_fields c) = c"
  by (cases c) (simp add: claim_of_def claim_fields_def)

lemma discriminator_length [simp]: "length (instructionDiscriminator sample_web3 name) = 8"
  by (simp add: instructionDiscriminator_def sample_web3_def sample_digest_def)

lemma read_after_discriminator:
  assumes "encodable c" and "length d = 8"
  shows "\<exists>r. read_claim \<lparr>rd_buf = d @ enc_claim (claim_fields c) @ i, rd_offset = 8\<rparr> = Inr (claim_fields c, r) \<and> remaining r = i"
proof -
  let ?r = "\<lparr>rd_buf = d @ enc_claim (claim_fields c) @ i, rd_offset = 8\<rparr>"
  have "remaining ?r = enc_claim (claim_fields c) @ i" using assms(2) by (simp add: remaining_def)
  from claim_layout.read_enc [OF fits_claim_fields [OF assms(1)] this] this show ?thesis
    by (simp add: remaining_def skip_def assms(2))
qed

lemma sample_cluster:
  "cluster_spec sample_runtime sample_native sample_web3 sample_client 893 True (Some sample_time) sample_network sample_fetch"
proof -
  have "web3_spec sample_runtime sample_web3 sample_client"
    by (auto simp: web3_spec_def sample_web3_def sample_client_def sample_runtime_def split: if_splits)
  moreover have "runs_initialize sample_runtime sample_web3 sample_client True sample_network"
    by (simp add: runs_initialize_def sample_sent le_i64_def word_of_nat_le_val_i64)
  moreover have "runs_submit sample_runtime sample_native sample_web3 sample_client 893 True (Some sample_time) sample_network"
    unfolding runs_submit_def
  proof (intro allI impI)
    fix L c i payer and ed ix :: TransactionInstruction
    assume "encodable c" and "ti_data ix = instructionDiscriminator sample_web3 ''submit_claim'' @ enc_claim (claim_fields c) @ i"
    moreover from this obtain r where
        "read_claim \<lparr>rd_buf = ti_data ix, rd_offset = 8\<rparr> = Inr (claim_fields c, r)" "remaining r = i"
      using read_after_discriminator [of c "instructionDiscriminator sample_web3 ''submit_claim''" i] by auto
    ultimately show "sent sample_network L [ed, ix] payer =
        (if 893 < length (ti_data ed) + length (ti_data ix) then Inl TransactionTooLarge
         else if sample_native (ti_data ed)
         then map_err TransactionFailed (submit_claim sample_runtime L (submit_context True [ed, ix] (ti_keys ix)) (Some sample_time) c i)
         else Inl SignatureRejected)" by (simp add: sample_sent)
  qed
  moreover have "account_spec sample_runtime sample_fetch"
    by (auto simp: account_spec_def sample_fetch_def sample_runtime_def split: account.splits)
  ultimately show ?thesis by (simp add: cluster_spec_def)
qed

section \<open>Instances\<close>

definition sample_parsed :: ParsedClaim where
  "sample_parsed =
     \<lparr>pc_claim = js_claim sample_claim, pc_signature = sg_signature sample_signed,
      pc_verifierPublicKey = sg_verifier_public_key sample_signed, pc_claimId = sg_claim_id sample_signed\<rparr>"

lemma sample_times:
  "issued_at sample_claim = 1700000000" "sint (expires_at sample_claim) = 1700000300"
  by (simp_all add: sample_claim_def sint_saturating_add clamp_i64_def i64_bounds)

theorem parseSignedClaim_roundtrip_witness:
  "parseSignedClaim sample_digest (JSON_parse (signed_file sample_signed)) = Inr sample_parsed \<and>
   \<not> is_ok (parseSignedClaim sample_digest (JSON_parse (signed_file
      (let c = sample_claim\<lparr>expires_at := word_of_int I64_MAX\<rparr>
       in sample_signed\<lparr>sg_claim := c, sg_claim_id := sample_digest (enc_claim (claim_fields c))\<rparr>))))"
proof -
  have "encodable (sg_claim sample_signed)" using sample_claim_encodable by (simp add: sample_signed_def)
  moreover have "sg_claim_id sample_signed = sample_digest (enc_claim (claim_fields (sg_claim sample_signed)))"
    by (simp add: sample_signed_def)
  ultimately have "parseSignedClaim sample_digest (JSON_parse (signed_file sample_signed)) = Inr sample_parsed"
    using parseSignedClaim_roundtrip [of sample_signed sample_digest] sample_times
    by (simp add: sample_parsed_def sample_signed_def)
  moreover have "encodable (sample_claim\<lparr>expires_at := word_of_int I64_MAX\<rparr>)"
    using sample_claim_encodable by (simp add: encodable_def claim_typed_def)
  then have "\<not> is_ok (parseSignedClaim sample_digest (JSON_parse (signed_file
      (let c = sample_claim\<lparr>expires_at := word_of_int I64_MAX\<rparr>
       in sample_signed\<lparr>sg_claim := c, sg_claim_id := sample_digest (enc_claim (claim_fields c))\<rparr>))))"
    unfolding Let_def by (intro parseSignedClaim_roundtrip [THEN conjunct2, THEN conjunct2, rule_format]) simp_all
  ultimately show ?thesis by simp
qed

lemma sample_native_run: "sample_native (ed25519_layout sample_key (sample_sign sample_key (DOMAIN @ run_bytes)) (DOMAIN @ run_bytes))"
  using sample_attests [OF run_bytes_short] by (simp add: sample_native_def sample_verify_def attests_def)

lemma sample_signed_key: "sg_verifier_public_key sample_signed = sample_key"
  by (simp add: sample_signed_def sample_key_def sample_digest_def)

lemma sample_signed_signature: "sg_signature sample_signed = sample_sign sample_key (DOMAIN @ run_bytes)"
  by (simp add: sample_signed_def run_bytes_def domains_agree)

lemma sample_addresses:
  "configAddress sample_web3 sample_client = sample_address [as_bytes ''config'']"
  "claimAddress sample_web3 sample_client i = sample_address [as_bytes ''claim'', i]"
  by (simp_all add: configAddress_def claimAddress_def sample_web3_def)


lemma sample_fits: "176 + 2 * length run_bytes \<le> 893"
  using length_enc_claim [OF sample_claim_encodable]
  by (simp add: run_bytes_def sample_claim_def sample_data_def from_verified_presentation_def)

lemma sample_onchain:
  "\<exists>L'. demo_onchain sample_web3 sample_client sample_network sample_fetch empty_ledger sample_parsed (replicate 32 6) =
     Inr (L', sample_address [as_bytes ''claim'', sample_digest run_bytes])"
proof -
  have "\<exists>L'. demo_onchain sample_web3 sample_client sample_network sample_fetch empty_ledger sample_parsed (replicate 32 6) =
     Inr (L', claimAddress sample_web3 sample_client (rt_hash sample_runtime run_bytes))"
  proof (rule demo_onchain_genuine [OF sample_cluster _ _ _ _ sample_claim_encodable])
    show "acceptable sample_claim sample_time 300" using sample_claim_acceptable by (simp add: sample_time_def)
  qed (use sha256_spec_sample borsh_spec_sdk anchor_account_spec_sample sample_native_run config_address_distinct sample_fits in
        \<open>simp_all add: pda_spec_def sample_runtime_def sample_signed_key sample_signed_signature run_bytes_def [symmetric]
           sample_parsed_def sample_key_def sample_sign_def empty_ledger_def sample_addresses\<close>)
  then show ?thesis by (simp add: sample_addresses sample_runtime_def)
qed

text \<open>
  A chain that executes nothing: whatever is sent is confirmed as failed, and the ledger stays as it
  is.  On the ledger with the golden claim, a run with a worthless signature for that claim reports
  success all the same, and what it reports is there.
\<close>

definition idle_network :: "unit network" where
  "idle_network =
     \<lparr>nw_sendTransaction = (\<lambda>_ _ _. Inr ()), nw_getLatestBlockhash = (\<lambda>_. Inr []),
      nw_confirmTransaction = (\<lambda>L _ _. Inr (L, True))\<rparr>"

definition late_parsed :: ParsedClaim where
  "late_parsed = \<lparr>pc_claim = js_claim golden_claim, pc_signature = replicate 64 0, pc_verifierPublicKey = replicate 32 1,
     pc_claimId = sample_id\<rparr>"

lemma late_run:
  "demo_onchain sample_web3 sample_client idle_network sample_fetch claim_ledger late_parsed (replicate 32 6) =
     Inr (claim_ledger, sample_address [as_bytes ''claim'', sample_id])"
proof -
  have ser: "serializeClaim (pc_claim late_parsed) = Inr sample_bytes"
    using serializeClaim_js_claim [OF golden_encodable] by (simp add: late_parsed_def sample_bytes_def)
  have i: "claimId sample_digest (pc_claim late_parsed) = Inr sample_id" by (simp add: claimId_def ser sample_id_def)
  have digest: "w3_sha256 sample_web3 = sample_digest" by (simp add: sample_web3_def)
  obtain ed where "w3_ed25519_instruction sample_web3 (replicate 32 1) (DOMAIN_SEPARATOR @ sample_bytes) (replicate 64 0) = Some ed"
    by (simp add: sample_web3_def)
  then have "w3_ed25519_instruction sample_web3 (pc_verifierPublicKey late_parsed) (DOMAIN_SEPARATOR @ sample_bytes)
      (pc_signature late_parsed) = Some ed" by (simp add: late_parsed_def)
  then have "\<exists>ixs. submitClaimInstructions sample_web3 sample_client (pc_claim late_parsed) (pc_signature late_parsed)
      (pc_verifierPublicKey late_parsed) (replicate 32 6) = Inr (ixs, sample_address [as_bytes ''claim'', sample_id])"
    by (simp add: submitClaimInstructions_def digest i signingMessage_def ser sample_addresses Let_def)
  then have sub: "submitClaim sample_web3 sample_client idle_network L (pc_claim late_parsed) (pc_signature late_parsed)
      (pc_verifierPublicKey late_parsed) (replicate 32 6) = Inr ((), sample_address [as_bytes ''claim'', sample_id])" for L
    by (auto simp: submitClaim_def idle_network_def)
  have cfg: "sample_fetch claim_ledger (configAddress sample_web3 sample_client) = Some []"
    by (simp add: sample_fetch_def sample_addresses claim_ledger_lookup)
  have get: "getClaim sample_web3 sample_client sample_fetch claim_ledger sample_id = Inr (Some sample_stored)"
    using decode_account [OF sha256_spec_sample anchor_account_spec_sample sample_stored_ok]
    by (simp add: getClaim_def sample_fetch_def sample_addresses claim_ledger_lookup digest)
  have "vc_source_host sample_stored = js_sourceHost (pc_claim late_parsed)" "vc_claim_key sample_stored = js_claimKey (pc_claim late_parsed)"
      "vc_claim_value sample_stored = js_claimValue (pc_claim late_parsed)"
      "vc_provenance_hash sample_stored = js_provenanceHash (pc_claim late_parsed)"
    by (simp_all add: late_parsed_def sample_stored_def stored_claim_def js_claim_def)
  then show ?thesis
    by (simp add: demo_onchain_def cfg sub digest i ensure_def) (simp add: confirm_def idle_network_def get)
qed

theorem demo_success_is_real_witness:
  "\<exists>v c bs sig. claim_ledger (sample_address [as_bytes ''claim'', sample_id]) = Some (ClaimAccount v) \<and>
     vc_claim_value v = ''12345.67'' \<and> stored_fields c v \<and> sdk_to_vec c = Some bs \<and>
     (\<exists>cfg ca. claim_ledger ca = Some (ConfigAccount cfg) \<and> sample_verify (verifier_pubkey cfg) (DOMAIN @ bs) sig)"
proof -
  have specs: "sha256_spec (rt_hash sample_runtime)" "anchor_account_spec (rt_hash sample_runtime) (rt_account_bytes sample_runtime)"
      "borsh_spec (rt_try_to_vec sample_runtime)"
    using sha256_spec_sample anchor_account_spec_sample borsh_spec_sdk by (simp_all add: sample_runtime_def)
  have net: "network_spec sample_runtime sample_native sample_web3 sample_client idle_network"
    by (simp add: network_spec_def idle_network_def)
  have typed: "claim_typed (word_claim (pc_claim late_parsed))" using golden_encodable by (simp add: late_parsed_def encodable_def)
  have web: "web3_spec sample_runtime sample_web3 sample_client" "account_spec sample_runtime sample_fetch"
    using sample_cluster by (simp_all add: cluster_spec_def)
  have own: "\<forall>i. claimAddress sample_web3 sample_client i \<noteq> configAddress sample_web3 sample_client \<and>
      claim_ledger (claimAddress sample_web3 sample_client i) \<noteq> Some ForeignAccount"
    using config_address_distinct by (auto simp: sample_addresses claim_ledger_def config_ledger_def empty_ledger_def)
  from demo_success_is_real [OF sample_reachable native_spec_sample specs web net typed own late_run, THEN conjunct2]
  obtain v c bs sig cfg ca where "claim_ledger (sample_address [as_bytes ''claim'', sample_id]) = Some (ClaimAccount v)"
      "vc_claim_value v = js_claimValue (pc_claim late_parsed)" "stored_fields c v" "rt_try_to_vec sample_runtime c = Some bs"
      "claim_ledger ca = Some (ConfigAccount cfg)" "sample_verify (verifier_pubkey cfg) (DOMAIN @ bs) sig"
    by blast
  then show ?thesis
    by (intro exI [of _ v] exI [of _ c] exI [of _ bs] exI [of _ sig])
       (auto simp: late_parsed_def js_claim_def golden_claim_def sample_runtime_def)
qed

section \<open>The test matrix\<close>

lemma sample_test_bed: "test_bed sample_runtime sample_web3 sample_client (replicate 32 6) sample_key config_ledger"
proof -
  have "web3_spec sample_runtime sample_web3 sample_client" using sample_cluster by (simp add: cluster_spec_def)
  then show ?thesis
    using sha256_spec_sample anchor_account_spec_sample borsh_spec_sdk
    by (simp add: test_bed_def sample_addresses pda_spec_def config_ledger_def config_origin_def)
       (simp add: sample_runtime_def sample_config_def sample_key_def)
qed

text \<open>
  The claim of the sample run with its Ed25519 instruction, and without it: stored, and refused.
\<close>

definition tx_opts :: "bool \<Rightarrow> submit_opts" where
  "tx_opts omitted = no_opts\<lparr>so_omitEd25519 := omitted\<rparr>"

lemma tx_opts_sel [simp]:
  "so_id (tx_opts b) = None" "so_message (tx_opts b) = None" "so_verifierKey (tx_opts b) = None" "so_signature (tx_opts b) = None"
  "so_insertBetween (tx_opts b) = None" "so_omitEd25519 (tx_opts b) = b" "default_to d None = d"
  by (simp_all add: tx_opts_def no_opts_def default_to_def)

lemma sample_tx:
  "\<exists>ixs. submitTx sample_web3 sample_client (replicate 32 6) sample_key (\<lambda>_. replicate 64 0) (js_claim sample_claim) (tx_opts b)
     = Inr (ixs, sample_digest run_bytes)"
proof -
  have ser: "serializeClaim (js_claim sample_claim) = Inr run_bytes"
    using serializeClaim_js_claim [OF sample_claim_encodable] by (simp add: run_bytes_def)
  obtain ed where "w3_ed25519_instruction sample_web3 sample_key (DOMAIN_SEPARATOR @ run_bytes) (replicate 64 0) = Some ed"
    by (simp add: sample_web3_def sample_key_def)
  moreover have "w3_sha256 sample_web3 = sample_digest" by (simp add: sample_web3_def)
  ultimately show ?thesis by (simp add: submitTx_def claimId_def signingMessage_def ser Let_def)
qed


end
