(* ===== verification/Notarization_Tasks.thy ===== *)
theory Notarization_Tasks
  imports Notarization
begin

text \<open>
  The concurrency of \<open>notarize\<close> (\<open>crates/tlsn-demo/webproof-tlsn/src/notarize.rs\<close>): the notary is a spawned
  task, the prover runs in the calling one, and they share the two directions of an in-memory stream,
  each closed by its writer.  Over it they first run the TLSNotary protocol, which is library code,
  and then exchange the attestation request and the attestation.  A step is the end of such a phase
  of one task: the protocol phase with the answers of the library's calls, or cut short because the
  other side has gone, or the exchange.  The relation imposes no order between the protocol phases of
  the two sides, so it has every order the protocol admits, and it says nothing about whether a phase
  ends at all: the protocol may deadlock, which is what the time limit is for.  The notary may panic
  and the time limit expire at any moment.  The tasks are joined as \<open>notarize_inner\<close> does.  Whatever
  the schedule, a session that is returned is that of \<open>notarize_outcome\<close>.
\<close>

section \<open>The notary in two halves\<close>

text \<open>Up to the moment at which the notary has the socket back, and from the bytes it reads there on.\<close>

definition notary_session ::
  "('o, 'a, 's) notarize_lib \<Rightarrow> NotarizeConfig \<Rightarrow> NotarizeError + ('o \<times> 'o TlsTranscript)" where
  "notary_session N config =
     try_then (ok_or (nl_verifier_config N (root_store (nl_mozilla N) (server_trust config))) Library) (\<lambda>verifier_config.
     try_then (ok_or (nl_new_verifier N verifier_config) Library) (\<lambda>verifier.
     try_then (ok_or (nl_verifier_commit N verifier) Library) (\<lambda>start.
     try_then (case start of
         Mpc verifier \<Rightarrow> ok_or (nl_accept_run N verifier) Library
       | Proxy verifier \<Rightarrow> ensure (nl_reject N verifier) Library (Inl ProxyRejected)) (\<lambda>verifier.
     try_then (ok_or (nl_verify_accept N verifier) Library) (\<lambda>(transcript_commitments, verifier).
     ensure (nl_verifier_close N verifier) Library (
     ensure (nl_notary_socket N) Library (
     Inr (transcript_commitments, nl_verifier_transcript N verifier))))))))"

definition notary_attest ::
  "('o, 'a, 's) notarize_lib \<Rightarrow> NotarizeConfig \<Rightarrow> 'o \<times> 'o TlsTranscript \<Rightarrow> bytes \<Rightarrow> NotarizeError + bytes" where
  "notary_attest N config x request_bytes =
     (case x of (transcript_commitments, tls_transcript) \<Rightarrow>
     try_then (ok_or (nl_de_request N request_bytes) Library) (\<lambda>request.
     try_then (ok_or (nl_k256_key N (notary_key_seed config)) Library) (\<lambda>signing_key.
     try_then (ok_or (nl_secp256k1_signer N signing_key) Library) (\<lambda>signer.
     try_then (ok_or (nl_att_config N signer) Library) (\<lambda>att_config.
     case tt_binding tls_transcript of
       OtherBinding \<Rightarrow> Inl UnsupportedBinding
     | V1_2 server_ephemeral_key \<Rightarrow>
         try_then (ok_or (nl_accept_request N att_config request) Library) (\<lambda>builder.
         let info = \<lparr>ci_time = tt_time tls_transcript, ci_version = tt_version tls_transcript,
                     ci_sent = word_of_nat (application_len (tt_sent tls_transcript)),
                     ci_received = word_of_nat (application_len (tt_recv tls_transcript))\<rparr> in
         try_then (ok_or (nl_build_attestation N builder info server_ephemeral_key transcript_commitments signer) Library) (\<lambda>attestation.
         try_then (ok_or (nl_ser_attestation N attestation) Library) (\<lambda>attestation_bytes.
         ensure (nl_notary_write N) Library (
         Inr attestation_bytes)))))))))"

lemma try_then_assoc: "try_then (try_then r f) g = try_then r (\<lambda>x. try_then (f x) g)"
  by (cases r) simp_all

lemma try_then_ensure: "try_then (ensure b e r) g = ensure b e (try_then r g)"
  by (simp add: ensure_def)

lemma notary_halves: "notary N config rb = try_then (notary_session N config) (\<lambda>x. notary_attest N config x rb)"
  unfolding notary_def notary_session_def notary_attest_def Let_def case_prod_unfold
    try_then_assoc try_then_ensure try_then_simps fst_conv snd_conv ..

section \<open>Tasks\<close>

datatype ('o, 'a, 's) prover_task = Proving | Awaiting 'o 's | Proved "NotarizeError + ('a, 's) NotarizedSession"

datatype 'o notary_task = Joining | Reading "'o \<times> 'o TlsTranscript" | Stopped "NotarizeError + unit" | Panicked

record ('o, 'a, 's) tasks =
  tk_prover :: "('o, 'a, 's) prover_task"
  tk_notary :: "'o notary_task"
  tk_request :: "bytes option" \<comment> \<open>what the prover wrote, once it has closed its direction\<close>
  tk_attestation :: "bytes option" \<comment> \<open>what the notary wrote, once it has closed its direction\<close>
  tk_result :: "(NotarizeError + ('a, 's) NotarizedSession) option"

definition spawned :: "('o, 'a, 's) tasks" where
  "spawned = \<lparr>tk_prover = Proving, tk_notary = Joining, tk_request = None, tk_attestation = None, tk_result = None\<rparr>"

text \<open>
  A side that stops for an error drops its end, and the other side reads whatever part had been
  written, or, if it is still in the protocol, has its library call fail.  \<open>faults\<close> tells whether the
  notary may panic and the time limit expire.
\<close>

inductive task_step ::
  "('o, 'a, 's) notarize_lib \<Rightarrow> NotarizeConfig \<Rightarrow> bool \<Rightarrow> ('o, 'a, 's) tasks \<Rightarrow> ('o, 'a, 's) tasks \<Rightarrow> bool"
  for N :: "('o, 'a, 's) notarize_lib" and config :: NotarizeConfig and faults :: bool where
  prover_writes: "tk_result s = None \<Longrightarrow> tk_prover s = Proving \<Longrightarrow> prover_request N config = Inr (request, rb, secrets) \<Longrightarrow>
     task_step N config faults s (s\<lparr>tk_prover := Awaiting request secrets, tk_request := Some rb\<rparr>)"
| prover_fails: "tk_result s = None \<Longrightarrow> tk_prover s = Proving \<Longrightarrow> prover_request N config = Inl e \<Longrightarrow>
     task_step N config faults s (s\<lparr>tk_prover := Proved (Inl e), tk_request := Some part\<rparr>)"
| prover_cut: "tk_result s = None \<Longrightarrow> tk_prover s = Proving \<Longrightarrow> tk_notary s = Stopped (Inl e) \<or> tk_notary s = Panicked \<Longrightarrow>
     task_step N config faults s (s\<lparr>tk_prover := Proved (Inl Library), tk_request := Some part\<rparr>)"
| notary_joins: "tk_result s = None \<Longrightarrow> tk_notary s = Joining \<Longrightarrow> notary_session N config = Inr x \<Longrightarrow>
     task_step N config faults s (s\<lparr>tk_notary := Reading x\<rparr>)"
| notary_fails: "tk_result s = None \<Longrightarrow> tk_notary s = Joining \<Longrightarrow> notary_session N config = Inl e \<Longrightarrow>
     task_step N config faults s (s\<lparr>tk_notary := Stopped (Inl e), tk_attestation := Some []\<rparr>)"
| notary_cut: "tk_result s = None \<Longrightarrow> tk_notary s = Joining \<Longrightarrow> tk_prover s = Proved (Inl e) \<Longrightarrow>
     task_step N config faults s (s\<lparr>tk_notary := Stopped (Inl Library), tk_attestation := Some []\<rparr>)"
| notary_answers: "tk_result s = None \<Longrightarrow> tk_notary s = Reading x \<Longrightarrow> tk_request s = Some rb \<Longrightarrow>
     notary_attest N config x rb = Inr ab \<Longrightarrow>
     task_step N config faults s (s\<lparr>tk_notary := Stopped (Inr ()), tk_attestation := Some ab\<rparr>)"
| notary_refuses: "tk_result s = None \<Longrightarrow> tk_notary s = Reading x \<Longrightarrow> tk_request s = Some rb \<Longrightarrow>
     notary_attest N config x rb = Inl e \<Longrightarrow>
     task_step N config faults s (s\<lparr>tk_notary := Stopped (Inl e), tk_attestation := Some part\<rparr>)"
| notary_panics: "faults \<Longrightarrow> tk_result s = None \<Longrightarrow> tk_notary s = Joining \<or> tk_notary s = Reading x \<Longrightarrow>
     task_step N config faults s (s\<lparr>tk_notary := Panicked, tk_attestation := Some part\<rparr>)"
| prover_reads: "tk_result s = None \<Longrightarrow> tk_prover s = Awaiting request secrets \<Longrightarrow> tk_attestation s = Some ab \<Longrightarrow>
     task_step N config faults s (s\<lparr>tk_prover := Proved (prover_finish N request secrets ab)\<rparr>)"
| prover_error: "tk_result s = None \<Longrightarrow> tk_prover s = Proved (Inl e) \<Longrightarrow>
     task_step N config faults s (s\<lparr>tk_result := Some (Inl e)\<rparr>)"
| notary_joined: "tk_result s = None \<Longrightarrow> tk_prover s = Proved (Inr output) \<Longrightarrow> tk_notary s = Stopped r \<Longrightarrow>
     task_step N config faults s (s\<lparr>tk_result := Some (try_then (map_err NotaryFailed r) (\<lambda>_. Inr output))\<rparr>)"
| panic_joined: "tk_result s = None \<Longrightarrow> tk_prover s = Proved (Inr output) \<Longrightarrow> tk_notary s = Panicked \<Longrightarrow>
     task_step N config faults s (s\<lparr>tk_result := Some (Inl NotaryPanicked)\<rparr>)"
| time_out: "faults \<Longrightarrow> tk_result s = None \<Longrightarrow> task_step N config faults s (s\<lparr>tk_result := Some (Inl TimedOut)\<rparr>)"

text \<open>The results the two tasks can end with, over all schedules.\<close>

definition notarize_inner ::
  "('o, 'a, 's) notarize_lib \<Rightarrow> NotarizeConfig \<Rightarrow> bool \<Rightarrow> NotarizeError + ('a, 's) NotarizedSession \<Rightarrow> bool" where
  "notarize_inner N config faults r \<longleftrightarrow>
     (\<exists>s. (task_step N config faults)\<^sup>*\<^sup>* spawned s \<and> tk_result s = Some r)"

section \<open>Invariant\<close>

text \<open>What each task's state says about the stream and about the calls made so far.\<close>

definition prover_ok :: "('o, 'a, 's) notarize_lib \<Rightarrow> NotarizeConfig \<Rightarrow> ('o, 'a, 's) tasks \<Rightarrow> bool" where
  "prover_ok N config s \<longleftrightarrow>
     (tk_prover s = Proving \<longrightarrow> tk_request s = None) \<and>
     (\<forall>request secrets. tk_prover s = Awaiting request secrets \<longrightarrow>
        (\<exists>rb. prover_request N config = Inr (request, rb, secrets) \<and> tk_request s = Some rb)) \<and>
     (\<forall>output. tk_prover s = Proved (Inr output) \<longrightarrow>
        (\<exists>request rb secrets ab. prover_request N config = Inr (request, rb, secrets) \<and>
          tk_request s = Some rb \<and> tk_attestation s = Some ab \<and> prover_finish N request secrets ab = Inr output))"

definition notary_ok :: "('o, 'a, 's) notarize_lib \<Rightarrow> NotarizeConfig \<Rightarrow> ('o, 'a, 's) tasks \<Rightarrow> bool" where
  "notary_ok N config s \<longleftrightarrow>
     (tk_notary s = Joining \<longrightarrow> tk_attestation s = None) \<and>
     (\<forall>x. tk_notary s = Reading x \<longrightarrow> tk_attestation s = None \<and> notary_session N config = Inr x) \<and>
     (\<forall>r. tk_notary s = Stopped r \<longrightarrow> tk_attestation s \<noteq> None) \<and>
     (tk_notary s = Panicked \<longrightarrow> tk_attestation s \<noteq> None) \<and>
     (tk_notary s = Stopped (Inr ()) \<longrightarrow>
        (\<exists>rb ab. tk_request s = Some rb \<and> tk_attestation s = Some ab \<and> notary N config rb = Inr ab))"

definition result_ok :: "('o, 'a, 's) notarize_lib \<Rightarrow> NotarizeConfig \<Rightarrow> ('o, 'a, 's) tasks \<Rightarrow> bool" where
  "result_ok N config s \<longleftrightarrow> (\<forall>ses. tk_result s = Some (Inr ses) \<longrightarrow> notarize_outcome N False config = Inr ses)"

lemmas tasks_ok = prover_ok_def notary_ok_def result_ok_def

lemma notarize_outcome_iff:
  "notarize_outcome N False config = Inr ses \<longleftrightarrow>
     (\<exists>request rb secrets ab. prover_request N config = Inr (request, rb, secrets) \<and> notary N config rb = Inr ab \<and>
        prover_finish N request secrets ab = Inr ses)"
  by (auto simp: notarize_outcome_def result_simps Let_def)

lemma spawned_ok: "prover_ok N config spawned" "notary_ok N config spawned" "result_ok N config spawned"
  by (simp_all add: tasks_ok spawned_def)

lemma task_step_prover_ok:
  "task_step N config faults s t \<Longrightarrow> prover_ok N config s \<Longrightarrow> notary_ok N config s \<Longrightarrow> prover_ok N config t"
  by (erule task_step.cases) (auto simp: prover_ok_def notary_ok_def)

lemma task_step_notary_ok:
  "task_step N config faults s t \<Longrightarrow> prover_ok N config s \<Longrightarrow> notary_ok N config s \<Longrightarrow> notary_ok N config t"
  by (erule task_step.cases)
     (auto simp: prover_ok_def notary_ok_def notary_halves)

lemma task_step_result_ok:
  "task_step N config faults s t \<Longrightarrow> prover_ok N config s \<Longrightarrow> notary_ok N config s \<Longrightarrow> result_ok N config t"
  by (erule task_step.cases)
     (auto simp: tasks_ok notarize_outcome_iff result_simps)

text \<open>Every state of every schedule satisfies the three.\<close>

lemma tasks_ok_run:
  "(task_step N config faults)\<^sup>*\<^sup>* spawned s \<Longrightarrow> prover_ok N config s \<and> notary_ok N config s \<and> result_ok N config s"
proof (induction rule: rtranclp_induct)
  case (step s t)
  then show ?case
    using task_step_prover_ok task_step_notary_ok task_step_result_ok by blast
qed (simp add: spawned_ok)

section \<open>When the sequential run succeeds\<close>

text \<open>Without faults no task leaves the track of the sequential run.\<close>

definition on_track :: "'o \<Rightarrow> bytes \<Rightarrow> 's \<Rightarrow> bytes \<Rightarrow> ('a, 's) NotarizedSession \<Rightarrow> ('o, 'a, 's) tasks \<Rightarrow> bool" where
  "on_track request rb secrets ab ses s \<longleftrightarrow>
     tk_prover s \<in> {Proving, Awaiting request secrets, Proved (Inr ses)} \<and>
     (\<forall>e. tk_notary s \<noteq> Stopped (Inl e)) \<and> tk_notary s \<noteq> Panicked \<and>
     tk_request s \<in> {None, Some rb} \<and> tk_attestation s \<in> {None, Some ab} \<and> tk_result s \<in> {None, Some (Inr ses)}"

lemma on_track_step:
  assumes "task_step N config False s t" and "on_track request rb secrets ab ses s" and "notary_ok N config s"
    and "prover_request N config = Inr (request, rb, secrets)" and "notary N config rb = Inr ab"
    and "prover_finish N request secrets ab = Inr ses"
  shows "on_track request rb secrets ab ses t"
proof -
  obtain x where x: "notary_session N config = Inr x" "notary_attest N config x rb = Inr ab"
    using assms(5) by (auto simp: notary_halves result_simps)
  have "r = Inr ()" if "\<forall>e. r \<noteq> Inl e" for r :: "NotarizeError + unit" using that by (cases r) simp_all
  then show ?thesis
    using assms(1)
    by - (erule task_step.cases; use assms(2-4,6) x in \<open>auto simp: on_track_def notary_ok_def result_simps\<close>)
qed

lemma on_track_run:
  assumes "(task_step N config False)\<^sup>*\<^sup>* spawned s"
    and "prover_request N config = Inr (request, rb, secrets)" and "notary N config rb = Inr ab"
    and "prover_finish N request secrets ab = Inr ses"
  shows "on_track request rb secrets ab ses s"
  using assms(1)
proof (induction rule: rtranclp_induct)
  case base
  then show ?case by (simp add: on_track_def spawned_def)
next
  case (step s t)
  then show ?case using on_track_step [OF step.hyps(2) step.IH _ assms(2-4)] tasks_ok_run [OF step.hyps(1)] by simp
qed

text \<open>The sequential run is one of the schedules.\<close>

lemma sequential_schedule:
  fixes N :: "('o, 'a, 's) notarize_lib"
  assumes "notarize_outcome N False config = Inr ses"
  shows "\<exists>s. (task_step N config faults ^^ 5) spawned s \<and> tk_result s = Some (Inr ses)"
proof -
  obtain request rb secrets ab x where p: "prover_request N config = Inr (request, rb, secrets)"
      and x: "notary_session N config = Inr x" and ab: "notary_attest N config x rb = Inr ab"
      and f: "prover_finish N request secrets ab = Inr ses"
    using assms by (auto simp: notarize_outcome_iff notary_halves result_simps)
  let ?step = "task_step N config faults"
  define s1 :: "('o, 'a, 's) tasks" where "s1 = spawned\<lparr>tk_prover := Awaiting request secrets, tk_request := Some rb\<rparr>"
  define s2 where "s2 = s1\<lparr>tk_notary := Reading x\<rparr>"
  define s3 where "s3 = s2\<lparr>tk_notary := Stopped (Inr ()), tk_attestation := Some ab\<rparr>"
  define s4 where "s4 = s3\<lparr>tk_prover := Proved (Inr ses)\<rparr>"
  define s5 where "s5 = s4\<lparr>tk_result := Some (Inr ses)\<rparr>"
  note defs = s1_def s2_def s3_def s4_def s5_def spawned_def
  have "?step spawned s1" unfolding s1_def by (rule task_step.prover_writes) (simp_all add: spawned_def p)
  moreover have "?step s1 s2" unfolding s2_def by (rule task_step.notary_joins) (simp_all add: defs x)
  moreover have "?step s2 s3" unfolding s3_def by (rule task_step.notary_answers [OF _ _ _ ab]) (simp_all add: defs)
  moreover have "?step s3 s4"
    using task_step.prover_reads [of s3 request secrets ab N config faults] f by (simp add: defs)
  moreover have "?step s4 s5"
    using task_step.notary_joined [of s4 ses "Inr ()" N config faults] by (simp add: defs)
  ultimately have "(?step ^^ 5) spawned s5" by (simp add: numeral_eq_Suc relcompp_apply) blast
  then show ?thesis by (auto simp: s5_def)
qed

text \<open>So a session that \<^const>\<open>notarize\<close> returns is a result of the two tasks.\<close>

lemma notarize_is_a_schedule:
  assumes "notarize N panicked elapsed config = Inr ses"
  shows "notarize_inner N config faults (Inr ses)"
proof -
  have "notarize_outcome N False config = Inr ses"
    using assms by (simp add: notarize_iff notarize_outcome_iff)
  then obtain s where "(task_step N config faults ^^ 5) spawned s" "tk_result s = Some (Inr ses)"
    using sequential_schedule by blast
  then show ?thesis using relpowp_imp_rtranclp unfolding notarize_inner_def by fast
qed

lemma returned_session:
  assumes "notarize_inner N config faults (Inr ses)"
  shows "\<exists>request rb secrets ab. prover_request N config = Inr (request, rb, secrets) \<and> notary N config rb = Inr ab \<and>
    prover_finish N request secrets ab = Inr ses"
  using assms tasks_ok_run [of N config faults]
  unfolding notarize_inner_def result_ok_def by (metis notarize_outcome_iff)

text \<open>What the notary did when it answered, call by call.\<close>

lemma notary_session_Inr:
  "notary_session N config = Inr (comm, tr) \<longleftrightarrow>
     (\<exists>vc v m w fin. nl_verifier_config N (roots_of N config) = Some vc \<and> nl_new_verifier N vc = Some v \<and>
        nl_verifier_commit N v = Some (Mpc m) \<and> nl_accept_run N m = Some w \<and>
        nl_verify_accept N w = Some (comm, fin) \<and> nl_verifier_close N fin \<and> nl_notary_socket N \<and>
        tr = nl_verifier_transcript N fin)"
  unfolding notary_session_def roots_of_def by (auto simp: result_simps)

definition attested_info :: "'o TlsTranscript \<Rightarrow> ConnectionInfo \<Rightarrow> bool" where
  "attested_info tr info \<longleftrightarrow>
     ci_time info = tt_time tr \<and> ci_version info = tt_version tr \<and>
     unat (ci_sent info) =
       (\<Sum>r\<leftarrow>filter (\<lambda>r. rec_typ r = ApplicationData) (tt_sent tr). length (rec_ciphertext r)) mod 2 ^ 32 \<and>
     unat (ci_received info) =
       (\<Sum>r\<leftarrow>filter (\<lambda>r. rec_typ r = ApplicationData) (tt_recv tr). length (rec_ciphertext r)) mod 2 ^ 32"

lemma notary_attest_Inr:
  assumes "notary_attest N config (comm, tr) rb = Inr ab"
  shows "\<exists>req sk signer ac key builder info att.
     nl_de_request N rb = Some req \<and> nl_k256_key N (notary_key_seed config) = Some sk \<and>
     nl_secp256k1_signer N sk = Some signer \<and> nl_att_config N signer = Some ac \<and>
     tt_binding tr = V1_2 key \<and> nl_accept_request N ac req = Some builder \<and> attested_info tr info \<and>
     nl_build_attestation N builder info key comm signer = Some att \<and> nl_ser_attestation N att = Some ab"
proof -
  let ?info = "\<lparr>ci_time = tt_time tr, ci_version = tt_version tr,
    ci_sent = word_of_nat (application_len (tt_sent tr)), ci_received = word_of_nat (application_len (tt_recv tr))\<rparr>"
  have "attested_info tr ?info" by (simp add: attested_info_def unat_as_u32 application_len_sum)
  with assms show ?thesis unfolding notary_attest_def Let_def by (simp add: result_simps) blast
qed

section \<open>Guarantees\<close>

text \<open>
  C35.  Scheduling does not matter for what a notarization returns.  In whatever order the prover and
  the notary run, and even if the notary may panic or the time limit expire at any moment, a session
  is returned only if it is the outcome of the tasks' calls in \<open>notarize_outcome\<close>; without such faults
  the complete schedules return it exactly when that outcome is a session, so no interleaving loses it.
\<close>

theorem notarization_is_schedule_independent:
  assumes "(task_step N config faults)\<^sup>*\<^sup>* spawned s" and "tk_result s = Some r"
  shows "(\<forall>ses. r = Inr ses \<longrightarrow> notarize_outcome N False config = Inr ses) \<and>
    (\<not> faults \<longrightarrow> (\<forall>ses. r = Inr ses \<longleftrightarrow> notarize_outcome N False config = Inr ses))"
proof -
  have sound: "notarize_outcome N False config = Inr ses" if "r = Inr ses" for ses
    using tasks_ok_run [OF assms(1)] assms(2) that by (simp add: result_ok_def)
  have "r = Inr ses" if free: "\<not> faults" and seq: "notarize_outcome N False config = Inr ses" for ses
  proof -
    obtain request rb secrets ab where "prover_request N config = Inr (request, rb, secrets)" "notary N config rb = Inr ab"
        "prover_finish N request secrets ab = Inr ses"
      using seq unfolding notarize_outcome_iff by blast
    with on_track_run [of N config s] assms(1) free have "on_track request rb secrets ab ses s" by simp
    with assms(2) show ?thesis by (simp add: on_track_def)
  qed
  with sound show ?thesis by blast
qed

text \<open>
  C33.  What a notarized session stands for, whatever the schedule and the faults.  If the two tasks
  return a session, then the prover reached the configured address, set up TLS for the configured
  server name, sent the configured request, whose first header is the Host of that name, over that
  connection and got status 200; the notary validated the server against the same roots, took part in
  MPC mode only, and ended the protocol with a transcript \<open>tr\<close> and commitments \<open>comm\<close> of its own.  The
  returned attestation is the one it built from the prover's request, signed with the key of the
  configured seed: over these commitments, the TLS 1.2 server key of \<open>tr\<close>, the time and version of
  \<open>tr\<close>, and the total length of the application-data records of \<open>tr\<close> in either direction modulo 2^32
  (handshake and alert records do not count).  The prover found it consistent with its own request,
  and returns its own secrets and the attestation's verifying key with it.
\<close>

theorem notarized_session_is_attested:
  fixes N :: "('o, 'a, 's) notarize_lib"
  assumes "attestation_codec N" and "notarize_inner N config faults (Inr ses)"
  shows "hd (request_headers config) = (''Host'', server_name config) \<and>
    (\<exists>p mpc p' sock name tls conn task sender req.
       nl_new_prover N = Some p \<and> nl_mpc_config N (max_sent_data config) (max_recv_data config) = Some mpc \<and>
       nl_commit N p mpc = Some p' \<and> nl_tcp_connect N (server_addr config) = Some sock \<and>
       nl_dns_name N (server_name config) = Some name \<and> nl_tls_config N name (roots_of N config) = Some tls \<and>
       nl_connect N p' tls sock = Some (conn, task) \<and> nl_http_handshake N conn = Some sender \<and>
       nl_build_request N (uri config) (request_headers config) = Some req \<and>
       nl_send_request N sender req = Some 200) \<and>
    (\<exists>vc v m w fin comm key request rb req sk signer ac builder info.
       nl_verifier_config N (roots_of N config) = Some vc \<and> nl_new_verifier N vc = Some v \<and>
       nl_verifier_commit N v = Some (Mpc m) \<and> nl_accept_run N m = Some w \<and>
       nl_verify_accept N w = Some (comm, fin) \<and>
       tt_binding (nl_verifier_transcript N fin) = V1_2 key \<and>
       attested_info (nl_verifier_transcript N fin) info \<and>
       prover_request N config = Inr (request, rb, ns_secrets ses) \<and> nl_ser_request N request = Some rb \<and>
       nl_de_request N rb = Some req \<and> nl_k256_key N (notary_key_seed config) = Some sk \<and>
       nl_secp256k1_signer N sk = Some signer \<and> nl_att_config N signer = Some ac \<and>
       nl_accept_request N ac req = Some builder \<and>
       nl_build_attestation N builder info key comm signer = Some (ns_attestation ses) \<and>
       nl_validate N request (ns_attestation ses)) \<and>
    ns_notary_verifying_key ses = nl_attestation_key N (ns_attestation ses)"
proof -
  obtain request rb secrets ab where p: "prover_request N config = Inr (request, rb, secrets)"
      and n: "notary N config rb = Inr ab" and f: "prover_finish N request secrets ab = Inr ses"
    using returned_session [OF assms(2)] by blast
  from f have f': "nl_de_attestation N ab = Some (ns_attestation ses)" "ns_secrets ses = secrets"
      "nl_validate N request (ns_attestation ses)"
      "ns_notary_verifying_key ses = nl_attestation_key N (ns_attestation ses)"
    by (auto simp: prover_finish_def result_simps Let_def)
  from n obtain comm tr where "notary_session N config = Inr (comm, tr)" and att: "notary_attest N config (comm, tr) rb = Inr ab"
    by (auto simp: notary_halves result_simps)
  then obtain vc v m w fin where s: "nl_verifier_config N (roots_of N config) = Some vc" "nl_new_verifier N vc = Some v"
      "nl_verifier_commit N v = Some (Mpc m)" "nl_accept_run N m = Some w" "nl_verify_accept N w = Some (comm, fin)"
      and tr: "tr = nl_verifier_transcript N fin"
    unfolding notary_session_Inr by blast
  obtain req sk signer ac key builder info a where a: "nl_de_request N rb = Some req"
      "nl_k256_key N (notary_key_seed config) = Some sk" "nl_secp256k1_signer N sk = Some signer"
      "nl_att_config N signer = Some ac" "tt_binding tr = V1_2 key" "nl_accept_request N ac req = Some builder"
      "attested_info tr info" "nl_build_attestation N builder info key comm signer = Some a"
      and ab: "nl_ser_attestation N a = Some ab"
    using notary_attest_Inr [OF att] by blast
  have "a = ns_attestation ses" using ab f'(1) assms(1) by (simp add: attestation_codec_def)
  with a s tr p f' prover_request_Inr [OF p] show ?thesis
    by (intro conjI) (simp add: request_headers_def, blast, blast, blast)
qed

end
