(* ===== verification/Demo_Samples.thy ===== *)
theory Demo_Samples
  imports Demo_Pipeline Notarization_Tasks Pipeline_Samples
begin

text \<open>
  Concrete libraries and a concrete environment for the demo binaries: the prover notarizes
  \<open>https://api.example.com/data\<close>, the verifier signs its price.  The guarantees of the binaries are
  instantiated on this run.
\<close>

section \<open>Hexadecimal codec\<close>

fun sample_hex_decode :: "string \<Rightarrow> bytes option" where
  "sample_hex_decode [] = Some []"
| "sample_hex_decode [_] = None"
| "sample_hex_decode (a # b # s) =
     (if is_ascii_hexdigit a \<and> is_ascii_hexdigit b
      then map_option ((#) (word_of_nat (16 * nibble a + nibble b))) (sample_hex_decode s) else None)"

lemma sample_hex_roundtrip: "sample_hex_decode (to_hex b) = Some b"
proof (induction b)
  case (Cons x b)
  with hex_digits [of x] show ?case by (simp add: to_hex_def)
qed (simp add: to_hex_def)

section \<open>Libraries\<close>

definition fixture_url :: Url where
  "fixture_url = sample_url\<lparr>url_host_str := Some ''test-server.io'', url_path := ''/formats/json''\<rparr>"

definition sample_demo_lib :: demo_lib where
  "sample_demo_lib =
     \<lparr>dl_parse_url = (\<lambda>s. if s = ''https://api.example.com/data'' then Some sample_url
                          else if s = ''https://test-server.io/formats/json'' then Some fixture_url else None),
      dl_url_str = (\<lambda>u. if u = sample_url then ''https://api.example.com/data'' else ''https://test-server.io/formats/json''),
      dl_hex_decode = sample_hex_decode, dl_hex_encode = to_hex,
      dl_bs58_decode = (\<lambda>_. None), dl_json_bytes = (\<lambda>_. None),
      dl_ca_cert_der = [1, 2, 3], dl_server_domain = ''test-server.io''\<rparr>"

lemma urls_differ: "sample_url \<noteq> fixture_url"
  by (simp add: sample_url_def fixture_url_def)

lemma sample_demo_specs: "hex_spec sample_demo_lib" "url_spec sample_demo_lib" "fixture_url_spec sample_demo_lib"
  using sample_hex_roundtrip to_hex_shape urls_differ
  by (auto simp: hex_spec_def url_spec_def fixture_url_spec_def sample_demo_lib_def FIXTURE_JSON_PATH_def
      fixture_url_def sample_url_def)

definition sample_environment :: environment where
  "sample_environment =
     [''DEMO_URL'' \<mapsto> ''https://api.example.com/data'', ''DEMO_FIELD'' \<mapsto> ''price'',
      ''WEBPROOF_ALLOWED_HOSTS'' \<mapsto> ''api.example.com'',
      ''WEBPROOF_SIGNER_KEY'' \<mapsto> to_hex sample_key]"

definition sample_target :: DemoTarget where
  "sample_target =
     \<lparr>dt_url = sample_url, dt_field = ''/price'',
      dt_notarize = \<lparr>server_addr = (''api.example.com'', 443), server_name = ''api.example.com'', uri = ''/data'',
        extra_headers = [], server_trust = Mozilla, max_sent_data = 4096, max_recv_data = 16384,
        notary_key_seed = DEV_NOTARY_KEY\<rparr>,
      dt_fixture = False\<rparr>"

definition names_sample :: "environment \<Rightarrow> bool" where
  "names_sample env \<longleftrightarrow>
     env ''DEMO_URL'' = Some ''https://api.example.com/data'' \<and> env ''DEMO_FIELD'' = Some ''price'' \<and>
     env ''WEBPROOF_NOTARY_KEY'' = None \<and> env ''DEMO_MAX_SENT'' = None \<and> env ''DEMO_MAX_RECV'' = None"

lemma names_sample_resolves: "names_sample env \<Longrightarrow> resolve_target sample_demo_lib env port = Inr sample_target"
proof -
  assume "names_sample env"
  moreover have "trim ''https://api.example.com/data'' = ''https://api.example.com/data''"
    by (rule trim_graphic) (simp add: graphic_def)
  ultimately show ?thesis
    by (simp add: names_sample_def resolve_target_def notary_key_def env_usize_def sample_demo_lib_def
        sample_url_def sample_target_def normalize_field_def DEFAULT_MAX_SENT_DATA_def DEFAULT_MAX_RECV_DATA_def)
qed

lemma sample_environment_names: "names_sample sample_environment"
  by (simp add: names_sample_def sample_environment_def)

lemmas sample_resolves = names_sample_resolves [OF sample_environment_names]

theorem parse_signing_key_seed_witness:
  "parse_signing_key sample_demo_lib ('' '' @ to_hex sample_key) = Inr sample_key"
  using parse_signing_key_seed [OF sample_demo_specs(1), of sample_key "[[CHR '' '']]" "[]"] space_is_white
  by (simp add: sample_key_def sample_demo_lib_def)

theorem resolve_target_consistent_witness:
  "expects_host (dt_url sample_target) ''api.example.com'' \<and> server_trust (dt_notarize sample_target) = Mozilla"
  using resolve_target_consistent [OF sample_demo_specs(3) sample_resolves]
  by (simp add: sample_target_def)

section \<open>A notarization and its presentation\<close>

definition sample_tls_transcript :: "unit TlsTranscript" where
  "sample_tls_transcript =
     \<lparr>tt_time = 1700000000, tt_version = 2,
      tt_sent = [\<lparr>rec_typ = OtherContent, rec_ciphertext = [1]\<rparr>, \<lparr>rec_typ = ApplicationData, rec_ciphertext = [1, 2]\<rparr>],
      tt_recv = [\<lparr>rec_typ = ApplicationData, rec_ciphertext = [3, 4, 5]\<rparr>],
      tt_cert_chain = Some (), tt_signature = Some (), tt_binding = V1_2 [4]\<rparr>"

definition sample_notarize_lib :: "(unit, bytes, unit) notarize_lib" where
  "sample_notarize_lib =
     \<lparr>nl_mozilla = [[0]],
      nl_new_prover = Some (), nl_mpc_config = (\<lambda>_ _. Some ()), nl_commit = (\<lambda>_ _. Some ()),
      nl_tcp_connect = (\<lambda>_. Some ()), nl_dns_name = (\<lambda>_. Some ()), nl_tls_config = (\<lambda>_ _. Some ()),
      nl_connect = (\<lambda>_ _ _. Some ((), ())), nl_http_handshake = (\<lambda>_. Some ()), nl_build_request = (\<lambda>_ _. Some ()),
      nl_send_request = (\<lambda>_ _. Some 200), nl_prover_join = (\<lambda>_. Some ()), nl_parse_transcript = (\<lambda>_. Some ()),
      nl_transcript_commit = (\<lambda>_ _. Some ()), nl_request_config = (\<lambda>_. Some ()), nl_config_commit = (\<lambda>_. Some ()),
      nl_prove_config = (\<lambda>_ _. Some ()), nl_prove = (\<lambda>_ _. Some ((), ())),
      nl_prover_transcript = (\<lambda>_. sample_tls_transcript), nl_prover_close = (\<lambda>_. True),
      nl_attestation_request = (\<lambda>_ _ _ _ _ _ _ _. Some ((), ())), nl_prover_socket = True,
      nl_ser_request = (\<lambda>_. Some [1]), nl_prover_write = True, nl_de_attestation = Some,
      nl_validate = (\<lambda>_ _. True), nl_attestation_key = (\<lambda>a. take 1 a),
      nl_verifier_config = (\<lambda>_. Some ()), nl_new_verifier = (\<lambda>_. Some ()),
      nl_verifier_commit = (\<lambda>_. Some (Mpc ())), nl_accept_run = (\<lambda>_. Some ()), nl_reject = (\<lambda>_. True),
      nl_verify_accept = (\<lambda>_. Some ((), ())), nl_verifier_transcript = (\<lambda>_. sample_tls_transcript),
      nl_verifier_close = (\<lambda>_. True), nl_notary_socket = True, nl_de_request = (\<lambda>_. Some ()),
      nl_k256_key = (\<lambda>_. Some ()), nl_secp256k1_signer = (\<lambda>_. Some ()), nl_att_config = (\<lambda>_. Some ()),
      nl_accept_request = (\<lambda>_ _. Some ()), nl_build_attestation = (\<lambda>_ _ _ _ _. Some sample_artifact),
      nl_ser_attestation = Some, nl_notary_write = True\<rparr>"

definition sample_session :: "(bytes, unit) NotarizedSession" where
  "sample_session = \<lparr>ns_attestation = sample_artifact, ns_secrets = (), ns_notary_verifying_key = [7]\<rparr>"

lemma sample_notarized: "notarize sample_notarize_lib False 3 (dt_notarize sample_target) = Inr sample_session"
  by (simp add: notarize_def NOTARIZE_TIMEOUT_SECS_def notarize_outcome_def prover_request_def notary_def prover_finish_def
      sample_notarize_lib_def sample_tls_transcript_def sample_session_def sample_artifact_def Let_def)

lemma sample_attestation_codec: "attestation_codec sample_notarize_lib"
  by (simp add: attestation_codec_def sample_notarize_lib_def)

theorem notarized_session_is_attested_witness:
  "\<exists>info builder key comm signer. attested_info sample_tls_transcript info \<and>
     nl_build_attestation sample_notarize_lib builder info key comm signer = Some (ns_attestation sample_session)"
  using notarized_session_is_attested [OF sample_attestation_codec notarize_is_a_schedule [OF sample_notarized, of True]]
  by (auto simp: sample_notarize_lib_def)

lemma sample_schedule:
  "\<exists>s. (task_step sample_notarize_lib (dt_notarize sample_target) False ^^ 5) spawned s \<and> tk_result s = Some (Inr sample_session)"
  using sample_notarized by (intro sequential_schedule) (simp add: notarize_def NOTARIZE_TIMEOUT_SECS_def)

theorem notarization_is_schedule_independent_witness:
  "\<exists>s. (task_step sample_notarize_lib (dt_notarize sample_target) False)\<^sup>*\<^sup>* spawned s \<and>
     tk_result s = Some (Inr sample_session) \<and>
     notarize_outcome sample_notarize_lib False (dt_notarize sample_target) = Inr sample_session"
proof -
  obtain s where s: "(task_step sample_notarize_lib (dt_notarize sample_target) False)\<^sup>*\<^sup>* spawned s"
      "tk_result s = Some (Inr sample_session)"
    using sample_schedule by (auto dest: relpowp_imp_rtranclp)
  have "notarize_outcome sample_notarize_lib False (dt_notarize sample_target) = Inr sample_session"
    using notarization_is_schedule_independent [OF s, THEN conjunct1] by simp
  with s show ?thesis by (intro exI [of _ s]) simp
qed

definition sample_request :: SentRequest where
  "sample_request =
     \<lparr>sr_without_data = {0, 1}, sr_target = {2},
      sr_headers = [\<lparr>hd_name = ''Host'', hd_indices = {3, 4}, hd_without_value = {3}\<rparr>,
                    \<lparr>hd_name = ''Cookie'', hd_indices = {5, 6}, hd_without_value = {5}\<rparr>]\<rparr>"

definition sample_present_lib :: "(bytes, unit, RangeSet, bytes) present_lib" where
  "sample_present_lib =
     \<lparr>pb_parse = (\<lambda>_. Some \<lparr>ht_requests = [sample_request], ht_responses = [{0, 1, 2}]\<rparr>),
      pb_sent_ok = (\<lambda>_ _. True), pb_recv_ok = (\<lambda>_ _. True), pb_build_proof = (\<lambda>_ b. Some (tb_sent b)),
      pb_present = (\<lambda>a _ _. Some a)\<rparr>"

lemma sample_presented: "build_presentation sample_present_lib a () = Inr a"
  by (simp add: build_presentation_iff sample_present_lib_def)

lemma cookie_is_secret: "is_secret \<lparr>hd_name = ''Cookie'', hd_indices = x, hd_without_value = y\<rparr>"
proof -
  have "to_ascii_lowercase ''Cookie'' = ''cookie''" by code_simp
  then show ?thesis by (simp add: is_secret_def SECRET_HEADERS_def)
qed

text \<open>The value of the cookie, at index 6, is not revealed.\<close>

theorem build_presentation_discloses_witness:
  "\<exists>sent. pb_build_proof sample_present_lib () \<lparr>tb_sent = sent, tb_recv = {0, 1, 2}\<rparr> \<noteq> None \<and> 2 \<in> sent \<and> 6 \<notin> sent"
proof -
  obtain rq rs sent t where rq: "map_option (hd \<circ> ht_requests) (pb_parse sample_present_lib ()) = Some rq"
      and "map_option (hd \<circ> ht_responses) (pb_parse sample_present_lib ()) = Some rs"
      and "pb_build_proof sample_present_lib () \<lparr>tb_sent = sent, tb_recv = rs\<rparr> = Some t"
      and "sr_without_data rq \<union> sr_target rq \<subseteq> sent"
      and hide: "\<forall>h i. h \<in> set (sr_headers rq) \<and> is_secret h \<and> i \<in> hd_indices h - hd_without_value h \<and>
        i \<notin> sr_without_data rq \<union> sr_target rq \<and> (\<forall>h' \<in> set (sr_headers rq). h' \<noteq> h \<longrightarrow> i \<notin> hd_indices h' \<union> hd_without_value h') \<longrightarrow>
        i \<notin> sent"
    using build_presentation_discloses [OF sample_presented [of "[]"]] by blast
  moreover have "rq = sample_request" using rq by (simp add: sample_present_lib_def)
  moreover from this hide [THEN spec, of "\<lparr>hd_name = ''Cookie'', hd_indices = {5, 6}, hd_without_value = {5}\<rparr>",
      THEN spec, of 6] have "6 \<notin> sent"
    using cookie_is_secret by (simp add: sample_request_def)
  ultimately show ?thesis by (intro exI [of _ sent]) (auto simp: sample_present_lib_def sample_request_def)
qed

text \<open>A builder whose only proof reveals what the sample transcript authenticates.\<close>

definition covering_present_lib :: "(bytes, unit, unit, bytes) present_lib" where
  "covering_present_lib =
     \<lparr>pb_parse = (\<lambda>_. Some \<lparr>ht_requests = [\<lparr>sr_without_data = {0}, sr_target = {1}, sr_headers = []\<rparr>],
                             ht_responses = [{0, 1, 2}]\<rparr>),
      pb_sent_ok = (\<lambda>_ _. True), pb_recv_ok = (\<lambda>_ _. True),
      pb_build_proof = (\<lambda>_ b. if b = \<lparr>tb_sent = {0, 1}, tb_recv = {0, 1, 2}\<rparr> then Some () else None),
      pb_present = (\<lambda>a _ _. if a = [] then None else Some a)\<rparr>"

theorem built_presentation_is_covered_witness:
  "verify sample_tlsn sample_verifier sample_artifact
     \<notin> {Inl Deserialize, Inl (Coverage ''request line''), Inl (Coverage ''full response'')}"
proof (rule built_presentation_is_covered)
  show "disclosure_spec covering_present_lib sample_tlsn Some"
    by (auto simp: disclosure_spec_def covering_present_lib_def sample_tlsn_def sample_transcript_def split: if_splits)
  have "disclosed_request \<lparr>sr_without_data = {0}, sr_target = {1}, sr_headers = []\<rparr> = {0, 1}"
    by (auto simp: disclosed_request_def)
  then show "build_presentation covering_present_lib sample_artifact () = Inr sample_artifact"
    by (simp add: build_presentation_iff covering_present_lib_def sample_artifact_def)
qed simp

section \<open>The binaries on one world\<close>

definition sample_prover :: "(unit, bytes, unit, RangeSet, bytes) prover_side" where
  "sample_prover = \<lparr>ps_notarize = sample_notarize_lib, ps_present = sample_present_lib, ps_serialize = Some\<rparr>"

definition sample_json :: json_lib where
  "sample_json =
     \<lparr>js_from_str = (\<lambda>t. if t = ''request'' then Some (request_json sample_demo_lib sample_target) else None),
      js_signed_claim = (\<lambda>s. if s = sample_signed then Some ''12345.67'' else None),
      js_value = (\<lambda>v. if v = request_json sample_demo_lib sample_target then Some ''request'' else None)\<rparr>"

lemma sample_json_spec: "json_spec sample_json"
  by (auto simp: json_spec_def sample_json_def concrete)

definition sample_events :: run_events where
  "sample_events = \<lparr>ev_fixture_port = None, ev_notary_panics = False, ev_elapsed = 3\<rparr>"

definition sample_world :: "files \<Rightarrow> world" where
  "sample_world fs =
     \<lparr>w_env = sample_environment, w_files = fs, w_writable = (\<lambda>_. True), w_mkdir = (\<lambda>_. True),
      w_clock = Some 1700000000, w_random = sample_nonce\<rparr>"

definition sample_written :: "string \<Rightarrow> files \<Rightarrow> files" where
  "sample_written dir fs = fs
     (path_join dir ''presentation.tlsn.bin'' \<mapsto> sample_artifact,
      path_join dir ''notary-key.hex'' \<mapsto> as_bytes (to_hex [7]),
      path_join dir ''request.json'' \<mapsto> as_bytes ''request'')"

definition sample_files :: files where
  "sample_files = sample_written ''artifacts/demo'' Map.empty"

lemma sample_dir: "artifact_dir (sample_world fs) = ''artifacts/demo''"
  by (simp add: artifact_dir_def sample_world_def sample_environment_def)

lemma sample_sees: "w_files (sample_world fs) = fs" "w_env (sample_world fs) = sample_environment"
  by (simp_all add: sample_world_def)

text \<open>The prover's run in any world whose environment names the sample endpoint.\<close>

lemma sample_prover_run:
  assumes "names_sample (w_env w)" and "w_writable w = (\<lambda>_. True)" and "w_mkdir w = (\<lambda>_. True)"
  shows "notarize_main sample_prover sample_demo_lib sample_json sample_events w = Inr (sample_written (artifact_dir w) (w_files w))"
proof -
  have "js_value sample_json (request_json sample_demo_lib sample_target) = Some ''request''" by (simp add: sample_json_def)
  moreover have "dl_hex_encode sample_demo_lib = to_hex" by (simp add: sample_demo_lib_def)
  ultimately show ?thesis
    using names_sample_resolves [OF assms(1), of None] sample_notarized sample_presented assms(2,3)
    by (simp add: notarize_main_def write_file_def sample_prover_def sample_events_def sample_session_def sample_written_def Let_def)
qed

lemma sample_notarize_main:
  "notarize_main sample_prover sample_demo_lib sample_json sample_events (sample_world Map.empty) = Inr sample_files"
  using sample_prover_run [of "sample_world Map.empty"] sample_environment_names
  by (simp add: sample_dir sample_sees sample_files_def) (simp add: sample_world_def)

theorem verifier_reads_what_the_prover_wrote_witness:
  "trusted_notary_keys_from sample_demo_lib (sample_world sample_files) ''artifacts/demo'' = Inr [[7]]"
proof -
  have "notarize_main sample_prover sample_demo_lib sample_json sample_events (sample_world Map.empty)
      = Inr (w_files (sample_world sample_files))"
    using sample_notarize_main by (simp add: sample_sees)
  moreover have "artifact_dir (sample_world sample_files) = artifact_dir (sample_world Map.empty)" by (simp add: sample_dir)
  moreover have "w_env (sample_world sample_files) ''WEBPROOF_TRUSTED_NOTARY_KEYS'' = None"
    by (simp add: sample_sees sample_environment_def)
  ultimately obtain target session where
      "resolve_target sample_demo_lib (w_env (sample_world Map.empty)) (ev_fixture_port sample_events) = Inr target"
      "notarize (ps_notarize sample_prover) (ev_notary_panics sample_events) (ev_elapsed sample_events) (dt_notarize target) = Inr session"
      "trusted_notary_keys_from sample_demo_lib (sample_world sample_files) (artifact_dir (sample_world sample_files)) =
        Inr [ns_notary_verifying_key session]"
    using verifier_reads_what_the_prover_wrote [OF sample_demo_specs(1) sample_json_spec sample_demo_specs(2,3)] by blast
  then show ?thesis using sample_resolves sample_notarized
    by (auto simp: sample_dir sample_sees sample_prover_def sample_events_def sample_session_def)
qed

lemma spike_reports_verified_data_instance:
  "spike_main sample_prover sample_library sample_tlsn sample_demo_lib sample_events sample_environment =
     Inr (''api.example.com'', ''/price'', String ''12345.67'') \<and>
   (\<exists>artifact d. presentation_backs sample_tlsn (chosen_verifier sample_demo_lib False [[7]]) artifact d \<and>
      ''api.example.com'' = vt_host d)"
proof -
  have v: "with_mozilla_roots [[7]] = sample_verifier" by (simp add: sample_verifier_def)
  have run: "spike_main sample_prover sample_library sample_tlsn sample_demo_lib sample_events sample_environment =
     Inr (''api.example.com'', ''/price'', String ''12345.67'')"
    using sample_resolves [of None] sample_notarized sample_presented sample_verifies
    by (simp add: spike_main_def sample_prover_def sample_events_def sample_session_def sample_target_def v
        sample_data_def from_verified_presentation_def sample_library_def sample_response_def)
  from spike_reports_verified_data [OF run] obtain target session artifact d where
      "resolve_target sample_demo_lib sample_environment (ev_fixture_port sample_events) = Inr target"
      "notarize (ps_notarize sample_prover) (ev_notary_panics sample_events) (ev_elapsed sample_events) (dt_notarize target) = Inr session"
      "presentation_backs sample_tlsn (chosen_verifier sample_demo_lib (dt_fixture target) [ns_notary_verifying_key session]) artifact d"
      "''api.example.com'' = vt_host d" by blast
  moreover from this have "target = sample_target" using sample_resolves by simp
  moreover from calculation have "session = sample_session"
    using sample_notarized by (simp add: sample_prover_def sample_events_def)
  ultimately show ?thesis using run by (auto simp: sample_session_def sample_target_def)
qed

text \<open>The signer's run on the files the prover left.\<close>

definition signs_sample :: "world \<Rightarrow> bool" where
  "signs_sample w \<longleftrightarrow>
     w_env w ''WEBPROOF_ALLOWED_HOSTS'' = Some ''api.example.com'' \<and> w_env w ''WEBPROOF_SIGNER_KEY'' = Some (to_hex sample_key) \<and>
     w_env w ''CLAIM_TTL_SECONDS'' = None \<and> w_env w ''WEBPROOF_TRUSTED_NOTARY_KEYS'' = None \<and>
     w_writable w = (\<lambda>_. True) \<and> w_clock w = Some 1700000000 \<and> w_random w = sample_nonce"

lemma sample_world_signs: "signs_sample (sample_world fs)"
  by (simp add: signs_sample_def sample_world_def sample_environment_def)

lemma written_reads:
  assumes "w_files w = sample_written dir fs" and "w_env w ''WEBPROOF_TRUSTED_NOTARY_KEYS'' = None"
  shows "w_files w (path_join dir ''presentation.tlsn.bin'') = Some sample_artifact"
    and "trusted_notary_keys_from sample_demo_lib w dir = Inr [[7]]"
    and "request_of sample_demo_lib sample_json (w_files w) dir = Some (sample_url, ''/price'', False)"
proof -
  show "w_files w (path_join dir ''presentation.tlsn.bin'') = Some sample_artifact"
    by (simp add: assms(1) sample_written_def)
  have "trim (to_hex [7]) = to_hex [7]"
    using to_hex_shape(2) [of "[7]"] hexdigit_graphic by (intro trim_graphic) (auto simp: list_all_iff)
  with sample_hex_roundtrip hexdigits_utf8 [OF to_hex_shape(2)] show "trusted_notary_keys_from sample_demo_lib w dir = Inr [[7]]"
    by (simp add: trusted_notary_keys_from_def assms read_to_string_def sample_written_def sample_demo_lib_def)
  have "read_to_string (w_files w) (path_join dir ''request.json'') = Some ''request''"
    by (rule read_text) (simp_all add: assms(1) sample_written_def concrete)
  then show "request_of sample_demo_lib sample_json (w_files w) dir = Some (sample_url, ''/price'', False)"
    by (simp add: request_of_iff sample_json_def request_json_def sample_target_def sample_demo_lib_def)
qed

lemma sample_signer_run:
  assumes "signs_sample w" and "w_files w = sample_written (artifact_dir w) fs"
  shows "verify_sign_main sample_library sample_tlsn sample_demo_lib sample_json w =
     Inr ((w_files w)(path_join (artifact_dir w) ''signed-claim.json'' \<mapsto> as_bytes ''12345.67''))"
proof -
  have w: "w_env w ''WEBPROOF_ALLOWED_HOSTS'' = Some ''api.example.com''" "w_env w ''WEBPROOF_SIGNER_KEY'' = Some (to_hex sample_key)"
      "w_env w ''CLAIM_TTL_SECONDS'' = None" "w_clock w = Some 1700000000" "w_random w = sample_nonce" "w_writable w p"
      and keys: "w_env w ''WEBPROOF_TRUSTED_NOTARY_KEYS'' = None" for p
    using assms(1) by (simp_all add: signs_sample_def)
  note reads = written_reads [OF assms(2) keys]
  have "host_allowed ''api.example.com'' ''api.example.com''"
    using trim_graphic [of "''api.example.com''"]
    by (simp add: host_allowed_def split_on_none eq_ignore_ascii_case_def graphic_def)
  moreover have "parse_signing_key sample_demo_lib (to_hex sample_key) = Inr sample_key"
    using parse_signing_key_hex [OF sample_demo_specs(1), of sample_key "[]" "[]"]
    by (simp add: sample_key_def sample_demo_lib_def)
  moreover have "parse_i64 (trim ''300'') = Some 300"
    using trim_graphic [of "''300''"]
    by (simp add: graphic_def parse_i64_def parse_int_def decimal_def is_digit_def i64_bounds)
  moreover have "chosen_verifier sample_demo_lib False [[7]] = sample_verifier"
    by (simp add: chosen_verifier_def sample_verifier_def with_mozilla_roots_def)
  moreover have "\<lparr>cs_key = sample_key\<rparr> = sample_signer" by (simp add: sample_signer_def)
  moreover have "js_signed_claim sample_json sample_signed = Some ''12345.67''" by (simp add: sample_json_def)
  moreover have "url_host_str sample_url = Some ''api.example.com''" by (simp add: sample_url_def)
  ultimately show ?thesis
    unfolding verify_sign_main_iff using sample_signs w reads
    by (intro exI conjI) (assumption | simp only: option.case)+
qed

lemma sample_verify_sign_main:
  "verify_sign_main sample_library sample_tlsn sample_demo_lib sample_json (sample_world sample_files) =
     Inr (sample_files(path_join ''artifacts/demo'' ''signed-claim.json'' \<mapsto> as_bytes ''12345.67''))"
  using sample_signer_run [OF sample_world_signs, of sample_files Map.empty] by (simp add: sample_dir sample_sees sample_files_def)

lemma sample_trusted: "trusted_notary_keys_from sample_demo_lib (sample_world sample_files) ''artifacts/demo'' = Inr [[7]]"
  by (rule written_reads(2)) (simp_all add: sample_sees sample_files_def sample_environment_def)

lemma sample_artifact_file: "sample_files (path_join ''artifacts/demo'' ''presentation.tlsn.bin'') = Some sample_artifact"
  by (simp add: sample_files_def sample_written_def)

theorem verify_sign_writes_verified_claim_witness:
  "\<exists>roots (d :: VerifiedTlsData) (s :: SignedClaim).
     presentation_backs sample_tlsn \<lparr>server_roots = roots, trusted_notary_keys = [[7]]\<rparr> sample_artifact d \<and>
     source_host (sg_claim s) = vt_host d \<and> host_allowed ''api.example.com'' (source_host (sg_claim s))"
proof -
  obtain artifact fixture keys allowed and d :: VerifiedTlsData and s :: SignedClaim where
      "sample_files (path_join ''artifacts/demo'' ''presentation.tlsn.bin'') = Some artifact"
      "trusted_notary_keys_from sample_demo_lib (sample_world sample_files) ''artifacts/demo'' = Inr keys"
      "presentation_backs sample_tlsn \<lparr>server_roots = (if fixture then [dl_ca_cert_der sample_demo_lib] else []),
         trusted_notary_keys = keys\<rparr> artifact d"
      "sample_environment ''WEBPROOF_ALLOWED_HOSTS'' = Some allowed" "host_allowed allowed (source_host (sg_claim s))"
      "source_host (sg_claim s) = vt_host d"
    using verify_sign_writes_verified_claim [OF sample_verify_sign_main] unfolding sample_dir sample_sees by blast
  moreover from this have "artifact = sample_artifact" "keys = [[7]]" "allowed = ''api.example.com''"
    using sample_trusted sample_artifact_file by (simp_all add: sample_environment_def)
  ultimately show ?thesis by blast
qed

end
