(* ===== verification/CLI_Samples.thy ===== *)
theory CLI_Samples
  imports Command_Line SDK_Samples Demo_Samples
begin

text \<open>
  A process that runs the \<open>demo\<close> command against the concrete cluster, with the concrete binaries.  Its
  environment names another endpoint in \<open>DEMO_URL\<close>, which the options override.
\<close>

definition sample_cli :: "(TransactionInstruction list \<times> Pubkey) cli_lib" where
  "sample_cli =
     \<lparr>cl_endpoint_ok = (\<lambda>_. True),
      cl_keypair = (\<lambda>t. if t = ''[6]'' then Some (replicate 32 6) else None),
      cl_pubkey = (\<lambda>t. if t = DEFAULT_PROGRAM_ID then Some (replicate 32 3) else None),
      cl_claim_json = (\<lambda>t. if t = ''12345.67'' then Some (signed_file sample_signed) else None),
      cl_web3 = sample_web3, cl_network = (\<lambda>_. sample_network), cl_fetch = (\<lambda>_. sample_fetch)\<rparr>"

definition sample_process :: cli_process where
  "sample_process =
     \<lparr>cp_world = \<lparr>w_env = [''DEMO_URL'' \<mapsto> ''https://other.example/'', ''SOLANA_KEYPAIR'' \<mapsto> ''/id.json'',
          ''WEBPROOF_ALLOWED_HOSTS'' \<mapsto> ''api.example.com'', ''WEBPROOF_SIGNER_KEY'' \<mapsto> to_hex sample_key],
        w_files = [''/id.json'' \<mapsto> as_bytes ''[6]''], w_writable = (\<lambda>_. True), w_mkdir = (\<lambda>_. True),
        w_clock = Some 1700000000, w_random = sample_nonce\<rparr>,
      cp_cwd = ''/work'', cp_repo_root = ''/repo'', cp_starts = (\<lambda>_. True)\<rparr>"

definition sample_chain :: ChainOpts where
  "sample_chain = chainOptions (w_env (cp_world sample_process)) None None None"

lemma sample_artifactDir: "artifactDir sample_process (Some ''out'') = ''/work/out''"
  by (simp add: artifactDir_def sample_process_def or_else_def js_resolve_def js_join_def)

lemma sample_chain_options: "keypair sample_chain = ''/id.json''" "programId sample_chain = DEFAULT_PROGRAM_ID"
  by (simp_all add: sample_chain_def chainOptions_def sample_process_def or_else_def)

lemma sample_cli_specs: "claim_text_spec sample_json sample_cli" "keypair_spec sample_cli"
  by (auto simp: claim_text_spec_def keypair_spec_def sample_json_def sample_cli_def concrete)

section \<open>Proving without options\<close>

definition local_target :: DemoTarget where
  "local_target =
     \<lparr>dt_url = fixture_url, dt_field = ''/meta/version'',
      dt_notarize = \<lparr>server_addr = (''127.0.0.1'', 8080), server_name = ''test-server.io'', uri = ''/formats/json'',
        extra_headers = [], server_trust = Custom [[1, 2, 3]], max_sent_data = 4096, max_recv_data = 16384,
        notary_key_seed = DEV_NOTARY_KEY\<rparr>,
      dt_fixture = True\<rparr>"

definition local_json :: json_lib where
  "local_json =
     \<lparr>js_from_str = (\<lambda>t. if t = ''request'' then Some (request_json sample_demo_lib local_target) else None),
      js_signed_claim = (\<lambda>_. None),
      js_value = (\<lambda>v. if v = request_json sample_demo_lib local_target then Some ''request'' else None)\<rparr>"

definition local_events :: run_events where
  "local_events = \<lparr>ev_fixture_port = Some 8080, ev_notary_panics = False, ev_elapsed = 3\<rparr>"

lemma local_resolves:
  "resolve_target sample_demo_lib (w_env (child_world sample_process (prove_env None None dir))) (Some 8080) = Inr local_target"
  by (simp add: resolve_target_def notary_key_def env_usize_def merged_def prove_env_def sample_process_def child_world_def
      sample_demo_lib_def FIXTURE_JSON_PATH_def local_target_def normalize_field_def DEFAULT_MAX_SENT_DATA_def
      DEFAULT_MAX_RECV_DATA_def)

lemma local_notarized: "notarize sample_notarize_lib False 3 (dt_notarize local_target) = Inr sample_session"
  by (simp add: notarize_def NOTARIZE_TIMEOUT_SECS_def notarize_outcome_def prover_request_def notary_def prover_finish_def
      sample_notarize_lib_def sample_tls_transcript_def sample_session_def sample_artifact_def Let_def)

lemma local_json_spec: "json_spec local_json"
  by (auto simp: json_spec_def local_json_def concrete)

lemma local_prove:
  "\<exists>p'. cli_prove (notarize_main sample_prover sample_demo_lib local_json local_events) None None (Some ''out'') sample_process = Inr p'"
proof -
  have "js_value local_json (request_json sample_demo_lib local_target) = Some ''request''" by (simp add: local_json_def)
  moreover have "w_mkdir (child_world sample_process e) d" "w_writable (child_world sample_process e) d" for e d
    by (simp_all add: child_world_def sample_process_def)
  ultimately have "\<exists>fs. notarize_main sample_prover sample_demo_lib local_json local_events
      (child_world sample_process (prove_env None None ''/work/out'')) = Inr fs"
    using local_resolves local_notarized sample_presented
    by (simp add: notarize_main_def write_file_def sample_prover_def local_events_def sample_session_def Let_def)
  then show ?thesis unfolding cli_prove_def runRust_Inr sample_artifactDir by (auto simp: sample_process_def)
qed

text \<open>The environment names an endpoint, and still the test server is notarized.\<close>

lemma prove_target_from_options_instance:
  "w_env (cp_world sample_process) ''DEMO_URL'' = Some ''https://other.example/'' \<and>
   (\<exists>p'. cli_prove (notarize_main sample_prover sample_demo_lib local_json local_events) None None (Some ''out'') sample_process = Inr p' \<and>
      request_of sample_demo_lib local_json (w_files (cp_world p')) ''/work/out'' = Some (fixture_url, ''/meta/version'', True))"
proof -
  obtain p' where run: "cli_prove (notarize_main sample_prover sample_demo_lib local_json local_events) None None (Some ''out'')
      sample_process = Inr p'"
    using local_prove by blast
  obtain u f fixture where "request_of sample_demo_lib local_json (w_files (cp_world p')) ''/work/out'' = Some (u, f, fixture)" "fixture"
      "dl_parse_url sample_demo_lib (''https://'' @ dl_server_domain sample_demo_lib @ FIXTURE_JSON_PATH) = Some u"
      "f = normalize_field (or_else None ''/meta/version'')"
    using prove_target_from_options [OF local_json_spec sample_demo_specs(2) run, THEN conjunct2] by (auto simp: sample_artifactDir)
  with run show ?thesis
    by (simp add: sample_process_def sample_demo_lib_def FIXTURE_JSON_PATH_def or_else_def normalize_field_def)
qed

section \<open>A whole demo run\<close>

lemma sample_parse: "parseSignedClaim sample_digest (JSON_parse (signed_file sample_signed)) = Inr sample_parsed"
  unfolding sample_parsed_def
  by (subst parseSignedClaim_exact) (use sample_claim_encodable sample_times in \<open>simp_all add: sample_signed_def\<close>)

definition after_prove :: cli_process where
  "after_prove = sample_process\<lparr>cp_world := (cp_world sample_process)
     \<lparr>w_files := sample_written ''/work/out'' (w_files (cp_world sample_process))\<rparr>\<rparr>"

definition after_sign :: cli_process where
  "after_sign = after_prove\<lparr>cp_world := (cp_world after_prove)
     \<lparr>w_files := (w_files (cp_world after_prove))(path_join ''/work/out'' ''signed-claim.json'' \<mapsto> as_bytes ''12345.67'')\<rparr>\<rparr>"

abbreviation notarize_bin :: "world \<Rightarrow> RunError + files" where
  "notarize_bin \<equiv> notarize_main sample_prover sample_demo_lib sample_json sample_events"

abbreviation verify_bin :: "world \<Rightarrow> MainError + files" where
  "verify_bin \<equiv> verify_sign_main sample_library sample_tlsn sample_demo_lib sample_json"

lemma sample_child_names:
  "names_sample (merged (w_env (cp_world sample_process)) (prove_env (Some ''https://api.example.com/data'') (Some ''price'') dir))"
  by (simp add: names_sample_def merged_def prove_env_def sample_process_def)

lemma sample_prove_stage:
  "runRust bin notarize_bin (prove_env (Some ''https://api.example.com/data'') (Some ''price'') ''/work/out'') sample_process = Inr after_prove"
  using sample_prover_run [OF sample_child_names [of "''/work/out''", folded child_world_simps(3)]]
  by (simp add: runRust_Inr after_prove_def) (simp add: child_world_def sample_process_def)


lemma sample_sign_stage:
  "runRust bin verify_bin [(''WEBPROOF_ARTIFACT_DIR'', Some ''/work/out'')] after_prove = Inr after_sign"
proof -
  let ?w = "child_world after_prove [(''WEBPROOF_ARTIFACT_DIR'', Some ''/work/out'')]"
  have "signs_sample ?w" by (simp add: signs_sample_def child_world_def after_prove_def sample_process_def merged_def)
  moreover have "w_files ?w = sample_written (artifact_dir ?w) (w_files (cp_world sample_process))" by (simp add: after_prove_def)
  ultimately have "verify_bin ?w = Inr ((w_files ?w)(path_join (artifact_dir ?w) ''signed-claim.json'' \<mapsto> as_bytes ''12345.67''))"
    by (rule sample_signer_run)
  moreover have "cp_starts after_prove bin" by (simp add: after_prove_def sample_process_def)
  ultimately show ?thesis by (simp add: runRust_Inr after_sign_def)
qed

lemma sample_client_stage: "clientFor sample_cli sample_chain (w_files (cp_world after_sign)) = Inr (sample_client, replicate 32 6)"
proof -
  have "read_to_string (w_files (cp_world after_sign)) ''/id.json'' = Some ''[6]''"
    by (rule read_text) (simp_all add: after_sign_def after_prove_def sample_written_def sample_process_def path_join_def concrete)
  then show ?thesis by (simp add: clientFor_Inr sample_chain_options sample_cli_def sample_client_def)
qed

lemma sample_demo_run:
  "\<exists>L'. cli_demo notarize_bin verify_bin sample_cli sample_chain (Some ''https://api.example.com/data'') (Some ''price'')
     (Some ''out'') sample_process empty_ledger = Inr (after_sign, L', sample_address [as_bytes ''claim'', sample_digest run_bytes])"
proof -
  have "claim_json sample_cli (w_files (cp_world after_sign)) ''/work/out'' = Inr (JSON_parse (signed_file sample_signed))"
    using claim_json_written [OF sample_cli_specs(1), of sample_signed "''12345.67''" "w_files (cp_world after_sign)"
        sample_process "Some ''out''"]
    by (simp add: sample_json_def after_sign_def sample_artifactDir)
  then show ?thesis
    using sample_prove_stage sample_sign_stage sample_parse sample_client_stage sample_onchain
    by (auto simp: cli_demo_def sample_artifactDir Let_def) (simp add: sample_cli_def sample_web3_def)
qed

theorem demo_command_stores_verified_data_witness:
  "\<exists>L' v (d :: VerifiedTlsData) keys artifact.
     cli_demo notarize_bin verify_bin sample_cli sample_chain (Some ''https://api.example.com/data'') (Some ''price'')
       (Some ''out'') sample_process empty_ledger = Inr (after_sign, L', sample_address [as_bytes ''claim'', sample_digest run_bytes]) \<and>
     L' (sample_address [as_bytes ''claim'', sample_digest run_bytes]) = Some (ClaimAccount v) \<and>
     presentation_backs sample_tlsn (chosen_verifier sample_demo_lib False keys) artifact d \<and>
     vc_source_host v = vt_host d \<and> vc_claim_key v = ''/price'' \<and> vc_provenance_hash v = sample_digest artifact"
proof -
  obtain L' where run: "cli_demo notarize_bin verify_bin sample_cli sample_chain (Some ''https://api.example.com/data'') (Some ''price'')
     (Some ''out'') sample_process empty_ledger = Inr (after_sign, L', sample_address [as_bytes ''claim'', sample_digest run_bytes])"
    using sample_demo_run by blast
  have specs: "sha256_spec (rt_hash sample_runtime)" "lib_sha256 sample_library = rt_hash sample_runtime"
      "anchor_account_spec (rt_hash sample_runtime) (rt_account_bytes sample_runtime)"
      "borsh_spec (rt_try_to_vec sample_runtime)" "cl_pubkey sample_cli (programId sample_chain) = Some (replicate 32 3)"
    using sha256_spec_sample anchor_account_spec_sample borsh_spec_sdk
    by (simp_all add: sample_runtime_def sample_library_def sample_chain_options) (simp add: sample_cli_def)
  have cluster: "cluster_spec sample_runtime sample_native (cl_web3 sample_cli) \<lparr>wp_programId = replicate 32 3\<rparr> 893 True (Some sample_time)
      (cl_network sample_cli (rpc sample_chain)) (cl_fetch sample_cli (rpc sample_chain))"
    using sample_cluster by (simp add: sample_cli_def sample_client_def)
  have "inputs_typed sample_library d (dt_field sample_target) (w_random (cp_world sample_process))"
    if "verify sample_tlsn self artifact = Inr d" for self artifact d
  proof -
    have "vt_host d = vt_host sample_data" "vt_response d = vt_response sample_data"
      using that by (auto simp: verify_iff presentation_backs_def sample_tlsn_def sample_data_def from_verified_presentation_def)
    with sample_inputs_typed show ?thesis by (simp add: inputs_typed_def sample_target_def sample_process_def)
  qed
  then have typed: "\<forall>self artifact d. verify sample_tlsn self artifact = Inr d \<longrightarrow>
      inputs_typed sample_library d (dt_field sample_target) (w_random (cp_world sample_process))" by blast
  note stored = demo_command_stores_verified_data [OF sample_json_spec sample_demo_specs(2) sample_cli_specs specs cluster
      names_sample_resolves [OF sample_child_names] typed run, THEN conjunct2]
  have "dt_fixture sample_target = False" "dt_field sample_target = ''/price''" "rt_hash sample_runtime = sample_digest"
    by (simp_all add: sample_target_def sample_runtime_def)
  with stored run show ?thesis by auto
qed

end
