(* ===== verification/Conformance.thy ===== *)
theory Conformance
  imports Claim_Signer
begin

text \<open>
  The repository's own unit tests (\<open>mod tests\<close> of \<open>crates/webproof-core\<close> and
  \<open>crates/webproof-verifier\<close>), translated and proved on the model.  A test is the conjunction of its
  assertions; an \<open>unwrap\<close> of a failure makes it false.  Library functions stay parameters, and each
  lemma says what a test relies on.
\<close>

section \<open>Tests of the claim\<close>

definition claim_fixture :: ClaimV1 where
  "claim_fixture =
     \<lparr>version = 1, source_host = ''api.example.com'', request_path_hash = replicate 32 1,
      claim_key = ''price'', claim_value = ''12345.67'', issued_at = 1700000000,
      expires_at = 1700000300, nonce = replicate 32 2, provenance_hash = replicate 32 3\<rparr>"

definition hash_is_sha256_of_borsh :: "(bytes \<Rightarrow> bytes) \<Rightarrow> (ClaimV1 \<Rightarrow> bytes option) \<Rightarrow> bool" where
  "hash_is_sha256_of_borsh sha256 to_vec \<longleftrightarrow>
     (case (claim_id sha256 to_vec claim_fixture, canonical_bytes to_vec claim_fixture) of
        (Some i, Some bs) \<Rightarrow> i = sha256 bs
      | _ \<Rightarrow> False)"

definition validates_bounds_and_time :: bool where
  "validates_bounds_and_time \<longleftrightarrow>
     is_ok (validate claim_fixture 1700000010 300) \<and>
     validate (claim_fixture\<lparr>claim_value := replicate 257 CHR ''x''\<rparr>) 1700000010 300 = Inl (Length ''claim_value'')"

definition rejects_expired_future_and_bad_window :: bool where
  "rejects_expired_future_and_bad_window \<longleftrightarrow>
     validate claim_fixture 1700000301 400 = Inl ClaimError.Expired \<and>
     validate (claim_fixture\<lparr>issued_at := 1700000100, expires_at := 1700000400\<rparr>) 1700000000 400 = Inl ClaimError.Future \<and>
     validate (claim_fixture\<lparr>expires_at := issued_at claim_fixture\<rparr>) 1700000000 400 = Inl ClaimError.TimeWindow"

definition rejects_too_old_and_wrong_version :: bool where
  "rejects_too_old_and_wrong_version \<longleftrightarrow>
     validate (claim_fixture\<lparr>expires_at := 1700000500\<rparr>) 1700000400 300 = Inl ClaimError.TooOld \<and>
     validate (claim_fixture\<lparr>version := 2\<rparr>) 1700000010 300 = Inl ClaimError.Version"

definition enforces_exact_length_boundaries :: bool where
  "enforces_exact_length_boundaries \<longleftrightarrow>
     is_ok (validate (claim_fixture\<lparr>source_host := replicate 128 CHR ''h'', claim_key := replicate 128 CHR ''k'',
                            claim_value := replicate 256 CHR ''v''\<rparr>) 1700000010 300) \<and>
     validate (claim_fixture\<lparr>source_host := replicate 129 CHR ''h''\<rparr>) 1700000010 300 = Inl (Length ''source_host'') \<and>
     validate (claim_fixture\<lparr>claim_key := replicate 129 CHR ''k''\<rparr>) 1700000010 300 = Inl (Length ''claim_key'') \<and>
     validate (claim_fixture\<lparr>claim_key := []\<rparr>) 1700000010 300 = Inl (Length ''claim_key'')"

text \<open>The decoder \<open>borsh::from_slice\<close> accepts the whole input or fails.\<close>

definition borsh_round_trips :: "(ClaimV1 \<Rightarrow> bytes option) \<Rightarrow> (bytes \<Rightarrow> ClaimV1 option) \<Rightarrow> bool" where
  "borsh_round_trips to_vec from_slice \<longleftrightarrow>
     (case canonical_bytes to_vec claim_fixture of
        None \<Rightarrow> False
      | Some bytes \<Rightarrow>
          (case from_slice bytes of
             None \<Rightarrow> False
           | Some back \<Rightarrow> back = claim_fixture \<and> canonical_bytes to_vec back = Some bytes))"

definition matches_repository_golden_vector ::
  "(bytes \<Rightarrow> bytes) \<Rightarrow> (ClaimV1 \<Rightarrow> bytes option) \<Rightarrow> (bytes \<Rightarrow> string) \<Rightarrow> string \<Rightarrow> bool" where
  "matches_repository_golden_vector sha256 to_vec hex_encode expected \<longleftrightarrow>
     map_option hex_encode (canonical_bytes to_vec claim_fixture) = Some expected \<and>
     map_option hex_encode (claim_id sha256 to_vec claim_fixture) =
       Some ''6a32a1a241721185d051f0c694ed0ee20f1b36307dd853b5557735708b5e487d''"

section \<open>Tests of the signer\<close>

definition Mock :: "bool \<Rightarrow> bytes \<Rightarrow> unit + VerifiedTlsData" where
  "Mock self a =
     (if \<not> self then Inl ()
      else Inr (from_verified_presentation ''api.example.com'' ''/data'' (Object [(''price'', String ''12.34'')]) a))"

definition signer_fixture :: ClaimSigner where
  "signer_fixture = ClaimSigner_new (replicate 32 7)"

text \<open>\<open>Url::parse(u).unwrap()\<close> followed by the call under test; \<open>None\<close> if the URL does not parse.\<close>

definition signs ::
  "library \<Rightarrow> (string \<Rightarrow> Url option) \<Rightarrow> bool \<Rightarrow> string \<Rightarrow> string \<Rightarrow> string \<Rightarrow> bytes \<Rightarrow> (Error + SignedClaim) option" where
  "signs lib url_parse mock a u field n =
     map_option (\<lambda>url. verify_and_sign lib signer_fixture (Mock mock) (as_bytes a) url field 100 300 n) (url_parse u)"

definition verified_proof_can_be_signed ::
  "library \<Rightarrow> (bytes \<Rightarrow> bytes \<Rightarrow> bytes \<Rightarrow> bool) \<Rightarrow> (string \<Rightarrow> Url option) \<Rightarrow> bool" where
  "verified_proof_can_be_signed lib ed_verify url_parse \<longleftrightarrow>
     (case signs lib url_parse True ''proof'' ''https://api.example.com/data'' ''/price'' (replicate 32 9) of
        Some (Inr out) \<Rightarrow>
          (case signing_message (lib_to_vec lib) (sg_claim out) of
             Some m \<Rightarrow> ed_verify (public_key lib signer_fixture) m (sg_signature out)
           | None \<Rightarrow> False)
      | _ \<Rightarrow> False)"

definition failed_proof_produces_no_signature :: "library \<Rightarrow> (string \<Rightarrow> Url option) \<Rightarrow> bool" where
  "failed_proof_produces_no_signature lib url_parse \<longleftrightarrow>
     signs lib url_parse False ''bad'' ''https://api.example.com/data'' ''/price'' (replicate 32 9) = Some (Inl Tlsn)"

definition non_https_expected_url_fails :: "library \<Rightarrow> (string \<Rightarrow> Url option) \<Rightarrow> bool" where
  "non_https_expected_url_fails lib url_parse \<longleftrightarrow>
     signs lib url_parse True ''p'' ''http://api.example.com/data'' ''/price'' (replicate 32 0) = Some (Inl Host)"

definition mutations :: "(ClaimV1 \<Rightarrow> ClaimV1) list" where
  "mutations =
     [\<lambda>c. c\<lparr>source_host := ''api.evil.com''\<rparr>, \<lambda>c. c\<lparr>claim_key := ''/other''\<rparr>, \<lambda>c. c\<lparr>claim_value := ''99.99''\<rparr>,
      \<lambda>c. c\<lparr>issued_at := issued_at c + 1\<rparr>, \<lambda>c. c\<lparr>expires_at := expires_at c + 1\<rparr>,
      \<lambda>c. c\<lparr>nonce := replicate 32 0xAA\<rparr>, \<lambda>c. c\<lparr>provenance_hash := replicate 32 0xBB\<rparr>, \<lambda>c. c\<lparr>version := 2\<rparr>]"

definition any_modified_claim_field_breaks_the_signature ::
  "library \<Rightarrow> (bytes \<Rightarrow> bytes \<Rightarrow> bytes \<Rightarrow> bool) \<Rightarrow> (string \<Rightarrow> Url option) \<Rightarrow> bool" where
  "any_modified_claim_field_breaks_the_signature lib ed_verify url_parse \<longleftrightarrow>
     (case signs lib url_parse True ''proof'' ''https://api.example.com/data'' ''/price'' (replicate 32 9) of
        Some (Inr out) \<Rightarrow>
          (let verifies = (\<lambda>c. map_option (\<lambda>m. ed_verify (public_key lib signer_fixture) m (sg_signature out))
                             (signing_message (lib_to_vec lib) c))
           in verifies (sg_claim out) = Some True \<and>
              list_all (\<lambda>mutate. verifies (mutate (sg_claim out)) = Some False) mutations)
      | _ \<Rightarrow> False)"

definition deceptive_host_and_missing_field_fail :: "library \<Rightarrow> (string \<Rightarrow> Url option) \<Rightarrow> bool" where
  "deceptive_host_and_missing_field_fail lib url_parse \<longleftrightarrow>
     signs lib url_parse True ''p'' ''https://api.example.com.attacker.com/data'' ''/price'' (replicate 32 0) = Some (Inl Host) \<and>
     signs lib url_parse True ''p'' ''https://api.example.com/data'' ''/missing'' (replicate 32 0) = Some (Inl Field)"

section \<open>The claim tests pass\<close>

lemma claim_is_golden: "claim_fixture = golden_claim"
  by (simp add: claim_fixture_def golden_claim_def)

lemma validate_tests:
  "validates_bounds_and_time" "rejects_expired_future_and_bad_window"
  "rejects_too_old_and_wrong_version" "enforces_exact_length_boundaries"
  by (simp_all add: validates_bounds_and_time_def rejects_expired_future_and_bad_window_def
      rejects_too_old_and_wrong_version_def enforces_exact_length_boundaries_def claim_fixture_def validate_def bounded_def
      ensure_def VERSION_def MAX_SOURCE_HOST_def MAX_CLAIM_KEY_def MAX_CLAIM_VALUE_def MAX_FUTURE_SKEW_SECONDS_def
      sint_saturating_add sint_saturating_sub clamp_i64_def i64_bounds)

lemma hash_test: "borsh_spec to_vec \<Longrightarrow> hash_is_sha256_of_borsh sha256 to_vec"
  using borsh_canonical [of to_vec claim_fixture] golden_encodable
  by (simp add: hash_is_sha256_of_borsh_def claim_id_def claim_is_golden)

text \<open>Any decoder that inverts the serializer on encodable claims passes.\<close>

lemma borsh_round_trip_test:
  assumes "borsh_spec to_vec" and "\<And>c b. encodable c \<Longrightarrow> to_vec c = Some b \<Longrightarrow> from_slice b = Some c"
  shows "borsh_round_trips to_vec from_slice"
proof -
  have "canonical_bytes to_vec claim_fixture = Some (enc_claim (claim_fields claim_fixture))"
    using borsh_canonical [OF assms(1)] golden_encodable by (simp add: claim_is_golden)
  moreover from this have "from_slice (enc_claim (claim_fields claim_fixture)) = Some claim_fixture"
    using assms(2) golden_encodable by (simp add: canonical_bytes_def claim_is_golden)
  ultimately show ?thesis by (simp add: borsh_round_trips_def)
qed

text \<open>
  Of the golden-vector test, the canonical bytes hold for every Borsh serializer that keeps the
  documented layout; what remains is one fact about SHA-256.
\<close>

definition golden_bytes :: bytes where
  "golden_bytes =
     [0x01, 0x0f, 0x00, 0x00, 0x00, 0x61, 0x70, 0x69, 0x2e, 0x65, 0x78, 0x61, 0x6d, 0x70, 0x6c, 0x65,
      0x2e, 0x63, 0x6f, 0x6d] @ replicate 32 0x01 @
     [0x05, 0x00, 0x00, 0x00, 0x70, 0x72, 0x69, 0x63, 0x65,
      0x08, 0x00, 0x00, 0x00, 0x31, 0x32, 0x33, 0x34, 0x35, 0x2e, 0x36, 0x37,
      0x00, 0xf1, 0x53, 0x65, 0x00, 0x00, 0x00, 0x00, 0x2c, 0xf2, 0x53, 0x65, 0x00, 0x00, 0x00, 0x00]
     @ replicate 32 0x02 @ replicate 32 0x03"

lemma golden_vector_test:
  assumes "borsh_spec to_vec"
  shows "matches_repository_golden_vector sha256 to_vec hex_encode (hex_encode golden_bytes) \<longleftrightarrow>
    hex_encode (sha256 golden_bytes) = ''6a32a1a241721185d051f0c694ed0ee20f1b36307dd853b5557735708b5e487d''"
proof -
  have "canonical_bytes to_vec claim_fixture = Some golden_bytes"
    using assms golden_encodable golden_vector
    by (auto simp: borsh_spec_def canonical_bytes_def claim_is_golden golden_bytes_def)
  then show ?thesis by (simp add: matches_repository_golden_vector_def claim_id_def)
qed

section \<open>The signer tests pass\<close>

text \<open>What the tests rely on in the \<open>url\<close> crate, in \<open>serde_json\<close> and in Ed25519.\<close>

definition test_urls_spec :: "(string \<Rightarrow> Url option) \<Rightarrow> bool" where
  "test_urls_spec url_parse \<longleftrightarrow>
     (\<forall>scheme host. (scheme, host) \<in> {(''https'', ''api.example.com''), (''http'', ''api.example.com''),
          (''https'', ''api.example.com.attacker.com'')} \<longrightarrow>
        (\<exists>url. url_parse (scheme @ ''://'' @ host @ ''/data'') = Some url \<and> url_scheme url = scheme \<and>
           url_host_str url = Some host))"

definition test_pointer_spec :: "library \<Rightarrow> bool" where
  "test_pointer_spec lib \<longleftrightarrow>
     (\<forall>k val q. CHR ''/'' \<notin> set q \<longrightarrow> CHR ''~'' \<notin> set q \<longrightarrow>
        lib_pointer lib (Object [(k, val)]) (CHR ''/'' # q) = (if q = k then Some val else None))"

text \<open>A signature verifies for the message that was signed and, as forging is infeasible, for no other.\<close>

definition ed25519_binding :: "library \<Rightarrow> (bytes \<Rightarrow> bytes \<Rightarrow> bytes \<Rightarrow> bool) \<Rightarrow> bytes \<Rightarrow> bool" where
  "ed25519_binding lib ed_verify k \<longleftrightarrow>
     (\<forall>m m'. ed_verify (lib_verifying_key lib k) m' (lib_sign lib k m) \<longleftrightarrow> m' = m)"

lemma test_urls:
  assumes "test_urls_spec url_parse"
  obtains u v w where "url_parse ''https://api.example.com/data'' = Some u" "expects_host u ''api.example.com''"
    and "url_parse ''http://api.example.com/data'' = Some v" "url_scheme v = ''http''"
    and "url_parse ''https://api.example.com.attacker.com/data'' = Some w"
      "url_host_str w = Some ''api.example.com.attacker.com''"
  using assms [unfolded test_urls_spec_def, rule_format, of "''https''" "''api.example.com''"]
    assms [unfolded test_urls_spec_def, rule_format, of "''http''" "''api.example.com''"]
    assms [unfolded test_urls_spec_def, rule_format, of "''https''" "''api.example.com.attacker.com''"] that
  by (auto simp: expects_host_def)

lemma refusal_tests:
  assumes "test_urls_spec url_parse" and "test_pointer_spec lib"
  shows "failed_proof_produces_no_signature lib url_parse"
    and "non_https_expected_url_fails lib url_parse"
    and "deceptive_host_and_missing_field_fail lib url_parse"
proof -
  obtain u v w where u: "url_parse ''https://api.example.com/data'' = Some u" "expects_host u ''api.example.com''"
    and v: "url_parse ''http://api.example.com/data'' = Some v" "url_scheme v = ''http''"
    and w: "url_parse ''https://api.example.com.attacker.com/data'' = Some w"
      "url_host_str w = Some ''api.example.com.attacker.com''"
    using assms(1) by (rule test_urls)
  show "failed_proof_produces_no_signature lib url_parse"
    by (simp add: failed_proof_produces_no_signature_def signs_def u verify_and_sign_def Mock_def)
  show "non_https_expected_url_fails lib url_parse"
    by (simp add: non_https_expected_url_fails_def signs_def v verify_and_sign_def Mock_def sign_verified_def)
  show "deceptive_host_and_missing_field_fail lib url_parse"
    using u(2) assms(2)
    by (simp add: deceptive_host_and_missing_field_fail_def signs_def u(1) w verify_and_sign_def Mock_def
        sign_verified_def from_verified_presentation_def expects_host_def test_pointer_spec_def)
qed

definition test_claim :: "library \<Rightarrow> ClaimV1" where
  "test_claim lib =
     \<lparr>version = 1, source_host = ''api.example.com'', request_path_hash = lib_sha256 lib (as_bytes ''/data''),
      claim_key = ''/price'', claim_value = ''12.34'', issued_at = 100, expires_at = 400,
      nonce = replicate 32 9, provenance_hash = lib_sha256 lib (as_bytes ''proof'')\<rparr>"

lemma test_claim_encodable:
  assumes "sha256_spec (lib_sha256 lib)"
  shows "encodable (test_claim lib)" and "list_all (\<lambda>mutate. encodable (mutate (test_claim lib))) mutations"
  using assms
  by (simp_all add: test_claim_def mutations_def sha256_spec_def encodable_def claim_typed_def concrete)

lemma test_signed:
  assumes "test_urls_spec url_parse" and "test_pointer_spec lib" and "sha256_spec (lib_sha256 lib)"
    and "borsh_spec (lib_to_vec lib)"
  obtains out where
    "signs lib url_parse True ''proof'' ''https://api.example.com/data'' ''/price'' (replicate 32 9) = Some (Inr out)"
    and "sg_claim out = test_claim lib"
    and "sg_signature out = lib_sign lib (replicate 32 7) (DOMAIN_SEPARATOR @ enc_claim (claim_fields (test_claim lib)))"
proof -
  obtain u where u: "url_parse ''https://api.example.com/data'' = Some u" "expects_host u ''api.example.com''"
    using assms(1) by (rule test_urls)
  let ?d = "from_verified_presentation ''api.example.com'' ''/data'' (Object [(''price'', String ''12.34'')]) (as_bytes ''proof'')"
  have built: "built_claim lib ?d ''/price'' ''12.34'' 100 300 (replicate 32 9) = test_claim lib"
    by (simp add: built_claim_def test_claim_def VERSION_def from_verified_presentation_def saturating_add_def clamp_i64_def i64_bounds)
  have "addressed_scalar lib (vt_response ?d) ''/price'' = Some ''12.34''"
    using assms(2) by (simp add: addressed_scalar_def test_pointer_spec_def from_verified_presentation_def)
  moreover have "validate (test_claim lib) 100 300 = Inr ()"
    by (simp add: test_claim_def validate_def bounded_def ensure_def VERSION_def MAX_SOURCE_HOST_def MAX_CLAIM_KEY_def
      MAX_CLAIM_VALUE_def MAX_FUTURE_SKEW_SECONDS_def sint_saturating_add sint_saturating_sub clamp_i64_def i64_bounds)
  ultimately show thesis
    using u that borsh_canonical [OF assms(4) test_claim_encodable(1) [OF assms(3)]]
    by (simp add: signs_def verify_and_sign_def Mock_def sign_verified_alt built Let_def signer_fixture_def ClaimSigner_new_def)
       (simp add: from_verified_presentation_def)
qed

text \<open>Each of the eight mutations changes the claim, as the artifact does not hash to the byte 0xBB repeated.\<close>

lemma mutations_change:
  "lib_sha256 lib (as_bytes ''proof'') \<noteq> replicate 32 0xBB \<Longrightarrow>
     list_all (\<lambda>mutate. mutate (test_claim lib) \<noteq> test_claim lib) mutations"
  by (simp add: mutations_def test_claim_def)

lemma signature_tests:
  assumes "test_urls_spec url_parse" and "test_pointer_spec lib" and "sha256_spec (lib_sha256 lib)"
    and "borsh_spec (lib_to_vec lib)" and "ed25519_binding lib ed_verify (replicate 32 7)"
    and "lib_sha256 lib (as_bytes ''proof'') \<noteq> replicate 32 0xBB"
  shows "verified_proof_can_be_signed lib ed_verify url_parse"
    and "any_modified_claim_field_breaks_the_signature lib ed_verify url_parse"
proof -
  obtain out where out:
      "signs lib url_parse True ''proof'' ''https://api.example.com/data'' ''/price'' (replicate 32 9) = Some (Inr out)"
      "sg_claim out = test_claim lib"
      "sg_signature out = lib_sign lib (replicate 32 7) (DOMAIN_SEPARATOR @ enc_claim (claim_fields (test_claim lib)))"
    using assms(1-4) by (rule test_signed)
  have key: "public_key lib signer_fixture = lib_verifying_key lib (replicate 32 7)"
    by (simp add: public_key_def signer_fixture_def ClaimSigner_new_def)
  have verifies: "map_option (\<lambda>m. ed_verify (public_key lib signer_fixture) m (sg_signature out)) (signing_message (lib_to_vec lib) c) =
      Some (c = test_claim lib)" if "encodable c" for c
    using assms(5) borsh_canonical [OF assms(4) that]
      claim_layout.enc_inject [OF fits_claim_fields fits_claim_fields, OF that test_claim_encodable(1) [OF assms(3)]]
    by (simp add: signing_message_def key out ed25519_binding_def)
  show "verified_proof_can_be_signed lib ed_verify url_parse"
    using verifies [OF test_claim_encodable(1) [OF assms(3)]]
    by (auto simp: verified_proof_can_be_signed_def out split: option.splits)
  have "list_all (\<lambda>mutate. map_option (\<lambda>m. ed_verify (public_key lib signer_fixture) m (sg_signature out))
      (signing_message (lib_to_vec lib) (mutate (test_claim lib))) = Some False) mutations"
    using test_claim_encodable(2) [OF assms(3)] mutations_change [OF assms(6)] verifies
    by (fastforce simp: list_all_iff)
  with verifies [OF test_claim_encodable(1) [OF assms(3)]]
  show "any_modified_claim_field_breaks_the_signature lib ed_verify url_parse"
    by (simp add: any_modified_claim_field_breaks_the_signature_def out Let_def)
qed

text \<open>The assumptions are consistent: a library that meets all of them.\<close>

definition test_library :: library where
  "test_library =
     \<lparr>lib_sha256 = (\<lambda>_. replicate 32 0), lib_to_vec = sdk_to_vec, lib_sign = (\<lambda>k m. k @ m), lib_verifying_key = (\<lambda>k. k),
      lib_pointer = (\<lambda>v p. case v of Object [(k, x)] \<Rightarrow> if p = CHR ''/'' # k then Some x else None | _ \<Rightarrow> None)\<rparr>"

definition test_url_parse :: "string \<Rightarrow> Url option" where
  "test_url_parse u =
     (let scheme = takeWhile (\<lambda>c. c \<noteq> CHR '':'') u;
          host = takeWhile (\<lambda>c. c \<noteq> CHR ''/'') (drop (length scheme + 3) u)
      in Some \<lparr>url_scheme = scheme, url_host_str = Some host, url_username = [], url_password = None, url_port = None,
               url_path = drop (length scheme + 3 + length host) u, url_query = None\<rparr>)"

lemma signer_tests_pass:
  "verified_proof_can_be_signed test_library (\<lambda>k m sig. sig = k @ m) test_url_parse"
  "any_modified_claim_field_breaks_the_signature test_library (\<lambda>k m sig. sig = k @ m) test_url_parse"
  "failed_proof_produces_no_signature test_library test_url_parse"
  "non_https_expected_url_fails test_library test_url_parse"
  "deceptive_host_and_missing_field_fail test_library test_url_parse"
proof -
  have "test_urls_spec test_url_parse" by (auto simp: test_urls_spec_def test_url_parse_def Let_def)
  moreover have "test_pointer_spec test_library" by (simp add: test_pointer_spec_def test_library_def)
  moreover have "sha256_spec (lib_sha256 test_library)" "borsh_spec (lib_to_vec test_library)"
    using borsh_spec_sdk by (simp_all add: sha256_spec_def test_library_def)
  moreover have "ed25519_binding test_library (\<lambda>k m sig. sig = k @ m) (replicate 32 7)"
    by (auto simp: ed25519_binding_def test_library_def)
  moreover have "lib_sha256 test_library (as_bytes ''proof'') \<noteq> replicate 32 0xBB" by (simp add: test_library_def)
  ultimately show "verified_proof_can_be_signed test_library (\<lambda>k m sig. sig = k @ m) test_url_parse"
    "any_modified_claim_field_breaks_the_signature test_library (\<lambda>k m sig. sig = k @ m) test_url_parse"
    "failed_proof_produces_no_signature test_library test_url_parse"
    "non_https_expected_url_fails test_library test_url_parse"
    "deceptive_host_and_missing_field_fail test_library test_url_parse"
    using signature_tests refusal_tests by blast+
qed

end
