(* ===== verification/Spec2Isabelle.thy ===== *)
theory Spec2Isabelle
  imports Claim_Registry CLI_Samples Conformance
begin

text \<open>
  WebProof: verified HTTPS claims on Solana.

  \<^bold>\<open>The program.\<close>  A prover notarizes one HTTPS request through TLSNotary
  (\<open>crates/tlsn-demo/webproof-tlsn/src/notarize.rs\<close>) and discloses the request and the response as a
  presentation (\<open>present.rs\<close>).  A verifier service checks the presentation (\<open>verify.rs\<close>) and, through the
  trait \<open>TlsnProofVerifier\<close>, hands the data to the claim signer (\<open>crates/webproof-verifier\<close>), which builds
  a canonical claim (\<open>crates/webproof-core\<close>), validates it and signs its domain-separated bytes with
  Ed25519.  Anyone submits the claim to the Solana program (\<open>programs/webproof\<close>), which revalidates it,
  checks that the preceding instruction of the transaction verified exactly that signature, and stores
  it in an account derived from its identifier; clients build the
  transactions and decode the account with the TypeScript SDK (\<open>sdk/typescript\<close>, used by \<open>cli\<close>).
  The binaries in \<open>crates/tlsn-demo/demo\<close> run the offchain half from environment variables and files.

  \<^bold>\<open>The theories.\<close>
  \<^item> \<open>WebProof_Prelude\<close>: machine types, results with early return (\<open>try_then\<close> is the question mark,
    \<open>ensure\<close> is \<open>require!\<close>), slices, little-endian numbers, UTF-8, saturating arithmetic.
    \<open>Rust_Strings\<close>: the \<open>str\<close> functions the binaries use (trim, split, ASCII case, integer parsing).
  \<^item> \<open>WebProof_Core\<close> (\<open>crates/webproof-core/src/lib.rs\<close>): \<open>ClaimV1\<close>, its bytes, identifier, signing
    message and \<open>validate\<close>; the contract \<open>claim_validator\<close> of a freshness check, which the onchain
    \<open>validate_claim\<close> satisfies as well.
  \<^item> \<open>Program_State\<close> (\<open>state.rs\<close>, \<open>errors.rs\<close>), \<open>Program_Verification\<close> (\<open>verification.rs\<close>: validation and
    introspection of the Ed25519 instruction), \<open>WebProof_Program\<close> (\<open>lib.rs\<close>: the account constraints,
    the two instructions, the ledger transition system \<open>ledger_step\<close> and its invariant) and
    \<open>Program_Properties\<close> (what holds of every reachable ledger).  \<open>Claim_Registry\<close>: the abstract
    specification of the program, a registry of claims by identifier with at most one trusted key, and
    the refinement by which the ledger implements it.
  \<^item> \<open>Claim_Codec\<close> (the serializer and the account decoder of \<open>sdk/typescript/src/index.ts\<close>): the byte
    layouts, as instances of the contracts \<open>reader_codec\<close> and \<open>strict_codec\<close>, field by field; the
    serializer takes the JavaScript claim, with its unbounded numbers and its exceptions.
    \<open>Signed_Claim_File\<close> (\<open>parseSignedClaim\<close> and the claim functions of the SDK): the file between Rust and
    JavaScript, with the rounding of JSON numbers.  \<open>SDK_Client\<close>: the class \<open>WebProofClient\<close> of the SDK and
    the onchain part of the \<open>demo\<close> command, over a network on which sending a transaction and its
    execution are apart.  \<open>Command_Line\<close>
    (\<open>cli/src/index.ts\<close>): the six commands, which start the binaries in an environment of their own and
    call the client; Node's path, hexadecimal and number conversions.
  \<^item> \<open>Claim_Signer\<close> (\<open>crates/webproof-verifier/src/lib.rs\<close>) with the contract \<open>proof_verifier\<close> of the trait,
    and \<open>Presentation_Verifier\<close> (\<open>verify.rs\<close>), which discharges it.
  \<^item> \<open>Notarization\<close> (\<open>notarize.rs\<close>: prover, notary and the two messages between them),
    \<open>Notarization_Tasks\<close> (the same as two concurrent tasks, a step relation over all schedules),
    \<open>Presentation_Builder\<close> (\<open>present.rs\<close>), \<open>Test_Server\<close> (\<open>fixture.rs\<close>), \<open>Demo_Config\<close>
    (\<open>demo/src/lib.rs\<close>), \<open>Verify_Sign\<close> (\<open>webproof_verify_sign.rs\<close>) and \<open>Demo_Pipeline\<close> (\<open>webproof_notarize.rs\<close>, \<open>spike.rs\<close>).
  \<^item> \<open>Pipeline_Samples\<close>, \<open>SDK_Samples\<close>, \<open>Demo_Samples\<close> and \<open>CLI_Samples\<close>: concrete libraries, a concrete cluster and one
    complete run, on which the hypotheses of the theorems are checked.  \<open>Conformance\<close>: the unit tests of
    the two crates, proved on the model.  \<open>Program_Tests\<close> (\<open>tests/program/webproof.test.ts\<close>): the onchain
    test matrix as one decision table.  This theory: the guarantees from TLS session to ledger.

  \<^bold>\<open>Correspondence.\<close>  A struct is a record, an enum a datatype, a fallible function returns a sum with
  the error on the left, in the order in which the code checks.  Ledger and file system are maps from
  addresses and paths; an instruction or a binary is a function from the old to the new map.  Code
  outside the repository is a parameter: SHA-256, Borsh, Anchor and the Solana runtime (record \<open>runtime\<close>),
  ed25519-dalek, serde_json and url (\<open>library\<close>, \<open>demo_lib\<close>, \<open>json_lib\<close>), TLSNotary and its HTTP parser
  (\<open>tlsn_lib\<close>, \<open>present_lib\<close>, \<open>notarize_lib\<close>), \<open>@solana/web3.js\<close> (\<open>web3_lib\<close>) and the chain behind it
  (\<open>network\<close>, \<open>account_data\<close>, both by endpoint in \<open>cli_lib\<close>).  What is assumed of them is named: \<open>sha256_spec\<close>,
  \<open>borsh_spec\<close>, \<open>anchor_account_spec\<close>, \<open>native_ed25519_spec\<close>, \<open>hex_spec\<close>, \<open>json_spec\<close>, \<open>url_spec\<close>,
  \<open>fixture_url_spec\<close>, \<open>attestation_codec\<close>, \<open>disclosure_spec\<close>, \<open>only_service_signs\<close>, \<open>network_spec\<close>
  (a confirmation means that the ledger moved by legal steps, no more), \<open>cluster_spec\<close> (a cluster on
  which nothing else happens between sending and confirming), \<open>account_spec\<close>, \<open>web3_spec\<close>, \<open>pda_spec\<close>, \<open>claim_text_spec\<close>, \<open>keypair_spec\<close>.

  \<^bold>\<open>What is shown.\<close>  C1 to C5: validation is exact in spite of saturating arithmetic, the encoding is
  prefix-free and fits its limits, the signing message determines the claim, decoding inverts
  encoding.  C6 to C9: the two validators agree, the onchain verdict as a function of the clock, every
  branch of the signature introspection and its authenticity.  C10 to C17: invariants of every
  reachable ledger (authenticity, singleton config, immutability, replay protection, identifiers that
  commit to the signed claim), the refinement of the claim registry, the effect of a submission.  C18: a
  successful \<open>demo\<close> command, over the two binaries and a quiet cluster, stored verified data.  C19 to
  C22: exactly what the signer and the presentation verifier accept, and why they refuse.  C23: what the
  program answers to the transactions of the onchain test matrix, for all combinations of its options.
  C24 to C26: end-to-end authenticity, success of the whole way from the signer through the SDK to the
  ledger for claims that fit a transaction, and tamper detection.  C27 to C36: the test server, the
  configuration, the host allowlist, disclosure and the hand-over between the binaries; what a notarized
  session attests (C33) and what it returns (C35) under every schedule of prover and notary.  C37:
  stored accounts hold values of their types.  C38: \<open>prove\<close> notarizes the endpoint it is told to.  C39:
  reading a signed claim in JavaScript.  C40: a \<open>demo\<close> run that reports success has its claim on the
  ledger, although the command ignores transaction errors and others use the chain meanwhile.

  \<^bold>\<open>Bounds.\<close>  No recursion here needs fuel: every function terminates on all inputs, except the accept
  loop of the test server, a partial function whose termination is characterized in
  \<open>Test_Server\<close> (C27).  Integers of the
  code that can wrap or saturate are words (\<open>i64\<close>, \<open>u16\<close>, \<open>u8\<close>, the \<open>u32\<close> transcript lengths); \<open>usize\<close>
  is \<open>nat\<close>, since all offsets are sums of a few 16-bit fields and lengths of data in memory.  The size
  limit of a transaction is the parameter \<open>room\<close> of \<open>cluster_spec\<close>, 893 bytes of instruction data for a
  submission in a packet of 1232.

  \<^bold>\<open>Not modelled.\<close>  The exchange of messages inside the MPC protocol and whether it ends (the joint
  phases of the two tasks are calls of the TLSNotary library, and the time limit is there because they may
  hang; no progress is claimed), the handling of a connection inside the test server, output
  to the terminal, the option syntax that \<open>commander\<close> parses, the sending of the test matrix to a
  validator, the integration test of the TLSNotary crate (it attacks the cryptography of a live session),
  and the shell scripts.
\<close>

section \<open>From the TLS session to the ledger\<close>

text \<open>
  The messages the signing service has signed: \<open>verify_and_sign\<close> ran on some artifact, with some
  request parameters of the Rust types, and succeeded with a claim whose signing message is \<open>m\<close>.
\<close>

definition service_signed ::
  "library \<Rightarrow> ('p, 'q) tlsn_lib \<Rightarrow> TlsnPresentationVerifier \<Rightarrow> ClaimSigner \<Rightarrow> bytes \<Rightarrow> bool" where
  "service_signed lib T self signer m \<longleftrightarrow>
     (\<exists>artifact url field now ttl n s d.
        verify_and_sign lib signer (verify T self) artifact url field now ttl n = Inr s \<and>
        verify T self artifact = Inr d \<and> inputs_typed lib d field n \<and>
        signing_message (lib_to_vec lib) (sg_claim s) = Some m)"

text \<open>
  What Ed25519 promises when the signing key is used by the service only: whatever verifies under
  its public key is a message of the service.
\<close>

definition only_service_signs ::
  "(bytes \<Rightarrow> bytes \<Rightarrow> bytes \<Rightarrow> bool) \<Rightarrow> library \<Rightarrow> ('p, 'q) tlsn_lib \<Rightarrow> TlsnPresentationVerifier \<Rightarrow> ClaimSigner \<Rightarrow> bool" where
  "only_service_signs ed_verify lib T self signer \<longleftrightarrow>
     (\<forall>m sig. ed_verify (public_key lib signer) m sig \<longrightarrow> service_signed lib T self signer m)"

text \<open>The message determines the claim, across the two implementations of the encoding.\<close>

lemma same_message_same_claim:
  assumes "borsh_spec to_vec" and "borsh_spec to_vec'" and "encodable c" and "encodable c'"
    and "to_vec c = Some bs" and "signing_message to_vec' c' = Some (DOMAIN @ bs)"
  shows "c' = c"
proof -
  have "DOMAIN @ enc_claim (claim_fields c') = DOMAIN @ enc_claim (claim_fields c)"
    using assms by (simp add: borsh_specD signing_message_def borsh_canonical domains_agree)
  with claim_layout.enc_inject [OF fits_claim_fields fits_claim_fields, OF assms(4,3)] show ?thesis by simp
qed

text \<open>
  C24.  End-to-end authenticity.  Under a config whose verifier key is the public key of the signing
  service, and if that key is used by nobody else, every claim account on a reachable ledger comes
  from a TLS session: there is an artifact that passed the presentation verifier, the stored host is
  the server identity it proves, the stored path hash is the hash of the authenticated request
  target, the stored value is the scalar of the authenticated response at the stored key, and the
  stored provenance hash is the hash of that artifact; the claim was stored within its lifetime.
\<close>

theorem stored_claims_are_backed_by_presentations:
  assumes "reachable rt native_ok L" and "native_ed25519_spec ed_verify native_ok"
    and "borsh_spec (rt_try_to_vec rt)" and "borsh_spec (lib_to_vec lib)" and "sha256_spec (lib_sha256 lib)"
    and cfg: "L ca = Some (ConfigAccount cfg)" and "verifier_pubkey cfg = public_key lib signer"
    and "only_service_signs ed_verify lib T self signer"
    and "L a = Some (ClaimAccount v)"
  shows "\<exists>artifact d. presentation_backs T self artifact d \<and> vc_source_host v = vt_host d \<and>
    vc_request_path_hash v = lib_sha256 lib (as_bytes (vt_path d)) \<and>
    addressed_scalar lib (vt_response d) (vc_claim_key v) = Some (vc_claim_value v) \<and>
    vc_provenance_hash v = lib_sha256 lib artifact \<and>
    sint (vc_issued_at v) \<le> sint (vc_created_at v) + 30 \<and> sint (vc_created_at v) \<le> sint (vc_expires_at v)"
proof -
  from reachable_inv [OF assms(1,2)] assms(9) obtain ca' cfg' c where
      cfg': "L ca' = Some (ConfigAccount cfg')" and orig: "claim_origin rt ed_verify cfg' a v c"
    unfolding ledger_inv_def by blast
  have "cfg' = cfg" using config_unique(2) [OF reachable_inv [OF assms(1,2)] cfg' cfg] .
  with orig obtain bs sig where c: "claim_typed c" "stored_fields c v"
      "acceptable c (vc_created_at v) (max_claim_age_seconds cfg)"
      and bs: "rt_try_to_vec rt c = Some bs" "ed_verify (public_key lib signer) (DOMAIN @ bs) sig"
    unfolding claim_origin_def using assms(7) by auto
  have enc: "encodable c" using c(1,3) onchain_validator.accepts_encodable onchain_validator.check_iff by blast
  from bs(2) assms(8) obtain art url field now ttl n s d where
      s: "verify_and_sign lib signer (verify T self) art url field now ttl n = Inr s"
      and d: "verify T self art = Inr d" "inputs_typed lib d field n"
      and m: "signing_message (lib_to_vec lib) (sg_claim s) = Some (DOMAIN @ bs)"
    unfolding only_service_signs_def service_signed_def by blast
  have "sg_claim s = c"
    by (rule same_message_same_claim [OF assms(3,4) enc signed_claim_encodable [OF assms(5) d s] bs(1) m])
  with tlsn.signed_claim_backed [OF s] c(2,3) show ?thesis
    by (auto simp: stored_fields_def acceptable_def in_window_def)
qed

theorem stored_claims_are_backed_by_presentations_witness:
  "\<exists>artifact d. presentation_backs sample_tlsn sample_verifier artifact d \<and>
     vc_source_host run_stored = vt_host d \<and> vc_provenance_hash run_stored = sample_digest artifact"
proof -
  have msg: "signing_message sdk_to_vec sample_claim = Some (DOMAIN @ run_bytes)"
    using borsh_canonical [OF borsh_spec_sdk sample_claim_encodable]
    by (simp add: signing_message_def domains_agree run_bytes_def)
  have "service_signed sample_library sample_tlsn sample_verifier sample_signer (DOMAIN @ run_bytes)"
    unfolding service_signed_def
    using sample_signs sample_verifies sample_inputs_typed msg
    by (intro exI conjI) (assumption | simp add: sample_signed_def sample_library_def)+
  then have "only_service_signs strict_verify sample_library sample_tlsn sample_verifier sample_signer"
    by (simp add: only_service_signs_def strict_verify_def run_bytes_def)
  moreover have "verifier_pubkey sample_config = public_key sample_library sample_signer"
    by (simp add: sample_config_def public_key_def sample_library_def sample_signer_def sample_key_def sample_digest_def)
  ultimately show ?thesis
    using stored_claims_are_backed_by_presentations [OF run_reachable strict_spec _ sample_library_specs(2,1)
        run_ledger_lookup(2) _ _ run_ledger_lookup(1)] borsh_spec_sdk
    by (fastforce simp: sample_runtime_def sample_library_def)
qed

text \<open>
  Acceptance on the program's side, whatever client built the transaction.  A claim the service signed is accepted onchain: if the runtime hashes
  and serializes as the service does, the accounts are in order, the config holds the service's key,
  the preceding instruction is the client library's Ed25519 instruction built from the signed claim,
  and the clock lies between 30 seconds before the issue time and the earlier of the expiry and the
  maximum age, then the submission with the service's identifier succeeds, and the SDK decodes the
  new account to the signed fields.
\<close>

lemma signed_claim_is_accepted_onchain:
  assumes "sha256_spec (lib_sha256 lib)" and "borsh_spec (lib_to_vec lib)"
    and "rt_hash rt = lib_sha256 lib" and "borsh_spec (rt_try_to_vec rt)"
    and "anchor_account_spec (rt_hash rt) (rt_account_bytes rt)"
    and d: "verifier a = Inr d" and "inputs_typed lib d field n"
    and s: "verify_and_sign lib signer verifier a url field now ttl n = Inr s"
    and "length (sg_verifier_public_key s) = 32" and "length (sg_signature s) = 64"
    and "accounts_SubmitClaim rt L ctx (sg_claim_id s) = Some (cfg, b)"
    and "verifier_pubkey cfg = sg_verifier_public_key s" and "length (am_key (sc_submitter ctx)) = 32"
    and "signing_message (lib_to_vec lib) (sg_claim s) = Some m"
    and "preceding_ed25519 (rt_ed25519_id rt) (sc_sysvar ctx) =
      Some (ed25519_layout (sg_verifier_public_key s) (sg_signature s) m)"
    and "sint now \<le> sint t + 30" and "sint t \<le> sint (expires_at (sg_claim s))"
    and "sint t - sint now \<le> sint (max_claim_age_seconds cfg)"
  shows "\<exists>L' v. submit_claim rt L ctx (Some t) (sg_claim s) (sg_claim_id s) = Inr L' \<and>
    L' (am_key (sc_verified_claim ctx)) = Some (ClaimAccount v) \<and> stored_fields (sg_claim s) v \<and>
    decodeVerifiedClaim (rt_hash rt) (rt_account_bytes rt v @ pad) = Inr v"
proof -
  have enc: "encodable (sg_claim s)" using signed_claim_encodable [OF assms(1) d assms(7) s] .
  obtain val bs where c: "sg_claim s = built_claim lib d field val now ttl n" "bounded_fields (sg_claim s)"
      "0 < sint ttl" "sint now < I64_MAX"
      and bs: "canonical_bytes (lib_to_vec lib) (sg_claim s) = Some bs" "sg_claim_id s = lib_sha256 lib bs"
    using s d unfolding verify_and_sign_iff sign_verified_iff by auto
  have same: "rt_try_to_vec rt (sg_claim s) = Some bs"
    using bs(1) assms(2,4) enc by (simp add: borsh_specD borsh_canonical)
  have m: "m = DOMAIN @ bs" using assms(14) bs(1) by (simp add: signing_message_def domains_agree)
  have ok: "acceptable (sg_claim s) t (max_claim_age_seconds cfg)"
    using c saturating_add_after [of now ttl] assms(16-18)
    by (auto simp: acceptable_def in_window_def)
  have typed: "claim_typed (sg_claim s)" using enc by (simp add: encodable_def)
  let ?v = "stored_claim ctx t (sg_claim s) (rt_hash rt bs) b"
  have "submit_claim rt L ctx (Some t) (sg_claim s) (rt_hash rt bs) = Inr (L(am_key (sc_verified_claim ctx) \<mapsto> ClaimAccount ?v))"
    by (rule submit_genuine [where cfg = cfg and sig = "sg_signature s"])
       (use assms same typed ok bs m in simp_all)
  moreover have "stored_fields (sg_claim s) ?v" by (simp add: stored_fields_def stored_claim_def)
  moreover have "decodeVerifiedClaim (rt_hash rt) (rt_account_bytes rt ?v @ pad) = Inr ?v"
    by (rule stored_claim_decodes) (use assms typed ok in simp_all)
  ultimately show ?thesis using bs(2) assms(3) by (intro exI conjI) (simp, simp_all)
qed

lemma signed_claim_is_accepted_onchain_instance:
  "\<exists>L' v. submit_claim sample_runtime config_ledger (sample_submit run_bytes) (Some 1700000010) sample_claim
       (sg_claim_id sample_signed) = Inr L' \<and> stored_fields sample_claim v"
proof -
  have key: "sg_verifier_public_key sample_signed = sample_key"
    by (simp add: sample_signed_def sample_key_def sample_digest_def)
  have sig: "sg_signature sample_signed = sample_sign sample_key (DOMAIN @ run_bytes)"
    by (simp add: sample_signed_def run_bytes_def domains_agree)
  have "\<exists>L' v. submit_claim sample_runtime config_ledger (sample_submit run_bytes) (Some 1700000010) (sg_claim sample_signed)
        (sg_claim_id sample_signed) = Inr L' \<and>
      L' (am_key (sc_verified_claim (sample_submit run_bytes))) = Some (ClaimAccount v) \<and>
      stored_fields (sg_claim sample_signed) v \<and>
      decodeVerifiedClaim (rt_hash sample_runtime) (rt_account_bytes sample_runtime v @ []) = Inr v"
  proof (rule signed_claim_is_accepted_onchain [OF sample_library_specs _ _ _ sample_verifies sample_inputs_typed sample_signs,
        where cfg = sample_config and b = 255 and m = "DOMAIN @ run_bytes"])
    show "accounts_SubmitClaim sample_runtime config_ledger (sample_submit run_bytes) (sg_claim_id sample_signed) = Some (sample_config, 255)"
      using sample_accounts [of run_bytes] by (simp add: sample_signed_def run_bytes_def)
    show "signing_message (lib_to_vec sample_library) (sg_claim sample_signed) = Some (DOMAIN @ run_bytes)"
      using borsh_canonical [OF borsh_spec_sdk sample_claim_encodable]
      by (simp add: signing_message_def domains_agree run_bytes_def sample_library_def sample_signed_def)
    show "preceding_ed25519 (rt_ed25519_id sample_runtime) (sc_sysvar (sample_submit run_bytes)) =
        Some (ed25519_layout (sg_verifier_public_key sample_signed) (sg_signature sample_signed) (DOMAIN @ run_bytes))"
      using sample_preceding [of run_bytes] by (simp add: key sig sample_defs)
    show "sint (1700000010 :: i64) \<le> sint (expires_at (sg_claim sample_signed))"
      using sample_claim_acceptable by (simp add: sample_signed_def acceptable_def in_window_def)
  qed (use borsh_spec_sdk anchor_account_spec_sample
        in \<open>simp_all add: key sig sample_defs sample_library_def sample_config_def sample_key_def sample_sign_def\<close>)
  then show ?thesis by (auto simp: sample_signed_def)
qed

text \<open>
  C26.  Tampering is detected: with an Ed25519 instruction for the claim \<open>c\<close> in front, no other claim
  can be submitted.  A claim that differs from \<open>c\<close> in any field and passes every earlier check, with
  its identifier recomputed, is refused as MessageMismatch, or as WrongVerifier if the instruction
  does not even name the configured key.
\<close>

theorem tampered_claim_is_refused:
  assumes "borsh_spec (rt_try_to_vec rt)" and "encodable c" and "rt_try_to_vec rt c = Some bs"
    and pre: "preceding_ed25519 (rt_ed25519_id rt) (sc_sysvar ctx) = Some d" and att: "attests d k (DOMAIN @ bs) sig"
    and "claim_typed c'" and "c' \<noteq> c"
  shows "\<not> is_ok (submit_claim rt L ctx clock c' i) \<and>
    (accounts_SubmitClaim rt L ctx i = Some (cfg, b) \<and> clock = Some now \<and>
     acceptable c' now (max_claim_age_seconds cfg) \<and> i = rt_hash rt (the (rt_try_to_vec rt c')) \<longrightarrow>
     submit_claim rt L ctx clock c' i =
       Inl (WebProof (if verifier_pubkey cfg = k then MessageMismatch else WrongVerifier)))"
proof -
  have other: "\<exists>bs'. rt_try_to_vec rt c' = Some bs' \<and> bs' \<noteq> bs \<and> validate_claim c' t m = Inr ()"
    if "acceptable c' t m" for t m
  proof -
    have "encodable c'" using that assms(6) onchain_validator.accepts_encodable onchain_validator.check_iff by blast
    moreover have "validate_claim c' t m = Inr ()" using that onchain_validator.check_iff [of c' t m] by (auto simp: is_ok_iff)
    ultimately show ?thesis
      using claim_layout.enc_inject [OF fits_claim_fields fits_claim_fields, OF _ assms(2)] assms(1,2,3,7)
      by (simp add: borsh_specD)
  qed
  have ver: "verify_preceding_ed25519 (rt_ed25519_id rt) (sc_sysvar ctx) key (DOMAIN @ bs') =
      Inl (if key = k then MessageMismatch else WrongVerifier)" if "bs' \<noteq> bs" for key bs'
    using att that by (auto simp: verify_preceding_Some [OF pre] attests_def ensure_def)
  have "\<not> is_ok (submit_claim rt L ctx clock c' i)"
  proof
    assume "is_ok (submit_claim rt L ctx clock c' i)"
    then obtain cfg' :: WebProofConfig and bs' t where "validate_claim c' t (max_claim_age_seconds cfg') = Inr ()" "rt_try_to_vec rt c' = Some bs'"
        "verify_preceding_ed25519 (rt_ed25519_id rt) (sc_sysvar ctx) (verifier_pubkey cfg') (DOMAIN @ bs') = Inr ()"
      unfolding is_ok_iff submit_claim_iff by blast
    with other [of t "max_claim_age_seconds cfg'"] ver onchain_validator.check_iff [of c' t "max_claim_age_seconds cfg'"]
    show False by (auto simp: is_ok_iff)
  qed
  with other [of now "max_claim_age_seconds cfg"] ver show ?thesis
    by (auto simp: submit_claim_def)
qed

theorem tampered_claim_is_refused_witness:
  "submit_claim sample_runtime config_ledger (sample_submit sample_bytes) (Some 1700000010)
     (golden_claim\<lparr>claim_value := ''99999.99''\<rparr>) sample_id \<noteq> Inr claim_ledger"
proof -
  let ?c = "golden_claim\<lparr>claim_value := ''99999.99''\<rparr>"
  have typed: "claim_typed ?c" and differ: "?c \<noteq> golden_claim"
    using golden_encodable by (simp_all add: encodable_def claim_typed_def golden_claim_def concrete)
  have "\<not> is_ok (submit_claim sample_runtime config_ledger (sample_submit sample_bytes) (Some 1700000010) ?c sample_id)"
    by (rule tampered_claim_is_refused [THEN conjunct1, OF _ golden_encodable _ _ sample_attests [OF sample_bytes_short] typed differ])
       (use borsh_spec_sdk sample_to_vec sample_preceding in \<open>simp_all add: sample_defs\<close>)
  then show ?thesis by (auto simp: is_ok_iff)
qed

end
